(* ===== verification/Prelude.thy ===== *)
theory Prelude
  imports Complex_Main "HOL-Library.Sublist"
begin

text \<open>
  Shared vocabulary of the development: the collections the component theories feed and use,
  generic facts on lists and sums, and the operations of Python's \<open>str\<close> type that the gateway
  uses (\<open>startswith\<close>, \<open>partition\<close>, \<open>split\<close>, \<open>strip\<close>, \<open>join\<close>, \<open>upper\<close>, \<open>str(int)\<close>).

  A Python string is a list of code points.  Here it is a \<^typ>\<open>string\<close>, one \<^typ>\<open>char\<close> per code
  point, so the strings of the model are those whose code points are below 256.
\<close>

named_theorems pystr \<open>facts on Python string operations\<close>
named_theorems outcome \<open>case analysis of results that may be exceptions\<close>

section \<open>Results of calls that may raise\<close>

text \<open>
  A call that may raise returns \<^term>\<open>Inl e\<close> for the exception \<open>e\<close> and \<^term>\<open>Inr v\<close> for a value.
\<close>

definition is_exn :: "'e + 'a \<Rightarrow> bool" where
  "is_exn r = (case r of Inl _ \<Rightarrow> True | Inr _ \<Rightarrow> False)"

definition is_val :: "'e + 'a \<Rightarrow> bool" where
  "is_val r = (case r of Inl _ \<Rightarrow> False | Inr _ \<Rightarrow> True)"

lemma is_exn_simps [simp]: "is_exn (Inl e)" "\<not> is_exn (Inr v)"
  by (simp_all add: is_exn_def)

lemma is_val_simps [simp]: "is_val (Inr v)" "\<not> is_val (Inl e)"
  by (simp_all add: is_val_def)

lemma is_exn_not_val: "is_exn r \<longleftrightarrow> \<not> is_val r"
  by (cases r) simp_all

lemma is_exnE [elim?]: "is_exn r \<Longrightarrow> (\<And>e. r = Inl e \<Longrightarrow> P) \<Longrightarrow> P"
  by (cases r) simp_all

lemma is_valE [elim?]: "is_val r \<Longrightarrow> (\<And>v. r = Inr v \<Longrightarrow> P) \<Longrightarrow> P"
  by (cases r) simp_all

text \<open>The truth value Python gives an optional string: \<open>None\<close> and the empty string are false.\<close>

definition truthy :: "string option \<Rightarrow> bool" where
  "truthy s = (case s of None \<Rightarrow> False | Some t \<Rightarrow> t \<noteq> [])"

lemma truthy_simps [simp]:
  "\<not> truthy None" "truthy (Some s) \<longleftrightarrow> s \<noteq> []"
  by (simp_all add: truthy_def)

lemma truthyE: "truthy s \<Longrightarrow> (\<And>t. s = Some t \<Longrightarrow> t \<noteq> [] \<Longrightarrow> P) \<Longrightarrow> P"
  by (cases s) auto

text \<open>\<open>x or d\<close> for an optional string \<open>x\<close>.\<close>

definition str_or :: "string option \<Rightarrow> string \<Rightarrow> string" where
  "str_or s d = (case s of None \<Rightarrow> d | Some t \<Rightarrow> if t = [] then d else t)"

lemma str_or_simps [simp]:
  "str_or None d = d" "str_or (Some []) d = d" "t \<noteq> [] \<Longrightarrow> str_or (Some t) d = t"
  by (simp_all add: str_or_def)

section \<open>Lists\<close>

lemma takeWhile_idem_append:
  "(\<And>x. x \<in> set xs \<Longrightarrow> P x) \<Longrightarrow> ys = [] \<or> \<not> P (hd ys) \<Longrightarrow> takeWhile P (xs @ ys) = xs"
  by (induction xs; cases ys) auto

lemma dropWhile_idem_append:
  "(\<And>x. x \<in> set xs \<Longrightarrow> P x) \<Longrightarrow> ys = [] \<or> \<not> P (hd ys) \<Longrightarrow> dropWhile P (xs @ ys) = ys"
  by (induction xs; cases ys) auto

lemma takeWhile_upto [simp]: "c \<notin> set a \<Longrightarrow> takeWhile (\<lambda>d. d \<noteq> c) (a @ c # b) = a"
  by (induction a) auto

lemma dropWhile_upto [simp]: "c \<notin> set a \<Longrightarrow> dropWhile (\<lambda>d. d \<noteq> c) (a @ c # b) = c # b"
  by (induction a) auto

lemma append_eq_same_length:
  "length a = length b \<Longrightarrow> a @ x = b @ y \<longleftrightarrow> a = b \<and> x = y"
  by simp

lemma find_first:
  "find P xs = Some x \<Longrightarrow>
     \<exists>us vs. xs = us @ x # vs \<and> P x \<and> (\<forall>u\<in>set us. \<not> P u)"
proof (induction xs)
  case Nil
  then show ?case by simp
next
  case (Cons y ys)
  show ?case
  proof (cases "P y")
    case True
    with Cons.prems have "y # ys = [] @ x # ys \<and> P x" by simp
    then show ?thesis by (intro exI [of _ "[]"] exI [of _ ys]) simp
  next
    case False
    with Cons.prems have "find P ys = Some x" by simp
    from Cons.IH [OF this] obtain us vs
      where "ys = us @ x # vs" "P x" "\<forall>u\<in>set us. \<not> P u" by blast
    with False show ?thesis by (intro exI [of _ "y # us"] exI [of _ vs]) simp
  qed
qed

lemma subseq_distinct: "subseq xs ys \<Longrightarrow> distinct ys \<Longrightarrow> distinct xs"
  by (metis subseq_conv_nths distinct_nthsI)

lemma find_Some_in: "find P xs = Some x \<Longrightarrow> x \<in> set xs \<and> P x"
  using find_first [of P xs x] by auto

section \<open>Python strings\<close>

text \<open>\<open>str.upper\<close> on the ASCII letters.\<close>

definition upper :: "string \<Rightarrow> string" where
  "upper = map (\<lambda>c. let n = (of_char c :: nat) in if 97 \<le> n \<and> n \<le> 122 then char_of (n - 32) else c)"

text \<open>\<open>s.rstrip("/")\<close>.\<close>

definition rstrip_slash :: "string \<Rightarrow> string" where
  "rstrip_slash s = rev (dropWhile (\<lambda>c. c = CHR ''/'') (rev s))"

definition startswith :: "string \<Rightarrow> string \<Rightarrow> bool" where
  "startswith s p = (take (length p) s = p)"

lemma startswith_iff_prefix: "startswith s p \<longleftrightarrow> prefix p s"
  by (metis startswith_def append_take_drop_id prefix_def append_eq_conv_conj)

lemma startswith_append [simp]: "startswith (p @ s) p"
  by (simp add: startswith_def)

lemma startswithE: "startswith s p \<Longrightarrow> (\<And>r. s = p @ r \<Longrightarrow> P) \<Longrightarrow> P"
  by (metis startswith_iff_prefix prefix_def)

text \<open>\<open>s.partition(c)\<close>: the text before the first \<open>c\<close>, whether there is one, the text after it.\<close>

definition str_partition :: "char \<Rightarrow> string \<Rightarrow> string \<times> bool \<times> string" where
  "str_partition c s =
     (takeWhile (\<lambda>d. d \<noteq> c) s, c \<in> set s, drop 1 (dropWhile (\<lambda>d. d \<noteq> c) s))"

lemma str_partition_hit [pystr]:
  "c \<notin> set a \<Longrightarrow> str_partition c (a @ c # b) = (a, True, b)"
  by (simp add: str_partition_def)

lemma str_partition_miss [pystr]: "c \<notin> set a \<Longrightarrow> str_partition c a = (a, False, [])"
  by (induction a) (auto simp: str_partition_def)

lemma str_partition_found:
  "str_partition c s = (a, True, b) \<Longrightarrow> s = a @ c # b"
proof -
  assume eq: "str_partition c s = (a, True, b)"
  then have c: "c \<in> set s" and a: "a = takeWhile (\<lambda>d. d \<noteq> c) s"
    and b: "b = drop 1 (dropWhile (\<lambda>d. d \<noteq> c) s)"
    by (auto simp: str_partition_def)
  from c obtain us vs where s: "s = us @ c # vs" "c \<notin> set us"
    by (meson split_list_first)
  with a b show ?thesis
    by simp
qed

lemma str_partition_rest_hit:
  "str_partition c s = (a, f, b) \<Longrightarrow> b \<noteq> [] \<Longrightarrow> s = a @ c # b"
proof -
  assume eq: "str_partition c s = (a, f, b)" and b: "b \<noteq> []"
  have "f"
  proof (rule ccontr)
    assume "\<not> f"
    with eq have "c \<notin> set s" by (simp add: str_partition_def)
    then have "str_partition c s = (s, False, [])" by (rule str_partition_miss)
    with eq b show False by simp
  qed
  with eq show ?thesis by (simp add: str_partition_found)
qed

text \<open>Python's white space, among the code points below 256.\<close>

definition is_space :: "char \<Rightarrow> bool" where
  "is_space c = (let n = (of_char c :: nat)
     in (9 \<le> n \<and> n \<le> 13) \<or> (28 \<le> n \<and> n \<le> 32) \<or> n = 133 \<or> n = 160)"

abbreviation SP :: char where "SP \<equiv> CHR '' ''"

lemma is_space_SP [simp]: "is_space SP"
  by (simp add: is_space_def)

text \<open>\<open>s.split()\<close>: the maximal runs of characters that are not white space.\<close>

function split_ws :: "string \<Rightarrow> string list" where
  "split_ws [] = []"
| "split_ws (c # cs) =
     (if is_space c then split_ws cs
      else (c # takeWhile (\<lambda>d. \<not> is_space d) cs) # split_ws (dropWhile (\<lambda>d. \<not> is_space d) cs))"
  by pat_completeness auto
termination split_ws
  by (relation "measure length") (auto simp: le_imp_less_Suc length_dropWhile_le)

declare split_ws.simps(2) [simp del]

definition strip_ws :: "string \<Rightarrow> string" where
  "strip_ws s = rev (dropWhile is_space (rev (dropWhile is_space s)))"

fun str_join :: "string \<Rightarrow> string list \<Rightarrow> string" where
  "str_join sep [] = []"
| "str_join sep [x] = x"
| "str_join sep (x # y # zs) = x @ sep @ str_join sep (y # zs)"

lemma split_ws_space [pystr]: "is_space c \<Longrightarrow> split_ws (c # cs) = split_ws cs"
  by (simp add: split_ws.simps)

lemma split_ws_word [pystr]:
  assumes "w \<noteq> []" "\<forall>c\<in>set w. \<not> is_space c" "r = [] \<or> is_space (hd r)"
  shows "split_ws (w @ r) = w # split_ws r"
proof -
  obtain c cs where w: "w = c # cs" using assms(1) by (cases w) auto
  have "takeWhile (\<lambda>d. \<not> is_space d) (cs @ r) = cs"
    by (rule takeWhile_idem_append) (use assms w in auto)
  moreover have "dropWhile (\<lambda>d. \<not> is_space d) (cs @ r) = r"
    by (rule dropWhile_idem_append) (use assms w in auto)
  ultimately show ?thesis using assms w by (simp add: split_ws.simps)
qed

lemma split_ws_words:
  "w \<in> set (split_ws s) \<Longrightarrow> w \<noteq> [] \<and> (\<forall>c\<in>set w. \<not> is_space c)"
proof (induction s rule: split_ws.induct)
  case 1
  then show ?case by simp
next
  case (2 c cs)
  show ?case
  proof (cases "is_space c")
    case True
    with 2 show ?thesis by (simp add: split_ws.simps)
  next
    case False
    with "2.prems" have "w = c # takeWhile (\<lambda>d. \<not> is_space d) cs
        \<or> w \<in> set (split_ws (dropWhile (\<lambda>d. \<not> is_space d) cs))"
      by (simp add: split_ws.simps)
    then show ?thesis
    proof
      assume "w = c # takeWhile (\<lambda>d. \<not> is_space d) cs"
      with False show ?thesis by (auto dest: set_takeWhileD)
    next
      assume "w \<in> set (split_ws (dropWhile (\<lambda>d. \<not> is_space d) cs))"
      with "2.IH"(2) False show ?thesis by simp
    qed
  qed
qed

text \<open>Splitting inverts joining with spaces, for lists of words.\<close>

lemma split_join_words:
  "\<forall>w\<in>set ws. w \<noteq> [] \<and> (\<forall>c\<in>set w. \<not> is_space c) \<Longrightarrow> split_ws (str_join [SP] ws) = ws"
proof (induction ws)
  case Nil
  then show ?case by simp
next
  case (Cons w ws)
  show ?case
  proof (cases ws)
    case Nil
    with Cons.prems split_ws_word [of w "[]"] show ?thesis by simp
  next
    case (Cons v vs)
    have "split_ws (w @ SP # str_join [SP] ws) = w # split_ws (SP # str_join [SP] ws)"
      using Cons.prems by (intro split_ws_word) auto
    with Cons.IH Cons.prems Cons show ?thesis by (simp add: split_ws_space)
  qed
qed

lemma split_ws_append_space:
  "is_space c \<Longrightarrow> split_ws (a @ c # b) = split_ws a @ split_ws b"
proof (induction a rule: split_ws.induct)
  case 1
  then show ?case by (simp add: split_ws_space)
next
  case (2 d ds)
  show ?case
  proof (cases "is_space d")
    case True
    with 2 show ?thesis by (simp add: split_ws_space)
  next
    case False
    let ?P = "\<lambda>d. \<not> is_space d"
    let ?w = "d # takeWhile ?P ds" and ?r = "dropWhile ?P ds"
    have w: "?w \<noteq> []" "\<forall>c\<in>set ?w. \<not> is_space c"
      using False by (auto dest: set_takeWhileD)
    have hd: "?r = [] \<or> is_space (hd ?r)"
      using hd_dropWhile [of ?P ds] by auto
    have eq: "d # ds = ?w @ ?r" by simp
    then have "split_ws ((d # ds) @ c # b) = split_ws (?w @ (?r @ c # b))"
      by (simp only: append_assoc)
    also have "\<dots> = ?w # split_ws (?r @ c # b)"
      using hd "2.prems" by (intro split_ws_word [OF w]) (auto simp: hd_append)
    also have "\<dots> = ?w # (split_ws ?r @ split_ws b)"
      using "2.IH"(2) [OF False "2.prems"] by simp
    also have "\<dots> = split_ws (?w @ ?r) @ split_ws b"
      by (subst split_ws_word [OF w hd]) simp
    finally show ?thesis by (simp only: eq [symmetric])
  qed
qed

lemma split_ws_dropWhile: "split_ws (dropWhile is_space s) = split_ws s"
  by (induction s) (auto simp: split_ws_space)

lemma split_ws_spaces: "\<forall>c\<in>set t. is_space c \<Longrightarrow> split_ws t = []"
  by (induction t) (auto simp: split_ws_space)

lemma split_ws_append_spaces:
  "\<forall>c\<in>set t. is_space c \<Longrightarrow> split_ws (s @ t) = split_ws s"
  by (cases t) (auto simp: split_ws_append_space split_ws_spaces)

lemma split_strip: "split_ws (strip_ws s) = split_ws s"
proof -
  let ?t = "dropWhile is_space s"
  have "?t = rev (dropWhile is_space (rev ?t)) @ rev (takeWhile is_space (rev ?t))"
    by (metis rev_append rev_rev_ident takeWhile_dropWhile_id)
  then have "split_ws ?t = split_ws (strip_ws s @ rev (takeWhile is_space (rev ?t)))"
    by (simp add: strip_ws_def)
  also have "\<dots> = split_ws (strip_ws s)"
    by (rule split_ws_append_spaces) (auto dest: set_takeWhileD)
  finally show ?thesis by (simp add: split_ws_dropWhile)
qed

subsection \<open>Decimal numerals\<close>

definition digit :: "nat \<Rightarrow> char" where
  "digit d = char_of (48 + d)"

function show_nat :: "nat \<Rightarrow> string" where
  "show_nat n = (if n < 10 then [digit n] else show_nat (n div 10) @ [digit (n mod 10)])"
  by pat_completeness auto
termination show_nat
  by (relation "measure id") auto

declare show_nat.simps [simp del]

definition show_int :: "int \<Rightarrow> string" where
  "show_int i = (if i < 0 then CHR ''-'' # show_nat (nat (- i)) else show_nat (nat i))"

definition read_digits :: "string \<Rightarrow> nat" where
  "read_digits s = foldl (\<lambda>a c. 10 * a + (of_char c - 48)) 0 s"

lemma of_char_digit [simp]: "d < 10 \<Longrightarrow> (of_char (digit d) :: nat) = 48 + d"
  by (simp add: digit_def)

lemma read_show_nat [pystr]: "read_digits (show_nat n) = n"
proof (induction n rule: show_nat.induct)
  case (1 n)
  show ?case
  proof (cases "n < 10")
    case True
    then show ?thesis by (subst show_nat.simps) (simp add: read_digits_def)
  next
    case False
    with 1 have "read_digits (show_nat (n div 10)) = n div 10" by simp
    with False show ?thesis by (subst show_nat.simps) (simp add: read_digits_def)
  qed
qed

lemma show_nat_inj [simp]: "show_nat m = show_nat n \<longleftrightarrow> m = n"
  by (metis read_show_nat)

lemma show_nat_chars: "c \<in> set (show_nat n) \<Longrightarrow> 48 \<le> (of_char c :: nat) \<and> (of_char c :: nat) < 58"
proof (induction n rule: show_nat.induct)
  case (1 n)
  show ?case
  proof (cases "n < 10")
    case True
    with "1.prems" show ?thesis by (subst (asm) show_nat.simps) auto
  next
    case False
    with "1.prems" have "c \<in> set (show_nat (n div 10)) \<or> c = digit (n mod 10)"
      by (subst (asm) show_nat.simps) auto
    with "1.IH" False show ?thesis by auto
  qed
qed

lemma show_nat_no_colon [simp]: "CHR '':'' \<notin> set (show_nat n)"
  using show_nat_chars [of "CHR '':''" n] by auto

end
