(* ===== verification/Exceptions.thy ===== *)
theory Exceptions
  imports Prelude
begin

text \<open>
  The exceptions of the gateway: the provider failures of \<open>providers/base.py\<close> with the attributes
  their constructors set, the routing, rate-limit and authentication exceptions, and the exceptions
  of the libraries that the gateway catches or lets through.  \<open>exn\<close> is the type of everything a
  call can raise.
\<close>

section \<open>Provider failures (\<open>providers/base.py\<close>)\<close>

datatype provider_error =
    ProviderError string bool "int option"
  | ProviderRateLimitedError "real option"
  | ProviderTimeoutError string
  | ProviderConnectionError string
  | ProviderResponseError string int
  | ProviderUnavailableError string

text \<open>The attributes the constructors set.\<close>

fun retryable :: "provider_error \<Rightarrow> bool" where
  "retryable (ProviderError msg r code) = r"
| "retryable (ProviderRateLimitedError after) = True"
| "retryable (ProviderTimeoutError msg) = True"
| "retryable (ProviderConnectionError msg) = True"
| "retryable (ProviderResponseError msg code) = (500 \<le> code)"
| "retryable (ProviderUnavailableError name) = False"

fun status_code :: "provider_error \<Rightarrow> int option" where
  "status_code (ProviderError msg r code) = code"
| "status_code (ProviderRateLimitedError after) = Some 429"
| "status_code (ProviderTimeoutError msg) = None"
| "status_code (ProviderConnectionError msg) = None"
| "status_code (ProviderResponseError msg code) = Some code"
| "status_code (ProviderUnavailableError name) = None"

text \<open>\<open>getattr(exc, "retry_after_seconds", None)\<close>: only the rate-limit error has the attribute.\<close>

fun retry_after_seconds :: "provider_error \<Rightarrow> real option" where
  "retry_after_seconds (ProviderRateLimitedError after) = after"
| "retry_after_seconds _ = None"

text \<open>\<open>str(exc)\<close>.\<close>

fun provider_message :: "provider_error \<Rightarrow> string" where
  "provider_message (ProviderError msg r code) = msg"
| "provider_message (ProviderRateLimitedError after) = ''Upstream provider rate limited the request''"
| "provider_message (ProviderTimeoutError msg) = msg"
| "provider_message (ProviderConnectionError msg) = msg"
| "provider_message (ProviderResponseError msg code) = msg"
| "provider_message (ProviderUnavailableError name) =
     ''Circuit breaker open for provider '' @ [CHR 0x27] @ name @ [CHR 0x27]"

section \<open>Everything a call can raise\<close>

datatype exn =
    Provider provider_error
  | AllProvidersExhaustedError "(string \<times> provider_error) list"
  | RateLimitExceededError real
  | AuthenticationError string
  | AuthorizationError string
  | InsufficientScopeError string
  | HTTPException int string
  | ValueError string
  | KeyError string
  | IndexError
  | TypeError
  | NotImplementedError
  | RuntimeError string
  | TimeoutError
  | RedisError string
  | WatchError
  | DatabaseError string
  | OtherError string

text \<open>\<open>str(AllProvidersExhaustedError(attempts))\<close>.\<close>

definition exhausted_message :: "(string \<times> provider_error) list \<Rightarrow> string" where
  "exhausted_message attempts =
     (if attempts \<noteq> []
      then ''All providers exhausted: '' @
        str_join ''; '' (map (\<lambda>(name, exc). name @ '': '' @ provider_message exc) attempts)
      else ''No provider available for the requested model'')"

text \<open>
  \<open>isinstance\<close> along the class hierarchy: \<open>InsufficientScopeError\<close> is an \<open>AuthorizationError\<close>,
  \<open>WatchError\<close> is a \<open>RedisError\<close>.
\<close>

fun is_redis_error :: "exn \<Rightarrow> bool" where
  "is_redis_error (RedisError _) = True"
| "is_redis_error WatchError = True"
| "is_redis_error _ = False"

fun is_authorization_error :: "exn \<Rightarrow> bool" where
  "is_authorization_error (AuthorizationError _) = True"
| "is_authorization_error (InsufficientScopeError _) = True"
| "is_authorization_error _ = False"

text \<open>The \<open>message\<close> attribute of the authentication and authorization exceptions.\<close>

fun auth_message :: "exn \<Rightarrow> string" where
  "auth_message (AuthenticationError m) = m"
| "auth_message (AuthorizationError m) = m"
| "auth_message (InsufficientScopeError scope) = ''Missing required scope: '' @ scope"
| "auth_message _ = []"

end
