(* ===== verification/PyFloat.thy ===== *)
theory PyFloat
  imports Prelude
begin

text \<open>
  Python's \<open>float\<close> is IEEE-754 binary64: every operation yields the exact result rounded to a
  representable number.  A float is modelled by the real number it denotes, and a definition that
  computes with floats takes the rounding \<open>rnd\<close> applied after every operation as an argument.
  \<^item> \<open>float_rounding\<close> is what the gateway's arithmetic relies on: rounding is monotone,
    symmetric and leaves zero and rounded values alone;
  \<^item> \<open>binary64\<close> is the rounding Python uses, to nearest with ties to even, with 53 bits of
    precision and gradual underflow.  Overflow to infinity, far above the magnitudes of prices,
    token counts and timestamps, is not modelled;
  \<^item> \<open>exact\<close> does not round; with it a definition computes in the real numbers.
\<close>

locale float_rounding =
  fixes rnd :: "real \<Rightarrow> real"
  assumes rnd_mono: "x \<le> y \<Longrightarrow> rnd x \<le> rnd y"
    and rnd_minus: "rnd (- x) = - rnd x"
    and rnd_idem: "rnd (rnd x) = rnd x"
begin

lemma rnd_zero: "rnd 0 = 0"
  using rnd_minus [of 0] by simp

lemma rnd_nonneg: "0 \<le> x \<Longrightarrow> 0 \<le> rnd x"
  using rnd_mono [of 0 x] rnd_zero by simp

lemma rnd_nonpos: "x \<le> 0 \<Longrightarrow> rnd x \<le> 0"
  using rnd_mono [of x 0] rnd_zero by simp

lemma rnd_le_fixed: "x \<le> y \<Longrightarrow> rnd y = y \<Longrightarrow> rnd x \<le> y"
  using rnd_mono [of x y] by simp

lemma rnd_ge_fixed: "y \<le> x \<Longrightarrow> rnd y = y \<Longrightarrow> y \<le> rnd x"
  using rnd_mono [of y x] by simp

lemma rnd_diff_le: "rnd x = x \<Longrightarrow> 0 \<le> y \<Longrightarrow> rnd (x - y) \<le> x"
  by (rule rnd_le_fixed) auto

end

section \<open>Rounding to the nearest integer, ties to even\<close>

definition rhe :: "real \<Rightarrow> int" where
  "rhe x = (let f = \<lfloor>x\<rfloor>; d = x - of_int f
     in if d < 1/2 then f else if d > 1/2 then f + 1 else if even f then f else f + 1)"

lemma rhe_bounds: "\<lfloor>x\<rfloor> \<le> rhe x \<and> rhe x \<le> \<lfloor>x\<rfloor> + 1"
  by (simp add: rhe_def Let_def)

lemma rhe_of_int [simp]: "rhe (of_int i) = i"
  by (simp add: rhe_def)

lemma rhe_mono: "x \<le> y \<Longrightarrow> rhe x \<le> rhe y"
proof -
  assume le: "x \<le> y"
  then have fl: "\<lfloor>x\<rfloor> \<le> \<lfloor>y\<rfloor>" by (rule floor_mono)
  show ?thesis
  proof (cases "\<lfloor>x\<rfloor> = \<lfloor>y\<rfloor>")
    case True
    with le show ?thesis by (simp add: rhe_def Let_def)
  next
    case False
    with fl have "\<lfloor>x\<rfloor> + 1 \<le> \<lfloor>y\<rfloor>" by simp
    with rhe_bounds [of x] rhe_bounds [of y] show ?thesis by linarith
  qed
qed

lemma rhe_le_int: "x \<le> of_int i \<Longrightarrow> rhe x \<le> i"
  using rhe_mono [of x "of_int i"] by simp

lemma rhe_ge_int: "of_int i \<le> x \<Longrightarrow> i \<le> rhe x"
  using rhe_mono [of "of_int i" x] by simp

lemma rhe_minus: "rhe (- x) = - rhe x"
proof (cases "x = of_int \<lfloor>x\<rfloor>")
  case True
  then show ?thesis by (metis of_int_minus rhe_of_int)
next
  case False
  then have "\<lfloor>- x\<rfloor> = - \<lfloor>x\<rfloor> - 1"
    by (intro floor_unique) (auto simp: field_simps, linarith+)
  then show ?thesis by (auto simp: rhe_def Let_def)
qed

section \<open>binary64\<close>

text \<open>The exponent of the last bit of the floats around \<open>x\<close>.\<close>

definition ulp_exp :: "real \<Rightarrow> int" where
  "ulp_exp x = max (\<lfloor>log 2 \<bar>x\<bar>\<rfloor> - 52) (- 1074)"

definition binary64 :: "real \<Rightarrow> real" where
  "binary64 x = (if x = 0 then 0
     else of_int (rhe (x / 2 powr ulp_exp x)) * 2 powr ulp_exp x)"

lemma ulp_exp_minus [simp]: "ulp_exp (- x) = ulp_exp x"
  by (simp add: ulp_exp_def)

lemma ulp_exp_mono: "0 < x \<Longrightarrow> x \<le> y \<Longrightarrow> ulp_exp x \<le> ulp_exp y"
proof -
  assume x: "0 < x" "x \<le> y"
  then have "log 2 x \<le> log 2 y" by simp
  then have "\<lfloor>log 2 x\<rfloor> \<le> \<lfloor>log 2 y\<rfloor>" by (rule floor_mono)
  with x show ?thesis unfolding ulp_exp_def by (intro max.mono) auto
qed

lemma ulp_exp_ge: "- 1074 \<le> ulp_exp x"
  by (simp add: ulp_exp_def)

lemma ulp_exp_upper: "0 < x \<Longrightarrow> x < 2 powr (ulp_exp x + 53)"
proof -
  assume x: "0 < x"
  have "log 2 x < of_int (\<lfloor>log 2 x\<rfloor> + 1)" by linarith
  also have "\<dots> \<le> of_int (ulp_exp x + 53)"
    using x by (simp only: ulp_exp_def of_int_le_iff abs_of_pos max_def split: if_split) simp
  finally show ?thesis using x by (simp add: log_less_iff)
qed

lemma ulp_exp_lower: "0 < x \<Longrightarrow> - 1074 < ulp_exp x \<Longrightarrow> 2 powr (ulp_exp x + 52) \<le> x"
proof -
  assume x: "0 < x" and e: "- 1074 < ulp_exp x"
  then have "ulp_exp x = \<lfloor>log 2 x\<rfloor> - 52"
    by (simp add: ulp_exp_def max_def split: if_splits)
  then have "of_int (ulp_exp x + 52) \<le> log 2 x" by simp
  with x show ?thesis by (simp add: le_log_iff)
qed

lemma powr_int_shift: "(2::real) powr of_int i / 2 powr of_int j = of_int (2 ^ nat (i - j))"
  if "j \<le> i" for i j :: int
proof -
  have "(2::real) powr of_int i / 2 powr of_int j = 2 powr of_int (i - j)"
    by (simp add: powr_diff)
  also have "\<dots> = 2 powr real (nat (i - j))" using that by simp
  also have "\<dots> = 2 ^ nat (i - j)" by (rule powr_realpow) simp
  finally show ?thesis by simp
qed

text \<open>Rounding never crosses a power of two that is a multiple of the last bit.\<close>

lemma binary64_le_power:
  assumes "0 < x" "x \<le> 2 powr of_int k" "ulp_exp x \<le> k"
  shows "binary64 x \<le> 2 powr of_int k"
proof -
  let ?u = "2 powr of_int (ulp_exp x) :: real"
  have "x / ?u \<le> 2 powr of_int k / ?u" using assms by (simp add: divide_right_mono)
  also have "\<dots> = of_int (2 ^ nat (k - ulp_exp x))" by (rule powr_int_shift) fact
  finally have "rhe (x / ?u) \<le> 2 ^ nat (k - ulp_exp x)" by (rule rhe_le_int)
  then have "of_int (rhe (x / ?u)) \<le> (of_int (2 ^ nat (k - ulp_exp x)) :: real)"
    by (simp only: of_int_le_iff)
  then have "of_int (rhe (x / ?u)) * ?u \<le> 2 powr of_int k / ?u * ?u"
    unfolding powr_int_shift [OF assms(3)] by (intro mult_right_mono) auto
  with assms show ?thesis by (simp add: binary64_def)
qed

lemma binary64_ge_power:
  assumes "2 powr of_int k \<le> x" "ulp_exp x \<le> k"
  shows "2 powr of_int k \<le> binary64 x"
proof -
  let ?u = "2 powr of_int (ulp_exp x) :: real"
  have x: "0 < x" using assms(1) by (smt (verit) powr_gt_zero)
  have "of_int (2 ^ nat (k - ulp_exp x)) = 2 powr of_int k / ?u"
    by (rule powr_int_shift [symmetric]) fact
  also have "\<dots> \<le> x / ?u" using assms by (simp add: divide_right_mono)
  finally have "2 ^ nat (k - ulp_exp x) \<le> rhe (x / ?u)" by (rule rhe_ge_int)
  then have "(of_int (2 ^ nat (k - ulp_exp x)) :: real) \<le> of_int (rhe (x / ?u))"
    by (simp only: of_int_le_iff)
  then have "2 powr of_int k / ?u * ?u \<le> of_int (rhe (x / ?u)) * ?u"
    unfolding powr_int_shift [OF assms(2)] by (intro mult_right_mono) auto
  with x show ?thesis by (simp add: binary64_def)
qed

lemma binary64_mono_pos:
  assumes "0 < x" "x \<le> y"
  shows "binary64 x \<le> binary64 y"
proof (cases "ulp_exp x = ulp_exp y")
  case True
  let ?u = "2 powr of_int (ulp_exp x) :: real"
  have "rhe (x / ?u) \<le> rhe (y / ?u)"
    by (rule rhe_mono) (use assms in \<open>simp add: divide_right_mono\<close>)
  then have "of_int (rhe (x / ?u)) * ?u \<le> of_int (rhe (y / ?u)) * ?u"
    by (intro mult_right_mono) simp_all
  with assms True show ?thesis by (simp add: binary64_def)
next
  case False
  with ulp_exp_mono [OF assms] have lt: "ulp_exp x + 1 \<le> ulp_exp y" by simp
  let ?k = "ulp_exp y + 52"
  have "x < 2 powr (ulp_exp x + 53)" by (rule ulp_exp_upper) fact
  also have "\<dots> \<le> 2 powr of_int ?k" using lt by (intro powr_mono) (auto simp flip: of_int_add)
  finally have "binary64 x \<le> 2 powr of_int ?k"
    by (intro binary64_le_power) (use assms lt in auto)
  also have "\<dots> \<le> binary64 y"
  proof (rule binary64_ge_power)
    have "- 1074 < ulp_exp y" using lt ulp_exp_ge [of x] by simp
    then show "2 powr of_int ?k \<le> y" using ulp_exp_lower [of y] assms by simp
  qed simp
  finally show ?thesis .
qed

lemma binary64_minus: "binary64 (- x) = - binary64 x"
  by (simp add: binary64_def rhe_minus)

lemma binary64_nonneg: "0 \<le> x \<Longrightarrow> 0 \<le> binary64 x"
  by (auto simp: binary64_def intro!: mult_nonneg_nonneg rhe_ge_int)

lemma binary64_mono: "x \<le> y \<Longrightarrow> binary64 x \<le> binary64 y"
proof -
  assume le: "x \<le> y"
  consider "0 < x" | "x \<le> 0" "0 \<le> y" | "y < 0" by linarith
  then show ?thesis
  proof cases
    case 1
    then show ?thesis using le by (rule binary64_mono_pos)
  next
    case 2
    then have "binary64 x \<le> 0" using binary64_nonneg [of "- x"] by (simp add: binary64_minus)
    also have "0 \<le> binary64 y" using 2 by (simp add: binary64_nonneg)
    finally show ?thesis .
  next
    case 3
    then have "binary64 (- y) \<le> binary64 (- x)" using le by (intro binary64_mono_pos) auto
    then show ?thesis by (simp add: binary64_minus)
  qed
qed

text \<open>The floats themselves are not rounded: integers up to \<open>2\<^sup>5\<^sup>3\<close>, scaled by a power of two.\<close>

lemma binary64_fixed:
  assumes "\<bar>m\<bar> \<le> 2 ^ 53" "- 1074 \<le> e"
  shows "binary64 (of_int m * 2 powr of_int e) = of_int m * 2 powr of_int e"
proof (cases "m = 0")
  case True
  then show ?thesis by (simp add: binary64_def)
next
  case False
  let ?x = "of_int m * 2 powr of_int e :: real"
  have "log 2 \<bar>?x\<bar> = log 2 (of_int \<bar>m\<bar>) + e"
    using False by (simp add: abs_mult log_mult)
  moreover have "log 2 (of_int \<bar>m\<bar>) \<le> 53"
  proof -
    have "(of_int \<bar>m\<bar> :: real) \<le> of_int (2 ^ 53)" using assms(1) by (simp only: of_int_le_iff)
    then have "log 2 (of_int \<bar>m\<bar>) \<le> log 2 (2 ^ 53)" using False by simp
    also have "\<dots> = 53" using log_nat_power [of "2::real" 2 53] by simp
    finally show ?thesis .
  qed
  ultimately have l: "\<lfloor>log 2 \<bar>?x\<bar>\<rfloor> \<le> 53 + e" by linarith
  have u: "ulp_exp ?x \<le> e + 1" using l assms(2) by (simp add: ulp_exp_def)
  show ?thesis
  proof (cases "ulp_exp ?x \<le> e")
    case True
    have "?x / 2 powr of_int (ulp_exp ?x) = of_int m * of_int (2 ^ nat (e - ulp_exp ?x))"
      by (simp only: powr_int_shift [OF True, symmetric] times_divide_eq_right)
    then have q: "?x / 2 powr of_int (ulp_exp ?x) = of_int (m * 2 ^ nat (e - ulp_exp ?x))"
      by simp
    then have "of_int (rhe (?x / 2 powr of_int (ulp_exp ?x))) = ?x / 2 powr of_int (ulp_exp ?x)"
      by (simp only: rhe_of_int)
    with False show ?thesis by (simp add: binary64_def)
  next
    case False
    with u have ue: "ulp_exp ?x = e + 1" by simp
    have "0 < \<bar>?x\<bar>" using \<open>m \<noteq> 0\<close> by simp
    then have "2 powr (ulp_exp \<bar>?x\<bar> + 52) \<le> \<bar>?x\<bar>"
      by (rule ulp_exp_lower) (use ue assms in \<open>simp add: ulp_exp_def\<close>)
    moreover have "ulp_exp \<bar>?x\<bar> = e + 1" using ue by (simp add: ulp_exp_def)
    ultimately have "2 powr (53 + e) \<le> of_int \<bar>m\<bar> * 2 powr of_int e"
      by (simp add: abs_mult add.commute)
    then have "(2::real) powr 53 \<le> of_int \<bar>m\<bar>" by (simp add: powr_add)
    then have "(of_int (2 ^ 53) :: real) \<le> of_int \<bar>m\<bar>" by simp
    then have "2 ^ 53 \<le> \<bar>m\<bar>" by (simp only: of_int_le_iff)
    with assms(1) have "\<bar>m\<bar> = 2 ^ 53" by simp
    then consider "m = 2 ^ 53" | "m = - (2 ^ 53)" by linarith
    then have m2: "(of_int m :: real) = of_int (m div 2) * 2" by cases simp_all
    have "?x / 2 powr of_int (ulp_exp ?x) = of_int m / 2"
      unfolding ue by (simp add: powr_add)
    with m2 have "?x / 2 powr of_int (ulp_exp ?x) = of_int (m div 2)" by linarith
    then have "of_int (rhe (?x / 2 powr of_int (ulp_exp ?x))) = ?x / 2 powr of_int (ulp_exp ?x)"
      by (simp only: rhe_of_int)
    with \<open>m \<noteq> 0\<close> show ?thesis by (simp add: binary64_def)
  qed
qed

lemma binary64_of_int: "\<bar>m\<bar> \<le> 2 ^ 53 \<Longrightarrow> binary64 (of_int m) = of_int m"
  using binary64_fixed [of m 0] by simp

lemma binary64_numeral: "(numeral n :: int) \<le> 2 ^ 53 \<Longrightarrow> binary64 (numeral n) = numeral n"
  using binary64_of_int [of "numeral n"] by simp

lemma binary64_consts [simp]: "binary64 0 = 0" "binary64 1 = 1"
  using binary64_of_int [of 1] by (simp_all add: binary64_def)

text \<open>Every rounded number is a float in that sense, so rounding twice changes nothing.\<close>

lemma binary64_is_float:
  "\<exists>m e. binary64 x = of_int m * 2 powr of_int e \<and> \<bar>m\<bar> \<le> 2 ^ 53 \<and> - 1074 \<le> e"
proof (cases "x = 0")
  case True
  then show ?thesis by (intro exI [of _ 0]) auto
next
  case False
  let ?u = "2 powr of_int (ulp_exp x) :: real"
  have "\<bar>x\<bar> < 2 powr (ulp_exp \<bar>x\<bar> + 53)" by (rule ulp_exp_upper) (use False in simp)
  moreover have "ulp_exp \<bar>x\<bar> = ulp_exp x" by (simp add: ulp_exp_def)
  ultimately have "\<bar>x\<bar> < 2 powr 53 * ?u" by (simp add: powr_add mult.commute)
  then have "\<bar>x / ?u\<bar> < of_int (2 ^ 53)" by (simp add: abs_divide divide_less_eq)
  then have hi: "x / ?u \<le> of_int (2 ^ 53)" and lo: "of_int (- (2 ^ 53)) \<le> x / ?u"
    unfolding of_int_minus by linarith+
  have "\<bar>rhe (x / ?u)\<bar> \<le> 2 ^ 53"
    using rhe_le_int [OF hi] rhe_ge_int [OF lo] by simp
  with False show ?thesis
    by (intro exI [of _ "rhe (x / ?u)"] exI [of _ "ulp_exp x"])
      (simp add: binary64_def ulp_exp_ge)
qed

lemma binary64_idem: "binary64 (binary64 x) = binary64 x"
  using binary64_is_float [of x] by (auto simp: binary64_fixed)

interpretation ieee: float_rounding binary64
  by unfold_locales (simp_all add: binary64_mono binary64_minus binary64_idem)

text \<open>Python's \<open>int()\<close> truncates towards zero.\<close>

definition py_int :: "real \<Rightarrow> int" where
  "py_int x = (if 0 \<le> x then \<lfloor>x\<rfloor> else \<lceil>x\<rceil>)"

lemma py_int_of_int [simp]: "py_int (of_int i) = i"
  by (simp add: py_int_def)

section \<open>No rounding\<close>

definition exact :: "real \<Rightarrow> real" where
  "exact x = x"

lemma exact_simp [simp]: "exact x = x"
  by (simp add: exact_def)

interpretation reals: float_rounding exact
  by unfold_locales simp_all

end
