(* ===== verification/Sha256.thy ===== *)
theory Sha256
  imports Prelude "HOL-Library.Word"
begin

text \<open>
  SHA-256 (FIPS 180-4), the part of Python's \<open>hashlib\<close> the gateway uses: cache keys, API-key
  digests and the sticky canary bucket are built from \<open>sha256(s.encode()).hexdigest()\<close>.
  The message is a list of bytes, the state eight 32-bit words.
\<close>

unbundle bit_operations_syntax

type_synonym u8 = "8 word"
type_synonym u32 = "32 word"

definition rotr :: "nat \<Rightarrow> u32 \<Rightarrow> u32" where
  "rotr n x = drop_bit n x OR push_bit (32 - n) x"

definition ch :: "u32 \<Rightarrow> u32 \<Rightarrow> u32 \<Rightarrow> u32" where
  "ch x y z = (x AND y) XOR (NOT x AND z)"

definition maj :: "u32 \<Rightarrow> u32 \<Rightarrow> u32 \<Rightarrow> u32" where
  "maj x y z = (x AND y) XOR (x AND z) XOR (y AND z)"

definition big_sigma0 :: "u32 \<Rightarrow> u32" where
  "big_sigma0 x = rotr 2 x XOR rotr 13 x XOR rotr 22 x"

definition big_sigma1 :: "u32 \<Rightarrow> u32" where
  "big_sigma1 x = rotr 6 x XOR rotr 11 x XOR rotr 25 x"

definition small_sigma0 :: "u32 \<Rightarrow> u32" where
  "small_sigma0 x = rotr 7 x XOR rotr 18 x XOR drop_bit 3 x"

definition small_sigma1 :: "u32 \<Rightarrow> u32" where
  "small_sigma1 x = rotr 17 x XOR rotr 19 x XOR drop_bit 10 x"

definition round_constants :: "u32 list" where
  "round_constants =
    [1116352408, 1899447441, 3049323471, 3921009573, 961987163, 1508970993, 2453635748, 2870763221,
     3624381080, 310598401, 607225278, 1426881987, 1925078388, 2162078206, 2614888103, 3248222580,
     3835390401, 4022224774, 264347078, 604807628, 770255983, 1249150122, 1555081692, 1996064986,
     2554220882, 2821834349, 2952996808, 3210313671, 3336571891, 3584528711, 113926993, 338241895,
     666307205, 773529912, 1294757372, 1396182291, 1695183700, 1986661051, 2177026350, 2456956037,
     2730485921, 2820302411, 3259730800, 3345764771, 3516065817, 3600352804, 4094571909, 275423344,
     430227734, 506948616, 659060556, 883997877, 958139571, 1322822218, 1537002063, 1747873779,
     1955562222, 2024104815, 2227730452, 2361852424, 2428436474, 2756734187, 3204031479, 3329325298]"

datatype hash_state = HS u32 u32 u32 u32 u32 u32 u32 u32

definition initial_state :: hash_state where
  "initial_state = HS 1779033703 3144134277 1013904242 2773480762 1359893119 2600822924 528734635 1541459225"

fun hash_round :: "u32 \<Rightarrow> u32 \<Rightarrow> hash_state \<Rightarrow> hash_state" where
  "hash_round k w (HS a b c d e f g h) =
     (let t1 = h + big_sigma1 e + ch e f g + k + w;
          t2 = big_sigma0 a + maj a b c
      in HS (t1 + t2) a b c (d + t1) e f g)"

text \<open>
  The message schedule as a sliding window of the last sixteen words: every round consumes the
  first word and appends \<open>\<sigma>\<^sub>1(w\<^sub>1\<^sub>4) + w\<^sub>9 + \<sigma>\<^sub>0(w\<^sub>1) + w\<^sub>0\<close>.
\<close>

fun window_next :: "u32 list \<Rightarrow> u32 list" where
  "window_next [w0, w1, w2, w3, w4, w5, w6, w7, w8, w9, w10, w11, w12, w13, w14, w15] =
     [w1, w2, w3, w4, w5, w6, w7, w8, w9, w10, w11, w12, w13, w14, w15,
      small_sigma1 w14 + w9 + small_sigma0 w1 + w0]"
| "window_next ws = ws"

fun hash_rounds :: "u32 list \<Rightarrow> u32 list \<Rightarrow> hash_state \<Rightarrow> hash_state" where
  "hash_rounds [] ws st = st"
| "hash_rounds (k # ks) ws st = hash_rounds ks (window_next ws) (hash_round k (hd ws) st)"

fun state_add :: "hash_state \<Rightarrow> hash_state \<Rightarrow> hash_state" where
  "state_add (HS a b c d e f g h) (HS a' b' c' d' e' f' g' h') =
     HS (a + a') (b + b') (c + c') (d + d') (e + e') (f + f') (g + g') (h + h')"

definition compress :: "hash_state \<Rightarrow> u32 list \<Rightarrow> hash_state" where
  "compress st block = state_add st (hash_rounds round_constants block st)"

section \<open>Padding and blocks\<close>

text \<open>The low \<open>k\<close> bytes of a number, most significant first.\<close>

fun be_bytes :: "nat \<Rightarrow> int \<Rightarrow> int list" where
  "be_bytes 0 n = []"
| "be_bytes (Suc k) n = be_bytes k (n div 256) @ [n mod 256]"

definition pad :: "int list \<Rightarrow> int list" where
  "pad m = (let l = length m
     in m @ [128] @ replicate ((119 - l mod 64) mod 64) 0 @ be_bytes 8 (8 * int l mod 2 ^ 64))"

fun words_of_bytes :: "int list \<Rightarrow> u32 list" where
  "words_of_bytes (a # b # c # d # rest) =
     of_int (((a * 256 + b) * 256 + c) * 256 + d) # words_of_bytes rest"
| "words_of_bytes _ = []"

function blocks :: "'a list \<Rightarrow> 'a list list" where
  "blocks ws = (if ws = [] then [] else take 16 ws # blocks (drop 16 ws))"
  by pat_completeness auto
termination blocks
  by (relation "measure length") auto

declare blocks.simps [simp del]

lemma blocks_Nil [simp]: "blocks [] = []"
  by (subst blocks.simps) simp

lemma blocks_step: "ws \<noteq> [] \<Longrightarrow> blocks ws = take 16 ws # blocks (drop 16 ws)"
  by (subst blocks.simps) simp

definition digest_words :: "int list \<Rightarrow> hash_state" where
  "digest_words m = foldl compress initial_state (blocks (words_of_bytes (pad m)))"

section \<open>Text in, hexadecimal text out\<close>

text \<open>\<open>str.encode()\<close>: UTF-8, for code points below 256.\<close>

definition utf8_char :: "char \<Rightarrow> int list" where
  "utf8_char c = (let n = of_char c in if n < 128 then [n] else [192 + n div 64, 128 + n mod 64])"

definition utf8 :: "string \<Rightarrow> int list" where
  "utf8 s = concat (map utf8_char s)"

definition hex_digit :: "int \<Rightarrow> char" where
  "hex_digit d = (if d < 10 then char_of (48 + d) else char_of (87 + d))"

fun hex_num :: "nat \<Rightarrow> int \<Rightarrow> string" where
  "hex_num 0 n = []"
| "hex_num (Suc k) n = hex_num k (n div 16) @ [hex_digit (n mod 16)]"

definition hex_word :: "u32 \<Rightarrow> string" where
  "hex_word w = hex_num 8 (uint w)"

fun hex_state :: "hash_state \<Rightarrow> string" where
  "hex_state (HS a b c d e f g h) = concat (map hex_word [a, b, c, d, e, f, g, h])"

definition sha256_hex :: "string \<Rightarrow> string" where
  "sha256_hex s = hex_state (digest_words (utf8 s))"

lemma length_hex_num [simp]: "length (hex_num k n) = k"
  by (induction k arbitrary: n) auto

lemma length_hex_word [simp]: "length (hex_word w) = 8"
  by (simp add: hex_word_def)

lemma length_hex_state [simp]: "length (hex_state st) = 64"
  by (cases st) simp

lemma length_sha256_hex [simp]: "length (sha256_hex s) = 64"
  by (simp add: sha256_hex_def)

text \<open>\<open>int(s, 16)\<close> for lower-case hexadecimal digits.\<close>

definition hex_value :: "char \<Rightarrow> int" where
  "hex_value c = (let n = of_char c in if n < 58 then n - 48 else n - 87)"

definition int16 :: "string \<Rightarrow> int" where
  "int16 s = foldl (\<lambda>a c. 16 * a + hex_value c) 0 s"

lemma hex_value_digit [simp]: "0 \<le> d \<Longrightarrow> d < 16 \<Longrightarrow> hex_value (hex_digit d) = d"
  by (auto simp: hex_value_def hex_digit_def Let_def)

lemma int16_hex_num: "0 \<le> n \<Longrightarrow> n < 16 ^ k \<Longrightarrow> int16 (hex_num k n) = n"
proof (induction k arbitrary: n)
  case 0
  then show ?case by (simp add: int16_def)
next
  case (Suc k)
  then have "0 \<le> n div 16" "n div 16 < 16 ^ k"
    by (simp_all add: div_less_iff_less_mult mult.commute)
  from Suc.IH [OF this] show ?case by (simp add: int16_def)
qed

lemma int16_hex_word: "int16 (hex_word w) = uint w"
  unfolding hex_word_def by (rule int16_hex_num) (use uint_lt2p [of w] in simp_all)

text \<open>The first eight digits of the digest are the first word of the hash state.\<close>

fun first_word :: "hash_state \<Rightarrow> u32" where
  "first_word (HS a _ _ _ _ _ _ _) = a"

lemma int16_prefix: "int16 (take 8 (sha256_hex s)) = uint (first_word (digest_words (utf8 s)))"
  unfolding sha256_hex_def
  by (cases "digest_words (utf8 s)") (simp add: int16_hex_word)

end
