(* ===== verification/Domain.thy ===== *)
theory Domain
  imports Exceptions PyFloat Sha256
begin

text \<open>
  The entities and value objects of \<open>domain/\<close>: chat requests and responses, cache status, model
  identifiers, trace spans and the authenticated principal, each with the methods the rest of the
  gateway calls.

  A \<open>datetime\<close> is the number of microseconds since the epoch, UTC.  \<open>repr_float\<close>, the shortest
  decimal form Python prints for a float, is a parameter.
\<close>

type_synonym datetime = int

section \<open>Messages and requests (\<open>entities/chat_request.py\<close>)\<close>

datatype role = System | User | Assistant | Tool

fun role_str :: "role \<Rightarrow> string" where
  "role_str System = ''system''"
| "role_str User = ''user''"
| "role_str Assistant = ''assistant''"
| "role_str Tool = ''tool''"

record chat_message =
  m_role :: role
  m_content :: string

record chat_request =
  rq_model :: string
  rq_messages :: "chat_message list"
  rq_temperature :: real
  rq_max_tokens :: "int option"
  rq_top_p :: real
  rq_stream :: bool
  rq_stop :: "string list option"
  rq_cache_bypass :: bool
  rq_provider_override :: "string option"
  rq_adapter_id :: "string option"
  rq_model_alias :: "string option"
  rq_adapter_stage :: "string option"

abbreviation NL :: char where "NL \<equiv> CHR 0x0A"

definition message_line :: "chat_message \<Rightarrow> string" where
  "message_line m = role_str (m_role m) @ '':'' @ m_content m"

definition canonical_prompt :: "chat_request \<Rightarrow> string" where
  "canonical_prompt r = str_join [NL] (map message_line (rq_messages r))"

text \<open>
  \<open>repr\<close> of a string, as it appears when a list of stop sequences is formatted: quoted with an
  apostrophe unless that would need escaping and a double quote would not, with backslash escapes for
  the quote, backslash, tab, newline, carriage return and the non-printable code points.
\<close>

definition repr_char :: "char \<Rightarrow> char \<Rightarrow> string" where
  "repr_char q c = (let n = (of_char c :: int)
     in if c = q \<or> n = 92 then [CHR 0x5C, c]
        else if n = 9 then [CHR 0x5C, CHR ''t'']
        else if n = 10 then [CHR 0x5C, CHR ''n'']
        else if n = 13 then [CHR 0x5C, CHR ''r'']
        else if n < 32 \<or> (127 \<le> n \<and> n \<le> 160) \<or> n = 173
          then [CHR 0x5C, CHR ''x'', hex_digit (n div 16), hex_digit (n mod 16)]
        else [c])"

definition repr_str :: "string \<Rightarrow> string" where
  "repr_str s = (let q = (if CHR 0x27 \<in> set s \<and> CHR 0x22 \<notin> set s then CHR 0x22 else CHR 0x27)
     in [q] @ concat (map (repr_char q) s) @ [q])"

definition repr_stop :: "string list option \<Rightarrow> string" where
  "repr_stop stop = (case stop of None \<Rightarrow> ''None''
     | Some xs \<Rightarrow> ''['' @ str_join '', '' (map repr_str xs) @ '']'')"

definition repr_int_option :: "int option \<Rightarrow> string" where
  "repr_int_option i = (case i of None \<Rightarrow> ''None'' | Some n \<Rightarrow> show_int n)"

definition params_fingerprint :: "(real \<Rightarrow> string) \<Rightarrow> chat_request \<Rightarrow> string" where
  "params_fingerprint repr_float r =
     rq_model r @ ''|'' @ str_or (rq_adapter_id r) [] @ ''|'' @ repr_float (rq_temperature r)
     @ ''|'' @ repr_int_option (rq_max_tokens r) @ ''|'' @ repr_float (rq_top_p r)
     @ ''|'' @ repr_stop (rq_stop r)"

section \<open>Cache status and responses (\<open>value_objects/cache_status.py\<close>, \<open>entities/chat_response.py\<close>)\<close>

datatype cache_status = MISS | EXACT_HIT | SEMANTIC_HIT | BYPASSED

fun cache_status_value :: "cache_status \<Rightarrow> string" where
  "cache_status_value MISS = ''MISS''"
| "cache_status_value EXACT_HIT = ''EXACT_HIT''"
| "cache_status_value SEMANTIC_HIT = ''SEMANTIC_HIT''"
| "cache_status_value BYPASSED = ''BYPASSED''"

record token_usage =
  input_tokens :: int
  output_tokens :: int

definition total_tokens :: "token_usage \<Rightarrow> int" where
  "total_tokens u = input_tokens u + output_tokens u"

record chat_response =
  rs_id :: string
  rs_model :: string
  rs_provider :: string
  rs_message :: chat_message
  rs_usage :: token_usage
  rs_cost_usd :: real
  rs_cache_status :: cache_status
  rs_trace_id :: string
  rs_created_at :: datetime
  rs_latency_ms :: real
  rs_adapter_id :: "string option"
  rs_model_alias :: "string option"
  rs_adapter_stage :: "string option"

section \<open>Model identifiers (\<open>value_objects/model_identifier.py\<close>)\<close>

record model_identifier =
  mi_provider :: string
  mi_model :: string

definition mi_str :: "model_identifier \<Rightarrow> string" where
  "mi_str m = mi_provider m @ '':'' @ mi_model m"

definition mi_parse :: "string \<Rightarrow> exn + model_identifier" where
  "mi_parse value = (let (provider, _, model) = str_partition (CHR '':'') value
     in if model = [] then Inl (ValueError (''Expected 'provider:model', got '' @ repr_str value))
        else Inr \<lparr>mi_provider = provider, mi_model = model\<rparr>)"

text \<open>Printing and parsing identifiers are inverse to each other, up to the first colon.\<close>

lemma mi_parse_str:
  "CHR '':'' \<notin> set (mi_provider m) \<Longrightarrow> mi_model m \<noteq> [] \<Longrightarrow> mi_parse (mi_str m) = Inr m"
  by (simp add: mi_parse_def mi_str_def pystr)

lemma mi_str_parse: "mi_parse s = Inr m \<Longrightarrow> mi_str m = s \<and> mi_model m \<noteq> [] \<and> CHR '':'' \<notin> set (mi_provider m)"
proof -
  assume p: "mi_parse s = Inr m"
  obtain a f b where q: "str_partition (CHR '':'') s = (a, f, b)" by (cases "str_partition (CHR '':'') s")
  with p have b: "b \<noteq> []" and m: "m = \<lparr>mi_provider = a, mi_model = b\<rparr>"
    by (auto simp: mi_parse_def split: if_splits)
  from q b have "s = a @ CHR '':'' # b" by (rule str_partition_rest_hit)
  moreover have "CHR '':'' \<notin> set a"
    using q by (auto simp: str_partition_def dest: set_takeWhileD)
  ultimately show ?thesis using b m by (simp add: mi_str_def)
qed

lemma mi_parse_raises: "is_exn (mi_parse s) \<longleftrightarrow> (\<nexists>a b. b \<noteq> [] \<and> s = a @ CHR '':'' # b)"
proof
  assume e: "is_exn (mi_parse s)"
  show "\<nexists>a b. b \<noteq> [] \<and> s = a @ CHR '':'' # b"
  proof
    assume "\<exists>a b. b \<noteq> [] \<and> s = a @ CHR '':'' # b"
    then obtain a b where ab: "b \<noteq> []" "s = a @ CHR '':'' # b" by blast
    then obtain us vs where s: "s = us @ CHR '':'' # vs" "CHR '':'' \<notin> set us"
      by (meson in_set_conv_decomp split_list_first)
    have "vs \<noteq> []"
    proof
      assume "vs = []"
      with ab s have "us = butlast (a @ CHR '':'' # b)" by (metis butlast_snoc)
      also have "\<dots> = a @ CHR '':'' # butlast b" using ab by (simp add: butlast_append)
      finally show False using s by auto
    qed
    with s e show False by (simp add: mi_parse_def pystr)
  qed
next
  assume n: "\<nexists>a b. b \<noteq> [] \<and> s = a @ CHR '':'' # b"
  show "is_exn (mi_parse s)"
  proof (rule ccontr)
    assume "\<not> is_exn (mi_parse s)"
    then obtain m where "mi_parse s = Inr m" by (auto simp: is_exn_def split: sum.splits)
    from mi_str_parse [OF this] n show False by (auto simp: mi_str_def)
  qed
qed

section \<open>Principals, spans, tenants\<close>

record principal =
  p_tenant_id :: string
  p_api_key_id :: string
  p_tenant_status :: string
  p_scopes :: "string set"
  p_rate_limit_per_minute :: "int option"

definition has_scope :: "principal \<Rightarrow> string \<Rightarrow> bool" where
  "has_scope p required = (if ''*'' \<in> p_scopes p then True else required \<in> p_scopes p)"

text \<open>The metadata values the gateway stores in a span.\<close>

datatype meta = MStr string | MFloat real

record trace_span =
  sp_trace_id :: string
  sp_span_id :: string
  sp_span_name :: string
  sp_started_at :: datetime
  sp_parent_span_id :: "string option"
  sp_ended_at :: "datetime option"
  sp_metadata :: "(string \<times> meta) list"

text \<open>\<open>(ended_at - started_at).total_seconds() * 1000\<close>, two float operations.\<close>

definition duration_ms :: "(real \<Rightarrow> real) \<Rightarrow> trace_span \<Rightarrow> real option" where
  "duration_ms rnd s = (case sp_ended_at s of None \<Rightarrow> None
     | Some e \<Rightarrow> Some (rnd (rnd (of_int (e - sp_started_at s) / 1000000) * 1000)))"

end
