(* ===== verification/Services.thy ===== *)
theory Services
  imports Domain
begin

text \<open>
  What the gateway calls and this development does not define: the asyncio runtime and its clocks,
  Redis, Qdrant, the embedding model, and the JSON codecs of pydantic and orjson.  Each is a record of
  operations over an environment state \<open>'w\<close> that stands for everything outside the gateway's own
  variables.  An operation that can fail returns \<open>exn + 'a\<close>.  Nothing is assumed about these
  operations; a theorem that needs a documented behaviour names it as a hypothesis.

  A coroutine handed to \<open>asyncio.create_task\<close> is a value of \<open>task\<close>, given to the runtime's
  \<open>rt_spawn\<close>.  What a task does when the loop runs it is defined by the component that owns it.
\<close>

datatype task =
    ExactCacheSet chat_request chat_response string
  | ScheduleBackfill chat_request chat_response string
  | CacheBackfill chat_request chat_response string
  | RecordHit string
  | TouchLastUsed string
  | FlushTrace chat_request chat_response string int "string option" string "trace_span list"
  | RunTraceFlush chat_request chat_response string int "string option" string "trace_span list"
  | PersistTrace chat_request chat_response string int "string option" string "trace_span list"
  | ExportTrace string "trace_span list"

record 'w runtime =
  rt_monotonic :: "'w \<Rightarrow> real \<times> 'w"
  rt_time :: "'w \<Rightarrow> real \<times> 'w"
  rt_utcnow :: "'w \<Rightarrow> datetime \<times> 'w"
  rt_sleep :: "real \<Rightarrow> 'w \<Rightarrow> 'w"
  rt_expired :: "real \<Rightarrow> 'w \<Rightarrow> 'w option"
  rt_spawn :: "task \<Rightarrow> 'w \<Rightarrow> 'w"
  rt_uuid4 :: "'w \<Rightarrow> string \<times> 'w"
  rt_uniform :: "real \<Rightarrow> real \<Rightarrow> 'w \<Rightarrow> real \<times> 'w"

text \<open>
  \<open>asyncio.wait_for(call, timeout)\<close>: \<open>rt_expired timeout w\<close> is \<open>Some w'\<close> when the call started
  in \<open>w\<close> would still be running after \<open>timeout\<close> seconds; it is then cancelled, leaving the
  environment \<open>w'\<close>, and \<open>TimeoutError\<close> is raised.
\<close>

definition wait_for ::
  "'w runtime \<Rightarrow> real \<Rightarrow> ('w \<Rightarrow> (exn + 'a) \<times> 'w) \<Rightarrow> 'w \<Rightarrow> (exn + 'a) \<times> 'w" where
  "wait_for rt timeout call w =
     (case rt_expired rt timeout w of Some w' \<Rightarrow> (Inl TimeoutError, w') | None \<Rightarrow> call w)"

record 'w redis =
  redis_get :: "string \<Rightarrow> 'w \<Rightarrow> (exn + string option) \<times> 'w"
  redis_set :: "string \<Rightarrow> string \<Rightarrow> int \<Rightarrow> 'w \<Rightarrow> (exn + unit) \<times> 'w"
  redis_set_nx :: "string \<Rightarrow> string \<Rightarrow> int \<Rightarrow> 'w \<Rightarrow> (exn + bool) \<times> 'w"
  redis_delete :: "string \<Rightarrow> 'w \<Rightarrow> (exn + unit) \<times> 'w"

text \<open>
  Redis as a store of live keys: \<open>view w\<close> maps each key that has not expired to its value.
  \<open>redis_store\<close> says that reads return what the view holds and change no key, that a write or
  a deletion that succeeds has exactly its effect, and that one that fails has none.
\<close>

definition redis_store :: "'w redis \<Rightarrow> ('w \<Rightarrow> string \<Rightarrow> string option) \<Rightarrow> bool" where
  "redis_store R view \<longleftrightarrow>
     (\<forall>k w. view (snd (redis_get R k w)) = view w
        \<and> (\<forall>x. fst (redis_get R k w) = Inr x \<longrightarrow> x = view w k))
   \<and> (\<forall>k v ex w. view (snd (redis_set R k v ex w)) =
        (if is_val (fst (redis_set R k v ex w)) then (view w)(k \<mapsto> v) else view w))
   \<and> (\<forall>k v ex w. view (snd (redis_set_nx R k v ex w)) =
        (if fst (redis_set_nx R k v ex w) = Inr True then (view w)(k \<mapsto> v) else view w)
        \<and> (\<forall>b. fst (redis_set_nx R k v ex w) = Inr b \<longrightarrow> b = (view w k = None)))
   \<and> (\<forall>k w. view (snd (redis_delete R k w)) =
        (if is_val (fst (redis_delete R k w)) then (view w)(k := None) else view w))"

text \<open>A Redis that never fails, over a map: used to show that hypotheses can hold.\<close>

definition map_redis :: "(string \<Rightarrow> string option) redis" where
  "map_redis = \<lparr>redis_get = (\<lambda>k w. (Inr (w k), w)),
     redis_set = (\<lambda>k v ex w. (Inr (), w(k \<mapsto> v))),
     redis_set_nx = (\<lambda>k v ex w. if w k = None then (Inr True, w(k \<mapsto> v)) else (Inr False, w)),
     redis_delete = (\<lambda>k w. (Inr (), w(k := None)))\<rparr>"

lemma map_redis_store: "redis_store map_redis (\<lambda>w. w)"
  by (simp add: redis_store_def map_redis_def)

lemma redis_storeD:
  assumes "redis_store R view"
  shows redis_get_view: "redis_get R k w = (r, w') \<Longrightarrow> view w' = view w"
    and redis_get_value: "redis_get R k w = (Inr x, w') \<Longrightarrow> x = view w k"
    and redis_set_view: "redis_set R k v ex w = (Inr u, w') \<Longrightarrow> view w' = (view w)(k \<mapsto> v)"
    and redis_set_failed: "redis_set R k v ex w = (Inl e, w') \<Longrightarrow> view w' = view w"
    and redis_delete_view: "redis_delete R k w = (Inr u, w') \<Longrightarrow> view w' = (view w)(k := None)"
    and redis_delete_failed: "redis_delete R k w = (Inl e, w') \<Longrightarrow> view w' = view w"
    and redis_nx_won: "redis_set_nx R k v ex w = (Inr True, w') \<Longrightarrow>
           view w k = None \<and> view w' = (view w)(k \<mapsto> v)"
    and redis_nx_lost: "redis_set_nx R k v ex w = (Inr False, w') \<Longrightarrow>
           view w k \<noteq> None \<and> view w' = view w"
proof -
  note store = assms [unfolded redis_store_def]
  show "redis_get R k w = (r, w') \<Longrightarrow> view w' = view w"
    and "redis_get R k w = (Inr x, w') \<Longrightarrow> x = view w k"
    using store [THEN conjunct1, rule_format, of k w] by auto
  show "redis_set R k v ex w = (Inr u, w') \<Longrightarrow> view w' = (view w)(k \<mapsto> v)"
    and "redis_set R k v ex w = (Inl e, w') \<Longrightarrow> view w' = view w"
    using store [THEN conjunct2, THEN conjunct1, rule_format, of k v ex w] by auto
  show "redis_set_nx R k v ex w = (Inr True, w') \<Longrightarrow>
           view w k = None \<and> view w' = (view w)(k \<mapsto> v)"
    and "redis_set_nx R k v ex w = (Inr False, w') \<Longrightarrow> view w k \<noteq> None \<and> view w' = view w"
    using store [THEN conjunct2, THEN conjunct2, THEN conjunct1, rule_format, of k v ex w] by auto
  show "redis_delete R k w = (Inr u, w') \<Longrightarrow> view w' = (view w)(k := None)"
    and "redis_delete R k w = (Inl e, w') \<Longrightarrow> view w' = view w"
    using store [THEN conjunct2, THEN conjunct2, THEN conjunct2, rule_format, of k w] by auto
qed

section \<open>Codecs\<close>

text \<open>
  \<open>model_dump_json\<close> and \<open>model_validate_json\<close> of pydantic; \<open>None\<close> is the \<open>ValueError\<close> of
  data that is not a valid response.  \<open>repr_float\<close> prints floats.
\<close>

record codec =
  dump_response :: "chat_response \<Rightarrow> string"
  load_response :: "string \<Rightarrow> chat_response option"
  repr_float :: "real \<Rightarrow> string"

text \<open>Documented behaviour: validating dumped data gives the model back.\<close>

definition codec_roundtrip :: "codec \<Rightarrow> chat_response \<Rightarrow> bool" where
  "codec_roundtrip L r \<longleftrightarrow> load_response L (dump_response L r) = Some r"

section \<open>Clocks\<close>

text \<open>
  \<open>clk w\<close> is the reading of \<open>time.monotonic\<close> in \<open>w\<close>.  It never runs backwards, and
  \<open>asyncio.sleep(d)\<close> takes at least \<open>d\<close> seconds.
\<close>

definition clock_laws :: "'w runtime \<Rightarrow> ('w \<Rightarrow> real) \<Rightarrow> bool" where
  "clock_laws rt clk \<longleftrightarrow>
     (\<forall>w. fst (rt_monotonic rt w) = clk w \<and> clk w \<le> clk (snd (rt_monotonic rt w)))
   \<and> (\<forall>d w. clk w + max 0 d \<le> clk (rt_sleep rt d w))"

text \<open>A runtime whose state is its clock: nothing else happens in it.\<close>

definition clock_runtime :: "real runtime" where
  "clock_runtime = \<lparr>rt_monotonic = (\<lambda>w. (w, w)), rt_time = (\<lambda>w. (w, w)),
     rt_utcnow = (\<lambda>w. (0, w)), rt_sleep = (\<lambda>d w. w + max 0 d), rt_expired = (\<lambda>t w. None),
     rt_spawn = (\<lambda>t w. w), rt_uuid4 = (\<lambda>w. ([], w)), rt_uniform = (\<lambda>a b w. (a, w))\<rparr>"

lemma clock_runtime_laws: "clock_laws clock_runtime (\<lambda>w. w)"
  by (simp add: clock_laws_def clock_runtime_def)

text \<open>A runtime over any state: every clock reads zero and nothing is spawned.\<close>

definition idle_runtime :: "'w runtime" where
  "idle_runtime = \<lparr>rt_monotonic = (\<lambda>w. (0, w)), rt_time = (\<lambda>w. (0, w)),
     rt_utcnow = (\<lambda>w. (0, w)), rt_sleep = (\<lambda>d w. w), rt_expired = (\<lambda>t w. None),
     rt_spawn = (\<lambda>t w. w), rt_uuid4 = (\<lambda>w. ([], w)), rt_uniform = (\<lambda>a b w. (a, w))\<rparr>"

section \<open>Operations of the environment in a larger state\<close>

text \<open>An object's own variable is the first component of the state, the environment the second.\<close>

definition on_env :: "('w \<Rightarrow> 'a \<times> 'w) \<Rightarrow> 'o \<times> 'w \<Rightarrow> 'a \<times> ('o \<times> 'w)" where
  "on_env f = (\<lambda>(own, w). let (x, w') = f w in (x, (own, w')))"

lemma on_env_simp [simp]: "on_env f (b, w) = (fst (f w), (b, snd (f w)))"
  by (simp add: on_env_def split: prod.split)

definition redis_on_env :: "'w redis \<Rightarrow> ('o \<times> 'w) redis" where
  "redis_on_env R = \<lparr>redis_get = (\<lambda>k. on_env (redis_get R k)),
     redis_set = (\<lambda>k v ex. on_env (redis_set R k v ex)),
     redis_set_nx = (\<lambda>k v ex. on_env (redis_set_nx R k v ex)),
     redis_delete = (\<lambda>k. on_env (redis_delete R k))\<rparr>"

definition runtime_on_env :: "'w runtime \<Rightarrow> ('o \<times> 'w) runtime" where
  "runtime_on_env rt = \<lparr>rt_monotonic = on_env (rt_monotonic rt), rt_time = on_env (rt_time rt),
     rt_utcnow = on_env (rt_utcnow rt), rt_sleep = (\<lambda>d (b, w). (b, rt_sleep rt d w)),
     rt_expired = (\<lambda>t (b, w). map_option (Pair b) (rt_expired rt t w)),
     rt_spawn = (\<lambda>k (b, w). (b, rt_spawn rt k w)), rt_uuid4 = on_env (rt_uuid4 rt),
     rt_uniform = (\<lambda>x y. on_env (rt_uniform rt x y))\<rparr>"

lemma on_env_pair: "on_env f s = (x, s') \<longleftrightarrow> f (snd s) = (x, snd s') \<and> fst s' = fst s"
  by (cases s; cases s'; cases "f (snd s)") auto

definition stream_on_env :: "('w \<Rightarrow> 'c \<times> 'a \<times> 'w) \<Rightarrow> 'o \<times> 'w \<Rightarrow> 'c \<times> 'a \<times> ('o \<times> 'w)" where
  "stream_on_env f = (\<lambda>(own, w). let (cs, x, w') = f w in (cs, x, (own, w')))"

lemma stream_on_env_simp [simp]:
  "stream_on_env f (b, w) = (fst (f w), fst (snd (f w)), (b, snd (snd (f w))))"
  by (simp add: stream_on_env_def split: prod.split)

end
