(* ===== verification/Persistence.thy ===== *)
theory Persistence
  imports Services "HOL-Library.Char_ord" "HOL-Library.List_Lexorder" "HOL-Library.Product_Lexorder"
begin

text \<open>
  The Postgres tables of \<open>persistence/models\<close>, the unit of work of \<open>persistence/database.py\<close> and the
  repositories over the tables.

  A table is the list of its rows in insertion order.  A query with \<open>limit(1)\<close> returns the first row
  that matches, and rows that an ORDER BY leaves tied keep insertion order; the database may choose
  otherwise.  A UUID is its text.  Unique and foreign-key constraints that an insert violates, and texts and numbers that
  their columns cannot hold, are the \<open>DatabaseError\<close> the flush raises.
\<close>

section \<open>Tables\<close>

record tenant_row =
  tn_id :: string
  tn_name :: string
  tn_slug :: string
  tn_budget_monthly_usd :: "real option"
  tn_status :: string
  tn_created_at :: datetime

record api_key_row =
  ak_id :: string
  ak_tenant_id :: string
  ak_key_hash :: string
  ak_name :: string
  ak_scopes :: "string list"
  ak_revoked_at :: "datetime option"
  ak_last_used_at :: "datetime option"
  ak_created_at :: datetime

record pricing_row =
  mp_id :: string
  mp_provider :: string
  mp_model_name :: string
  mp_input_price_per_1k :: real
  mp_output_price_per_1k :: real
  mp_currency :: string
  mp_effective_from :: datetime
  mp_effective_to :: "datetime option"
  mp_created_at :: datetime

record adapter_route_row =
  ar_id :: string
  ar_tenant_id :: string
  ar_model_alias :: string
  ar_base_model :: string
  ar_adapter_id :: string
  ar_stage :: string
  ar_enabled :: bool
  ar_canary_percent :: int
  ar_created_at :: datetime

record request_row =
  rr_id :: string
  rr_trace_id :: string
  rr_tenant_id :: string
  rr_api_key_id :: "string option"
  rr_provider :: string
  rr_model_requested :: string
  rr_model_used :: "string option"
  rr_status :: string
  rr_cache_status :: string
  rr_http_status :: int
  rr_is_stream :: bool
  rr_total_latency_ms :: "real option"
  rr_created_at :: datetime
  rr_completed_at :: "datetime option"

record span_row =
  sr_id :: string
  sr_request_id :: string
  sr_span_name :: string
  sr_parent_span_id :: "string option"
  sr_started_at :: datetime
  sr_ended_at :: "datetime option"
  sr_duration_ms :: "real option"
  sr_metadata :: "(string \<times> meta) list"

record usage_row =
  ur_id :: string
  ur_request_id :: string
  ur_input_tokens :: int
  ur_output_tokens :: int
  ur_total_tokens :: int
  ur_cost_usd :: real
  ur_pricing_id :: "string option"

record tables =
  tb_tenants :: "tenant_row list"
  tb_api_keys :: "api_key_row list"
  tb_pricing :: "pricing_row list"
  tb_adapter_routes :: "adapter_route_row list"
  tb_requests :: "request_row list"
  tb_spans :: "span_row list"
  tb_usage :: "usage_row list"

section \<open>The unit of work (\<open>database.py\<close>)\<close>

text \<open>
  A session reads the committed tables when it opens and works on its own copy, together with the
  environment; a clean exit commits the copy, an exception discards it and is raised again.
\<close>

record 'w database =
  db_open :: "'w \<Rightarrow> (exn + tables) \<times> 'w"
  db_commit :: "tables \<Rightarrow> 'w \<Rightarrow> (exn + unit) \<times> 'w"
  db_runtime :: "'w runtime"

type_synonym ('w, 'a) unit_of_work = "tables \<times> 'w \<Rightarrow> (exn + 'a) \<times> (tables \<times> 'w)"

definition session :: "'w database \<Rightarrow> ('w, 'a) unit_of_work \<Rightarrow> 'w \<Rightarrow> (exn + 'a) \<times> 'w" where
  "session D body w =
     (case db_open D w of
        (Inl e, w1) \<Rightarrow> (Inl e, w1)
      | (Inr t, w1) \<Rightarrow>
          (case body (t, w1) of
             (Inl e, (t', w2)) \<Rightarrow> (Inl e, w2)
           | (Inr v, (t', w2)) \<Rightarrow>
               (case db_commit D t' w2 of
                  (Inl e, w3) \<Rightarrow> (Inl e, w3)
                | (Inr _, w3) \<Rightarrow> (Inr v, w3))))"

text \<open>\<open>view w\<close> are the committed tables: opening reads them, a commit that succeeds replaces them and
  one that fails leaves them.\<close>

definition database_store :: "'w database \<Rightarrow> ('w \<Rightarrow> tables) \<Rightarrow> bool" where
  "database_store D view \<longleftrightarrow>
     (\<forall>w. view (snd (db_open D w)) = view w \<and> (\<forall>t. fst (db_open D w) = Inr t \<longrightarrow> t = view w))
   \<and> (\<forall>t w. view (snd (db_commit D t w)) = (if is_val (fst (db_commit D t w)) then t else view w))"

lemma database_storeD:
  assumes "database_store D view"
  shows db_open_view: "db_open D w = (x, w') \<Longrightarrow> view w' = view w"
    and db_open_value: "db_open D w = (Inr t, w') \<Longrightarrow> t = view w"
    and db_commit_view: "db_commit D t w = (Inr u, w') \<Longrightarrow> view w' = t"
    and db_commit_failed: "db_commit D t w = (Inl e, w') \<Longrightarrow> view w' = view w"
proof -
  note o = assms [unfolded database_store_def, THEN conjunct1, rule_format, of w]
  note c = assms [unfolded database_store_def, THEN conjunct2, rule_format, of t w]
  show "db_open D w = (x, w') \<Longrightarrow> view w' = view w"
    and "db_open D w = (Inr t, w') \<Longrightarrow> t = view w" using o by auto
  show "db_commit D t w = (Inr u, w') \<Longrightarrow> view w' = t"
    and "db_commit D t w = (Inl e, w') \<Longrightarrow> view w' = view w" using c by auto
qed

lemma session_ok:
  assumes "session D body w = (Inr v, w')"
  obtains t wo t' wb u where "db_open D w = (Inr t, wo)" "body (t, wo) = (Inr v, (t', wb))"
    "db_commit D t' wb = (Inr u, w')"
  using assms by (auto simp: session_def split: prod.splits sum.splits)

text \<open>A unit of work is atomic: its effect on the tables is all or nothing.\<close>

lemma session_atomic:
  assumes D: "database_store D view"
    and env: "\<forall>t w. view (snd (snd (body (t, w)))) = view w"
    and s: "session D body w = (x, w')"
  shows "view w' = view w \<or> (\<exists>v w1 t' w2. x = Inr v \<and> body (view w, w1) = (Inr v, (t', w2)) \<and> view w' = t')"
proof -
  obtain opened w1 where o: "db_open D w = (opened, w1)" by fastforce
  have v1: "view w1 = view w" by (rule db_open_view [OF D o])
  show ?thesis
  proof (cases opened)
    case (Inl e)
    with s o v1 show ?thesis by (simp add: session_def)
  next
    case (Inr t)
    with o have t: "t = view w" using db_open_value [OF D] by blast
    obtain y t' w2 where b: "body (t, w1) = (y, (t', w2))" by (metis surj_pair)
    have v2: "view w2 = view w" using env [rule_format, of t w1] b v1 by simp
    show ?thesis
    proof (cases y)
      case (Inl e)
      with s o Inr b v2 show ?thesis by (simp add: session_def)
    next
      fix v assume y: "y = Inr v"
      obtain c w3 where c: "db_commit D t' w2 = (c, w3)" by fastforce
      show ?thesis
      proof (cases c)
        fix e assume "c = Inl e"
        with s o Inr b y c v2 db_commit_failed [OF D, of t' w2 e w3] show ?thesis
          by (simp add: session_def)
      next
        fix u assume "c = Inr u"
        with s o Inr b y c db_commit_view [OF D, of t' w2 u w3] t show ?thesis
          by (auto simp: session_def)
      qed
    qed
  qed
qed

text \<open>A database whose state is its tables and that never fails, with a clock and UUIDs that count.\<close>

record mem =
  mem_tables :: tables
  mem_clock :: int
  mem_cache :: "string \<Rightarrow> string option"
  mem_tasks :: "task list"

definition mem_runtime :: "mem runtime" where
  "mem_runtime = \<lparr>rt_monotonic = (\<lambda>w. (of_int (mem_clock w), w)), rt_time = (\<lambda>w. (of_int (mem_clock w), w)),
     rt_utcnow = (\<lambda>w. (mem_clock w, w\<lparr>mem_clock := mem_clock w + 1\<rparr>)), rt_sleep = (\<lambda>d w. w),
     rt_expired = (\<lambda>t w. None), rt_spawn = (\<lambda>k w. w\<lparr>mem_tasks := mem_tasks w @ [k]\<rparr>),
     rt_uuid4 = (\<lambda>w. (show_int (mem_clock w), w\<lparr>mem_clock := mem_clock w + 1\<rparr>)),
     rt_uniform = (\<lambda>a b w. (a, w))\<rparr>"

definition mem_database :: "mem database" where
  "mem_database = \<lparr>db_open = (\<lambda>w. (Inr (mem_tables w), w)),
     db_commit = (\<lambda>t w. (Inr (), w\<lparr>mem_tables := t\<rparr>)), db_runtime = mem_runtime\<rparr>"

definition mem_redis :: "mem redis" where
  "mem_redis = \<lparr>redis_get = (\<lambda>k w. (Inr (mem_cache w k), w)),
     redis_set = (\<lambda>k v ex w. (Inr (), w\<lparr>mem_cache := (mem_cache w)(k \<mapsto> v)\<rparr>)),
     redis_set_nx = (\<lambda>k v ex w. if mem_cache w k = None
        then (Inr True, w\<lparr>mem_cache := (mem_cache w)(k \<mapsto> v)\<rparr>) else (Inr False, w)),
     redis_delete = (\<lambda>k w. (Inr (), w\<lparr>mem_cache := (mem_cache w)(k := None)\<rparr>))\<rparr>"

lemma mem_database_store: "database_store mem_database mem_tables"
  by (simp add: database_store_def mem_database_def)

lemma mem_redis_store: "redis_store mem_redis mem_cache"
  by (simp add: redis_store_def mem_redis_def)

section \<open>Repositories\<close>

definition db_now :: "'w database \<Rightarrow> ('w, datetime) unit_of_work" where
  "db_now D = (\<lambda>(t, w). let (now, w1) = rt_utcnow (db_runtime D) w in (Inr now, (t, w1)))"

text \<open>
  A text longer than its column (\<open>String(n)\<close> in the models) is refused by Postgres before any other constraint is looked at;
  each text comes with the length of its column.
\<close>

definition too_long :: "(nat \<times> string) list \<Rightarrow> bool" where
  "too_long texts = list_ex (\<lambda>(n, text). n < length text) texts"

lemma too_long_simps [simp]:
  "\<not> too_long []" "too_long ((n, text) # texts) \<longleftrightarrow> n < length text \<or> too_long texts"
  by (simp_all add: too_long_def)

subsection \<open>Tenants\<close>

definition tenant_list_all :: "tables \<Rightarrow> tenant_row list" where
  "tenant_list_all t = sort_key tn_created_at (tb_tenants t)"

definition tenant_get_by_id :: "tables \<Rightarrow> string \<Rightarrow> tenant_row option" where
  "tenant_get_by_id t tenant_id = find (\<lambda>r. tn_id r = tenant_id) (tb_tenants t)"

definition tenant_create ::
  "'w database \<Rightarrow> string \<Rightarrow> string \<Rightarrow> string \<Rightarrow> ('w, tenant_row) unit_of_work" where
  "tenant_create D name slug status = (\<lambda>(t, w).
     let (uid, w1) = rt_uuid4 (db_runtime D) w; (now, w2) = rt_utcnow (db_runtime D) w1;
         row = \<lparr>tn_id = uid, tn_name = name, tn_slug = slug, tn_budget_monthly_usd = None,
                tn_status = status, tn_created_at = now\<rparr>
     in if too_long [(255, name), (255, slug), (32, status)] then (Inl (DatabaseError ''value too long''), (t, w2))
        else if \<exists>r\<in>set (tb_tenants t). tn_id r = uid \<or> tn_slug r = slug then (Inl (DatabaseError ''unique''), (t, w2))
        else (Inr row, (t\<lparr>tb_tenants := tb_tenants t @ [row]\<rparr>, w2)))"

subsection \<open>API keys\<close>

record api_key_record =
  kr_id :: string
  kr_tenant_id :: string
  kr_scopes :: "string list"
  kr_tenant_status :: string
  kr_revoked_at :: "datetime option"

definition get_active_by_key_hash :: "tables \<Rightarrow> string \<Rightarrow> api_key_record option" where
  "get_active_by_key_hash t key_hash =
     (case [(k, n). k \<leftarrow> tb_api_keys t, n \<leftarrow> tb_tenants t,
              ak_tenant_id k = tn_id n \<and> ak_key_hash k = key_hash \<and> ak_revoked_at k = None] of
        [] \<Rightarrow> None
      | (k, n) # _ \<Rightarrow> Some \<lparr>kr_id = ak_id k, kr_tenant_id = ak_tenant_id k, kr_scopes = ak_scopes k,
          kr_tenant_status = tn_status n, kr_revoked_at = ak_revoked_at k\<rparr>)"

definition touch_last_used :: "'w database \<Rightarrow> string \<Rightarrow> ('w, unit) unit_of_work" where
  "touch_last_used D api_key_id = (\<lambda>(t, w).
     let (now, w1) = rt_utcnow (db_runtime D) w
     in (Inr (), (t\<lparr>tb_api_keys := map (\<lambda>k. if ak_id k = api_key_id then k\<lparr>ak_last_used_at := Some now\<rparr> else k)
                                 (tb_api_keys t)\<rparr>, w1)))"

definition api_key_create ::
  "'w database \<Rightarrow> string \<Rightarrow> string \<Rightarrow> string \<Rightarrow> string list \<Rightarrow> ('w, api_key_row) unit_of_work" where
  "api_key_create D tenant_id key_hash name scopes = (\<lambda>(t, w).
     let (uid, w1) = rt_uuid4 (db_runtime D) w; (now, w2) = rt_utcnow (db_runtime D) w1;
         row = \<lparr>ak_id = uid, ak_tenant_id = tenant_id, ak_key_hash = key_hash, ak_name = name,
                ak_scopes = scopes, ak_revoked_at = None, ak_last_used_at = None, ak_created_at = now\<rparr>
     in if too_long [(128, key_hash), (255, name)] then (Inl (DatabaseError ''value too long''), (t, w2))
        else if \<exists>k\<in>set (tb_api_keys t). ak_id k = uid \<or> ak_key_hash k = key_hash
        then (Inl (DatabaseError ''unique''), (t, w2))
        else if \<forall>n\<in>set (tb_tenants t). tn_id n \<noteq> tenant_id
        then (Inl (DatabaseError ''foreign key''), (t, w2))
        else (Inr row, (t\<lparr>tb_api_keys := tb_api_keys t @ [row]\<rparr>, w2)))"

definition api_key_list_by_tenant :: "tables \<Rightarrow> string \<Rightarrow> api_key_row list" where
  "api_key_list_by_tenant t tenant_id =
     sort_key (\<lambda>k. - ak_created_at k) (filter (\<lambda>k. ak_tenant_id k = tenant_id) (tb_api_keys t))"

definition api_key_get_by_id :: "tables \<Rightarrow> string \<Rightarrow> api_key_row option" where
  "api_key_get_by_id t api_key_id = find (\<lambda>k. ak_id k = api_key_id) (tb_api_keys t)"

definition api_key_revoke :: "'w database \<Rightarrow> string \<Rightarrow> ('w, bool) unit_of_work" where
  "api_key_revoke D api_key_id = (\<lambda>(t, w).
     case api_key_get_by_id t api_key_id of
       None \<Rightarrow> (Inr False, (t, w))
     | Some k \<Rightarrow>
         if ak_revoked_at k \<noteq> None then (Inr False, (t, w))
         else let (now, w1) = rt_utcnow (db_runtime D) w
              in (Inr True, (t\<lparr>tb_api_keys := map (\<lambda>k. if ak_id k = api_key_id
                    then k\<lparr>ak_revoked_at := Some now\<rparr> else k) (tb_api_keys t)\<rparr>, w1)))"

subsection \<open>Pricing\<close>

definition price_covers :: "datetime \<Rightarrow> pricing_row \<Rightarrow> bool" where
  "price_covers moment r \<longleftrightarrow> mp_effective_from r \<le> moment \<and>
     (case mp_effective_to r of None \<Rightarrow> True | Some e \<Rightarrow> moment < e)"

definition get_active_price :: "tables \<Rightarrow> string \<Rightarrow> string \<Rightarrow> datetime \<Rightarrow> pricing_row option" where
  "get_active_price t provider model moment =
     (case sort_key (\<lambda>r. - mp_effective_from r)
             (filter (\<lambda>r. mp_provider r = provider \<and> mp_model_name r = model \<and> price_covers moment r) (tb_pricing t)) of
        [] \<Rightarrow> None | r # _ \<Rightarrow> Some r)"

definition pricing_list_active :: "tables \<Rightarrow> datetime \<Rightarrow> pricing_row list" where
  "pricing_list_active t moment =
     sort_key (\<lambda>r. (mp_provider r, mp_model_name r, - mp_effective_from r)) (filter (price_covers moment) (tb_pricing t))"

text \<open>A \<open>Numeric(12, 6)\<close> column keeps six decimals, rounding half away from zero, and refuses what then has more than six
  digits before the point.  The row object keeps the number it was made with.\<close>

definition numeric_12_6 :: "real \<Rightarrow> real" where
  "numeric_12_6 x = sgn x * of_int \<lfloor>\<bar>x\<bar> * 1000000 + 1/2\<rfloor> / 1000000"

definition numeric_overflow :: "real \<Rightarrow> bool" where
  "numeric_overflow x \<longleftrightarrow> 1000000 \<le> \<bar>numeric_12_6 x\<bar>"

definition pricing_create ::
  "'w database \<Rightarrow> string \<Rightarrow> string \<Rightarrow> real \<Rightarrow> real \<Rightarrow> string \<Rightarrow> datetime \<Rightarrow> datetime option \<Rightarrow>
     ('w, pricing_row) unit_of_work" where
  "pricing_create D provider model_name input_price output_price currency effective_from effective_to = (\<lambda>(t, w).
     let (uid, w1) = rt_uuid4 (db_runtime D) w; (now, w2) = rt_utcnow (db_runtime D) w1;
         row = \<lparr>mp_id = uid, mp_provider = provider, mp_model_name = model_name,
                mp_input_price_per_1k = input_price, mp_output_price_per_1k = output_price,
                mp_currency = currency, mp_effective_from = effective_from, mp_effective_to = effective_to,
                mp_created_at = now\<rparr>
     in if too_long [(64, provider), (128, model_name), (8, currency)] then (Inl (DatabaseError ''value too long''), (t, w2))
        else if numeric_overflow input_price \<or> numeric_overflow output_price
        then (Inl (DatabaseError ''numeric field overflow''), (t, w2))
        else if \<exists>r\<in>set (tb_pricing t). mp_id r = uid then (Inl (DatabaseError ''unique''), (t, w2))
        else (Inr row, (t\<lparr>tb_pricing := tb_pricing t @ [row\<lparr>mp_input_price_per_1k := numeric_12_6 input_price,
                                                       mp_output_price_per_1k := numeric_12_6 output_price\<rparr>]\<rparr>, w2)))"

text \<open>A price of less than half a unit of the last decimal is stored as zero, though the endpoint demands a positive one.\<close>

lemma tiny_price_stored_as_zero:
  assumes "0 < x" "x < 5 / 10000000"
  shows "numeric_12_6 x = 0"
proof -
  have "\<lfloor>\<bar>x\<bar> * 1000000 + 1/2\<rfloor> = 0" using assms by (simp add: floor_eq_iff)
  then show ?thesis by (simp add: numeric_12_6_def)
qed

text \<open>The active price is a covering row of the model, and no covering row started later.\<close>

lemma get_active_price_Some:
  assumes "get_active_price t provider model moment = Some r"
  shows "r \<in> set (tb_pricing t) \<and> mp_provider r = provider \<and> mp_model_name r = model \<and> price_covers moment r
    \<and> (\<forall>q\<in>set (tb_pricing t). mp_provider q = provider \<and> mp_model_name q = model \<and> price_covers moment q \<longrightarrow>
         mp_effective_from q \<le> mp_effective_from r)"
proof -
  let ?f = "filter (\<lambda>r. mp_provider r = provider \<and> mp_model_name r = model \<and> price_covers moment r) (tb_pricing t)"
  let ?s = "sort_key (\<lambda>r. - mp_effective_from r) ?f"
  obtain rs where s: "?s = r # rs"
    using assms unfolding get_active_price_def by (cases ?s) simp_all
  have eq: "set (r # rs) = set ?f" unfolding s [symmetric] by (rule set_sort)
  then have r: "r \<in> set ?f" by (metis list.set_intros(1))
  have "sorted (map (\<lambda>r. - mp_effective_from r) (r # rs))"
    unfolding s [symmetric] by (rule sorted_sort_key)
  then have "\<forall>q\<in>set (r # rs). mp_effective_from q \<le> mp_effective_from r"
    unfolding list.map sorted_simps by simp
  then have "\<forall>q\<in>set ?f. mp_effective_from q \<le> mp_effective_from r" by (simp only: eq)
  with r show ?thesis by simp
qed

lemma get_active_price_None:
  "get_active_price t provider model moment = None \<longleftrightarrow>
     (\<forall>q\<in>set (tb_pricing t). \<not> (mp_provider q = provider \<and> mp_model_name q = model \<and> price_covers moment q))"
proof -
  let ?f = "filter (\<lambda>r. mp_provider r = provider \<and> mp_model_name r = model \<and> price_covers moment r) (tb_pricing t)"
  let ?s = "sort_key (\<lambda>r. - mp_effective_from r) ?f"
  have "get_active_price t provider model moment = None \<longleftrightarrow> ?s = []"
    unfolding get_active_price_def by (cases ?s) simp_all
  also have "\<dots> \<longleftrightarrow> set ?s = {}" by (rule set_empty [symmetric])
  also have "\<dots> \<longleftrightarrow> set ?f = {}" unfolding set_sort ..
  finally show ?thesis by auto
qed

subsection \<open>Requests, spans and token usage\<close>

text \<open>\<open>scalar_one_or_none\<close> raises when more than one row matches.\<close>

definition get_by_trace_id :: "tables \<Rightarrow> string \<Rightarrow> exn + request_row option" where
  "get_by_trace_id t trace_id = (case filter (\<lambda>r. rr_trace_id r = trace_id) (tb_requests t) of
     [] \<Rightarrow> Inr None | [r] \<Rightarrow> Inr (Some r) | _ \<Rightarrow> Inl (DatabaseError ''multiple results''))"

definition request_texts :: "request_row \<Rightarrow> (nat \<times> string) list" where
  "request_texts r = [(64, rr_trace_id r), (64, rr_provider r), (128, rr_model_requested r), (32, rr_status r),
     (32, rr_cache_status r)] @ (case rr_model_used r of None \<Rightarrow> [] | Some m \<Rightarrow> [(128, m)])"

definition request_create :: "'w database \<Rightarrow> request_row \<Rightarrow> ('w, request_row) unit_of_work" where
  "request_create D fields0 = (\<lambda>(t, w).
     let (uid, w1) = rt_uuid4 (db_runtime D) w; (now, w2) = rt_utcnow (db_runtime D) w1;
         row = fields0\<lparr>rr_id := uid, rr_created_at := now\<rparr>
     in if too_long (request_texts row) then (Inl (DatabaseError ''value too long''), (t, w2))
        else if (\<forall>n\<in>set (tb_tenants t). tn_id n \<noteq> rr_tenant_id row)
           \<or> (case rr_api_key_id row of None \<Rightarrow> False | Some k \<Rightarrow> \<forall>a\<in>set (tb_api_keys t). ak_id a \<noteq> k)
        then (Inl (DatabaseError ''foreign key''), (t, w2))
        else (Inr row, (t\<lparr>tb_requests := tb_requests t @ [row]\<rparr>, w2)))"

fun span_rows :: "(real \<Rightarrow> real) \<Rightarrow> 'w runtime \<Rightarrow> string \<Rightarrow> trace_span list \<Rightarrow> 'w \<Rightarrow> span_row list \<times> 'w" where
  "span_rows rnd rt request_id [] w = ([], w)"
| "span_rows rnd rt request_id (s # ss) w =
     (let (uid, w1) = rt_uuid4 rt w; (rows, w2) = span_rows rnd rt request_id ss w1
      in (\<lparr>sr_id = uid, sr_request_id = request_id, sr_span_name = sp_span_name s,
           sr_parent_span_id = sp_parent_span_id s, sr_started_at = sp_started_at s,
           sr_ended_at = sp_ended_at s, sr_duration_ms = duration_ms rnd s, sr_metadata = sp_metadata s\<rparr> # rows, w2))"

definition span_bulk_create ::
  "(real \<Rightarrow> real) \<Rightarrow> 'w database \<Rightarrow> string \<Rightarrow> trace_span list \<Rightarrow> ('w, unit) unit_of_work" where
  "span_bulk_create rnd D request_id spans = (\<lambda>(t, w).
     if spans = [] then (Inr (), (t, w))
     else let (rows, w1) = span_rows rnd (db_runtime D) request_id spans w
          in (Inr (), (t\<lparr>tb_spans := tb_spans t @ rows\<rparr>, w1)))"

text \<open>\<open>Decimal(str(cost_usd))\<close> into a \<open>Numeric(12, 6)\<close> column; \<open>to_numeric\<close> is the database's rounding
  to six decimal places.\<close>

definition usage_create ::
  "(real \<Rightarrow> real) \<Rightarrow> 'w database \<Rightarrow> string \<Rightarrow> token_usage \<Rightarrow> real \<Rightarrow> ('w, usage_row) unit_of_work" where
  "usage_create to_numeric D request_id usage cost_usd = (\<lambda>(t, w).
     let (uid, w1) = rt_uuid4 (db_runtime D) w;
         row = \<lparr>ur_id = uid, ur_request_id = request_id, ur_input_tokens = input_tokens usage,
                ur_output_tokens = output_tokens usage, ur_total_tokens = total_tokens usage,
                ur_cost_usd = to_numeric cost_usd, ur_pricing_id = None\<rparr>
     in (Inr row, (t\<lparr>tb_usage := tb_usage t @ [row]\<rparr>, w1)))"

section \<open>A quiet runtime\<close>

text \<open>Clock and UUIDs do not touch the tables.\<close>

definition quiet_runtime :: "'w runtime \<Rightarrow> ('w \<Rightarrow> 'v) \<Rightarrow> bool" where
  "quiet_runtime rt view \<longleftrightarrow>
     (\<forall>w. view (snd (rt_uuid4 rt w)) = view w \<and> view (snd (rt_utcnow rt w)) = view w)"

lemma quiet_runtimeD:
  assumes "quiet_runtime rt view"
  shows "rt_uuid4 rt w = (x, w') \<Longrightarrow> view w' = view w" "rt_utcnow rt w = (y, w') \<Longrightarrow> view w' = view w"
  using assms by (metis quiet_runtime_def snd_conv)+

lemma mem_quiet_runtime: "quiet_runtime (db_runtime mem_database) mem_tables"
  by (simp add: quiet_runtime_def mem_database_def mem_runtime_def)

end
