(* ===== verification/Auth.thy ===== *)
theory Auth
  imports Persistence Settings
begin

text \<open>
  Authentication: key hashing (\<open>security/api_keys.py\<close>) and the service with its Redis cache of principals
  (\<open>services/auth_service.py\<close>).  The middleware that calls it is in the theory Middleware.
\<close>

section \<open>Keys (\<open>security/api_keys.py\<close>)\<close>

definition api_key_prefix :: string where
  "api_key_prefix = ''llmops_''"

definition hash_api_key :: "string \<Rightarrow> string \<Rightarrow> string" where
  "hash_api_key pepper raw_key = sha256_hex (pepper @ raw_key)"

definition verify_api_key :: "string \<Rightarrow> string \<Rightarrow> string \<Rightarrow> bool" where
  "verify_api_key pepper raw_key stored_hash = (hash_api_key pepper raw_key = stored_hash)"

text \<open>\<open>token\<close> is what \<open>secrets.token_urlsafe(32)\<close> drew.\<close>

definition generate_api_key :: "string \<Rightarrow> string \<Rightarrow> string \<times> string" where
  "generate_api_key pepper token =
     (let raw_key = api_key_prefix @ token in (raw_key, hash_api_key pepper raw_key))"

definition is_valid_api_key_format :: "string \<Rightarrow> bool" where
  "is_valid_api_key_format raw_key \<longleftrightarrow>
     startswith raw_key api_key_prefix \<and> length raw_key > length api_key_prefix"

section \<open>The service\<close>

text \<open>
  \<open>orjson\<close> encodes and decodes the cached principal; \<open>None\<close> is a payload that cannot be decoded or
  lacks a field.
\<close>

record 'w auth_service =
  au_database :: "'w database"
  au_redis :: "'w redis"
  au_runtime :: "'w runtime"
  au_dumps :: "principal \<Rightarrow> string"
  au_loads :: "string \<Rightarrow> principal option"
  au_pepper :: string
  au_cache_ttl_seconds :: real

definition auth_cache_key :: "string \<Rightarrow> string" where
  "auth_cache_key key_hash = ''auth:v1:'' @ key_hash"

definition auth_get_cached :: "'w auth_service \<Rightarrow> string \<Rightarrow> 'w \<Rightarrow> (exn + principal option) \<times> 'w" where
  "auth_get_cached S key_hash w =
     (case redis_get (au_redis S) (auth_cache_key key_hash) w of
        (Inl e, w1) \<Rightarrow> (Inr None, w1)
      | (Inr None, w1) \<Rightarrow> (Inr None, w1)
      | (Inr (Some payload), w1) \<Rightarrow>
          (case au_loads S payload of
             Some p \<Rightarrow> (Inr (Some p), w1)
           | None \<Rightarrow>
               (case redis_delete (au_redis S) (auth_cache_key key_hash) w1 of
                  (Inl e, w2) \<Rightarrow> (Inl e, w2)
                | (Inr _, w2) \<Rightarrow> (Inr None, w2))))"

definition auth_set_cached :: "'w auth_service \<Rightarrow> string \<Rightarrow> principal \<Rightarrow> 'w \<Rightarrow> 'w" where
  "auth_set_cached S key_hash p w =
     snd (redis_set (au_redis S) (auth_cache_key key_hash) (au_dumps S p) (py_int (au_cache_ttl_seconds S)) w)"

definition principal_of :: "api_key_record \<Rightarrow> principal" where
  "principal_of k = \<lparr>p_tenant_id = kr_tenant_id k, p_api_key_id = kr_id k,
     p_tenant_status = kr_tenant_status k, p_scopes = set (kr_scopes k), p_rate_limit_per_minute = None\<rparr>"

definition load_from_database :: "'w auth_service \<Rightarrow> string \<Rightarrow> 'w \<Rightarrow> (exn + principal option) \<times> 'w" where
  "load_from_database S key_hash =
     session (au_database S) (\<lambda>(t, w). (Inr (map_option principal_of (get_active_by_key_hash t key_hash)), (t, w)))"

definition authenticate :: "'w auth_service \<Rightarrow> string \<Rightarrow> 'w \<Rightarrow> (exn + principal option) \<times> 'w" where
  "authenticate S raw_key w =
     (if \<not> is_valid_api_key_format raw_key then (Inr None, w)
      else let key_hash = hash_api_key (au_pepper S) raw_key
      in case auth_get_cached S key_hash w of
           (Inl e, w1) \<Rightarrow> (Inl e, w1)
         | (Inr (Some p), w1) \<Rightarrow> (Inr (Some p), w1)
         | (Inr None, w1) \<Rightarrow>
             (case load_from_database S key_hash w1 of
                (Inl e, w2) \<Rightarrow> (Inl e, w2)
              | (Inr None, w2) \<Rightarrow> (Inr None, w2)
              | (Inr (Some p), w2) \<Rightarrow>
                  (let w3 = auth_set_cached S key_hash p w2
                   in (Inr (Some p), rt_spawn (au_runtime S) (TouchLastUsed (p_api_key_id p)) w3))))"

definition create_api_key ::
  "'w auth_service \<Rightarrow> string \<Rightarrow> string \<Rightarrow> string \<Rightarrow> string list \<Rightarrow> 'w \<Rightarrow> (exn + string) \<times> 'w" where
  "create_api_key S tenant_id key_hash name scopes w =
     (case session (au_database S) (api_key_create (au_database S) tenant_id key_hash name scopes) w of
        (Inl e, w1) \<Rightarrow> (Inl e, w1) | (Inr k, w1) \<Rightarrow> (Inr (ak_id k), w1))"

definition invalidate_cache_by_hash :: "'w auth_service \<Rightarrow> string \<Rightarrow> 'w \<Rightarrow> (exn + unit) \<times> 'w" where
  "invalidate_cache_by_hash S key_hash w = redis_delete (au_redis S) (auth_cache_key key_hash) w"

text \<open>The unit of work of \<open>revoke_api_key\<close>: the cache is invalidated before the commit.\<close>

definition revoke_body :: "'w auth_service \<Rightarrow> string \<Rightarrow> ('w, bool) unit_of_work" where
  "revoke_body S api_key_id = (\<lambda>(t, w).
     case api_key_get_by_id t api_key_id of
       None \<Rightarrow> (Inr False, (t, w))
     | Some record \<Rightarrow>
         (case api_key_revoke (au_database S) api_key_id (t, w) of
            (Inl e, s1) \<Rightarrow> (Inl e, s1)
          | (Inr revoked, (t1, w1)) \<Rightarrow>
              if \<not> revoked then (Inr False, (t1, w1))
              else (case invalidate_cache_by_hash S (ak_key_hash record) w1 of
                      (Inl e, w2) \<Rightarrow> (Inl e, (t1, w2))
                    | (Inr _, w2) \<Rightarrow> (Inr True, (t1, w2)))))"

definition revoke_api_key :: "'w auth_service \<Rightarrow> string \<Rightarrow> 'w \<Rightarrow> (exn + bool) \<times> 'w" where
  "revoke_api_key S api_key_id = session (au_database S) (revoke_body S api_key_id)"

text \<open>The background task; every exception is swallowed.\<close>

definition touch_last_used_task :: "'w auth_service \<Rightarrow> string \<Rightarrow> 'w \<Rightarrow> 'w" where
  "touch_last_used_task S api_key_id w =
     snd (session (au_database S) (touch_last_used (au_database S) api_key_id) w)"

section \<open>What authentication accepts\<close>

lemma get_active_by_key_hash_Some:
  assumes "get_active_by_key_hash t h = Some r"
  shows "\<exists>k\<in>set (tb_api_keys t). \<exists>n\<in>set (tb_tenants t). ak_key_hash k = h \<and> ak_revoked_at k = None
    \<and> ak_tenant_id k = tn_id n \<and> kr_id r = ak_id k \<and> kr_tenant_id r = ak_tenant_id k
    \<and> kr_scopes r = ak_scopes k \<and> kr_tenant_status r = tn_status n"
proof -
  let ?js = "[(k, n). k \<leftarrow> tb_api_keys t, n \<leftarrow> tb_tenants t,
              ak_tenant_id k = tn_id n \<and> ak_key_hash k = h \<and> ak_revoked_at k = None]"
  obtain k n js where js: "?js = (k, n) # js" and r: "r = \<lparr>kr_id = ak_id k, kr_tenant_id = ak_tenant_id k,
      kr_scopes = ak_scopes k, kr_tenant_status = tn_status n, kr_revoked_at = ak_revoked_at k\<rparr>"
    using assms unfolding get_active_by_key_hash_def by (cases ?js) auto
  have "(k, n) \<in> set ?js" unfolding js by simp
  then have "k \<in> set (tb_api_keys t)" "n \<in> set (tb_tenants t)" "ak_tenant_id k = tn_id n"
      "ak_key_hash k = h" "ak_revoked_at k = None"
    by (auto split: if_splits)
  with r show ?thesis by (intro bexI [of _ k] bexI [of _ n]) simp_all
qed

lemma get_active_by_key_hash_None:
  assumes "\<forall>k\<in>set (tb_api_keys t). ak_key_hash k = h \<longrightarrow> ak_revoked_at k \<noteq> None"
  shows "get_active_by_key_hash t h = None"
  using get_active_by_key_hash_Some [of t h] assms by (cases "get_active_by_key_hash t h") fastforce+

lemma load_from_database_value:
  assumes "database_store (au_database S) view" "load_from_database S h w = (Inr (Some p), w')"
  shows "\<exists>r. get_active_by_key_hash (view w) h = Some r \<and> p = principal_of r"
  using assms db_open_value [OF assms(1)]
  by (auto simp: load_from_database_def session_def split: prod.splits sum.splits)

text \<open>C35. Whom \<open>authenticate\<close> accepts: only a raw key with the prefix and something after it, and only
  with the principal that the Redis entry of its peppered hash decodes to, or with the data of a stored
  key that has this hash and is not revoked, and of the tenant it belongs to.\<close>

theorem authenticate_sound:
  assumes "redis_store (au_redis S) cache" and "database_store (au_database S) tbl"
    and env: "\<And>k w. tbl (snd (redis_get (au_redis S) k w)) = tbl w"
             "\<And>k w. tbl (snd (redis_delete (au_redis S) k w)) = tbl w"
    and acc: "authenticate S raw w = (Inr (Some p), w')"
  shows "(\<exists>rest. rest \<noteq> [] \<and> raw = ''llmops_'' @ rest)
    \<and> ((\<exists>payload. cache w (auth_cache_key (hash_api_key (au_pepper S) raw)) = Some payload \<and> au_loads S payload = Some p)
       \<or> (\<exists>k\<in>set (tb_api_keys (tbl w)). \<exists>n\<in>set (tb_tenants (tbl w)).
            ak_key_hash k = hash_api_key (au_pepper S) raw \<and> ak_revoked_at k = None \<and> tn_id n = ak_tenant_id k
            \<and> p_api_key_id p = ak_id k \<and> p_tenant_id p = tn_id n \<and> p_scopes p = set (ak_scopes k)
            \<and> p_tenant_status p = tn_status n))"
proof
  let ?h = "hash_api_key (au_pepper S) raw"
  from acc have valid: "is_valid_api_key_format raw" by (auto simp: authenticate_def split: if_splits)
  then obtain rest where "raw = api_key_prefix @ rest"
    by (auto simp: is_valid_api_key_format_def elim: startswithE)
  with valid show "\<exists>rest. rest \<noteq> [] \<and> raw = ''llmops_'' @ rest"
    by (auto simp: is_valid_api_key_format_def api_key_prefix_def)
  obtain c w1 where g: "auth_get_cached S ?h w = (c, w1)" by fastforce
  show "(\<exists>payload. cache w (auth_cache_key ?h) = Some payload \<and> au_loads S payload = Some p)
       \<or> (\<exists>k\<in>set (tb_api_keys (tbl w)). \<exists>n\<in>set (tb_tenants (tbl w)).
            ak_key_hash k = ?h \<and> ak_revoked_at k = None \<and> tn_id n = ak_tenant_id k
            \<and> p_api_key_id p = ak_id k \<and> p_tenant_id p = tn_id n \<and> p_scopes p = set (ak_scopes k)
            \<and> p_tenant_status p = tn_status n)"
  proof (cases "c = Inr (Some p)")
    case True
    with g have "\<exists>payload w2. redis_get (au_redis S) (auth_cache_key ?h) w = (Inr (Some payload), w2) \<and> au_loads S payload = Some p"
      by (auto simp: auth_get_cached_def split: prod.splits sum.splits option.splits)
    with redis_get_value [OF assms(1)] show ?thesis by fastforce
  next
    case False
    with acc g valid obtain w2 where c: "c = Inr None" and l: "load_from_database S ?h w1 = (Inr (Some p), w2)"
      by (auto simp: authenticate_def Let_def split: prod.splits sum.splits option.splits)
    have "tbl w1 = tbl w"
      using g env by (auto simp: auth_get_cached_def split: prod.splits sum.splits option.splits) (metis snd_conv)+
    with load_from_database_value [OF assms(2) l] obtain r where
      "get_active_by_key_hash (tbl w) ?h = Some r" "p = principal_of r" by auto
    with get_active_by_key_hash_Some [of "tbl w" ?h r] show ?thesis by (fastforce simp: principal_of_def)
  qed
qed

text \<open>A service over the memory database and cache; its codec reads every payload as one principal.\<close>

definition sample_principal :: principal where
  "sample_principal = \<lparr>p_tenant_id = ''t1'', p_api_key_id = ''k1'', p_tenant_status = ''active'',
     p_scopes = {''chat:write''}, p_rate_limit_per_minute = None\<rparr>"

definition mem_auth :: "mem auth_service" where
  "mem_auth = \<lparr>au_database = mem_database, au_redis = mem_redis, au_runtime = mem_runtime,
     au_dumps = (\<lambda>p. ''{}''), au_loads = (\<lambda>s. Some sample_principal), au_pepper = ''pepper'',
     au_cache_ttl_seconds = 300\<rparr>"

definition mem_state :: "string \<Rightarrow> datetime option \<Rightarrow> mem" where
  "mem_state key_hash revoked = \<lparr>mem_tables = \<lparr>
     tb_tenants = [\<lparr>tn_id = ''t1'', tn_name = ''Acme'', tn_slug = ''acme'', tn_budget_monthly_usd = None,
       tn_status = ''active'', tn_created_at = 0\<rparr>],
     tb_api_keys = [\<lparr>ak_id = ''k1'', ak_tenant_id = ''t1'', ak_key_hash = key_hash, ak_name = ''key'',
       ak_scopes = [''chat:write''], ak_revoked_at = revoked, ak_last_used_at = None, ak_created_at = 0\<rparr>],
     tb_pricing = [], tb_adapter_routes = [], tb_requests = [], tb_spans = [], tb_usage = []\<rparr>,
     mem_clock = 1, mem_cache = Map.empty, mem_tasks = []\<rparr>"

lemma mem_auth_sel [simp]: "au_database mem_auth = mem_database" "au_redis mem_auth = mem_redis"
    "au_pepper mem_auth = ''pepper''"
  by (simp_all add: mem_auth_def)

lemma mem_env [simp]: "mem_tables (snd (redis_get mem_redis k w)) = mem_tables w"
    "mem_tables (snd (redis_delete mem_redis k w)) = mem_tables w"
    "mem_tables (snd (redis_set mem_redis k v ex w)) = mem_tables w"
  by (simp_all add: mem_redis_def)

definition sample_key :: string where
  "sample_key = ''llmops_abc''"

lemma sample_key_valid: "is_valid_api_key_format sample_key"
  by (simp add: is_valid_api_key_format_def sample_key_def api_key_prefix_def startswith_def)

lemma mem_authenticate: "\<exists>w'. authenticate mem_auth sample_key (mem_state (hash_api_key ''pepper'' sample_key) None) = (Inr (Some sample_principal), w')"
proof -
  have "auth_get_cached mem_auth h (mem_state h None) = (Inr None, mem_state h None)" for h
    by (simp add: auth_get_cached_def) (simp add: mem_redis_def mem_state_def)
  moreover have "load_from_database mem_auth h (mem_state h None) = (Inr (Some sample_principal), mem_state h None)" for h
    by (simp add: load_from_database_def session_def)
      (simp add: mem_database_def mem_state_def get_active_by_key_hash_def principal_of_def sample_principal_def)
  ultimately show ?thesis by (simp add: authenticate_def sample_key_valid Let_def)
qed

theorem authenticate_sound_witness:
  "\<exists>rest. rest \<noteq> [] \<and> sample_key = ''llmops_'' @ rest"
proof -
  obtain w' where "authenticate mem_auth sample_key (mem_state (hash_api_key ''pepper'' sample_key) None) = (Inr (Some sample_principal), w')"
    using mem_authenticate by blast
  then show ?thesis
    by (rule authenticate_sound [where cache = mem_cache and tbl = mem_tables, THEN conjunct1, rotated -1])
      (simp_all add: mem_redis_store mem_database_store)
qed

section \<open>Revocation\<close>

lemma revoke_body_True:
  assumes "revoke_body S i (t, w) = (Inr True, (t', w'))"
  shows "\<exists>k now w1 u. api_key_get_by_id t i = Some k \<and> ak_revoked_at k = None
    \<and> t' = t\<lparr>tb_api_keys := map (\<lambda>k. if ak_id k = i then k\<lparr>ak_revoked_at := Some now\<rparr> else k) (tb_api_keys t)\<rparr>
    \<and> rt_utcnow (db_runtime (au_database S)) w = (now, w1)
    \<and> redis_delete (au_redis S) (auth_cache_key (ak_key_hash k)) w1 = (Inr u, w')"
  using assms
  by (auto simp: revoke_body_def api_key_revoke_def invalidate_cache_by_hash_def Let_def
      split: option.splits prod.splits sum.splits if_splits)

lemma revoked_hash_inactive:
  assumes "api_key_get_by_id t i = Some k" "\<forall>a\<in>set (tb_api_keys t). ak_key_hash a = ak_key_hash k \<longrightarrow> ak_id a = i"
  shows "get_active_by_key_hash (t\<lparr>tb_api_keys := map (\<lambda>k. if ak_id k = i then k\<lparr>ak_revoked_at := Some now\<rparr> else k) (tb_api_keys t)\<rparr>)
      (ak_key_hash k) = None"
  by (rule get_active_by_key_hash_None) (use assms in auto)

text \<open>C36. Revocation takes effect at once when nothing interferes: after \<open>revoke_api_key\<close> has returned
  True, the next authentication with a raw key of the revoked hash is refused, cached principal or not
  (the hash is unique in the table, as the schema demands).\<close>

theorem revoked_key_is_refused:
  assumes R: "redis_store (au_redis S) cache" and D: "database_store (au_database S) tbl"
    and indep: "\<And>k w. tbl (snd (redis_get (au_redis S) k w)) = tbl w"
      "\<And>k w. tbl (snd (redis_delete (au_redis S) k w)) = tbl w"
      "\<And>w. cache (snd (db_open (au_database S) w)) = cache w"
      "\<And>t w. cache (snd (db_commit (au_database S) t w)) = cache w"
    and rev: "revoke_api_key S i w = (Inr True, w1)"
    and key: "api_key_get_by_id (tbl w) i = Some k" "hash_api_key (au_pepper S) raw = ak_key_hash k"
    and uniq: "\<forall>a\<in>set (tb_api_keys (tbl w)). ak_key_hash a = ak_key_hash k \<longrightarrow> ak_id a = i"
    and auth: "authenticate S raw w1 = (res, w2)"
  shows "res = Inr None \<or> is_exn res"
proof -
  let ?h = "ak_key_hash k"
  obtain t0 wo t' wb u where
    op: "db_open (au_database S) w = (Inr t0, wo)"
    and b0: "revoke_body S i (t0, wo) = (Inr True, (t', wb))"
    and c: "db_commit (au_database S) t' wb = (Inr u, w1)"
    by (rule session_ok [OF rev [unfolded revoke_api_key_def]])
  have b: "revoke_body S i (tbl w, wo) = (Inr True, (t', wb))"
    using b0 db_open_value [OF D op] by simp
  from revoke_body_True [OF b] key obtain now wn v where
    t': "t' = (tbl w)\<lparr>tb_api_keys := map (\<lambda>k. if ak_id k = i then k\<lparr>ak_revoked_at := Some now\<rparr> else k) (tb_api_keys (tbl w))\<rparr>"
    and del: "redis_delete (au_redis S) (auth_cache_key ?h) wn = (Inr v, wb)" by auto
  have "cache wb (auth_cache_key ?h) = None" using redis_delete_view [OF R del] by simp
  then have nocache: "cache w1 (auth_cache_key ?h) = None"
    using indep(4) [of t' wb] c by simp
  have "tbl w1 = t'" by (rule db_commit_view [OF D c])
  then have inactive: "get_active_by_key_hash (tbl w1) ?h = None"
    using revoked_hash_inactive [OF key(1) uniq] t' by simp
  show ?thesis
  proof (cases "is_valid_api_key_format raw")
    case False
    with auth show ?thesis by (auto simp: authenticate_def)
  next
    case True
    obtain x wg where g: "redis_get (au_redis S) (auth_cache_key ?h) w1 = (x, wg)" by fastforce
    have "tbl wg = tbl w1" using indep(1) [of "auth_cache_key ?h" w1] g by simp
    have "auth_get_cached S ?h w1 = (Inr None, wg)"
      using g redis_get_value [OF R] nocache by (cases x) (fastforce simp: auth_get_cached_def)+
    moreover have "\<not> (\<exists>p w'. load_from_database S ?h wg = (Inr (Some p), w'))"
      using load_from_database_value [OF D, of ?h wg] \<open>tbl wg = tbl w1\<close> inactive by auto
    ultimately show ?thesis
      using auth True key(2)
      by (auto simp: authenticate_def Let_def split: prod.splits sum.splits option.splits)
  qed
qed

lemma mem_revoke:
  "\<exists>w1. revoke_api_key mem_auth ''k1'' (mem_state h None) = (Inr True, w1)"
  by (simp add: revoke_api_key_def session_def mem_database_def mem_state_def revoke_body_def api_key_get_by_id_def
      api_key_revoke_def Let_def invalidate_cache_by_hash_def mem_redis_def split: prod.split)

theorem revoked_key_is_refused_witness:
  "\<exists>w1. revoke_api_key mem_auth ''k1'' (mem_state (hash_api_key ''pepper'' sample_key) None) = (Inr True, w1)
    \<and> (fst (authenticate mem_auth sample_key w1) = Inr None \<or> is_exn (fst (authenticate mem_auth sample_key w1)))"
proof -
  let ?h = "hash_api_key ''pepper'' sample_key"
  obtain w1 where rev: "revoke_api_key mem_auth ''k1'' (mem_state ?h None) = (Inr True, w1)" using mem_revoke by blast
  let ?k = "\<lparr>ak_id = ''k1'', ak_tenant_id = ''t1'', ak_key_hash = ?h, ak_name = ''key'',
       ak_scopes = [''chat:write''], ak_revoked_at = None, ak_last_used_at = None, ak_created_at = 0\<rparr>"
  have "fst (authenticate mem_auth sample_key w1) = Inr None \<or> is_exn (fst (authenticate mem_auth sample_key w1))"
    by (rule revoked_key_is_refused [where S = mem_auth and cache = mem_cache and tbl = mem_tables and k = ?k and raw = sample_key
          and w = "mem_state ?h None" and i = "''k1''" and ?w1.0 = w1 and ?w2.0 = "snd (authenticate mem_auth sample_key w1)"])
      (simp_all add: mem_redis_store mem_database_store rev, simp_all add: mem_state_def mem_database_def api_key_get_by_id_def)
  with rev show ?thesis by blast
qed

text \<open>Another request may come between the invalidation and the commit.  It finds no cached principal and the row not yet
  revoked, so it caches the principal again, and the key stays accepted after the revocation has returned.\<close>

lemma revocation_race:
  assumes R: "redis_store (au_redis S) cache" and D: "database_store (au_database S) tbl"
    and codec: "\<And>p. au_loads S (au_dumps S p) = Some p" and sets: "\<And>k v ex w. is_val (fst (redis_set (au_redis S) k v ex w))"
    and indep: "\<And>w. cache (snd (db_open (au_database S) w)) = cache w"
      "\<And>t w. cache (snd (db_commit (au_database S) t w)) = cache w" "\<And>u w. cache (rt_spawn (au_runtime S) u w) = cache w"
    and body: "revoke_body S i (t, wo) = (Inr True, (t', wb))"
    and key: "api_key_get_by_id t i = Some k" "hash_api_key (au_pepper S) raw = ak_key_hash k"
    and between: "authenticate S raw wb = (Inr (Some p), wc)"
    and commit: "db_commit (au_database S) t' wc = (Inr u, wd)"
    and get: "redis_get (au_redis S) (auth_cache_key (ak_key_hash k)) wd = (Inr payload, we)"
  shows "authenticate S raw wd = (Inr (Some p), we)"
proof -
  let ?h = "ak_key_hash k" and ?key = "auth_cache_key (ak_key_hash k)"
  from revoke_body_True [OF body] key obtain wn v where "redis_delete (au_redis S) ?key wn = (Inr v, wb)" by auto
  then have none: "cache wb ?key = None" using redis_delete_view [OF R] by simp
  have valid: "is_valid_api_key_format raw" using between by (auto simp: authenticate_def split: if_splits)
  obtain x wg where g: "redis_get (au_redis S) ?key wb = (x, wg)" by fastforce
  have "auth_get_cached S ?h wb = (Inr None, wg)"
    using g redis_get_value [OF R] none by (cases x) (fastforce simp: auth_get_cached_def)+
  with between valid key(2) obtain w2 where
    wc: "wc = rt_spawn (au_runtime S) (TouchLastUsed (p_api_key_id p)) (auth_set_cached S ?h p w2)"
    by (auto simp: authenticate_def Let_def split: prod.splits sum.splits option.splits)
  obtain r w3 where s: "redis_set (au_redis S) ?key (au_dumps S p) (py_int (au_cache_ttl_seconds S)) w2 = (Inr r, w3)"
    using sets [of ?key "au_dumps S p" "py_int (au_cache_ttl_seconds S)" w2] by (metis is_valE prod.collapse)
  have "cache wc ?key = Some (au_dumps S p)"
    using redis_set_view [OF R s] by (simp add: wc indep(3) auth_set_cached_def s)
  then have "cache wd ?key = Some (au_dumps S p)" using indep(2) [of t' wc] commit by simp
  then have "payload = Some (au_dumps S p)" using redis_get_value [OF R get] by simp
  then show ?thesis using valid key(2) get codec by (simp add: authenticate_def Let_def auth_get_cached_def)
qed

end
