(* ===== verification/RateLimit.thy ===== *)
theory RateLimit
  imports Services Settings
begin

text \<open>
  \<open>services/rate_limit_service.py\<close>: the per-tenant token bucket in Redis, its optimistic transaction
  with at most five attempts, and the service around it; first the arithmetic of one step, then the
  operations on the store, then the service.

  The hash fields \<open>tokens\<close> and \<open>last_refill_ms\<close> hold decimal strings; Python prints floats and
  integers so that they read back as they were, so the model keeps the numbers.
\<close>

section \<open>One step of the bucket\<close>

text \<open>The stored fields, each of which may be missing.\<close>

type_synonym bucket_fields = "real option \<times> int option"

definition refilled :: "(real \<Rightarrow> real) \<Rightarrow> real \<Rightarrow> real \<Rightarrow> int \<Rightarrow> bucket_fields \<Rightarrow> real" where
  "refilled rnd capacity refill_rate now_ms raw =
     (let tokens = (case fst raw of Some t \<Rightarrow> t | None \<Rightarrow> capacity);
          last_refill_ms = (case snd raw of Some l \<Rightarrow> l | None \<Rightarrow> now_ms);
          elapsed_sec = max 0 (rnd (of_int (now_ms - last_refill_ms) / 1000))
      in min capacity (rnd (tokens + rnd (elapsed_sec * refill_rate))))"

definition bucket_ttl_ms :: "(real \<Rightarrow> real) \<Rightarrow> real \<Rightarrow> real \<Rightarrow> int" where
  "bucket_ttl_ms rnd capacity refill_rate = max (py_int (rnd (rnd (capacity / refill_rate) * 2000))) 1000"

section \<open>The transaction\<close>

record 'w bucket_store =
  bs_watch :: "string \<Rightarrow> 'w \<Rightarrow> (exn + unit) \<times> 'w"
  bs_hmget :: "string \<Rightarrow> 'w \<Rightarrow> (exn + bucket_fields) \<times> 'w"
  bs_unwatch :: "'w \<Rightarrow> (exn + unit) \<times> 'w"
  bs_execute :: "string \<Rightarrow> real \<Rightarrow> int \<Rightarrow> int \<Rightarrow> 'w \<Rightarrow> (exn + unit) \<times> 'w"
  bs_hset :: "string \<Rightarrow> real \<Rightarrow> int \<Rightarrow> 'w \<Rightarrow> (exn + unit) \<times> 'w"
  bs_pexpire :: "string \<Rightarrow> int \<Rightarrow> 'w \<Rightarrow> (exn + unit) \<times> 'w"

text \<open>\<open>bs_execute\<close> is the queued HSET and PEXPIRE between MULTI and EXEC.\<close>

definition persist_bucket ::
  "(real \<Rightarrow> real) \<Rightarrow> 'w bucket_store \<Rightarrow> string \<Rightarrow> real \<Rightarrow> int \<Rightarrow> real \<Rightarrow> real \<Rightarrow> 'w \<Rightarrow> (exn + unit) \<times> 'w" where
  "persist_bucket rnd B key tokens now_ms capacity refill_rate w =
     (case bs_hset B key tokens now_ms w of
        (Inl e, w1) \<Rightarrow> (Inl e, w1)
      | (Inr _, w1) \<Rightarrow> bs_pexpire B key (bucket_ttl_ms rnd capacity refill_rate) w1)"

fun consume_attempts ::
  "(real \<Rightarrow> real) \<Rightarrow> 'w bucket_store \<Rightarrow> nat \<Rightarrow> string \<Rightarrow> real \<Rightarrow> real \<Rightarrow> int \<Rightarrow> real \<Rightarrow> 'w \<Rightarrow>
     (exn + bool \<times> real) \<times> 'w" where
  "consume_attempts rnd B 0 key capacity refill_rate now_ms cost w = (Inr (False, rnd (1 / refill_rate)), w)"
| "consume_attempts rnd B (Suc n) key capacity refill_rate now_ms cost w =
     (case bs_watch B key w of
        (Inl e, w1) \<Rightarrow> (Inl e, w1)
      | (Inr _, w1) \<Rightarrow>
     (case bs_hmget B key w1 of
        (Inl e, w2) \<Rightarrow> (Inl e, w2)
      | (Inr raw, w2) \<Rightarrow>
          (let tokens = refilled rnd capacity refill_rate now_ms raw
           in if tokens < cost
              then (case bs_unwatch B w2 of
                      (Inl e, w3) \<Rightarrow> (Inl e, w3)
                    | (Inr _, w3) \<Rightarrow>
                        (let retry_after = rnd (rnd (cost - tokens) / refill_rate)
                         in case persist_bucket rnd B key tokens now_ms capacity refill_rate w3 of
                              (Inl e, w4) \<Rightarrow> (Inl e, w4)
                            | (Inr _, w4) \<Rightarrow> (Inr (False, retry_after), w4)))
              else (case bs_execute B key (rnd (tokens - cost)) now_ms (bucket_ttl_ms rnd capacity refill_rate) w2 of
                      (Inl WatchError, w3) \<Rightarrow> consume_attempts rnd B n key capacity refill_rate now_ms cost w3
                    | (Inl e, w3) \<Rightarrow> (Inl e, w3)
                    | (Inr _, w3) \<Rightarrow> (Inr (True, 0), w3)))))"

definition consume_token ::
  "(real \<Rightarrow> real) \<Rightarrow> 'w bucket_store \<Rightarrow> string \<Rightarrow> real \<Rightarrow> real \<Rightarrow> int \<Rightarrow> real \<Rightarrow> 'w \<Rightarrow>
     (exn + bool \<times> real) \<times> 'w" where
  "consume_token rnd B = consume_attempts rnd B 5"

section \<open>The service\<close>

record 'w rate_limit_service =
  rl_store :: "'w bucket_store"
  rl_runtime :: "'w runtime"
  rl_default_limit_per_minute :: int
  rl_enabled :: bool
  rl_fail_open :: bool

definition rate_limit_key :: "string \<Rightarrow> string" where
  "rate_limit_key tenant_id = ''ratelimit:tenant:'' @ tenant_id"

text \<open>\<open>limit_per_minute or default\<close>: an override of zero falls back to the default.\<close>

definition effective_limit :: "'w rate_limit_service \<Rightarrow> int option \<Rightarrow> int" where
  "effective_limit S limit_per_minute = (case limit_per_minute of
     None \<Rightarrow> rl_default_limit_per_minute S
   | Some n \<Rightarrow> if n = 0 then rl_default_limit_per_minute S else n)"

definition check_and_increment ::
  "(real \<Rightarrow> real) \<Rightarrow> 'w rate_limit_service \<Rightarrow> string \<Rightarrow> int option \<Rightarrow> real \<Rightarrow> 'w \<Rightarrow> (exn + unit) \<times> 'w" where
  "check_and_increment rnd S tenant_id limit_per_minute cost w =
     (if \<not> rl_enabled S then (Inr (), w)
      else let limit = effective_limit S limit_per_minute
      in if limit \<le> 0 then (Inr (), w)
      else let capacity = rnd (of_int limit);
               refill_rate = rnd (of_int limit / 60);
               (t, w1) = rt_time (rl_runtime S) w;
               now_ms = py_int (rnd (t * 1000))
      in case consume_token rnd (rl_store S) (rate_limit_key tenant_id) capacity refill_rate now_ms cost w1 of
           (Inl e, w2) \<Rightarrow> if rl_fail_open S then (Inr (), w2) else (Inl e, w2)
         | (Inr (allowed, retry_after), w2) \<Rightarrow>
             if \<not> allowed then (Inl (RateLimitExceededError (max retry_after (rnd (1 / 1000)))), w2)
             else (Inr (), w2))"

section \<open>The bucket without contention\<close>

text \<open>The step as a function of the stored fields: whether it admits, the wait it asks for, what it
  stores.\<close>

definition bucket_step ::
  "(real \<Rightarrow> real) \<Rightarrow> real \<Rightarrow> real \<Rightarrow> real \<Rightarrow> int \<Rightarrow> bucket_fields \<Rightarrow> bool \<times> real \<times> bucket_fields" where
  "bucket_step rnd capacity refill_rate cost now_ms raw =
     (let tokens = refilled rnd capacity refill_rate now_ms raw
      in if tokens < cost then (False, rnd (rnd (cost - tokens) / refill_rate), (Some tokens, Some now_ms))
         else (True, 0, (Some (rnd (tokens - cost)), Some now_ms)))"

text \<open>A store that answers, and in which the transaction is not disturbed: \<open>view w key\<close> are the fields
  of a key.\<close>

definition quiet_store :: "'w bucket_store \<Rightarrow> ('w \<Rightarrow> string \<Rightarrow> bucket_fields) \<Rightarrow> bool" where
  "quiet_store B view \<longleftrightarrow>
     (\<forall>k w. \<exists>w'. bs_watch B k w = (Inr (), w') \<and> view w' = view w)
   \<and> (\<forall>k w. \<exists>w'. bs_hmget B k w = (Inr (view w k), w') \<and> view w' = view w)
   \<and> (\<forall>w. \<exists>w'. bs_unwatch B w = (Inr (), w') \<and> view w' = view w)
   \<and> (\<forall>k t l ttl w. \<exists>w'. bs_execute B k t l ttl w = (Inr (), w') \<and> view w' = (view w)(k := (Some t, Some l)))
   \<and> (\<forall>k t l w. \<exists>w'. bs_hset B k t l w = (Inr (), w') \<and> view w' = (view w)(k := (Some t, Some l)))
   \<and> (\<forall>k ttl w. \<exists>w'. bs_pexpire B k ttl w = (Inr (), w') \<and> view w' = view w)"

lemma consume_token_refines_step_aux:
  assumes "quiet_store B view"
  shows "case bucket_step rnd cap rate cost now (view w key) of (allowed, wait, stored) \<Rightarrow>
    \<exists>w'. consume_token rnd B key cap rate now cost w = (Inr (allowed, wait), w')
       \<and> view w' = (view w)(key := stored)"
proof -
  note q = assms [unfolded quiet_store_def]
  obtain w1 where w1: "bs_watch B key w = (Inr (), w1)" "view w1 = view w" using q by blast
  obtain w2 where w2: "bs_hmget B key w1 = (Inr (view w key), w2)" "view w2 = view w"
    using q w1(2) by metis
  obtain w3 where w3: "bs_unwatch B w2 = (Inr (), w3)" "view w3 = view w" using q w2(2) by metis
  let ?t = "refilled rnd cap rate now (view w key)"
  obtain w4 where w4: "bs_hset B key ?t now w3 = (Inr (), w4)" "view w4 = (view w)(key := (Some ?t, Some now))"
    using q w3(2) by metis
  obtain w5 where w5: "bs_pexpire B key (bucket_ttl_ms rnd cap rate) w4 = (Inr (), w5)" "view w5 = view w4"
    using q by metis
  obtain w6 where w6: "bs_execute B key (rnd (?t - cost)) now (bucket_ttl_ms rnd cap rate) w2 = (Inr (), w6)"
      "view w6 = (view w)(key := (Some (rnd (?t - cost)), Some now))"
    using q w2(2) by metis
  obtain n where c: "consume_token rnd B = consume_attempts rnd B (Suc n)"
    unfolding consume_token_def by (metis eval_nat_numeral(3))
  show ?thesis
  proof (cases "?t < cost")
    case True
    with w1 w2 w3 w4 w5 show ?thesis by (simp add: c bucket_step_def Let_def persist_bucket_def)
  next
    case False
    with w1 w2 w6 show ?thesis by (simp add: c bucket_step_def Let_def)
  qed
qed

text \<open>C31. Without contention the Redis transaction implements the pure token-bucket step: it answers
  with the step's decision and wait, stores exactly the step's fields under the tenant's key, and leaves
  every other key alone.\<close>

theorem consume_token_refines_step:
  assumes "quiet_store B view"
  shows "case bucket_step rnd cap rate cost now (view w key) of (allowed, wait, stored) \<Rightarrow>
    \<exists>w'. consume_token rnd B key cap rate now cost w = (Inr (allowed, wait), w')
       \<and> view w' = (view w)(key := stored)"
  using assms by (rule consume_token_refines_step_aux)

definition map_store :: "(string \<Rightarrow> bucket_fields) bucket_store" where
  "map_store = \<lparr>bs_watch = (\<lambda>k w. (Inr (), w)), bs_hmget = (\<lambda>k w. (Inr (w k), w)),
     bs_unwatch = (\<lambda>w. (Inr (), w)), bs_execute = (\<lambda>k t l ttl w. (Inr (), w(k := (Some t, Some l)))),
     bs_hset = (\<lambda>k t l w. (Inr (), w(k := (Some t, Some l)))), bs_pexpire = (\<lambda>k ttl w. (Inr (), w))\<rparr>"

lemma map_store_quiet: "quiet_store map_store (\<lambda>w. w)"
  by (simp add: quiet_store_def map_store_def)

theorem consume_token_refines_step_witness:
  "fst (consume_token exact map_store ''k'' 60 1 5000 1 (\<lambda>k. (Some 0, Some 5000))) = Inr (False, 1)"
  using consume_token_refines_step [OF map_store_quiet, where rnd = exact and cap = 60 and rate = 1
      and cost = 1 and now = 5000 and w = "\<lambda>k. (Some 0, Some 5000)" and key = "''k''"]
  by (auto simp: bucket_step_def refilled_def)

section \<open>Bounds\<close>

definition tokens_within :: "real \<Rightarrow> bucket_fields \<Rightarrow> bool" where
  "tokens_within capacity raw = (case fst raw of None \<Rightarrow> True | Some t \<Rightarrow> 0 \<le> t \<and> t \<le> capacity)"

context float_rounding
begin

lemma refilled_bounds:
  assumes "0 \<le> cap" "rnd cap = cap" "0 \<le> rate" "tokens_within cap raw"
  shows "0 \<le> refilled rnd cap rate now raw \<and> refilled rnd cap rate now raw \<le> cap"
proof -
  let ?t = "case fst raw of Some t \<Rightarrow> t | None \<Rightarrow> cap"
  let ?e = "max 0 (rnd (of_int (now - (case snd raw of Some l \<Rightarrow> l | None \<Rightarrow> now)) / 1000))"
  have "0 \<le> rnd (?e * rate)" using assms(3) by (intro rnd_nonneg mult_nonneg_nonneg) auto
  moreover have "0 \<le> ?t" using assms by (auto simp: tokens_within_def split: option.splits)
  ultimately have "0 \<le> rnd (?t + rnd (?e * rate))" by (intro rnd_nonneg) simp
  with assms(1) show ?thesis by (simp add: refilled_def)
qed

lemma bucket_step_bounds:
  assumes "0 \<le> cap" "rnd cap = cap" "0 \<le> rate" "0 \<le> cost" "tokens_within cap raw"
    and "bucket_step rnd cap rate cost now raw = (allowed, wait, raw')"
  shows "tokens_within cap raw' \<and> snd raw' = Some now \<and> 0 \<le> wait"
proof -
  let ?t = "refilled rnd cap rate now raw"
  have t: "0 \<le> ?t" "?t \<le> cap" using refilled_bounds [OF assms(1-3,5)] by auto
  have "0 \<le> rnd (?t - cost)" "rnd (?t - cost) \<le> cap" if "\<not> ?t < cost"
    using that t assms(2,4) by (auto intro: rnd_nonneg rnd_le_fixed)
  moreover have "0 \<le> rnd (rnd (cost - ?t) / rate)" if "?t < cost"
    using that assms(3) by (intro rnd_nonneg divide_nonneg_nonneg) auto
  ultimately show ?thesis
    using assms(6) t by (auto simp: bucket_step_def tokens_within_def Let_def split: if_splits)
qed

end

text \<open>The decisions on a sequence of requests, by the times at which they arrive.\<close>

fun bucket_run ::
  "(real \<Rightarrow> real) \<Rightarrow> real \<Rightarrow> real \<Rightarrow> real \<Rightarrow> bucket_fields \<Rightarrow> int list \<Rightarrow> (bool \<times> real) list \<times> bucket_fields" where
  "bucket_run rnd cap rate cost raw [] = ([], raw)"
| "bucket_run rnd cap rate cost raw (now # nows) =
     (let (allowed, wait, raw1) = bucket_step rnd cap rate cost now raw;
          (rest, raw2) = bucket_run rnd cap rate cost raw1 nows
      in ((allowed, wait) # rest, raw2))"

text \<open>In Python's float arithmetic the stored token count never leaves the range from zero to the
  limit and no negative wait is ever handed out, over any sequence of requests at any clock readings,
  also clocks that jump backwards, starting from a missing or a well-formed bucket.\<close>

theorem bucket_stays_in_range:
  assumes "0 < limit" "limit \<le> 2 ^ 53" "0 \<le> cost" "tokens_within (of_int limit) raw"
  shows "tokens_within (of_int limit)
      (snd (bucket_run binary64 (binary64 (of_int limit)) (binary64 (of_int limit / 60)) cost raw nows))
    \<and> (\<forall>d\<in>set (fst (bucket_run binary64 (binary64 (of_int limit)) (binary64 (of_int limit / 60)) cost raw nows)).
         0 \<le> snd d)"
proof -
  have cap: "binary64 (of_int limit) = of_int limit" "(0::real) \<le> of_int limit"
    using assms(1,2) by (simp_all add: binary64_of_int)
  have rate: "0 \<le> binary64 (of_int limit / 60)"
    using assms(1) by (intro ieee.rnd_nonneg) simp
  show ?thesis using assms(4)
  proof (induction nows arbitrary: raw)
    case Nil
    then show ?case by simp
  next
    case (Cons now nows)
    obtain a w raw1 where s: "bucket_step binary64 (of_int limit) (binary64 (of_int limit / 60)) cost now raw = (a, w, raw1)"
      by (metis surj_pair)
    from ieee.bucket_step_bounds [OF cap(2,1) rate assms(3) Cons.prems s] Cons.IH [of raw1]
    show ?case by (auto simp: cap s split: prod.splits)
  qed
qed

theorem bucket_stays_in_range_witness:
  "tokens_within 60 (snd (bucket_run binary64 (binary64 (of_int 60)) (binary64 (of_int 60 / 60)) 1 (None, None) [1000, 1001, 500]))"
  using bucket_stays_in_range [of 60 1 "(None, None)" "[1000, 1001, 500]"] by (simp add: tokens_within_def)

section \<open>How many requests are admitted\<close>

definition admitted :: "(bool \<times> real) list \<Rightarrow> nat" where
  "admitted ds = length (filter fst ds)"

lemma exact_step_balance:
  assumes "0 \<le> cap" "0 \<le> rate" "0 \<le> cost" "0 \<le> t" "t \<le> cap" "l \<le> now"
    and s: "bucket_step exact cap rate cost now (Some t, Some l) = (allowed, wait, raw')"
  shows "\<exists>t'. raw' = (Some t', Some now) \<and> 0 \<le> t' \<and> t' \<le> cap
    \<and> t' + (if allowed then cost else 0) \<le> t + rate * of_int (now - l) / 1000"
proof -
  have "refilled exact cap rate now (Some t, Some l) \<le> t + rate * of_int (now - l) / 1000"
    using assms(2,6) by (simp add: refilled_def mult.commute)
  moreover have "0 \<le> refilled exact cap rate now (Some t, Some l) \<and> refilled exact cap rate now (Some t, Some l) \<le> cap"
    by (rule reals.refilled_bounds) (use assms in \<open>simp_all add: tokens_within_def\<close>)
  ultimately show ?thesis
    using s assms(3) by (auto simp: bucket_step_def Let_def split: if_splits)
qed

lemma exact_run_balance:
  assumes "0 \<le> cap" "0 \<le> rate" "0 \<le> cost"
  shows "0 \<le> t \<Longrightarrow> t \<le> cap \<Longrightarrow> sorted (l # nows) \<Longrightarrow>
    of_nat (admitted (fst (bucket_run exact cap rate cost (Some t, Some l) nows))) * cost
      \<le> t + rate * of_int (last (l # nows) - l) / 1000"
proof (induction nows arbitrary: t l)
  case Nil
  then show ?case by (simp add: admitted_def)
next
  case (Cons n ns)
  obtain a w raw1 where s: "bucket_step exact cap rate cost n (Some t, Some l) = (a, w, raw1)" by (metis surj_pair)
  from exact_step_balance [OF assms Cons.prems(1,2) _ s] Cons.prems(3)
  obtain t' where t': "raw1 = (Some t', Some n)" "0 \<le> t'" "t' \<le> cap"
      "t' + (if a then cost else 0) \<le> t + rate * of_int (n - l) / 1000" by auto
  let ?A = "real (admitted (fst (bucket_run exact cap rate cost raw1 ns))) * cost"
  have ih: "?A \<le> t' + rate * of_int (last (n # ns) - n) / 1000"
    unfolding t'(1) by (rule Cons.IH [OF t'(2,3)]) (use Cons.prems(3) in simp)
  have "real (admitted (fst (bucket_run exact cap rate cost (Some t, Some l) (n # ns)))) * cost =
      (if a then cost else 0) + ?A"
    by (auto simp: s admitted_def algebra_simps split: prod.split)
  also have "\<dots> \<le> t + rate * of_int (n - l) / 1000 + rate * of_int (last (n # ns) - n) / 1000"
    using ih t'(4) by linarith
  also have "\<dots> = t + rate * of_int (last (l # n # ns) - l) / 1000"
    by (simp add: algebra_simps add_divide_distrib diff_divide_distrib)
  finally show ?case .
qed



text \<open>The advertised wait is exact: after a refusal with wait \<open>r\<close>, and when nobody else uses the
  bucket, a new request is admitted if and only if at least \<open>r\<close> seconds have passed (in exact
  arithmetic).\<close>

theorem retry_after_exact:
  assumes "0 < rate" "cost \<le> cap" "bucket_step exact cap rate cost now raw = (False, r, raw')" "now \<le> now'"
  shows "fst (bucket_step exact cap rate cost now' raw') \<longleftrightarrow> r \<le> of_int (now' - now) / 1000"
proof -
  let ?t = "refilled exact cap rate now raw"
  from assms(3) have t: "?t < cost" "r = (cost - ?t) / rate" "raw' = (Some ?t, Some now)"
    by (auto simp: bucket_step_def Let_def split: if_splits)
  have "refilled exact cap rate now' raw' = min cap (?t + of_int (now' - now) / 1000 * rate)"
    using assms(4) by (simp add: t(3) refilled_def)
  moreover have "r \<le> of_int (now' - now) / 1000 \<longleftrightarrow> cost - ?t \<le> of_int (now' - now) / 1000 * rate"
    using assms(1) by (simp add: t(2) divide_le_eq)
  ultimately show ?thesis
    using assms(2) by (auto simp: bucket_step_def Let_def)
qed

theorem retry_after_exact_witness:
  "fst (bucket_step exact 60 1 1 1000 (Some 0, Some 0))"
proof -
  have "bucket_step exact 60 1 1 0 (Some 0, Some 0) = (False, 1, (Some 0, Some 0))"
    by (simp add: bucket_step_def refilled_def)
  from retry_after_exact [OF _ _ this, of 1000] show ?thesis by simp
qed

text \<open>Letting the key expire is harmless: by the time Redis drops an unused bucket, its refill has
  reached the limit anyway, so a missing bucket and an expired one count the same; for the gateway's
  rate of limit per minute the time to live is two minutes.\<close>

theorem expiry_is_harmless:
  assumes "0 < rate" "0 \<le> t" "bucket_ttl_ms exact cap rate \<le> now - l"
  shows "refilled exact cap rate now (Some t, Some l) = refilled exact cap rate now (None, None)
    \<and> (0 < limit \<longrightarrow> bucket_ttl_ms exact (of_int limit) (of_int limit / 60) = 120000)"
proof
  define x where "x = cap / rate"
  define d where "d = real_of_int (now - l)"
  have d: "1000 \<le> d" "of_int (py_int (x * 2000)) \<le> d"
    using assms(3) by (simp_all add: bucket_ttl_ms_def x_def d_def)
  have "x * 1000 \<le> d"
  proof (cases "x * 1000 \<le> 1000")
    case True
    with d(1) show ?thesis by linarith
  next
    case False
    then have "x * 2000 - 1 < of_int (py_int (x * 2000))" by (simp add: py_int_def)
    with d(2) False show ?thesis by linarith
  qed
  then have "cap \<le> d / 1000 * rate" using assms(1) by (simp add: x_def field_simps)
  moreover have "0 \<le> d" using d(1) by linarith
  ultimately show "refilled exact cap rate now (Some t, Some l) = refilled exact cap rate now (None, None)"
    using assms(2) by (simp add: refilled_def d_def)
  show "0 < limit \<longrightarrow> bucket_ttl_ms exact (of_int limit) (of_int limit / 60) = 120000"
    by (simp add: bucket_ttl_ms_def py_int_def)
qed

theorem expiry_is_harmless_witness:
  "refilled exact 60 1 200000 (Some 0, Some 0) = 60"
  using expiry_is_harmless [of 1 0 60 200000 0 60] by (simp add: bucket_ttl_ms_def py_int_def refilled_def)

section \<open>The service's policy\<close>

text \<open>Policy of the service.  A disabled service and a negative effective limit admit everything
  without touching Redis; an override of zero, which one would expect to block the tenant, is the same as
  no override.  With fail-open the only exception that can escape is RateLimitExceededError, and its wait
  is never below the float 0.001; without it a failure of the store is raised as it is.\<close>

theorem rate_limit_policy:
  "(if rl_enabled S \<and> 0 \<le> effective_limit S override then True
    else check_and_increment rnd S t override cost w = (Inr (), w))
   \<and> check_and_increment rnd S t (Some 0) cost w = check_and_increment rnd S t None cost w
   \<and> (case fst (check_and_increment rnd S t override cost w) of
        Inr _ \<Rightarrow> True
      | Inl (RateLimitExceededError wait) \<Rightarrow> (if rl_fail_open S then rnd (1/1000) \<le> wait else True)
      | Inl e \<Rightarrow> \<not> rl_fail_open S)"
proof (intro conjI)
  show "if rl_enabled S \<and> 0 \<le> effective_limit S override then True
    else check_and_increment rnd S t override cost w = (Inr (), w)"
    by (auto simp: check_and_increment_def Let_def)
  show "check_and_increment rnd S t (Some 0) cost w = check_and_increment rnd S t None cost w"
    by (simp add: check_and_increment_def effective_limit_def)
  show "case fst (check_and_increment rnd S t override cost w) of
        Inr _ \<Rightarrow> True
      | Inl (RateLimitExceededError wait) \<Rightarrow> (if rl_fail_open S then rnd (1/1000) \<le> wait else True)
      | Inl e \<Rightarrow> \<not> rl_fail_open S"
    by (auto simp: check_and_increment_def Let_def split: prod.split sum.split exn.split)
qed

text \<open>A store in which another writer always gets in between: every transaction fails.\<close>

definition contended_store :: "'w bucket_store \<Rightarrow> bool" where
  "contended_store B \<longleftrightarrow> (\<forall>k w. fst (bs_watch B k w) = Inr ()) \<and> (\<forall>k w. \<exists>raw. fst (bs_hmget B k w) = Inr raw)
     \<and> (\<forall>k t l ttl w. fst (bs_execute B k t l ttl w) = Inl WatchError)"

lemma contended_consume:
  assumes "contended_store B" "\<And>raw. \<not> refilled rnd cap rate now raw < cost"
  shows "fst (consume_attempts rnd B n key cap rate now cost w) = Inr (False, rnd (1 / rate))"
proof (induction n arbitrary: w)
  case 0
  then show ?case by simp
next
  case (Suc n)
  note c = assms(1) [unfolded contended_store_def]
  obtain w1 where w1: "bs_watch B key w = (Inr (), w1)" using c by (metis prod.collapse)
  obtain raw w2 where w2: "bs_hmget B key w1 = (Inr raw, w2)" using c by (metis prod.collapse)
  obtain w3 where w3: "bs_execute B key (rnd (refilled rnd cap rate now raw - cost)) now (bucket_ttl_ms rnd cap rate) w2 = (Inl WatchError, w3)"
    using c by (metis prod.collapse)
  from w1 w2 w3 assms(2) Suc.IH show ?case by (simp add: Let_def)
qed

section \<open>A lost update\<close>

lemma refilled_compose:
  assumes "0 < rate" "l \<le> a" "a \<le> b" "0 \<le> t" "t \<le> cap"
  shows "refilled exact cap rate b (Some (refilled exact cap rate a (Some t, Some l)), Some a) =
    refilled exact cap rate b (Some t, Some l)"
proof -
  define u where "u = of_int (a - l) / 1000 * rate"
  define v where "v = of_int (b - a) / 1000 * rate"
  have uv: "0 \<le> u" "0 \<le> v" using assms by (simp_all add: u_def v_def)
  have "refilled exact cap rate a (Some t, Some l) = min cap (t + u)"
    using assms by (simp add: refilled_def u_def)
  moreover have "refilled exact cap rate b (Some x, Some a) = min cap (x + v)" for x
    using assms by (simp add: refilled_def v_def)
  moreover have "refilled exact cap rate b (Some t, Some l) = min cap (t + (u + v))"
    using assms by (simp add: refilled_def u_def v_def add_divide_distrib [symmetric] distrib_right [symmetric])
  ultimately show ?thesis using uv by (auto simp: min_def)
qed

text \<open>C33. Refusals race with admissions.  A refused request writes the bucket back after it has given up
  its watch: when another request of the tenant is admitted between the refused request's read and its
  write, the write restores the bucket to what it was before that admission, so the token it took is
  given out again, and the same request time is admitted a second time from the one token.\<close>

theorem refusal_loses_update:
  assumes quiet: "quiet_store B view" and rate: "0 < rate"
    and stored: "view w key = (Some t, Some l)" "0 \<le> t" "t \<le> cap" "l \<le> a" "a \<le> b"
    and refused: "refilled exact cap rate a (Some t, Some l) < cost"
    and other: "consume_token exact B key cap rate b cost w = (Inr (True, 0), w1)"
    and late: "persist_bucket exact B key (refilled exact cap rate a (Some t, Some l)) a cap rate w1 = (Inr u, w2)"
  shows "view w2 key = (Some (refilled exact cap rate a (Some t, Some l)), Some a)
    \<and> (\<exists>w3. consume_token exact B key cap rate b cost w2 = (Inr (True, 0), w3))"
proof -
  let ?ta = "refilled exact cap rate a (Some t, Some l)"
  obtain v1 where v1: "bs_hset B key ?ta a w1 = (Inr (), v1)" "view v1 = (view w1)(key := (Some ?ta, Some a))"
    using quiet [unfolded quiet_store_def] by metis
  obtain v2 where v2: "bs_pexpire B key (bucket_ttl_ms exact cap rate) v1 = (Inr (), v2)" "view v2 = view v1"
    using quiet [unfolded quiet_store_def] by metis
  from late v1 v2 have w2: "view w2 key = (Some ?ta, Some a)" by (simp add: persist_bucket_def)
  have "\<not> refilled exact cap rate b (Some t, Some l) < cost"
    using consume_token_refines_step_aux [OF quiet, where rnd = exact and cap = cap and rate = rate and cost = cost and now = b and w = w and key = key] other
    by (auto simp: bucket_step_def stored(1) Let_def split: if_splits)
  then have "\<not> refilled exact cap rate b (Some ?ta, Some a) < cost"
    using refilled_compose [OF rate stored(4,5,2,3)] by simp
  then have "bucket_step exact cap rate cost b (view w2 key) =
      (True, 0, (Some (exact (refilled exact cap rate b (Some ?ta, Some a) - cost)), Some b))"
    by (simp add: bucket_step_def w2)
  with consume_token_refines_step_aux [OF quiet, where rnd = exact and cap = cap and rate = rate and cost = cost and now = b and w = w2 and key = key] w2 show ?thesis by auto
qed

theorem refusal_loses_update_witness:
  "fst (consume_token exact map_store ''k'' 60 1 500 1 (\<lambda>k. (Some (1/2), Some 0))) = Inr (True, 0)
   \<and> (\<exists>w3. consume_token exact map_store ''k'' 60 1 500 1
        ((\<lambda>k. (Some (1/2), Some 0))(''k'' := (Some (1/2), Some 0))) = (Inr (True, 0), w3))"
proof -
  let ?w = "\<lambda>k. (Some (1/2), Some 0)"
  let ?w1 = "?w(''k'' := (Some 0, Some 500))"
  have c: "consume_token exact map_store ''k'' 60 1 500 1 ?w = (Inr (True, 0), ?w1)"
    by (simp add: consume_token_def eval_nat_numeral map_store_def refilled_def)
  have r: "refilled exact 60 1 0 (Some (1/2), Some 0) = 1/2" by (simp add: refilled_def)
  have p: "persist_bucket exact map_store ''k'' (refilled exact 60 1 0 (Some (1/2), Some 0)) 0 60 1 ?w1 =
      (Inr (), ?w1(''k'' := (Some (1/2), Some 0)))"
    unfolding r by (simp add: persist_bucket_def map_store_def)
  have "\<exists>w3. consume_token exact map_store ''k'' 60 1 500 1 (?w1(''k'' := (Some (1/2), Some 0))) = (Inr (True, 0), w3)"
    using refusal_loses_update [OF map_store_quiet _ _ _ _ _ _ _ c p] by (simp add: r)
  with c show ?thesis by simp
qed

end
