(* ===== verification/Uuid.thy ===== *)
theory Uuid
  imports Sha256
begin

text \<open>
  \<open>uuid.UUID(text)\<close> and \<open>str(uuid)\<close> of the standard library, which the gateway applies to tenant and
  key ids.  A UUID is represented by its canonical text; \<open>parse_uuid\<close> gives that text, or \<open>None\<close> for
  the \<open>ValueError\<close>.
\<close>

section \<open>Definitions\<close>

text \<open>\<open>s.replace(p, "")\<close> for a non-empty \<open>p\<close>.\<close>

function remove_all :: "string \<Rightarrow> string \<Rightarrow> string" where
  "remove_all p [] = []"
| "remove_all p (c # cs) =
     (if p \<noteq> [] \<and> startswith (c # cs) p then remove_all p (drop (length p) (c # cs))
      else c # remove_all p cs)"
  by pat_completeness auto
termination remove_all
  by (relation "measure (length \<circ> snd)") auto

definition strip_chars :: "char set \<Rightarrow> string \<Rightarrow> string" where
  "strip_chars A s = rev (dropWhile (\<lambda>c. c \<in> A) (rev (dropWhile (\<lambda>c. c \<in> A) s)))"

definition lower_hex :: "char \<Rightarrow> char" where
  "lower_hex c = (let n = (of_char c :: nat) in if 65 \<le> n \<and> n \<le> 70 then char_of (n + 32) else c)"

definition is_hex :: "char \<Rightarrow> bool" where
  "is_hex c = (let n = (of_char (lower_hex c) :: nat) in (48 \<le> n \<and> n \<le> 57) \<or> (97 \<le> n \<and> n \<le> 102))"

abbreviation US :: char where "US \<equiv> CHR ''_''"

text \<open>Digits with single underscores between them.\<close>

fun digits_ok :: "string \<Rightarrow> bool" where
  "digits_ok [] = False"
| "digits_ok [c] = is_hex c"
| "digits_ok (c # d # cs) = (is_hex c \<and> (if d = US then digits_ok cs else digits_ok (d # cs)))"

text \<open>\<open>int(s, 16)\<close>: white space around, a sign, the prefix \<open>0x\<close>.\<close>

definition drop_0x :: "string \<Rightarrow> string" where
  "drop_0x s = (if take 2 s = ''0x'' \<or> take 2 s = ''0X''
     then (if take 1 (drop 2 s) = [US] then drop 3 s else drop 2 s) else s)"

definition int_base16 :: "string \<Rightarrow> int option" where
  "int_base16 s =
     (let t = strip_ws s;
          neg = (take 1 t = ''-'');
          u = drop_0x (if take 1 t = ''-'' \<or> take 1 t = ''+'' then drop 1 t else t);
          n = int16 (map lower_hex (filter (\<lambda>c. c \<noteq> US) u))
      in if digits_ok u then Some (if neg then - n else n) else None)"

definition uuid_text :: "int \<Rightarrow> string" where
  "uuid_text n = (let h = hex_num 32 n
     in take 8 h @ ''-'' @ take 4 (drop 8 h) @ ''-'' @ take 4 (drop 12 h) @ ''-''
        @ take 4 (drop 16 h) @ ''-'' @ drop 20 h)"

definition parse_uuid :: "string \<Rightarrow> string option" where
  "parse_uuid s =
     (let h = remove_all ''-'' (strip_chars {CHR ''{'', CHR ''}''} (remove_all ''uuid:'' (remove_all ''urn:'' s)))
      in if length h \<noteq> 32 then None
         else case int_base16 h of None \<Rightarrow> None
           | Some n \<Rightarrow> if 0 \<le> n \<and> n < 2 ^ 128 then Some (uuid_text n) else None)"

section \<open>Printing and parsing\<close>

lemma hex_num_chars: "0 \<le> n \<Longrightarrow> c \<in> set (hex_num k n) \<Longrightarrow> \<exists>d. 0 \<le> d \<and> d < 16 \<and> c = hex_digit d"
proof (induction k arbitrary: n)
  case 0
  then show ?case by simp
next
  case (Suc k)
  then have "c \<in> set (hex_num k (n div 16)) \<or> c = hex_digit (n mod 16)" by auto
  then show ?case
  proof
    assume "c \<in> set (hex_num k (n div 16))"
    with Suc.IH [of "n div 16"] Suc.prems show ?thesis by simp
  next
    assume "c = hex_digit (n mod 16)"
    then show ?thesis by (intro exI [of _ "n mod 16"]) simp
  qed
qed

lemma hex_digit_class:
  assumes "0 \<le> d" "d < (16 :: int)"
  shows "is_hex (hex_digit d)" "lower_hex (hex_digit d) = hex_digit d" "\<not> is_space (hex_digit d)"
    "hex_digit d \<notin> {CHR ''-'', CHR ''+'', CHR ''_'', CHR ''{'', CHR ''}'', CHR ''u'', CHR ''x'', CHR ''X''}"
proof -
  let ?n = "of_char (hex_digit d) :: nat"
  have "int ?n = (of_char (hex_digit d) :: int)" by (rule of_nat_of_char)
  also have "\<dots> = (if d < 10 then 48 + d else 87 + d)"
    using assms by (simp add: hex_digit_def)
  finally have "int ?n = (if d < 10 then 48 + d else 87 + d)" .
  then have n: "48 \<le> ?n \<and> ?n \<le> 57 \<or> 97 \<le> ?n \<and> ?n \<le> 102"
    using assms by (auto split: if_splits)
  then show low: "lower_hex (hex_digit d) = hex_digit d" by (auto simp: lower_hex_def Let_def)
  from n show "is_hex (hex_digit d)" by (simp add: is_hex_def low Let_def)
  from n show "\<not> is_space (hex_digit d)" by (auto simp: is_space_def Let_def)
  from n show "hex_digit d \<notin> {CHR ''-'', CHR ''+'', CHR ''_'', CHR ''{'', CHR ''}'', CHR ''u'', CHR ''x'', CHR ''X''}"
    by auto
qed

text \<open>Texts whose characters are lower-case hexadecimal digits or hyphens.\<close>

definition hexy :: "string \<Rightarrow> bool" where
  "hexy s \<longleftrightarrow> (\<forall>c\<in>set s. \<exists>d. 0 \<le> d \<and> d < 16 \<and> c = hex_digit d)"

lemma hexyD:
  assumes "hexy s" "c \<in> set s"
  shows "is_hex c" "lower_hex c = c" "\<not> is_space c"
    "c \<notin> {CHR ''-'', CHR ''+'', CHR ''_'', CHR ''{'', CHR ''}'', CHR ''u'', CHR ''x'', CHR ''X''}"
proof -
  from assms obtain d where d: "0 \<le> d" "d < 16" "c = hex_digit d" by (auto simp: hexy_def)
  from hex_digit_class [OF d(1,2)] d(3)
  show "is_hex c" "lower_hex c = c" "\<not> is_space c"
    "c \<notin> {CHR ''-'', CHR ''+'', CHR ''_'', CHR ''{'', CHR ''}'', CHR ''u'', CHR ''x'', CHR ''X''}"
    by simp_all
qed

lemma remove_all_absent: "p \<noteq> [] \<Longrightarrow> hd p \<notin> set s \<Longrightarrow> remove_all p s = s"
proof (induction s)
  case Nil
  then show ?case by simp
next
  case (Cons c cs)
  then have "\<not> startswith (c # cs) p" by (cases p) (auto simp: startswith_def)
  with Cons show ?case by simp
qed

lemma remove_all_char: "remove_all [a] s = filter (\<lambda>c. c \<noteq> a) s"
  by (induction s) (auto simp: startswith_def)

lemma strip_chars_absent: "\<forall>c\<in>set s. c \<notin> A \<Longrightarrow> strip_chars A s = s"
proof -
  assume a: "\<forall>c\<in>set s. c \<notin> A"
  have keep: "dropWhile (\<lambda>c. c \<in> A) t = t" if "set t = set s" for t
    using a that by (cases t) auto
  show ?thesis using keep [of s] keep [of "rev s"] by (simp add: strip_chars_def)
qed

lemma digits_ok_hexy: "hexy s \<Longrightarrow> s \<noteq> [] \<Longrightarrow> digits_ok s"
proof (induction s rule: digits_ok.induct)
  case (3 c d cs)
  have "d \<noteq> US" using hexyD(4) [OF "3.prems"(1), of d] by simp
  moreover have "hexy (d # cs)" using "3.prems"(1) by (simp add: hexy_def)
  ultimately show ?case using "3.IH"(2) hexyD(1) [OF "3.prems"(1), of c] by simp
qed (auto intro: hexyD(1))

lemma int_base16_hexy:
  assumes h: "hexy s" and ne: "s \<noteq> []"
  shows "int_base16 s = Some (int16 s)"
proof -
  note D = hexyD [OF h]
  have d1: "dropWhile is_space s = s" using D(3) ne by (cases s) auto
  have "dropWhile is_space (rev s) = rev s"
    using D(3) [of "last s"] ne by (cases "rev s") (auto simp: hd_rev [symmetric])
  with d1 have strip: "strip_ws s = s" by (simp add: strip_ws_def)
  have sign: "take 1 s \<noteq> ''-''" "take 1 s \<noteq> ''+''"
    using D(4) [of "hd s"] ne by (cases s; auto)+
  have "take 2 s \<noteq> ''0x'' \<and> take 2 s \<noteq> ''0X''"
  proof (cases s)
    case (Cons a t)
    then show ?thesis using D(4) [of "hd t"] by (cases t) auto
  qed simp
  then have pre: "drop_0x s = s" by (simp add: drop_0x_def)
  have "filter (\<lambda>c. c \<noteq> US) s = s" using D(4) by (auto intro!: filter_True)
  moreover have "map lower_hex s = s" using D(2) by (simp add: map_idI)
  ultimately show ?thesis
    using strip sign pre digits_ok_hexy [OF h ne] by (simp add: int_base16_def)
qed

lemma parse_uuid_text:
  assumes "0 \<le> n" "n < 2 ^ 128"
  shows "parse_uuid (uuid_text n) = Some (uuid_text n)"
proof -
  let ?h = "hex_num 32 n" and ?t = "uuid_text n"
  have hexy: "hexy ?h" using hex_num_chars [OF assms(1)] by (auto simp: hexy_def)
  have in_t: "c = CHR ''-'' \<or> c \<in> set ?h" if "c \<in> set ?t" for c
    using that by (auto simp: uuid_text_def Let_def dest: in_set_takeD in_set_dropD)
  note D = hexyD(4) [OF hexy]
  have "remove_all ''urn:'' ?t = ?t" "remove_all ''uuid:'' ?t = ?t"
    using in_t D by (fastforce intro!: remove_all_absent)+
  moreover have "strip_chars {CHR ''{'', CHR ''}''} ?t = ?t"
    using in_t D by (fastforce intro!: strip_chars_absent)
  moreover have "remove_all ''-'' ?t = ?h"
  proof -
    have "filter (\<lambda>c. c \<noteq> CHR ''-'') ?h = ?h" using D by (auto intro!: filter_True)
    then have part: "filter (\<lambda>c. c \<noteq> CHR ''-'') (take k (drop j ?h)) = take k (drop j ?h)"
      "filter (\<lambda>c. c \<noteq> CHR ''-'') (drop j ?h) = drop j ?h" for j k
      using D by (auto intro!: filter_True dest: in_set_takeD in_set_dropD)
    have "remove_all ''-'' ?t = take 8 ?h @ take 4 (drop 8 ?h) @ take 4 (drop 12 ?h) @ take 4 (drop 16 ?h) @ drop 20 ?h"
      using part(1) [of 8 0] part(1) [of 4] part(2) [of 20]
      by (simp add: remove_all_char uuid_text_def Let_def)
    also have "\<dots> = ?h"
      using append_take_drop_id [of 4 "drop 16 ?h"] append_take_drop_id [of 4 "drop 12 ?h"]
        append_take_drop_id [of 4 "drop 8 ?h"] append_take_drop_id [of 8 ?h]
      by (simp add: drop_drop)
    finally show ?thesis .
  qed
  moreover have "int_base16 ?h = Some n"
  proof -
    have "?h \<noteq> []" using length_hex_num [of 32 n] by (metis list.size(3) zero_neq_numeral)
    moreover have "n < 16 ^ 32" using assms(2) by simp
    ultimately show ?thesis using int_base16_hexy [OF hexy] int16_hex_num [of n 32] assms(1) by simp
  qed
  ultimately show ?thesis using assms by (simp add: parse_uuid_def Let_def)
qed

lemma parse_uuid_canonical:
  assumes "parse_uuid s = Some t"
  shows "parse_uuid t = Some t"
proof -
  from assms obtain n where "0 \<le> n" "n < 2 ^ 128" "t = uuid_text n"
    by (auto simp: parse_uuid_def Let_def split: if_splits option.splits)
  then show ?thesis by (simp add: parse_uuid_text)
qed

text \<open>\<open>DEFAULT_TENANT_ID\<close>, the seeded tenant.\<close>

definition default_tenant_id :: string where
  "default_tenant_id = ''00000000-0000-0000-0000-000000000001''"

lemma default_tenant_id_text: "default_tenant_id = uuid_text 1"
  by code_simp

lemma parse_default_tenant_id: "parse_uuid default_tenant_id = Some default_tenant_id"
  unfolding default_tenant_id_text by (rule parse_uuid_text) simp_all

end
