(* ===== verification/Middleware.thy ===== *)
theory Middleware
  imports Auth RateLimit Uuid
begin

text \<open>
  The HTTP pipeline around every endpoint: exempt paths (\<open>middleware/exempt_paths.py\<close>), scopes
  (\<open>middleware/scopes.py\<close>), the middlewares for authentication (\<open>auth.py\<close>), rate limiting
  (\<open>rate_limit.py\<close>) and the request context (\<open>request_context.py\<close>), the translation of exceptions
  (\<open>error_handling.py\<close>) and their order in \<open>create_app\<close> (\<open>main.py\<close>).

  A handler works on a pair: \<open>request.state\<close>, which all layers share, and the environment.  Layers are
  functions from the next layer to a handler, as \<open>call_next\<close> is in the code.
\<close>

section \<open>Requests and responses\<close>

text \<open>An attribute of \<open>request.state\<close> that was never set and one that is \<open>None\<close> read alike, as the code reads
  them with \<open>getattr(..., None)\<close>.\<close>

record request_state =
  qs_trace_id :: "string option"
  qs_auth :: "principal option"
  qs_tenant_id :: "string option"
  qs_api_key_id :: "string option"
  qs_scopes :: "string set option"

definition fresh_state :: request_state where
  "fresh_state = \<lparr>qs_trace_id = None, qs_auth = None, qs_tenant_id = None, qs_api_key_id = None, qs_scopes = None\<rparr>"

text \<open>\<open>hq_header\<close> is \<open>request.headers.get\<close>.\<close>

record http_request =
  hq_method :: string
  hq_path :: string
  hq_header :: "string \<Rightarrow> string option"

text \<open>The values in the JSON object of an error, and in place of them the content of an endpoint.\<close>

datatype field = FNull | FText string | FNumber int

datatype 'b body = ErrorContent "(string \<times> field) list" | Content 'b

record 'b api_response =
  hp_status :: int
  hp_headers :: "(string \<times> string) list"
  hp_body :: "'b body"

text \<open>\<open>response.headers[name] = value\<close>; the gateway spells each name in one way only.\<close>

definition set_header :: "string \<Rightarrow> string \<Rightarrow> 'b api_response \<Rightarrow> 'b api_response" where
  "set_header name v r = r\<lparr>hp_headers :=
     (if name \<in> fst ` set (hp_headers r)
      then map (\<lambda>(n, x). if n = name then (n, v) else (n, x)) (hp_headers r)
      else hp_headers r @ [(name, v)])\<rparr>"

lemma set_header_map_of [simp]: "map_of (hp_headers (set_header n v r)) n = Some v"
proof -
  have "map_of (map (\<lambda>(m, x). if m = n then (m, v) else (m, x)) xs) n = Some v" if "n \<in> fst ` set xs" for xs :: "(string \<times> string) list"
    using that by (induction xs) auto
  then show ?thesis by (auto simp: set_header_def map_add_Some_iff map_of_eq_None_iff)
qed

lemma set_header_other: "n \<noteq> m \<Longrightarrow> map_of (hp_headers (set_header n v r)) m = map_of (hp_headers r) m"
proof -
  assume "n \<noteq> m"
  then have "map_of (map (\<lambda>(k, x). if k = n then (k, v) else (k, x)) xs) m = map_of xs m" for xs :: "(string \<times> string) list"
    by (induction xs) auto
  with \<open>n \<noteq> m\<close> show ?thesis by (simp add: set_header_def map_add_def split: option.split)
qed

type_synonym ('s, 'b) handler = "request_state \<times> 's \<Rightarrow> (exn + 'b api_response) \<times> (request_state \<times> 's)"

section \<open>Errors (\<open>middleware/error_handling.py\<close>)\<close>

definition text_field :: "string option \<Rightarrow> field" where
  "text_field x = (case x of None \<Rightarrow> FNull | Some s \<Rightarrow> FText s)"

definition error_response ::
  "request_state \<Rightarrow> int \<Rightarrow> string \<Rightarrow> string option \<Rightarrow> (string \<times> string) list \<Rightarrow> (string \<times> field) list \<Rightarrow> 'b api_response" where
  "error_response st code error message headers extra =
     \<lparr>hp_status = code, hp_headers = headers,
      hp_body = ErrorContent ([(''error'', FText error), (''trace_id'', text_field (qs_trace_id st))]
        @ (case message of None \<Rightarrow> [] | Some m \<Rightarrow> [(''message'', FText m)]) @ extra)\<rparr>"

definition retry_after_header :: "real \<Rightarrow> int" where
  "retry_after_header wait = max 1 \<lceil>wait\<rceil>"

fun to_error_response :: "request_state \<Rightarrow> exn \<Rightarrow> 'b api_response option" where
  "to_error_response st (AuthenticationError m) = Some (error_response st 401 ''unauthorized'' (Some m) [] [])"
| "to_error_response st (InsufficientScopeError scope) =
     Some (error_response st 403 ''forbidden'' (Some (auth_message (InsufficientScopeError scope))) []
       [(''required_scope'', FText scope)])"
| "to_error_response st (AuthorizationError m) = Some (error_response st 403 ''forbidden'' (Some m) [] [])"
| "to_error_response st (RateLimitExceededError wait) =
     Some (let retry_after = retry_after_header wait
           in error_response st 429 ''rate_limit_exceeded'' (Some ''Rate limit exceeded'')
                [(''Retry-After'', show_int retry_after)] [(''retry_after_seconds'', FNumber retry_after)])"
| "to_error_response st _ = None"

text \<open>The handlers that \<open>register_exception_handlers\<close> registers for exceptions of an endpoint, and FastAPI's own for
  \<open>HTTPException\<close>.\<close>

fun exception_handlers :: "request_state \<Rightarrow> exn \<Rightarrow> 'b api_response option" where
  "exception_handlers st (Provider exc) =
     Some (error_response st 502 ''upstream_provider_error'' (Some ''Upstream provider request failed'') [] [])"
| "exception_handlers st (AllProvidersExhaustedError attempts) =
     Some (error_response st 503 ''service_unavailable'' (Some ''All upstream providers are unavailable'') [] [])"
| "exception_handlers st (HTTPException code detail) =
     Some \<lparr>hp_status = code, hp_headers = [], hp_body = ErrorContent [(''detail'', FText detail)]\<rparr>"
| "exception_handlers st exc = to_error_response st exc"

text \<open>The handler for \<open>Exception\<close>.\<close>

definition unhandled_response :: "request_state \<Rightarrow> 'b api_response" where
  "unhandled_response st =
     error_response st 500 ''internal_server_error'' (Some ''An unexpected error occurred'') [] []"

section \<open>Exempt paths and scopes\<close>

definition exempt_paths :: "string list" where
  "exempt_paths = [''/health'', ''/health/ready'', ''/docs'', ''/openapi.json'', ''/redoc'', ''/metrics'']"

definition is_exempt_path :: "string \<Rightarrow> bool" where
  "is_exempt_path path = (path \<in> set exempt_paths \<or> startswith path ''/metrics/'')"

definition route_scopes :: "(string \<times> string \<times> string set) list" where
  "route_scopes =
     [(''/v1/chat/completions'', ''POST'', {''chat:write''}),
      (''/v1/embeddings'', ''POST'', {''embeddings:write''}),
      (''/v1/admin'', ''GET'', {''admin:read'', ''admin:write''}),
      (''/v1/admin'', ''POST'', {''admin:write''}),
      (''/v1/admin'', ''PUT'', {''admin:write''}),
      (''/v1/admin'', ''PATCH'', {''admin:write''}),
      (''/v1/admin'', ''DELETE'', {''admin:write''})]"

definition route_matches :: "string \<Rightarrow> string \<Rightarrow> string \<times> string \<times> string set \<Rightarrow> bool" where
  "route_matches path method = (\<lambda>(pre, route_method, scopes).
     method = route_method \<and> (path = pre \<or> startswith path (pre @ ''/'')))"

definition required_scopes_for_request :: "string \<Rightarrow> string \<Rightarrow> string set option" where
  "required_scopes_for_request path method =
     (case find (route_matches path (upper method)) route_scopes of
        None \<Rightarrow> None | Some (pre, route_method, scopes) \<Rightarrow> Some scopes)"

definition principal_has_any_scope :: "string set \<Rightarrow> string set \<Rightarrow> bool" where
  "principal_has_any_scope scopes required = (if ''*'' \<in> scopes then True else scopes \<inter> required \<noteq> {})"

section \<open>The middlewares\<close>

text \<open>What the application holds: \<open>ap_first\<close> is \<open>next(iter(required))\<close>, whose choice Python leaves open.\<close>

record 's app =
  ap_settings :: settings
  ap_auth_service :: "'s auth_service"
  ap_rate_limit_service :: "'s rate_limit_service"
  ap_runtime :: "'s runtime"
  ap_first :: "string set \<Rightarrow> string"

definition attach_principal :: "principal \<Rightarrow> request_state \<Rightarrow> request_state" where
  "attach_principal p st = st\<lparr>qs_auth := Some p, qs_tenant_id := Some (p_tenant_id p),
     qs_api_key_id := Some (p_api_key_id p), qs_scopes := Some (p_scopes p)\<rparr>"

definition anonymous_principal :: principal where
  "anonymous_principal = \<lparr>p_tenant_id = default_tenant_id, p_api_key_id = [], p_tenant_status = ''active'',
     p_scopes = {''*''}, p_rate_limit_per_minute = None\<rparr>"

definition attach_anonymous_principal :: "request_state \<Rightarrow> request_state" where
  "attach_anonymous_principal st = st\<lparr>qs_auth := Some anonymous_principal,
     qs_tenant_id := Some (p_tenant_id anonymous_principal), qs_api_key_id := None,
     qs_scopes := Some (p_scopes anonymous_principal)\<rparr>"

definition auth_middleware_impl :: "'s app \<Rightarrow> http_request \<Rightarrow> ('s, 'b) handler \<Rightarrow> ('s, 'b) handler" where
  "auth_middleware_impl A rq call_next = (\<lambda>(st, s).
     if is_exempt_path (hq_path rq) then call_next (st, s)
     else if \<not> st_auth_require_api_key (ap_settings A) then call_next (attach_anonymous_principal st, s)
     else let header_name = st_api_key_header_name (ap_settings A)
     in if \<not> truthy (hq_header rq header_name)
        then (Inl (AuthenticationError (''Missing '' @ header_name @ '' header'')), (st, s))
     else case authenticate (ap_auth_service A) (the (hq_header rq header_name)) s of
            (Inl e, s1) \<Rightarrow> (Inl e, (st, s1))
          | (Inr None, s1) \<Rightarrow> (Inl (AuthenticationError ''Invalid API key''), (st, s1))
          | (Inr (Some p), s1) \<Rightarrow>
              if p_tenant_status p \<noteq> ''active'' then (Inl (AuthorizationError ''Tenant is not active''), (st, s1))
              else case required_scopes_for_request (hq_path rq) (hq_method rq) of
                None \<Rightarrow> call_next (attach_principal p st, s1)
              | Some required \<Rightarrow>
                  if \<not> principal_has_any_scope (p_scopes p) required
                  then (Inl (InsufficientScopeError (ap_first A required)), (st, s1))
                  else call_next (attach_principal p st, s1))"

fun is_auth_error :: "exn \<Rightarrow> bool" where
  "is_auth_error (AuthenticationError _) = True"
| "is_auth_error (AuthorizationError _) = True"
| "is_auth_error (InsufficientScopeError _) = True"
| "is_auth_error _ = False"

text \<open>\<open>except ... as exc: response = to_error_response(...); if response is not None: return response; raise\<close>.\<close>

definition answering :: "(exn \<Rightarrow> bool) \<Rightarrow> ('s, 'b) handler \<Rightarrow> ('s, 'b) handler" where
  "answering caught impl q = (case impl q of
     (Inl e, (st, s)) \<Rightarrow>
       if caught e then (case to_error_response st e of Some r \<Rightarrow> (Inr r, (st, s)) | None \<Rightarrow> (Inl e, (st, s)))
       else (Inl e, (st, s))
   | (Inr r, q1) \<Rightarrow> (Inr r, q1))"

definition auth_middleware_dispatch :: "'s app \<Rightarrow> http_request \<Rightarrow> ('s, 'b) handler \<Rightarrow> ('s, 'b) handler" where
  "auth_middleware_dispatch A rq call_next = answering is_auth_error (auth_middleware_impl A rq call_next)"

definition rate_limit_middleware_impl ::
  "(real \<Rightarrow> real) \<Rightarrow> 's app \<Rightarrow> http_request \<Rightarrow> ('s, 'b) handler \<Rightarrow> ('s, 'b) handler" where
  "rate_limit_middleware_impl rnd A rq call_next = (\<lambda>(st, s).
     if is_exempt_path (hq_path rq) then call_next (st, s)
     else let tenant_id = str_or (qs_tenant_id st) default_tenant_id;
              limit_override = (case qs_auth st of None \<Rightarrow> None | Some p \<Rightarrow> p_rate_limit_per_minute p)
     in case check_and_increment rnd (ap_rate_limit_service A) tenant_id limit_override 1 s of
          (Inl e, s1) \<Rightarrow> (Inl e, (st, s1))
        | (Inr _, s1) \<Rightarrow> call_next (st, s1))"

fun is_rate_limit_error :: "exn \<Rightarrow> bool" where
  "is_rate_limit_error (RateLimitExceededError _) = True"
| "is_rate_limit_error _ = False"

definition rate_limit_middleware_dispatch ::
  "(real \<Rightarrow> real) \<Rightarrow> 's app \<Rightarrow> http_request \<Rightarrow> ('s, 'b) handler \<Rightarrow> ('s, 'b) handler" where
  "rate_limit_middleware_dispatch rnd A rq call_next =
     answering is_rate_limit_error (rate_limit_middleware_impl rnd A rq call_next)"

definition trace_id_header :: string where
  "trace_id_header = ''X-Trace-Id''"

definition choose_trace_id :: "'s app \<Rightarrow> http_request \<Rightarrow> 's \<Rightarrow> string \<times> 's" where
  "choose_trace_id A rq s =
     (if truthy (hq_header rq trace_id_header) then (the (hq_header rq trace_id_header), s)
      else rt_uuid4 (ap_runtime A) s)"

definition request_context_middleware_dispatch ::
  "'s app \<Rightarrow> http_request \<Rightarrow> ('s, 'b) handler \<Rightarrow> ('s, 'b) handler" where
  "request_context_middleware_dispatch A rq call_next = (\<lambda>(st, s).
     let (trace_id, s1) = choose_trace_id A rq s
     in case call_next (st\<lparr>qs_trace_id := Some trace_id\<rparr>, s1) of
          (Inl e, q) \<Rightarrow> (Inl e, q)
        | (Inr response, q) \<Rightarrow> (Inr (set_header trace_id_header trace_id response), q))"

section \<open>The application (\<open>create_app\<close>)\<close>

text \<open>Documented behaviour of Starlette: the middleware added last runs first; around them all is the one that runs
  the handler for \<open>Exception\<close>, and inside them all the one that runs the other exception handlers.\<close>

definition exception_middleware :: "('s, 'b) handler \<Rightarrow> ('s, 'b) handler" where
  "exception_middleware endpoint q = (case endpoint q of
     (Inl e, (st, s)) \<Rightarrow> (case exception_handlers st e of Some r \<Rightarrow> (Inr r, (st, s)) | None \<Rightarrow> (Inl e, (st, s)))
   | (Inr r, q1) \<Rightarrow> (Inr r, q1))"

definition app_call ::
  "(real \<Rightarrow> real) \<Rightarrow> 's app \<Rightarrow> ('s, 'b) handler \<Rightarrow> http_request \<Rightarrow> 's \<Rightarrow> 'b api_response \<times> 's" where
  "app_call rnd A endpoint rq s =
     (case request_context_middleware_dispatch A rq
             (auth_middleware_dispatch A rq
               (rate_limit_middleware_dispatch rnd A rq
                 (exception_middleware endpoint))) (fresh_state, s) of
        (Inr response, (st, s1)) \<Rightarrow> (response, s1)
      | (Inl e, (st, s1)) \<Rightarrow> (unhandled_response st, s1))"

end
