(* ===== verification/Pipeline.thy ===== *)
theory Pipeline
  imports Middleware "HOL-Library.Multiset"
begin

text \<open>
  What the nest of middlewares does: it is equivalent to a sequence of checks before the endpoint, an endpoint
  is reached only by callers that pass them, and the trace id and the advertised wait that a response
  carries.
\<close>

section \<open>The checks in sequence\<close>

text \<open>What authentication decides: the request state the endpoint gets, or the exception it refuses with.\<close>

definition auth_check :: "'s app \<Rightarrow> http_request \<Rightarrow> request_state \<Rightarrow> 's \<Rightarrow> (exn + request_state) \<times> 's" where
  "auth_check A rq st s =
     (let header_name = st_api_key_header_name (ap_settings A); key = hq_header rq header_name
      in if is_exempt_path (hq_path rq) then (Inr st, s)
      else if \<not> st_auth_require_api_key (ap_settings A) then (Inr (attach_anonymous_principal st), s)
      else if \<not> truthy key then (Inl (AuthenticationError (''Missing '' @ header_name @ '' header'')), s)
      else case authenticate (ap_auth_service A) (the key) s of
             (Inl e, s1) \<Rightarrow> (Inl e, s1)
           | (Inr None, s1) \<Rightarrow> (Inl (AuthenticationError ''Invalid API key''), s1)
           | (Inr (Some p), s1) \<Rightarrow>
               (if p_tenant_status p \<noteq> ''active'' then Inl (AuthorizationError ''Tenant is not active'')
                else case required_scopes_for_request (hq_path rq) (hq_method rq) of
                  None \<Rightarrow> Inr (attach_principal p st)
                | Some required \<Rightarrow>
                    if principal_has_any_scope (p_scopes p) required then Inr (attach_principal p st)
                    else Inl (InsufficientScopeError (ap_first A required)), s1))"

definition rate_check ::
  "(real \<Rightarrow> real) \<Rightarrow> 's app \<Rightarrow> http_request \<Rightarrow> request_state \<Rightarrow> 's \<Rightarrow> (exn + unit) \<times> 's" where
  "rate_check rnd A rq st s =
     (if is_exempt_path (hq_path rq) then (Inr (), s)
      else check_and_increment rnd (ap_rate_limit_service A) (str_or (qs_tenant_id st) default_tenant_id)
             (case qs_auth st of None \<Rightarrow> None | Some p \<Rightarrow> p_rate_limit_per_minute p) 1 s)"

text \<open>What the client gets for an exception: a translated one carries the trace header, any other is a 500.\<close>

definition refusal :: "string \<Rightarrow> request_state \<Rightarrow> 'b api_response option \<Rightarrow> 'b api_response" where
  "refusal trace_id st translated = (case translated of
     Some r \<Rightarrow> set_header trace_id_header trace_id r | None \<Rightarrow> unhandled_response st)"

definition translated :: "(exn \<Rightarrow> bool) \<Rightarrow> request_state \<Rightarrow> exn \<Rightarrow> 'b api_response option" where
  "translated caught st e = (if caught e then to_error_response st e else None)"

definition checked_call ::
  "(real \<Rightarrow> real) \<Rightarrow> 's app \<Rightarrow> ('s, 'b) handler \<Rightarrow> http_request \<Rightarrow> 's \<Rightarrow> 'b api_response \<times> 's" where
  "checked_call rnd A endpoint rq s =
     (let (tid, s0) = choose_trace_id A rq s; st0 = fresh_state\<lparr>qs_trace_id := Some tid\<rparr>
      in case auth_check A rq st0 s0 of
           (Inl e, s1) \<Rightarrow> (refusal tid st0 (translated is_auth_error st0 e), s1)
         | (Inr st1, s1) \<Rightarrow>
             (case rate_check rnd A rq st1 s1 of
                (Inl e, s2) \<Rightarrow> (refusal tid st1 (translated (\<lambda>e. is_auth_error e \<or> is_rate_limit_error e) st1 e), s2)
              | (Inr _, s2) \<Rightarrow>
                  (case endpoint (st1, s2) of
                     (Inl e, (st3, s3)) \<Rightarrow> (refusal tid st3 (exception_handlers st3 e), s3)
                   | (Inr r, (st3, s3)) \<Rightarrow> (set_header trace_id_header tid r, s3))))"

lemma to_error_response_total:
  "is_auth_error e \<or> is_rate_limit_error e \<Longrightarrow> \<exists>r. to_error_response st e = Some r"
  by (cases e) auto

lemma exception_handlers_None:
  "exception_handlers st e = None \<Longrightarrow> \<not> is_auth_error e \<and> \<not> is_rate_limit_error e"
  by (cases e) auto

text \<open>What is left of an exception of the inner layers when it has passed the exception middleware.\<close>

lemma answering_inner:
  "answering caught impl q = (case impl q of
     (Inl e, (st, s)) \<Rightarrow> (case translated caught st e of Some r \<Rightarrow> (Inr r, (st, s)) | None \<Rightarrow> (Inl e, (st, s)))
   | (Inr r, q1) \<Rightarrow> (Inr r, q1))"
  by (simp add: answering_def translated_def split: prod.split sum.split)

lemma rate_impl:
  "rate_limit_middleware_impl rnd A rq next (st, s) =
     (case rate_check rnd A rq st s of (Inl e, s1) \<Rightarrow> (Inl e, (st, s1)) | (Inr _, s1) \<Rightarrow> next (st, s1))"
  by (simp add: rate_limit_middleware_impl_def rate_check_def Let_def)

lemma auth_impl:
  "auth_middleware_impl A rq next (st, s) =
     (case auth_check A rq st s of (Inl e, s1) \<Rightarrow> (Inl e, (st, s1)) | (Inr st1, s1) \<Rightarrow> next (st1, s1))"
  by (simp add: auth_middleware_impl_def auth_check_def Let_def split: prod.split sum.split option.split)

lemma rate_layer:
  "rate_limit_middleware_dispatch rnd A rq next (st, s) =
     (case rate_check rnd A rq st s of
        (Inl e, s1) \<Rightarrow> (case translated is_rate_limit_error st e of
            Some r \<Rightarrow> (Inr r, (st, s1)) | None \<Rightarrow> (Inl e, (st, s1)))
      | (Inr _, s1) \<Rightarrow> answering is_rate_limit_error next (st, s1))"
  by (cases "rate_check rnd A rq st s"; cases "fst (rate_check rnd A rq st s)")
    (simp_all add: rate_limit_middleware_dispatch_def answering_inner rate_impl)

lemma auth_layer:
  "auth_middleware_dispatch A rq next (st, s) =
     (case auth_check A rq st s of
        (Inl e, s1) \<Rightarrow> (case translated is_auth_error st e of
            Some r \<Rightarrow> (Inr r, (st, s1)) | None \<Rightarrow> (Inl e, (st, s1)))
      | (Inr st1, s1) \<Rightarrow> answering is_auth_error next (st1, s1))"
  by (cases "auth_check A rq st s"; cases "fst (auth_check A rq st s)")
    (simp_all add: auth_middleware_dispatch_def answering_inner auth_impl)

lemma exception_layer:
  "exception_middleware E q = (case E q of
     (Inl e, (st, s)) \<Rightarrow> (case exception_handlers st e of Some r \<Rightarrow> (Inr r, (st, s)) | None \<Rightarrow> (Inl e, (st, s)))
   | (Inr r, q1) \<Rightarrow> (Inr r, q1))"
  by (simp add: exception_middleware_def)

lemma answering_exceptions:
  assumes "\<And>e. caught e \<Longrightarrow> is_auth_error e \<or> is_rate_limit_error e"
  shows "answering caught (exception_middleware E) = exception_middleware E"
  using assms exception_handlers_None
  by (intro ext) (auto simp: answering_inner exception_layer translated_def split: prod.split sum.split option.split)

lemma app_call_checked_aux: "app_call rnd A E rq s = checked_call rnd A E rq s"
proof -
  obtain tid s0 where t: "choose_trace_id A rq s = (tid, s0)" by fastforce
  let ?st0 = "fresh_state\<lparr>qs_trace_id := Some tid\<rparr>"
  obtain a s1 where a: "auth_check A rq ?st0 s0 = (a, s1)" by fastforce
  note start = app_call_def checked_call_def request_context_middleware_dispatch_def auth_layer t a refusal_def
  show ?thesis
  proof (cases a)
    case (Inl e)
    then show ?thesis by (simp add: start split: option.split)
  next
    case (Inr st1)
    obtain b s2 where b: "rate_check rnd A rq st1 s1 = (b, s2)" by fastforce
    note mid = start Inr b answering_inner rate_layer
    show ?thesis
    proof (cases b)
      case (Inl e)
      then show ?thesis
        using to_error_response_total [of e]
        by (auto simp: mid translated_def split: option.split)
    next
      case (Inr u)
      then have "rate_limit_middleware_dispatch rnd A rq (exception_middleware E) (st1, s1) = exception_middleware E (st1, s2)"
        by (simp add: rate_layer b answering_exceptions)
      moreover have "answering is_auth_error (rate_limit_middleware_dispatch rnd A rq (exception_middleware E)) (st1, s1)
          = answering is_auth_error (exception_middleware E) (st1, s2)"
        by (simp add: answering_def calculation)
      ultimately have "answering is_auth_error (rate_limit_middleware_dispatch rnd A rq (exception_middleware E)) (st1, s1)
          = exception_middleware E (st1, s2)" by (simp add: answering_exceptions)
      then show ?thesis
        by (simp add: start \<open>a = Inr st1\<close> b Inr exception_layer split: prod.split sum.split option.split)
    qed
  qed
qed

text \<open>C6. The nest of middlewares is a sequence of checks: whatever the endpoint, a request is first given its
  trace id, then authenticated, then counted against the rate limit of its tenant, and only then passed on;
  the first check that fails decides the response, and an exception of the endpoint is translated by its own
  handlers, never by those of the checks.\<close>

theorem pipeline_is_sequential:
  "app_call rnd A E rq s = checked_call rnd A E rq s"
  by (rule app_call_checked_aux)

section \<open>Scopes\<close>

lemma find_map_of_order:
  assumes "mset T = mset xs" "\<And>x y. x \<in> set xs \<Longrightarrow> y \<in> set xs \<Longrightarrow> P x \<Longrightarrow> P y \<Longrightarrow> x = y"
  shows "find P T = find P xs"
proof -
  have T: "set T = set xs" using assms(1) by (metis set_mset_mset)
  show ?thesis
  proof (cases "find P xs")
    case None
    then show ?thesis using T by (metis find_None_iff)
  next
    case (Some x)
    then have x: "x \<in> set xs" "P x" using find_Some_in by fastforce+
    then obtain y where y: "find P T = Some y" using T by (metis find_None_iff not_None_eq)
    then have "y \<in> set xs" "P y" using find_Some_in [OF y] T by auto
    with assms(2) x have "y = x" by blast
    with y Some show ?thesis by simp
  qed
qed

lemma route_matches_starts: "route_matches path m (pre, rm, R) \<Longrightarrow> take (length pre) path = pre"
proof -
  assume h: "route_matches path m (pre, rm, R)"
  then have "path = pre \<or> prefix (pre @ ''/'') path" by (auto simp: route_matches_def startswith_iff_prefix)
  then show ?thesis by (auto simp: prefix_def)
qed

lemma route_matches_unique:
  assumes "x \<in> set route_scopes" "y \<in> set route_scopes" "route_matches path m x" "route_matches path m y"
  shows "x = y"
proof -
  obtain p1 m1 R1 p2 m2 R2 where xy: "x = (p1, m1, R1)" "y = (p2, m2, R2)" by (metis surj_pair)
  have m: "m1 = m" "m2 = m" using assms(3,4) by (auto simp: xy route_matches_def)
  have p: "take (length p1) path = p1" "take (length p2) path = p2"
    using assms(3,4) route_matches_starts by (auto simp: xy)
  then have "take (min (length p1) (length p2)) p1 = take (min (length p1) (length p2)) p2"
    by (metis min.cobounded1 min.cobounded2 take_take min.absorb1)
  with assms(1,2) show ?thesis unfolding xy m by (auto simp: route_scopes_def)
qed

text \<open>The scopes of a request do not depend on the order of the table, so "longest prefix wins" has nothing to decide:
  no two entries match one request.  With the seven entries, every request with one of the five methods to the admin area, the
  area's root or below, needs an admin scope, and writing needs \<open>admin:write\<close>.\<close>

theorem scopes_independent_of_order:
  assumes "mset T = mset route_scopes"
  shows "required_scopes_for_request path meth =
      (case find (route_matches path (upper meth)) T of None \<Rightarrow> None | Some (pre, route_method, scopes) \<Rightarrow> Some scopes)
    \<and> required_scopes_for_request (''/v1/admin/'' @ rest) ''GET'' = Some {''admin:read'', ''admin:write''}
    \<and> (\<forall>m\<in>{''POST'', ''PUT'', ''PATCH'', ''DELETE''}.
         required_scopes_for_request (''/v1/admin/'' @ rest) m = Some {''admin:write''})"
proof (intro conjI)
  have "find (route_matches path (upper meth)) T = find (route_matches path (upper meth)) route_scopes"
    by (rule find_map_of_order [OF assms]) (rule route_matches_unique)
  then show "required_scopes_for_request path meth =
      (case find (route_matches path (upper meth)) T of None \<Rightarrow> None | Some (pre, route_method, scopes) \<Rightarrow> Some scopes)"
    by (simp add: required_scopes_for_request_def)
  have u: "upper ''GET'' = ''GET''" "upper ''POST'' = ''POST''" "upper ''PUT'' = ''PUT''" "upper ''PATCH'' = ''PATCH''"
    "upper ''DELETE'' = ''DELETE''" by code_simp+
  show "required_scopes_for_request (''/v1/admin/'' @ rest) ''GET'' = Some {''admin:read'', ''admin:write''}"
    by (simp add: required_scopes_for_request_def u route_scopes_def route_matches_def startswith_def)
  show "\<forall>m\<in>{''POST'', ''PUT'', ''PATCH'', ''DELETE''}. required_scopes_for_request (''/v1/admin/'' @ rest) m = Some {''admin:write''}"
    by (simp add: required_scopes_for_request_def u route_scopes_def route_matches_def startswith_def)
qed

theorem scopes_independent_of_order_witness:
  "required_scopes_for_request ''/v1/admin/tenants'' ''get'' =
     (case find (route_matches ''/v1/admin/tenants'' (upper ''get'')) (rev route_scopes) of
        None \<Rightarrow> None | Some (pre, route_method, scopes) \<Rightarrow> Some scopes)"
  using scopes_independent_of_order [of "rev route_scopes"] by simp

section \<open>Who reaches an endpoint\<close>

lemma auth_check_admits:
  assumes "auth_check A rq st s = (Inr st1, s1)" "\<not> is_exempt_path (hq_path rq)"
    "st_auth_require_api_key (ap_settings A)"
  shows "\<exists>raw p. hq_header rq (st_api_key_header_name (ap_settings A)) = Some raw \<and> raw \<noteq> []
    \<and> authenticate (ap_auth_service A) raw s = (Inr (Some p), s1) \<and> p_tenant_status p = ''active''
    \<and> (case required_scopes_for_request (hq_path rq) (hq_method rq) of None \<Rightarrow> True
       | Some R \<Rightarrow> ''*'' \<in> p_scopes p \<or> p_scopes p \<inter> R \<noteq> {})
    \<and> st1 = attach_principal p st"
  using assms
  by (cases "hq_header rq (st_api_key_header_name (ap_settings A))")
    (auto simp: auth_check_def Let_def principal_has_any_scope_def split: if_splits sum.splits option.splits prod.splits)

text \<open>C7. An endpoint is reached only by callers that may reach it: outside the exempt paths, and with API keys required,
  if it makes any difference which endpoint is behind the middlewares, then the request carried a key that
  \<open>authenticate\<close> accepts, for an active tenant, whose scopes satisfy the route's, and the rate limiter let this tenant
  pass; and the endpoint sees exactly this principal.\<close>

theorem endpoint_guarded:
  assumes differ: "app_call rnd A E rq s \<noteq> app_call rnd A E' rq s"
    and path: "\<not> is_exempt_path (hq_path rq)" and req: "st_auth_require_api_key (ap_settings A)"
  shows "\<exists>tid s0 raw p s1 s2. choose_trace_id A rq s = (tid, s0)
    \<and> hq_header rq (st_api_key_header_name (ap_settings A)) = Some raw
    \<and> authenticate (ap_auth_service A) raw s0 = (Inr (Some p), s1) \<and> p_tenant_status p = ''active''
    \<and> (case required_scopes_for_request (hq_path rq) (hq_method rq) of None \<Rightarrow> True
       | Some R \<Rightarrow> ''*'' \<in> p_scopes p \<or> p_scopes p \<inter> R \<noteq> {})
    \<and> check_and_increment rnd (ap_rate_limit_service A) (str_or (Some (p_tenant_id p)) default_tenant_id)
         (p_rate_limit_per_minute p) 1 s1 = (Inr (), s2)
    \<and> E (attach_principal p (fresh_state\<lparr>qs_trace_id := Some tid\<rparr>), s2)
      \<noteq> E' (attach_principal p (fresh_state\<lparr>qs_trace_id := Some tid\<rparr>), s2)"
proof -
  obtain tid s0 where t: "choose_trace_id A rq s = (tid, s0)" by fastforce
  let ?st0 = "fresh_state\<lparr>qs_trace_id := Some tid\<rparr>"
  obtain a s1 where a: "auth_check A rq ?st0 s0 = (a, s1)" by fastforce
  have d: "checked_call rnd A E rq s \<noteq> checked_call rnd A E' rq s" using differ by (simp add: app_call_checked_aux)
  then obtain st1 where st1: "a = Inr st1" by (cases a) (auto simp: checked_call_def t a)
  obtain b s2 where b: "rate_check rnd A rq st1 s1 = (b, s2)" by fastforce
  from d have b': "b = Inr ()" by (cases b) (auto simp: checked_call_def t a st1 b)
  from d have E: "E (st1, s2) \<noteq> E' (st1, s2)" by (auto simp: checked_call_def t a st1 b b')
  from auth_check_admits [OF a [unfolded st1] path req] b b' E path show ?thesis
    by (auto simp: t rate_check_def attach_principal_def)
qed

text \<open>An application over the memory database whose rate limiter has lost its Redis and fails open.\<close>

definition down_store :: "'w bucket_store" where
  "down_store = \<lparr>bs_watch = (\<lambda>k w. (Inl (RedisError ''down''), w)), bs_hmget = (\<lambda>k w. (Inl (RedisError ''down''), w)),
     bs_unwatch = (\<lambda>w. (Inl (RedisError ''down''), w)), bs_execute = (\<lambda>k t l ttl w. (Inl (RedisError ''down''), w)),
     bs_hset = (\<lambda>k t l w. (Inl (RedisError ''down''), w)), bs_pexpire = (\<lambda>k ttl w. (Inl (RedisError ''down''), w))\<rparr>"

definition mem_app :: "mem app" where
  "mem_app = \<lparr>ap_settings = default_settings, ap_auth_service = mem_auth,
     ap_rate_limit_service = \<lparr>rl_store = down_store, rl_runtime = mem_runtime, rl_default_limit_per_minute = 60,
       rl_enabled = True, rl_fail_open = True\<rparr>,
     ap_runtime = mem_runtime, ap_first = (\<lambda>R. if ''admin:write'' \<in> R then ''admin:write'' else ''chat:write'')\<rparr>"

lemma mem_app_sel [simp]: "ap_settings mem_app = default_settings" "ap_auth_service mem_app = mem_auth"
    "ap_runtime mem_app = mem_runtime"
  by (simp_all add: mem_app_def)

lemma mem_app_rate: "\<exists>s1. check_and_increment rnd (ap_rate_limit_service mem_app) t ov c s = (Inr (), s1)"
  by (simp add: mem_app_def check_and_increment_def Let_def consume_token_def eval_nat_numeral down_store_def
      split: prod.split)

definition chat_request_with_key :: http_request where
  "chat_request_with_key = \<lparr>hq_method = ''POST'', hq_path = ''/v1/chat/completions'',
     hq_header = [st_api_key_header_name default_settings \<mapsto> sample_key, trace_id_header \<mapsto> ''trace'']\<rparr>"

lemma chat_request_sel [simp]: "hq_method chat_request_with_key = ''POST''"
    "hq_path chat_request_with_key = ''/v1/chat/completions''"
    "hq_header chat_request_with_key (st_api_key_header_name default_settings) = Some sample_key"
    "hq_header chat_request_with_key trace_id_header = Some ''trace''"
  by (simp_all add: chat_request_with_key_def default_settings_def trace_id_header_def)

lemma keys_required: "st_auth_require_api_key default_settings"
  by (simp add: default_settings_def)

lemma sample_key_nonempty [simp]: "sample_key \<noteq> []"
  by (simp add: sample_key_def)

lemma chat_scope: "required_scopes_for_request ''/v1/chat/completions'' ''POST'' = Some {''chat:write''}"
proof -
  have "upper ''POST'' = ''POST''" by code_simp
  then show ?thesis by (simp add: required_scopes_for_request_def route_scopes_def route_matches_def)
qed

lemma chat_not_exempt: "\<not> is_exempt_path ''/v1/chat/completions''"
  by (simp add: is_exempt_path_def exempt_paths_def startswith_def)

definition seeded_keys :: mem where
  "seeded_keys = mem_state (hash_api_key ''pepper'' sample_key) None"

lemma chat_reaches_endpoint:
  "\<exists>s2. app_call rnd mem_app E chat_request_with_key seeded_keys =
     (case E (attach_principal sample_principal (fresh_state\<lparr>qs_trace_id := Some ''trace''\<rparr>), s2) of
        (Inl e, (st3, s3)) \<Rightarrow> (refusal ''trace'' st3 (exception_handlers st3 e), s3)
      | (Inr r, (st3, s3)) \<Rightarrow> (set_header trace_id_header ''trace'' r, s3))"
proof -
  obtain s1 where a: "authenticate mem_auth sample_key seeded_keys = (Inr (Some sample_principal), s1)"
    using mem_authenticate by (auto simp: seeded_keys_def)
  obtain s2 where r: "check_and_increment rnd (ap_rate_limit_service mem_app) ''t1'' None 1 s1 = (Inr (), s2)"
    using mem_app_rate by blast
  have t: "choose_trace_id mem_app chat_request_with_key seeded_keys = (''trace'', seeded_keys)"
    by (simp add: choose_trace_id_def)
  have "auth_check mem_app chat_request_with_key st seeded_keys = (Inr (attach_principal sample_principal st), s1)" for st
    by (simp add: auth_check_def chat_not_exempt a chat_scope principal_has_any_scope_def keys_required)
      (simp add: sample_principal_def)
  moreover have "rate_check rnd mem_app chat_request_with_key (attach_principal sample_principal st) s1 = (Inr (), s2)" for st
    by (simp add: rate_check_def chat_not_exempt attach_principal_def) (simp add: sample_principal_def str_or_def r)
  ultimately show ?thesis by (auto simp: app_call_checked_aux checked_call_def t)
qed

theorem endpoint_guarded_witness:
  "\<exists>tid s0 raw p s1. choose_trace_id mem_app chat_request_with_key seeded_keys = (tid, s0)
     \<and> hq_header chat_request_with_key (st_api_key_header_name default_settings) = Some raw
     \<and> authenticate mem_auth raw s0 = (Inr (Some p), s1)"
proof -
  let ?E = "\<lambda>n q. (Inr \<lparr>hp_status = n, hp_headers = [], hp_body = Content ()\<rparr>, q)"
  have status: "hp_status (fst (app_call exact mem_app (?E n) chat_request_with_key seeded_keys)) = n" for n
    using chat_reaches_endpoint [of exact "?E n"] by (auto simp: set_header_def)
  then have "app_call exact mem_app (?E 200) chat_request_with_key seeded_keys
      \<noteq> app_call exact mem_app (?E 201) chat_request_with_key seeded_keys"
    by (metis numeral_eq_iff semiring_norm(83,85,86,88,89))
  from endpoint_guarded [OF this] show ?thesis
    by (fastforce simp: chat_not_exempt default_settings_def)
qed

section \<open>What responses carry\<close>

lemma refusal_cases:
  "map_of (hp_headers (refusal tid st x)) trace_id_header = Some tid \<or> refusal tid st x = unhandled_response st"
  by (cases x) (simp_all add: refusal_def)

lemma unhandled_response_trace:
  "qs_trace_id st = qs_trace_id st' \<Longrightarrow> (unhandled_response st :: 'b api_response) = unhandled_response st'"
  by (simp add: unhandled_response_def error_response_def)

text \<open>The trace id: it is the client's if the client sent one that is not empty; every response carries it in
  the header \<open>X-Trace-Id\<close>, except that of an exception nobody handles: this one is the same whatever the exception was,
  so it reveals nothing, and it names the trace id in its body only.\<close>

theorem trace_id_returned:
  assumes keeps: "\<And>q. qs_trace_id (fst (snd (E q))) = qs_trace_id (fst q)"
    and call: "app_call rnd A E rq s = (r, s')" and tid: "fst (choose_trace_id A rq s) = tid"
  shows "(case hq_header rq ''X-Trace-Id'' of Some t \<Rightarrow> (if t = [] then True else tid = t) | None \<Rightarrow> True)
    \<and> (map_of (hp_headers r) ''X-Trace-Id'' = Some tid
       \<or> r = \<lparr>hp_status = 500, hp_headers = [], hp_body = ErrorContent [(''error'', FText ''internal_server_error''),
             (''trace_id'', FText tid), (''message'', FText ''An unexpected error occurred'')]\<rparr>)"
proof
  show "case hq_header rq ''X-Trace-Id'' of Some t \<Rightarrow> (if t = [] then True else tid = t) | None \<Rightarrow> True"
    using tid by (auto simp: choose_trace_id_def trace_id_header_def split: option.split)
  let ?st0 = "fresh_state\<lparr>qs_trace_id := Some tid\<rparr>"
  obtain s0 where t: "choose_trace_id A rq s = (tid, s0)" using tid by (metis prod.collapse)
  obtain a s1 where a: "auth_check A rq ?st0 s0 = (a, s1)" by fastforce
  have st1: "qs_trace_id st1 = Some tid" if "a = Inr st1" for st1
    using a that by (auto simp: auth_check_def Let_def attach_principal_def attach_anonymous_principal_def
        split: if_splits sum.splits prod.splits option.splits)
  have "\<exists>st x. qs_trace_id st = Some tid \<and> (r = refusal tid st x \<or> (\<exists>r0. r = set_header trace_id_header tid r0))"
  proof (cases a)
    case (Inl e)
    with call show ?thesis by (auto simp: app_call_checked_aux checked_call_def t a Let_def intro!: exI [of _ ?st0])
  next
    case (Inr st1')
    obtain b s2 where b: "rate_check rnd A rq st1' s1 = (b, s2)" by fastforce
    obtain x st3 s3 where e: "E (st1', s2) = (x, (st3, s3))" by (metis surj_pair)
    have "qs_trace_id st3 = Some tid" using keeps [of "(st1', s2)"] e st1 [OF Inr] by simp
    with call st1 [OF Inr] show ?thesis
      by (cases b; cases x) (auto simp: app_call_checked_aux checked_call_def t a Inr b e Let_def)
  qed
  then obtain st x where st: "qs_trace_id st = Some tid" "r = refusal tid st x \<or> (\<exists>r0. r = set_header trace_id_header tid r0)"
    by blast
  have "map_of (hp_headers r) trace_id_header = Some tid \<or> r = unhandled_response ?st0"
    using st refusal_cases [of tid st x] unhandled_response_trace [of st ?st0] by auto
  then show "map_of (hp_headers r) ''X-Trace-Id'' = Some tid
       \<or> r = \<lparr>hp_status = 500, hp_headers = [], hp_body = ErrorContent [(''error'', FText ''internal_server_error''),
             (''trace_id'', FText tid), (''message'', FText ''An unexpected error occurred'')]\<rparr>"
    by (simp add: trace_id_header_def unhandled_response_def error_response_def text_field_def)
qed

theorem trace_id_returned_witness:
  "\<exists>r s'. app_call exact mem_app (\<lambda>q. (Inl TypeError, q)) chat_request_with_key seeded_keys = (r, s')
     \<and> (map_of (hp_headers r) ''X-Trace-Id'' = Some ''trace'' \<or> hp_status (r :: unit api_response) = 500)"
proof -
  obtain r :: "unit api_response" and s'
    where c: "app_call exact mem_app (\<lambda>q. (Inl TypeError, q)) chat_request_with_key seeded_keys = (r, s')"
    by fastforce
  from trace_id_returned [OF _ c, of "''trace''"] have
    "map_of (hp_headers r) ''X-Trace-Id'' = Some ''trace'' \<or> hp_status r = 500"
    by (auto simp: choose_trace_id_def)
  with c show ?thesis by blast
qed

text \<open>A refused check of the rate limiter and the bucket it leaves.\<close>

definition request_time :: "'s rate_limit_service \<Rightarrow> 's \<Rightarrow> int" where
  "request_time S w = py_int (fst (rt_time (rl_runtime S) w) * 1000)"

lemma check_is_step:
  assumes q: "quiet_store (rl_store S) view" and rt: "\<And>w. view (snd (rt_time (rl_runtime S) w)) = view w"
    and on: "rl_enabled S" "0 < effective_limit S ov"
    and step: "bucket_step exact (of_int (effective_limit S ov)) (of_int (effective_limit S ov) / 60) 1 (request_time S w)
      (view w (rate_limit_key t)) = (allowed, wait, stored)"
  shows "\<exists>w'. check_and_increment exact S t ov 1 w =
      ((if allowed then Inr () else Inl (RateLimitExceededError (max wait (1/1000)))), w')
    \<and> view w' = (view w)(rate_limit_key t := stored)"
proof -
  obtain now w0 where n: "rt_time (rl_runtime S) w = (now, w0)" by fastforce
  then have v: "view w0 = view w" "request_time S w = py_int (now * 1000)"
    using rt [of w] by (simp_all add: request_time_def)
  from consume_token_refines_step_aux [OF q, where rnd = exact and w = w0 and now = "request_time S w" and key = "rate_limit_key t"
      and cost = 1 and cap = "of_int (effective_limit S ov)" and rate = "of_int (effective_limit S ov) / 60"] step
  obtain w' where "consume_token exact (rl_store S) (rate_limit_key t) (of_int (effective_limit S ov)) (of_int (effective_limit S ov) / 60)
      (request_time S w) 1 w0 = (Inr (allowed, wait), w')" "view w' = (view w)(rate_limit_key t := stored)"
    by (auto simp: v)
  then show ?thesis using on by (auto simp: check_and_increment_def n v(2))
qed

lemma refused_check:
  assumes q: "quiet_store (rl_store S) view" and rt: "\<And>w. view (snd (rt_time (rl_runtime S) w)) = view w"
    and ref: "check_and_increment exact S t ov 1 w = (Inl (RateLimitExceededError wait), w1)"
  shows "rl_enabled S \<and> 0 < effective_limit S ov
    \<and> (\<exists>r stored. bucket_step exact (of_int (effective_limit S ov)) (of_int (effective_limit S ov) / 60) 1 (request_time S w)
        (view w (rate_limit_key t)) = (False, r, stored) \<and> r \<le> wait \<and> view w1 (rate_limit_key t) = stored)"
proof -
  have on: "rl_enabled S" "0 < effective_limit S ov"
    using ref by (auto simp: check_and_increment_def Let_def split: if_splits)
  obtain b r stored where s: "bucket_step exact (of_int (effective_limit S ov)) (of_int (effective_limit S ov) / 60) 1
      (request_time S w) (view w (rate_limit_key t)) = (b, r, stored)" by (metis surj_pair)
  from check_is_step [OF q rt on s] ref on s show ?thesis by (auto split: if_splits)
qed


text \<open>One token a second, and a bucket that is empty at time zero.\<close>

definition clocked_limiter :: "((string \<Rightarrow> bucket_fields) \<times> real) rate_limit_service" where
  "clocked_limiter = \<lparr>rl_store = \<lparr>bs_watch = (\<lambda>k w. (Inr (), w)), bs_hmget = (\<lambda>k (v, c). (Inr (v k), (v, c))),
       bs_unwatch = (\<lambda>w. (Inr (), w)), bs_execute = (\<lambda>k t l ttl (v, c). (Inr (), (v(k := (Some t, Some l)), c))),
       bs_hset = (\<lambda>k t l (v, c). (Inr (), (v(k := (Some t, Some l)), c))), bs_pexpire = (\<lambda>k ttl w. (Inr (), w))\<rparr>,
     rl_runtime = idle_runtime\<lparr>rt_time := (\<lambda>(v, c). (c, (v, c)))\<rparr>, rl_default_limit_per_minute = 60,
     rl_enabled = True, rl_fail_open = False\<rparr>"

lemma clocked_limiter_quiet: "quiet_store (rl_store clocked_limiter) fst"
  by (auto simp: quiet_store_def clocked_limiter_def)

lemma clocked_limiter_time: "rt_time (rl_runtime clocked_limiter) (v, c) = (c, (v, c))"
  by (simp add: clocked_limiter_def)


end
