(* ===== verification/AdapterRoutes.thy ===== *)
theory AdapterRoutes
  imports Persistence
begin

text \<open>
  The repository over \<open>adapter_routes\<close> (\<open>persistence/repositories/adapter_route_repository.py\<close>): which
  base model and adapter a tenant's model alias stands for, per stage, with the sticky canary split
  between the Production and the Staging route.
\<close>

section \<open>Operations\<close>

definition get_active_route :: "tables \<Rightarrow> string \<Rightarrow> string \<Rightarrow> string \<Rightarrow> adapter_route_row option" where
  "get_active_route t tenant_id model_alias stage =
     find (\<lambda>r. ar_tenant_id r = tenant_id \<and> ar_model_alias r = model_alias \<and> ar_stage r = stage \<and> ar_enabled r)
       (tb_adapter_routes t)"

definition canary_bucket :: "string \<Rightarrow> int" where
  "canary_bucket routing_key = int16 (take 8 (sha256_hex routing_key)) mod 100"

definition resolve_with_canary ::
  "tables \<Rightarrow> string \<Rightarrow> string \<Rightarrow> string \<Rightarrow> string option \<Rightarrow> adapter_route_row option" where
  "resolve_with_canary t tenant_id model_alias routing_key preferred_stage =
     (if truthy preferred_stage
      then get_active_route t tenant_id model_alias (the preferred_stage)
      else let production = get_active_route t tenant_id model_alias ''Production'';
               staging = get_active_route t tenant_id model_alias ''Staging'';
               production_or_staging = (case production of Some p \<Rightarrow> Some p | None \<Rightarrow> staging)
      in case staging of
           Some s \<Rightarrow> if ar_canary_percent s > 0
                     then (if canary_bucket routing_key < ar_canary_percent s then Some s
                           else production_or_staging)
                     else production_or_staging
         | None \<Rightarrow> production_or_staging)"

definition list_for_tenant :: "tables \<Rightarrow> string \<Rightarrow> adapter_route_row list" where
  "list_for_tenant t tenant_id =
     sort_key (\<lambda>r. (ar_model_alias r, ar_stage r)) (filter (\<lambda>r. ar_tenant_id r = tenant_id) (tb_adapter_routes t))"

definition get_by_unique :: "tables \<Rightarrow> string \<Rightarrow> string \<Rightarrow> string \<Rightarrow> adapter_route_row option" where
  "get_by_unique t tenant_id model_alias stage =
     find (\<lambda>r. ar_tenant_id r = tenant_id \<and> ar_model_alias r = model_alias \<and> ar_stage r = stage) (tb_adapter_routes t)"

text \<open>Assigning to the attributes of a loaded row changes the row with its primary key.\<close>

definition write_route :: "adapter_route_row \<Rightarrow> tables \<Rightarrow> tables" where
  "write_route row t = t\<lparr>tb_adapter_routes :=
     map (\<lambda>r. if ar_id r = ar_id row then row else r) (tb_adapter_routes t)\<rparr>"

definition route_upsert ::
  "'w database \<Rightarrow> string \<Rightarrow> string \<Rightarrow> string \<Rightarrow> string \<Rightarrow> string \<Rightarrow> bool \<Rightarrow> int \<Rightarrow>
     ('w, adapter_route_row) unit_of_work" where
  "route_upsert D tenant_id model_alias base_model adapter_id stage enabled canary_percent = (\<lambda>(t, w).
     let percent = max 0 (min 100 canary_percent)
     in case get_by_unique t tenant_id model_alias stage of
          Some existing \<Rightarrow>
            let row = existing\<lparr>ar_base_model := base_model, ar_adapter_id := adapter_id, ar_enabled := enabled,
                               ar_canary_percent := percent\<rparr>
            in if too_long [(128, base_model), (255, adapter_id)] then (Inl (DatabaseError ''value too long''), (t, w))
               else (Inr row, (write_route row t, w))
        | None \<Rightarrow>
            let (uid, w1) = rt_uuid4 (db_runtime D) w; (now, w2) = rt_utcnow (db_runtime D) w1;
                row = \<lparr>ar_id = uid, ar_tenant_id = tenant_id, ar_model_alias = model_alias,
                       ar_base_model = base_model, ar_adapter_id = adapter_id, ar_stage = stage,
                       ar_enabled = enabled, ar_canary_percent = percent, ar_created_at = now\<rparr>
            in if too_long [(128, model_alias), (128, base_model), (255, adapter_id), (32, stage)]
               then (Inl (DatabaseError ''value too long''), (t, w2))
               else if \<exists>r\<in>set (tb_adapter_routes t). ar_id r = uid then (Inl (DatabaseError ''unique''), (t, w2))
               else if \<forall>n\<in>set (tb_tenants t). tn_id n \<noteq> tenant_id
               then (Inl (DatabaseError ''foreign key''), (t, w2))
               else (Inr row, (t\<lparr>tb_adapter_routes := tb_adapter_routes t @ [row]\<rparr>, w2)))"

definition route_disable ::
  "string \<Rightarrow> string \<Rightarrow> string \<Rightarrow> ('w, adapter_route_row option) unit_of_work" where
  "route_disable tenant_id model_alias stage = (\<lambda>(t, w).
     case get_by_unique t tenant_id model_alias stage of
       None \<Rightarrow> (Inr None, (t, w))
     | Some row \<Rightarrow> (let row' = row\<lparr>ar_enabled := False\<rparr> in (Inr (Some row'), (write_route row' t, w))))"

section \<open>The table as a map from tenant, alias and stage\<close>

type_synonym route_key = "string \<times> string \<times> string"

definition route_key :: "adapter_route_row \<Rightarrow> route_key" where
  "route_key r = (ar_tenant_id r, ar_model_alias r, ar_stage r)"

definition route_map :: "tables \<Rightarrow> route_key \<Rightarrow> adapter_route_row option" where
  "route_map t = (\<lambda>(tenant_id, model_alias, stage). get_by_unique t tenant_id model_alias stage)"

text \<open>The primary key, the unique constraint and the range that \<open>upsert\<close> clamps to.\<close>

definition routes_ok :: "tables \<Rightarrow> bool" where
  "routes_ok t \<longleftrightarrow> distinct (map ar_id (tb_adapter_routes t)) \<and> distinct (map route_key (tb_adapter_routes t))
     \<and> (\<forall>r\<in>set (tb_adapter_routes t). 0 \<le> ar_canary_percent r \<and> ar_canary_percent r \<le> 100)"

lemma find_snoc: "find P (xs @ [x]) = (case find P xs of Some y \<Rightarrow> Some y | None \<Rightarrow> if P x then Some x else None)"
  by (induction xs) auto

lemma find_map_stable: "(\<And>x. x \<in> set xs \<Longrightarrow> P (g x) = P x) \<Longrightarrow> find P (map g xs) = map_option g (find P xs)"
  by (induction xs) auto

lemma route_map_find: "route_map t k = find (\<lambda>r. route_key r = k) (tb_adapter_routes t)"
  by (cases k) (simp add: route_map_def get_by_unique_def route_key_def)

lemma route_map_Some: "route_map t k = Some r \<Longrightarrow> r \<in> set (tb_adapter_routes t) \<and> route_key r = k"
  unfolding route_map_find by (rule find_Some_in)

lemma route_map_unique:
  assumes "routes_ok t" "r \<in> set (tb_adapter_routes t)"
  shows "route_map t (route_key r) = Some r"
proof -
  have "route_map t (route_key r) \<noteq> None"
    using assms(2) by (auto simp: route_map_find find_None_iff)
  then obtain q where q: "route_map t (route_key r) = Some q" by auto
  from route_map_Some [OF q] assms have "q = r" by (auto simp: routes_ok_def distinct_map dest: inj_onD)
  with q show ?thesis by simp
qed

text \<open>An active route is the enabled entry of its key.\<close>

lemma get_active_map:
  assumes "routes_ok t"
  shows "get_active_route t tenant_id als stage =
    (case route_map t (tenant_id, als, stage) of None \<Rightarrow> None | Some r \<Rightarrow> if ar_enabled r then Some r else None)"
proof (cases "route_map t (tenant_id, als, stage)")
  case None
  then have "\<forall>r\<in>set (tb_adapter_routes t). route_key r \<noteq> (tenant_id, als, stage)"
    by (auto simp: route_map_find find_None_iff)
  then have "get_active_route t tenant_id als stage = None"
    unfolding get_active_route_def find_None_iff by (auto simp: route_key_def)
  with None show ?thesis by simp
next
  case (Some r)
  note r = route_map_Some [OF Some]
  have only: "q = r" if "q \<in> set (tb_adapter_routes t)" "route_key q = route_key r" for q
    using route_map_unique [OF assms that(1)] route_map_unique [OF assms, of r] r that(2) by simp
  show ?thesis
  proof (cases "get_active_route t tenant_id als stage")
    case None
    then have "\<not> ar_enabled r"
      using r unfolding get_active_route_def find_None_iff by (auto simp: route_key_def)
    with None Some show ?thesis by simp
  next
    fix q assume q: "get_active_route t tenant_id als stage = Some q"
    from find_Some_in [OF this [unfolded get_active_route_def]] r
    have "q = r" "ar_enabled q" by (auto intro: only simp: route_key_def)
    with q Some show ?thesis by simp
  qed
qed

lemma write_route_map:
  assumes ok: "routes_ok t" and old: "route_map t (route_key row) = Some old" "ar_id old = ar_id row"
    and pct: "0 \<le> ar_canary_percent row" "ar_canary_percent row \<le> 100"
  shows "routes_ok (write_route row t) \<and> route_map (write_route row t) = (route_map t)(route_key row \<mapsto> row)"
proof
  let ?g = "\<lambda>r. if ar_id r = ar_id row then row else r"
  let ?rs = "tb_adapter_routes t"
  note mem = route_map_Some [OF old(1)]
  have inj: "inj_on ar_id (set ?rs)" using ok by (simp add: routes_ok_def distinct_map)
  have same: "r = old" if "r \<in> set ?rs" "ar_id r = ar_id row" for r
    using inj_onD [OF inj, of r old] that mem old(2) by simp
  have keys: "route_key (?g r) = route_key r" if "r \<in> set ?rs" for r
    using same [OF that] mem by auto
  have ids: "map ar_id (map ?g ?rs) = map ar_id ?rs" by simp
  have ks: "map route_key (map ?g ?rs) = map route_key ?rs"
    using keys by (simp only: list.map_comp o_def) (rule map_cong [OF refl])
  have tb: "tb_adapter_routes (write_route row t) = map ?g ?rs" by (simp add: write_route_def)
  show "routes_ok (write_route row t)"
    unfolding routes_ok_def tb ids ks using ok pct by (auto simp: routes_ok_def)
  show "route_map (write_route row t) = (route_map t)(route_key row \<mapsto> row)"
  proof
    fix k
    have "route_map (write_route row t) k = map_option ?g (route_map t k)"
      unfolding route_map_find tb by (rule find_map_stable) (simp only: keys)
    also have "\<dots> = ((route_map t)(route_key row \<mapsto> row)) k"
    proof (cases "k = route_key row")
      case True
      with old show ?thesis by simp
    next
      case False
      have "?g r = r" if "route_map t k = Some r" for r
        using route_map_Some [OF that] same [of r] mem False by auto
      then show ?thesis using False by (cases "route_map t k") simp_all
    qed
    finally show "route_map (write_route row t) k = ((route_map t)(route_key row \<mapsto> row)) k" .
  qed
qed

section \<open>What the operations promise\<close>

lemma upsert_map:
  assumes ok: "routes_ok t"
    and up: "route_upsert D tenant_id als base adapter stage enabled pct (t, w) = (Inr row, (t', w'))"
  shows "routes_ok t' \<and> route_map t' = (route_map t)((tenant_id, als, stage) \<mapsto> row)
    \<and> ar_base_model row = base \<and> ar_adapter_id row = adapter \<and> ar_enabled row = enabled
    \<and> ar_canary_percent row = max 0 (min 100 pct) \<and> route_key row = (tenant_id, als, stage)"
proof (cases "get_by_unique t tenant_id als stage")
  case (Some old)
  let ?row = "old\<lparr>ar_base_model := base, ar_adapter_id := adapter, ar_enabled := enabled,
                  ar_canary_percent := max 0 (min 100 pct)\<rparr>"
  from up Some have t': "row = ?row" "t' = write_route ?row t" by (auto simp: route_upsert_def Let_def split: if_splits)
  have old: "route_map t (tenant_id, als, stage) = Some old" using Some by (simp add: route_map_def)
  have key: "route_key ?row = (tenant_id, als, stage)"
    using route_map_Some [OF old] by (simp add: route_key_def)
  from write_route_map [OF ok, of ?row old] old key t' show ?thesis by simp
next
  case None
  obtain uid w1 where u: "rt_uuid4 (db_runtime D) w = (uid, w1)" by fastforce
  obtain now w2 where n: "rt_utcnow (db_runtime D) w1 = (now, w2)" by fastforce
  from up None u n have row: "route_key row = (tenant_id, als, stage)" "ar_id row = uid"
      "ar_base_model row = base" "ar_adapter_id row = adapter" "ar_enabled row = enabled"
      "ar_canary_percent row = max 0 (min 100 pct)"
    and fresh: "uid \<notin> ar_id ` set (tb_adapter_routes t)"
    and t': "tb_adapter_routes t' = tb_adapter_routes t @ [row]"
    by (auto simp: route_upsert_def Let_def route_key_def split: if_splits)
  have none: "route_map t (tenant_id, als, stage) = None" using None by (simp add: route_map_def)
  then have new: "route_key row \<notin> route_key ` set (tb_adapter_routes t)"
    using row(1) by (auto simp: route_map_find find_None_iff)
  have "routes_ok t'"
    unfolding routes_ok_def t' using ok fresh u new row by (auto simp: routes_ok_def)
  moreover have "route_map t' = (route_map t)((tenant_id, als, stage) \<mapsto> row)"
  proof
    fix k
    show "route_map t' k = ((route_map t)((tenant_id, als, stage) \<mapsto> row)) k"
      using none row(1) unfolding route_map_find t' find_snoc
      by (cases "k = (tenant_id, als, stage)") (auto split: option.split)
  qed
  ultimately show ?thesis using row by simp
qed

text \<open>C39. Inserting or updating a route is a map update: when it succeeds,
  \<open>upsert\<close> binds the tenant, alias and stage to the given model, adapter and switch with the percentage
  clamped to 0..100, keeps every other binding, keeps the unique constraint, and returns the stored row.\<close>

theorem upsert_refines_map_update:
  assumes ok: "routes_ok t"
    and up: "route_upsert D tenant_id als base adapter stage enabled pct (t, w) = (Inr row, (t', w'))"
  shows "routes_ok t' \<and> route_map t' = (route_map t)((tenant_id, als, stage) \<mapsto> row)
    \<and> ar_base_model row = base \<and> ar_adapter_id row = adapter \<and> ar_enabled row = enabled
    \<and> ar_canary_percent row = max 0 (min 100 pct) \<and> route_key row = (tenant_id, als, stage)"
  by (rule upsert_map [OF ok up])

text \<open>Disabling a route keeps its binding but takes it out of the active ones.\<close>

lemma disable_deactivates:
  assumes ok: "routes_ok t" and d: "route_disable tenant_id als stage (t, w) = (Inr (Some row), (t', w'))"
  shows "routes_ok t' \<and> route_map t' = (route_map t)((tenant_id, als, stage) \<mapsto> row)
    \<and> get_active_route t' tenant_id als stage = None"
proof -
  from d obtain old where old: "route_map t (tenant_id, als, stage) = Some old"
    and t': "row = old\<lparr>ar_enabled := False\<rparr>" "t' = write_route row t"
    by (auto simp: route_disable_def route_map_def Let_def split: option.splits)
  note mem = route_map_Some [OF old]
  have key: "route_key row = (tenant_id, als, stage)" using mem t' by (simp add: route_key_def)
  have pct: "0 \<le> ar_canary_percent row" "ar_canary_percent row \<le> 100"
    using ok mem t' by (auto simp: routes_ok_def)
  have w: "routes_ok t' \<and> route_map t' = (route_map t)((tenant_id, als, stage) \<mapsto> row)"
    using write_route_map [OF ok, of row old] old key t' pct by simp
  then have "get_active_route t' tenant_id als stage = None"
    using get_active_map [of t' tenant_id als stage] t'(1) by simp
  with w show ?thesis by simp
qed

text \<open>Which of the two stages serves a key, when the client does not name one.\<close>

lemma resolve_choice:
  assumes ok: "routes_ok t" and s: "get_active_route t tenant_id als ''Staging'' = Some s"
  shows "resolve_with_canary t tenant_id als key None =
    (if canary_bucket key < ar_canary_percent s then Some s
     else case get_active_route t tenant_id als ''Production'' of None \<Rightarrow> Some s | Some p \<Rightarrow> Some p)"
proof -
  have "0 \<le> canary_bucket key" by (simp add: canary_bucket_def)
  then show ?thesis by (auto simp: resolve_with_canary_def s Let_def)
qed

text \<open>The canary split: with both stages enabled exactly the keys of the first \<open>percent\<close> of one hundred
  buckets get the Staging route and all others the Production route, so 0 sends nobody and 100 everybody;
  and raising the percentage by an \<open>upsert\<close> never takes a key back to Production.\<close>

theorem canary_ramp:
  assumes ok: "routes_ok t"
    and stg: "get_active_route t tenant_id als ''Staging'' = Some s"
    and prd: "get_active_route t tenant_id als ''Production'' = Some p"
    and up: "route_upsert D tenant_id als base adapter ''Staging'' True pct (t, w) = (Inr row, (t', w'))"
    and raised: "ar_canary_percent s \<le> pct"
  shows "resolve_with_canary t tenant_id als key None =
      Some (if canary_bucket key < ar_canary_percent s then s else p)
    \<and> card {b \<in> {0..<100}. b < ar_canary_percent s} = nat (ar_canary_percent s)
    \<and> 0 \<le> canary_bucket key \<and> canary_bucket key < 100
    \<and> resolve_with_canary t' tenant_id als key None =
      Some (if canary_bucket key < min 100 pct then row else p)
    \<and> {k. canary_bucket k < ar_canary_percent s} \<subseteq> {k. canary_bucket k < min 100 pct}"
proof (intro conjI)
  have s: "s \<in> set (tb_adapter_routes t)" "0 \<le> ar_canary_percent s" "ar_canary_percent s \<le> 100"
    using find_Some_in [OF stg [unfolded get_active_route_def]] ok by (auto simp: routes_ok_def)
  note u = upsert_map [OF ok up]
  have "get_active_route t' tenant_id als ''Staging'' = Some row"
    using get_active_map [of t' tenant_id als "''Staging''"] u by simp
  moreover have "get_active_route t' tenant_id als ''Production'' = Some p"
    using get_active_map [of t' tenant_id als "''Production''"] get_active_map [OF ok, of tenant_id als "''Production''"] prd u
    by simp
  ultimately show "resolve_with_canary t' tenant_id als key None =
      Some (if canary_bucket key < min 100 pct then row else p)"
    using resolve_choice [of t' tenant_id als row key] u s raised by simp
  show "resolve_with_canary t tenant_id als key None =
      Some (if canary_bucket key < ar_canary_percent s then s else p)"
    using resolve_choice [OF ok stg, of key] prd by simp
  have "{b \<in> {0..<100}. b < ar_canary_percent s} = {0..<ar_canary_percent s}" using s by auto
  then show "card {b \<in> {0..<100}. b < ar_canary_percent s} = nat (ar_canary_percent s)" by simp
  show "0 \<le> canary_bucket key" "canary_bucket key < 100" by (simp_all add: canary_bucket_def)
  show "{k. canary_bucket k < ar_canary_percent s} \<subseteq> {k. canary_bucket k < min 100 pct}"
    using raised s by auto
qed

text \<open>A tenant with a Production route and a Staging route at ten percent.\<close>

definition sample_route :: "string \<Rightarrow> string \<Rightarrow> int \<Rightarrow> adapter_route_row" where
  "sample_route i stage pct = \<lparr>ar_id = i, ar_tenant_id = ''t1'', ar_model_alias = ''support-bot'',
     ar_base_model = ''gpt-4o'', ar_adapter_id = ''lora'', ar_stage = stage, ar_enabled = True,
     ar_canary_percent = pct, ar_created_at = 0\<rparr>"

definition sample_routes :: tables where
  "sample_routes = \<lparr>
     tb_tenants = [\<lparr>tn_id = ''t1'', tn_name = ''Acme'', tn_slug = ''acme'', tn_budget_monthly_usd = None,
       tn_status = ''active'', tn_created_at = 0\<rparr>], tb_api_keys = [], tb_pricing = [],
     tb_adapter_routes = [sample_route ''a'' ''Production'' 0, sample_route ''b'' ''Staging'' 10],
     tb_requests = [], tb_spans = [], tb_usage = []\<rparr>"

definition sample_mem :: "tables \<Rightarrow> mem" where
  "sample_mem t = \<lparr>mem_tables = t, mem_clock = 7, mem_cache = Map.empty, mem_tasks = []\<rparr>"

lemma sample_routes_ok: "routes_ok sample_routes"
  by (simp add: routes_ok_def sample_routes_def sample_route_def route_key_def)

theorem upsert_refines_map_update_witness:
  "\<exists>row t' w'. route_upsert mem_database ''t1'' ''support-bot'' ''gpt-4o-mini'' ''lora2'' ''Staging'' True 250
      (sample_routes, sample_mem sample_routes) = (Inr row, (t', w'))
    \<and> routes_ok t' \<and> ar_canary_percent row = 100 \<and> route_map t' (''t1'', ''support-bot'', ''Staging'') = Some row"
proof -
  obtain row t' w' where up: "route_upsert mem_database ''t1'' ''support-bot'' ''gpt-4o-mini'' ''lora2'' ''Staging'' True 250
      (sample_routes, sample_mem sample_routes) = (Inr row, (t', w'))"
    by (simp add: route_upsert_def get_by_unique_def sample_routes_def sample_route_def Let_def)
  from upsert_refines_map_update [OF sample_routes_ok up] up show ?thesis by auto
qed

theorem canary_ramp_witness:
  "\<exists>row t' w'. route_upsert mem_database ''t1'' ''support-bot'' ''gpt-4o'' ''lora2'' ''Staging'' True 50
      (sample_routes, sample_mem sample_routes) = (Inr row, (t', w'))
    \<and> resolve_with_canary sample_routes ''t1'' ''support-bot'' ''key'' None =
        Some (if canary_bucket ''key'' < 10 then sample_route ''b'' ''Staging'' 10 else sample_route ''a'' ''Production'' 0)
    \<and> resolve_with_canary t' ''t1'' ''support-bot'' ''key'' None =
        Some (if canary_bucket ''key'' < 50 then row else sample_route ''a'' ''Production'' 0)"
proof -
  obtain row t' w' where up: "route_upsert mem_database ''t1'' ''support-bot'' ''gpt-4o'' ''lora2'' ''Staging'' True 50
      (sample_routes, sample_mem sample_routes) = (Inr row, (t', w'))"
    by (simp add: route_upsert_def get_by_unique_def sample_routes_def sample_route_def Let_def)
  have active: "get_active_route sample_routes ''t1'' ''support-bot'' ''Staging'' = Some (sample_route ''b'' ''Staging'' 10)"
    "get_active_route sample_routes ''t1'' ''support-bot'' ''Production'' = Some (sample_route ''a'' ''Production'' 0)"
    by (simp_all add: get_active_route_def sample_routes_def sample_route_def)
  have pct: "ar_canary_percent (sample_route ''b'' ''Staging'' 10) = 10" by (simp add: sample_route_def)
  from canary_ramp [OF sample_routes_ok active up, of "''key''"] up pct show ?thesis by auto
qed

end
