(* ===== verification/Admin.thy ===== *)
theory Admin
  imports Pipeline AdapterRoutes
begin

text \<open>
  The admin endpoints (\<open>api/v1/admin.py\<close>) with their dependencies (\<open>api/deps.py\<close>): API keys, tenants, prices and
  adapter routes.  \<open>admin_call\<close> is the router's dispatch of one
  request; a sequence of requests is a run of the relation \<open>admin_run\<close>.

  The session of a request is committed when its endpoint has returned, and rolled back when it raises.
\<close>

section \<open>Dependencies (\<open>api/deps.py\<close>)\<close>

definition get_authenticated_principal :: "request_state \<Rightarrow> exn + principal" where
  "get_authenticated_principal st = (case qs_auth st of
     None \<Rightarrow> Inl (AuthenticationError ''Request is not authenticated'') | Some p \<Rightarrow> Inr p)"

definition get_current_tenant_id :: "request_state \<Rightarrow> exn + string" where
  "get_current_tenant_id st = (case qs_tenant_id st of
     None \<Rightarrow> Inl (AuthenticationError ''Request is not authenticated'') | Some t \<Rightarrow> Inr t)"

definition get_current_api_key_id :: "request_state \<Rightarrow> string option" where
  "get_current_api_key_id st = qs_api_key_id st"

section \<open>Contents\<close>

record api_key_summary =
  ks_id :: string
  ks_name :: string
  ks_scopes :: "string list"
  ks_revoked_at :: "datetime option"
  ks_created_at :: datetime

record tenant_summary =
  ts_id :: string
  ts_name :: string
  ts_slug :: string
  ts_status :: string

record pricing_summary =
  ps_id :: string
  ps_provider :: string
  ps_model_name :: string
  ps_input_price_per_1k :: real
  ps_output_price_per_1k :: real
  ps_currency :: string
  ps_effective_from :: datetime
  ps_effective_to :: "datetime option"

record adapter_route_summary =
  rs_route_id :: string
  rs_tenant_id :: string
  rs_alias :: string
  rs_base_model :: string
  rs_adapter :: string
  rs_stage :: string
  rs_enabled :: bool
  rs_canary_percent :: int
  rs_route_created_at :: datetime

datatype admin_content =
    CreateApiKeyResponse string string "string list"
  | ApiKeySummaries "api_key_summary list"
  | NoContent
  | TenantSummaries "tenant_summary list"
  | CreatedTenant tenant_summary
  | PricingSummaries "pricing_summary list"
  | CreatedPricing pricing_summary
  | AdapterRouteSummaries "adapter_route_summary list"
  | UpsertedRoute adapter_route_summary

definition summary_of_key :: "api_key_row \<Rightarrow> api_key_summary" where
  "summary_of_key k = \<lparr>ks_id = ak_id k, ks_name = ak_name k, ks_scopes = ak_scopes k,
     ks_revoked_at = ak_revoked_at k, ks_created_at = ak_created_at k\<rparr>"

definition summary_of_tenant :: "tenant_row \<Rightarrow> tenant_summary" where
  "summary_of_tenant t = \<lparr>ts_id = tn_id t, ts_name = tn_name t, ts_slug = tn_slug t, ts_status = tn_status t\<rparr>"

definition summary_of_price :: "pricing_row \<Rightarrow> pricing_summary" where
  "summary_of_price r = \<lparr>ps_id = mp_id r, ps_provider = mp_provider r, ps_model_name = mp_model_name r,
     ps_input_price_per_1k = mp_input_price_per_1k r, ps_output_price_per_1k = mp_output_price_per_1k r,
     ps_currency = mp_currency r, ps_effective_from = mp_effective_from r, ps_effective_to = mp_effective_to r\<rparr>"

definition summary_of_route :: "adapter_route_row \<Rightarrow> adapter_route_summary" where
  "summary_of_route r = \<lparr>rs_route_id = ar_id r, rs_tenant_id = ar_tenant_id r, rs_alias = ar_model_alias r,
     rs_base_model = ar_base_model r, rs_adapter = ar_adapter_id r, rs_stage = ar_stage r, rs_enabled = ar_enabled r,
     rs_canary_percent = ar_canary_percent r, rs_route_created_at = ar_created_at r\<rparr>"

section \<open>Endpoints\<close>

text \<open>What the endpoints use of the application: \<open>am_token\<close> is \<open>secrets.token_urlsafe(32)\<close>.\<close>

record 's admin =
  am_database :: "'s database"
  am_auth_service :: "'s auth_service"
  am_pepper :: string
  am_token :: "'s \<Rightarrow> string \<times> 's"

definition uuid_of :: "string \<Rightarrow> exn + string" where
  "uuid_of text = (case parse_uuid text of None \<Rightarrow> Inl (ValueError ''badly formed hexadecimal UUID string'') | Some u \<Rightarrow> Inr u)"

text \<open>A body that needs the UUID of the principal's tenant, and one that only reads.\<close>

definition with_uuid :: "string \<Rightarrow> (string \<Rightarrow> ('s, 'a) unit_of_work) \<Rightarrow> ('s, 'a) unit_of_work" where
  "with_uuid text body = (\<lambda>q. case uuid_of text of Inl e \<Rightarrow> (Inl e, q) | Inr u \<Rightarrow> body u q)"

definition reading :: "(tables \<Rightarrow> 'a) \<Rightarrow> ('s, 'a) unit_of_work" where
  "reading f = (\<lambda>(t, w). (Inr (f t), (t, w)))"

definition answering_with :: "('a \<Rightarrow> 'b) \<Rightarrow> ('s, 'a) unit_of_work \<Rightarrow> ('s, 'b) unit_of_work" where
  "answering_with f body q = (case body q of (Inl e, q1) \<Rightarrow> (Inl e, q1) | (Inr x, q1) \<Rightarrow> (Inr (f x), q1))"

definition create_api_key_endpoint ::
  "'s admin \<Rightarrow> principal \<Rightarrow> string \<Rightarrow> string list \<Rightarrow> 's \<Rightarrow> (exn + admin_content) \<times> 's" where
  "create_api_key_endpoint A p name scopes s =
     (let (token, s1) = am_token A s; (raw_key, key_hash) = generate_api_key (am_pepper A) token
      in case uuid_of (p_tenant_id p) of
           Inl e \<Rightarrow> (Inl e, s1)
         | Inr tenant_uuid \<Rightarrow>
             (case create_api_key (am_auth_service A) tenant_uuid key_hash name scopes s1 of
                (Inl e, s2) \<Rightarrow> (Inl e, s2)
              | (Inr api_key_id, s2) \<Rightarrow> (Inr (CreateApiKeyResponse api_key_id raw_key scopes), s2)))"

definition list_api_keys_endpoint :: "'s admin \<Rightarrow> principal \<Rightarrow> 's \<Rightarrow> (exn + admin_content) \<times> 's" where
  "list_api_keys_endpoint A p =
     session (am_database A) (with_uuid (p_tenant_id p) (\<lambda>tenant_uuid. reading (\<lambda>t.
       ApiKeySummaries (map summary_of_key (api_key_list_by_tenant t tenant_uuid)))))"

definition own_key_body :: "principal \<Rightarrow> string \<Rightarrow> ('s, unit) unit_of_work" where
  "own_key_body p api_key_id = (\<lambda>(t, w). case api_key_get_by_id t api_key_id of
     None \<Rightarrow> (Inl (HTTPException 404 ''API key not found''), (t, w))
   | Some record \<Rightarrow>
       if ak_tenant_id record \<noteq> p_tenant_id p then (Inl (HTTPException 404 ''API key not found''), (t, w))
       else (Inr (), (t, w)))"

definition revoke_api_key_endpoint :: "'s admin \<Rightarrow> principal \<Rightarrow> string \<Rightarrow> 's \<Rightarrow> (exn + admin_content) \<times> 's" where
  "revoke_api_key_endpoint A p api_key_id s =
     (case session (am_database A) (own_key_body p api_key_id) s of
        (Inl e, s1) \<Rightarrow> (Inl e, s1)
      | (Inr _, s1) \<Rightarrow>
          (case revoke_api_key (am_auth_service A) api_key_id s1 of
             (Inl e, s2) \<Rightarrow> (Inl e, s2)
           | (Inr revoked, s2) \<Rightarrow>
               if \<not> revoked then (Inl (HTTPException 404 ''API key not found or already revoked''), s2)
               else (Inr NoContent, s2)))"

definition list_tenants_endpoint :: "'s admin \<Rightarrow> 's \<Rightarrow> (exn + admin_content) \<times> 's" where
  "list_tenants_endpoint A =
     session (am_database A) (reading (\<lambda>t. TenantSummaries (map summary_of_tenant (tenant_list_all t))))"

definition create_tenant_endpoint :: "'s admin \<Rightarrow> string \<Rightarrow> string \<Rightarrow> 's \<Rightarrow> (exn + admin_content) \<times> 's" where
  "create_tenant_endpoint A name slug =
     session (am_database A) (answering_with (\<lambda>r. CreatedTenant (summary_of_tenant r))
       (tenant_create (am_database A) name slug ''active''))"

text \<open>The clock is read inside the session.\<close>

definition list_pricing_body :: "'s admin \<Rightarrow> ('s, admin_content) unit_of_work" where
  "list_pricing_body A = (\<lambda>(t, w). let (now, w1) = rt_utcnow (db_runtime (am_database A)) w
     in (Inr (PricingSummaries (map summary_of_price (pricing_list_active t now))), (t, w1)))"

definition list_pricing_endpoint :: "'s admin \<Rightarrow> 's \<Rightarrow> (exn + admin_content) \<times> 's" where
  "list_pricing_endpoint A = session (am_database A) (list_pricing_body A)"

definition create_pricing_body ::
  "'s admin \<Rightarrow> string \<Rightarrow> string \<Rightarrow> real \<Rightarrow> real \<Rightarrow> string \<Rightarrow> datetime option \<Rightarrow> ('s, pricing_row) unit_of_work" where
  "create_pricing_body A provider model_name input_price output_price currency effective_from = (\<lambda>(t, w).
     let (moment, w1) = (case effective_from of Some d \<Rightarrow> (d, w) | None \<Rightarrow> rt_utcnow (db_runtime (am_database A)) w)
     in pricing_create (am_database A) provider model_name input_price output_price currency moment None (t, w1))"

definition create_pricing_endpoint ::
  "'s admin \<Rightarrow> string \<Rightarrow> string \<Rightarrow> real \<Rightarrow> real \<Rightarrow> string \<Rightarrow> datetime option \<Rightarrow> 's \<Rightarrow> (exn + admin_content) \<times> 's" where
  "create_pricing_endpoint A provider model_name input_price output_price currency effective_from =
     session (am_database A) (answering_with (\<lambda>r. CreatedPricing (summary_of_price r))
       (create_pricing_body A provider model_name input_price output_price currency effective_from))"

definition list_adapter_routes_endpoint :: "'s admin \<Rightarrow> principal \<Rightarrow> 's \<Rightarrow> (exn + admin_content) \<times> 's" where
  "list_adapter_routes_endpoint A p =
     session (am_database A) (with_uuid (p_tenant_id p) (\<lambda>tenant_uuid. reading (\<lambda>t.
       AdapterRouteSummaries (map summary_of_route (list_for_tenant t tenant_uuid)))))"

record upsert_payload =
  up_model_alias :: string
  up_base_model :: string
  up_adapter_id :: string
  up_stage :: string
  up_enabled :: bool
  up_canary_percent :: int
  up_tenant_id :: "string option"

definition upsert_route_body :: "'s admin \<Rightarrow> principal \<Rightarrow> upsert_payload \<Rightarrow> ('s, adapter_route_row) unit_of_work" where
  "upsert_route_body A p payload =
     with_uuid (str_or (up_tenant_id payload) (p_tenant_id p)) (\<lambda>tenant_uuid q.
       if ''*'' \<notin> p_scopes p \<and> tenant_uuid \<noteq> p_tenant_id p
       then (Inl (HTTPException 403 (''Cannot mutate another tenant'' @ [CHR 0x27] @ ''s routes'')), q)
       else route_upsert (am_database A) tenant_uuid (up_model_alias payload) (up_base_model payload)
              (up_adapter_id payload) (up_stage payload) (up_enabled payload) (up_canary_percent payload) q)"

definition upsert_adapter_route_endpoint :: "'s admin \<Rightarrow> principal \<Rightarrow> upsert_payload \<Rightarrow> 's \<Rightarrow> (exn + admin_content) \<times> 's" where
  "upsert_adapter_route_endpoint A p payload =
     session (am_database A) (answering_with (\<lambda>r. UpsertedRoute (summary_of_route r)) (upsert_route_body A p payload))"

definition disable_route_body :: "principal \<Rightarrow> string \<Rightarrow> string \<Rightarrow> ('s, admin_content) unit_of_work" where
  "disable_route_body p model_alias stage = with_uuid (p_tenant_id p) (\<lambda>tenant_uuid q.
     case route_disable tenant_uuid model_alias stage q of
       (Inl e, q1) \<Rightarrow> (Inl e, q1)
     | (Inr None, q1) \<Rightarrow> (Inl (HTTPException 404 ''Adapter route not found''), q1)
     | (Inr (Some row), q1) \<Rightarrow> (Inr NoContent, q1))"

definition disable_adapter_route_endpoint :: "'s admin \<Rightarrow> principal \<Rightarrow> string \<Rightarrow> string \<Rightarrow> 's \<Rightarrow> (exn + admin_content) \<times> 's" where
  "disable_adapter_route_endpoint A p model_alias stage = session (am_database A) (disable_route_body p model_alias stage)"

section \<open>Requests\<close>

datatype admin_request =
    CreateApiKey string "string list"
  | ListApiKeys
  | RevokeApiKey string
  | ListTenants
  | CreateTenant string string
  | ListPricing
  | CreatePricing string string real real string "datetime option"
  | ListAdapterRoutes
  | UpsertAdapterRoute upsert_payload
  | DisableAdapterRoute string string

fun admin_endpoint :: "'s admin \<Rightarrow> principal \<Rightarrow> admin_request \<Rightarrow> 's \<Rightarrow> (exn + admin_content) \<times> 's" where
  "admin_endpoint A p (CreateApiKey name scopes) = create_api_key_endpoint A p name scopes"
| "admin_endpoint A p ListApiKeys = list_api_keys_endpoint A p"
| "admin_endpoint A p (RevokeApiKey i) = revoke_api_key_endpoint A p i"
| "admin_endpoint A p ListTenants = list_tenants_endpoint A"
| "admin_endpoint A p (CreateTenant name slug) = create_tenant_endpoint A name slug"
| "admin_endpoint A p ListPricing = list_pricing_endpoint A"
| "admin_endpoint A p (CreatePricing provider model ip op cur from) = create_pricing_endpoint A provider model ip op cur from"
| "admin_endpoint A p ListAdapterRoutes = list_adapter_routes_endpoint A p"
| "admin_endpoint A p (UpsertAdapterRoute payload) = upsert_adapter_route_endpoint A p payload"
| "admin_endpoint A p (DisableAdapterRoute model_alias stage) = disable_adapter_route_endpoint A p model_alias stage"

fun success_status :: "admin_request \<Rightarrow> int" where
  "success_status (RevokeApiKey _) = 204"
| "success_status (CreateTenant _ _) = 201"
| "success_status (CreatePricing _ _ _ _ _ _) = 201"
| "success_status (DisableAdapterRoute _ _) = 204"
| "success_status _ = 200"

text \<open>The constraints of the payload models; the parameters of the other requests are checked by their types.\<close>

definition length_within :: "nat \<Rightarrow> nat \<Rightarrow> string \<Rightarrow> bool" where
  "length_within lo hi s \<longleftrightarrow> lo \<le> length s \<and> length s \<le> hi"

fun valid_request :: "admin_request \<Rightarrow> bool" where
  "valid_request (CreateApiKey name scopes) = length_within 1 255 name"
| "valid_request (CreateTenant name slug) = (length_within 1 255 name \<and> length_within 1 255 slug)"
| "valid_request (CreatePricing provider model ip op cur since) = (0 < ip \<and> 0 < op)"
| "valid_request (UpsertAdapterRoute payload) =
     (length_within 1 128 (up_model_alias payload) \<and> length_within 1 128 (up_base_model payload)
      \<and> length_within 1 255 (up_adapter_id payload) \<and> length_within 0 32 (up_stage payload)
      \<and> 0 \<le> up_canary_percent payload \<and> up_canary_percent payload \<le> 100)"
| "valid_request _ = True"

text \<open>An admin endpoint as the handler behind the middlewares.  Four endpoints do not depend on the principal; they
  are given one that they ignore.  FastAPI answers a payload that does not validate with 422; the list of what is
  wrong with it is left out.\<close>

fun takes_principal :: "admin_request \<Rightarrow> bool" where
  "takes_principal ListTenants = False"
| "takes_principal (CreateTenant _ _) = False"
| "takes_principal ListPricing = False"
| "takes_principal (CreatePricing _ _ _ _ _ _) = False"
| "takes_principal _ = True"

definition admin_handler :: "'s admin \<Rightarrow> admin_request \<Rightarrow> ('s, admin_content) handler" where
  "admin_handler A request = (\<lambda>(st, s).
   case (if takes_principal request then get_authenticated_principal st else Inr anonymous_principal) of
     Inl e \<Rightarrow> (Inl e, (st, s))
   | Inr p \<Rightarrow>
     if \<not> valid_request request then (Inl (HTTPException 422 ''validation error''), (st, s))
     else (case admin_endpoint A p request s of
       (Inl e, s1) \<Rightarrow> (Inl e, (st, s1))
     | (Inr content, s1) \<Rightarrow>
         (Inr \<lparr>hp_status = success_status request, hp_headers = [], hp_body = Content content\<rparr>, (st, s1))))"

end
