(* ===== verification/AdminSafety.thy ===== *)
theory AdminSafety
  imports Admin
begin

text \<open>
  What admin requests can do to the database: every request has the effect of one step of an abstract relation on
  the tables, and from the steps follow the invariants of the key table and the isolation of tenants, by
  induction over the requests that have been served.
\<close>

section \<open>The steps\<close>

definition revoked :: "string \<Rightarrow> datetime \<Rightarrow> tables \<Rightarrow> tables" where
  "revoked i now t = t\<lparr>tb_api_keys := map (\<lambda>k. if ak_id k = i then k\<lparr>ak_revoked_at := Some now\<rparr> else k) (tb_api_keys t)\<rparr>"

text \<open>One step of principal \<open>p\<close>.  Routes change by the repository's \<open>upsert\<close> and \<open>disable\<close>.\<close>

inductive admin_step :: "'s database \<Rightarrow> principal \<Rightarrow> tables \<Rightarrow> tables \<Rightarrow> bool"
  for D :: "'s database" where
  Unchanged: "admin_step D p t t"
| KeyCreated: "\<lbrakk>parse_uuid (p_tenant_id p) = Some (ak_tenant_id k); ak_revoked_at k = None;
     ak_id k \<notin> ak_id ` set (tb_api_keys t); ak_key_hash k \<notin> ak_key_hash ` set (tb_api_keys t);
     ak_tenant_id k \<in> tn_id ` set (tb_tenants t)\<rbrakk>
     \<Longrightarrow> admin_step D p t (t\<lparr>tb_api_keys := tb_api_keys t @ [k]\<rparr>)"
| KeyRevoked: "\<lbrakk>api_key_get_by_id t i = Some k; ak_tenant_id k = p_tenant_id p; ak_revoked_at k = None\<rbrakk>
     \<Longrightarrow> admin_step D p t (revoked i now t)"
| KeyTouched: "admin_step D p t (t\<lparr>tb_api_keys :=
     map (\<lambda>k. if ak_id k = i then k\<lparr>ak_last_used_at := Some now\<rparr> else k) (tb_api_keys t)\<rparr>)"
| TenantCreated: "\<lbrakk>tn_id n \<notin> tn_id ` set (tb_tenants t); tn_slug n \<notin> tn_slug ` set (tb_tenants t)\<rbrakk>
     \<Longrightarrow> admin_step D p t (t\<lparr>tb_tenants := tb_tenants t @ [n]\<rparr>)"
| PriceCreated: "mp_id r \<notin> mp_id ` set (tb_pricing t) \<Longrightarrow> admin_step D p t (t\<lparr>tb_pricing := tb_pricing t @ [r]\<rparr>)"
| RouteUpserted: "\<lbrakk>''*'' \<in> p_scopes p \<or> u = p_tenant_id p;
     route_upsert D u als base adapter stage enabled pct (t, w) = (Inr row, (t', w'))\<rbrakk> \<Longrightarrow> admin_step D p t t'"
| RouteDisabled: "\<lbrakk>parse_uuid (p_tenant_id p) = Some u; route_disable u als stage (t, w :: 's) = (Inr (Some row), (t', w'))\<rbrakk>
     \<Longrightarrow> admin_step D p t t'"

section \<open>Every request is a step\<close>

definition quiet_body :: "('s \<Rightarrow> tables) \<Rightarrow> ('s, 'a) unit_of_work \<Rightarrow> bool" where
  "quiet_body view body \<longleftrightarrow> (\<forall>t w. view (snd (snd (body (t, w)))) = view w)"

named_theorems quiet_bodies

lemma quiet_with_uuid [quiet_bodies]: "(\<And>u. quiet_body view (body u)) \<Longrightarrow> quiet_body view (with_uuid text body)"
  by (simp add: quiet_body_def with_uuid_def split: sum.split)

lemma quiet_reading [quiet_bodies]: "quiet_body view (reading f)"
  by (simp add: quiet_body_def reading_def)

lemma quiet_answering_with [quiet_bodies]: "quiet_body view body \<Longrightarrow> quiet_body view (answering_with f body)"
  unfolding quiet_body_def answering_with_def by (simp add: case_prod_unfold split: sum.split)

lemma quiet_own_key [quiet_bodies]: "quiet_body view (own_key_body p i)"
  by (simp add: quiet_body_def own_key_body_def split: option.split)

lemma quiet_disable [quiet_bodies]: "quiet_body view (disable_route_body p als stage)"
  unfolding disable_route_body_def
  by (rule quiet_with_uuid) (simp add: quiet_body_def route_disable_def Let_def split: option.split)

text \<open>Documented behaviour of the environment: the database of \<open>database_store\<close>, shared by the services; clock,
  UUIDs, random tokens and Redis do not touch its tables.\<close>

definition admin_store :: "'s admin \<Rightarrow> ('s \<Rightarrow> tables) \<Rightarrow> bool" where
  "admin_store A view \<longleftrightarrow> database_store (am_database A) view \<and> au_database (am_auth_service A) = am_database A
     \<and> quiet_runtime (db_runtime (am_database A)) view \<and> (\<forall>w. view (snd (am_token A w)) = view w)
     \<and> (\<forall>k w. view (snd (redis_delete (au_redis (am_auth_service A)) k w)) = view w)"

lemma admin_storeD:
  assumes "admin_store A view"
  shows "database_store (am_database A) view" "au_database (am_auth_service A) = am_database A"
    "quiet_runtime (db_runtime (am_database A)) view"
    "am_token A w = (x, w') \<Longrightarrow> view w' = view w"
    "redis_delete (au_redis (am_auth_service A)) k w = (y, w') \<Longrightarrow> view w' = view w"
  using assms by (auto simp: admin_store_def) (metis snd_conv)+

lemma quiet_creations:
  assumes "quiet_runtime (db_runtime D) view"
  shows quiet_tenant_create: "quiet_body view (tenant_create D name slug status)"
    and quiet_key_create: "quiet_body view (api_key_create D tenant_id key_hash name scopes)"
    and quiet_price_create: "quiet_body view (pricing_create D pr model ip op cur since to)"
    and quiet_route_upsert: "quiet_body view (route_upsert D u als base adapter stage enabled pct)"
    and quiet_revoke: "quiet_body view (api_key_revoke D i)"
proof -
  have [simp]: "view (snd (rt_uuid4 (db_runtime D) w)) = view w" "view (snd (rt_utcnow (db_runtime D) w)) = view w" for w
    using assms by (simp_all add: quiet_runtime_def)
  show "quiet_body view (tenant_create D name slug status)"
    by (simp add: quiet_body_def tenant_create_def Let_def case_prod_unfold)
  show "quiet_body view (api_key_create D tenant_id key_hash name scopes)"
    by (simp add: quiet_body_def api_key_create_def Let_def case_prod_unfold)
  show "quiet_body view (pricing_create D pr model ip op cur since to)"
    by (simp add: quiet_body_def pricing_create_def Let_def case_prod_unfold)
  show "quiet_body view (route_upsert D u als base adapter stage enabled pct)"
    by (simp add: quiet_body_def route_upsert_def Let_def case_prod_unfold split: option.split)
  show "quiet_body view (api_key_revoke D i)"
    by (simp add: quiet_body_def api_key_revoke_def Let_def case_prod_unfold split: option.split)
qed

lemma session_steps:
  assumes D: "database_store D view" and q: "quiet_body view body" and s: "session D body w = (x, w')"
    and refl: "R (view w) (view w)"
    and step: "\<And>v w1 t' w2. body (view w, w1) = (Inr v, (t', w2)) \<Longrightarrow> R (view w) t'"
  shows "R (view w) (view w')"
  using session_atomic [OF D q [unfolded quiet_body_def] s] refl step by metis

lemma answering_withE:
  assumes "answering_with f body q = (Inr v, q')"
  obtains x where "body q = (Inr x, q')"
  using assms by (auto simp: answering_with_def split: prod.splits sum.splits)

lemma with_uuidE:
  assumes "with_uuid text body q = (Inr v, q')"
  obtains u where "parse_uuid text = Some u" "body u q = (Inr v, q')"
  using assms by (auto simp: with_uuid_def uuid_of_def split: option.splits)

lemma readingD: "reading f (t, w) = (Inr v, (t', w')) \<Longrightarrow> t' = t"
  by (simp add: reading_def)

lemma key_create_step:
  assumes "api_key_create D u h name scopes (t, w) = (Inr k, (t', w'))" "parse_uuid (p_tenant_id p) = Some u"
  shows "admin_step D p t t'"
proof -
  from assms(1) have "t' = t\<lparr>tb_api_keys := tb_api_keys t @ [k]\<rparr>" "ak_tenant_id k = u" "ak_revoked_at k = None"
    "ak_id k \<notin> ak_id ` set (tb_api_keys t)" "ak_key_hash k \<notin> ak_key_hash ` set (tb_api_keys t)"
    "ak_tenant_id k \<in> tn_id ` set (tb_tenants t)"
    by (auto simp: api_key_create_def Let_def split: prod.splits if_splits)
  with assms(2) show ?thesis by (auto intro: KeyCreated)
qed

lemma create_key_endpoint_step:
  assumes A: "admin_store A view" and c: "create_api_key_endpoint A p name scopes w = (x, w')"
  shows "admin_step (am_database A) p (view w) (view w')"
proof -
  obtain token w1 where t: "am_token A w = (token, w1)" by fastforce
  have v1: "view w1 = view w" by (rule admin_storeD(4) [OF A t])
  show ?thesis
  proof (cases "parse_uuid (p_tenant_id p)")
    case None
    with c t v1 show ?thesis by (simp add: create_api_key_endpoint_def uuid_of_def generate_api_key_def Let_def Unchanged)
  next
    case (Some u)
    let ?h = "hash_api_key (am_pepper A) (api_key_prefix @ token)"
    obtain y w2 where s: "session (am_database A) (api_key_create (am_database A) u ?h name scopes) w1 = (y, w2)"
      by fastforce
    have "admin_step (am_database A) p (view w1) (view w2)"
      by (rule session_steps [OF admin_storeD(1) [OF A] quiet_key_create [OF admin_storeD(3) [OF A]] s])
        (auto intro: Unchanged key_create_step Some)
    moreover have "w' = w2"
      using c t Some s by (cases y)
        (auto simp: create_api_key_endpoint_def uuid_of_def generate_api_key_def Let_def create_api_key_def admin_storeD(2) [OF A])
    ultimately show ?thesis by (simp add: v1)
  qed
qed

lemma quiet_revoke_body:
  assumes A: "admin_store A view"
  shows "quiet_body view (revoke_body (am_auth_service A) i)"
  unfolding quiet_body_def
proof (intro allI)
  fix t w
  obtain r t1 w1 where r: "api_key_revoke (am_database A) i (t, w) = (r, (t1, w1))" by (metis surj_pair)
  have "view w1 = view w"
    using quiet_revoke [OF admin_storeD(3) [OF A], of i] r by (metis quiet_body_def snd_conv)
  moreover have "view (snd (redis_delete (au_redis (am_auth_service A)) k w1)) = view w1" for k
    using A by (simp add: admin_store_def)
  ultimately show "view (snd (snd (revoke_body (am_auth_service A) i (t, w)))) = view w"
    using r by (simp add: revoke_body_def admin_storeD(2) [OF A] invalidate_cache_by_hash_def case_prod_unfold
        split: option.split sum.split)
qed

lemma revoke_endpoint_step:
  assumes A: "admin_store A view" and c: "revoke_api_key_endpoint A p i w = (x, w')"
  shows "admin_step (am_database A) p (view w) (view w')"
proof -
  note D = admin_storeD(1) [OF A]
  obtain y w1 where s: "session (am_database A) (own_key_body p i) w = (y, w1)" by fastforce
  have v1: "view w1 = view w"
    by (rule session_steps [OF D quiet_own_key s, where R = "\<lambda>a b. b = a"])
      (auto simp: own_key_body_def split: option.splits if_splits)
  show ?thesis
  proof (cases y)
    case (Inl e)
    with c s v1 show ?thesis by (simp add: revoke_api_key_endpoint_def Unchanged)
  next
    case (Inr u)
    then obtain k where k: "api_key_get_by_id (view w) i = Some k" "ak_tenant_id k = p_tenant_id p"
      using s db_open_value [OF D, of w]
      by (auto simp: session_def own_key_body_def split: prod.splits sum.splits option.splits if_splits)
    obtain z w2 where r: "revoke_api_key (am_auth_service A) i w1 = (z, w2)" by fastforce
    have "admin_step (am_database A) p (view w1) (view w2)"
    proof (rule session_steps [OF D quiet_revoke_body [OF A] r [unfolded revoke_api_key_def admin_storeD(2) [OF A]]])
      show "admin_step (am_database A) p (view w1) (view w1)" by (rule Unchanged)
    next
      fix v wa t' wb assume b: "revoke_body (am_auth_service A) i (view w1, wa) = (Inr v, (t', wb))"
      show "admin_step (am_database A) p (view w1) t'"
      proof (cases v)
        case True
        with revoke_body_True [of "am_auth_service A" i "view w1" wa t' wb] b k v1 show ?thesis
          by (auto simp flip: revoked_def intro: KeyRevoked)
      next
        case False
        with b k v1 have "t' = view w1"
          by (auto simp: revoke_body_def api_key_revoke_def Let_def split: prod.splits sum.splits if_splits)
        then show ?thesis by (simp add: Unchanged)
      qed
    qed
    moreover have "w' = w2" using c s Inr r by (auto simp: revoke_api_key_endpoint_def split: sum.splits if_splits)
    ultimately show ?thesis by (simp add: v1)
  qed
qed

lemma tenant_create_step:
  "tenant_create D name slug status (t, w) = (Inr n, (t', w')) \<Longrightarrow> admin_step D p t t'"
  by (auto simp: tenant_create_def Let_def split: prod.splits if_splits intro!: TenantCreated)

lemma pricing_create_step:
  "pricing_create D pr model ip op cur since to (t, w) = (Inr r, (t', w')) \<Longrightarrow> admin_step D p t t'"
  by (auto simp: pricing_create_def Let_def split: prod.splits if_splits intro!: PriceCreated)

lemma quiet_pricing_bodies:
  assumes "quiet_runtime (db_runtime (am_database A)) view"
  shows "quiet_body view (list_pricing_body A)"
    and "quiet_body view (create_pricing_body A pr model ip op cur since)"
  using assms quiet_price_create [OF assms]
  by (auto simp: quiet_body_def list_pricing_body_def create_pricing_body_def quiet_runtime_def case_prod_unfold Let_def
      split: option.split)

lemma quiet_upsert_body:
  "quiet_runtime (db_runtime (am_database A)) view \<Longrightarrow> quiet_body view (upsert_route_body A p payload)"
  unfolding upsert_route_body_def
  by (rule quiet_with_uuid) (simp add: quiet_body_def quiet_route_upsert [unfolded quiet_body_def])

text \<open>The effect of any admin request on the tables is one step.\<close>

lemma admin_endpoint_step:
  fixes A :: "'s admin"
  assumes A: "admin_store A view" and c: "admin_endpoint A p r w = (x, w')"
  shows "admin_step (am_database A) p (view w) (view w')"
proof -
  note D = admin_storeD(1) [OF A] and Q = admin_storeD(3) [OF A]
  note steps = session_steps [OF D, where R = "admin_step (am_database A) p"]
  show ?thesis
  proof (cases r)
    case (CreateApiKey name scopes)
    with c show ?thesis using create_key_endpoint_step [OF A] by simp
  next
    case ListApiKeys
    let ?body = "with_uuid (p_tenant_id p) (\<lambda>u. reading (\<lambda>t. ApiKeySummaries (map summary_of_key (api_key_list_by_tenant t u))))"
    have s: "session (am_database A) ?body w = (x, w')" using c ListApiKeys by (simp add: list_api_keys_endpoint_def)
    show ?thesis
      by (rule steps [OF quiet_with_uuid [OF quiet_reading] s]) (auto intro: Unchanged elim!: with_uuidE dest!: readingD)
  next
    case (RevokeApiKey i)
    with c show ?thesis using revoke_endpoint_step [OF A] by simp
  next
    case ListTenants
    let ?f = "\<lambda>t. TenantSummaries (map summary_of_tenant (tenant_list_all t))"
    have s: "session (am_database A) (reading ?f) w = (x, w')" using c ListTenants by (simp add: list_tenants_endpoint_def)
    show ?thesis by (rule steps [OF quiet_reading s]) (auto intro: Unchanged dest!: readingD)
  next
    case (CreateTenant name slug)
    let ?body = "answering_with (\<lambda>r. CreatedTenant (summary_of_tenant r)) (tenant_create (am_database A) name slug ''active'')"
    have s: "session (am_database A) ?body w = (x, w')" using c CreateTenant by (simp add: create_tenant_endpoint_def)
    show ?thesis
      by (rule steps [OF quiet_answering_with [OF quiet_tenant_create [OF Q]] s])
        (auto intro: Unchanged tenant_create_step elim!: answering_withE)
  next
    case ListPricing
    then have s: "session (am_database A) (list_pricing_body A) w = (x, w')" using c by (simp add: list_pricing_endpoint_def)
    show ?thesis
      by (rule steps [OF quiet_pricing_bodies(1) [OF Q] s])
        (auto simp: list_pricing_body_def split: prod.splits intro: Unchanged)
  next
    case (CreatePricing pr model ip op cur since)
    let ?body = "answering_with (\<lambda>r. CreatedPricing (summary_of_price r)) (create_pricing_body A pr model ip op cur since)"
    have s: "session (am_database A) ?body w = (x, w')" using c CreatePricing by (simp add: create_pricing_endpoint_def)
    have "admin_step (am_database A) p t t'"
      if "create_pricing_body A pr model ip op cur since (t, w1) = (Inr v, (t', w2))" for t w1 v t' w2
      using that pricing_create_step by (auto simp: create_pricing_body_def split: prod.splits)
    then show ?thesis
      by (intro steps [OF quiet_answering_with [OF quiet_pricing_bodies(2) [OF Q]] s])
        (auto intro: Unchanged elim!: answering_withE)
  next
    case ListAdapterRoutes
    let ?body = "with_uuid (p_tenant_id p) (\<lambda>u. reading (\<lambda>t. AdapterRouteSummaries (map summary_of_route (list_for_tenant t u))))"
    have s: "session (am_database A) ?body w = (x, w')" using c ListAdapterRoutes by (simp add: list_adapter_routes_endpoint_def)
    show ?thesis
      by (rule steps [OF quiet_with_uuid [OF quiet_reading] s]) (auto intro: Unchanged elim!: with_uuidE dest!: readingD)
  next
    case (UpsertAdapterRoute payload)
    let ?body = "answering_with (\<lambda>r. UpsertedRoute (summary_of_route r)) (upsert_route_body A p payload)"
    have s: "session (am_database A) ?body w = (x, w')" using c UpsertAdapterRoute by (simp add: upsert_adapter_route_endpoint_def)
    have "admin_step (am_database A) p t t'"
      if "upsert_route_body A p payload (t, w1) = (Inr v, (t', w2))" for t w1 v t' w2
      using that by (auto simp: upsert_route_body_def elim!: with_uuidE split: if_splits intro: RouteUpserted)
    then show ?thesis
      by (intro steps [OF quiet_answering_with [OF quiet_upsert_body [OF Q]] s])
        (auto intro: Unchanged elim!: answering_withE)
  next
    case (DisableAdapterRoute als stage)
    have s: "session (am_database A) (disable_route_body p als stage) w = (x, w')"
      using c DisableAdapterRoute by (simp add: disable_adapter_route_endpoint_def)
    have "admin_step (am_database A) p t t'"
      if "disable_route_body p als stage (t, w1) = (Inr v, (t', w2))" for t v t' and w1 w2 :: 's
      using that by (auto simp: disable_route_body_def elim!: with_uuidE split: prod.splits sum.splits option.splits intro: RouteDisabled)
    then show ?thesis by (intro steps [OF quiet_disable s]) (auto intro: Unchanged)
  qed
qed

section \<open>Runs\<close>

text \<open>What happens to the database over time: admin requests, and the background task that notes the use of a key.\<close>

datatype admin_event = Request principal admin_request | Touch string

fun serve :: "'s admin \<Rightarrow> 's \<Rightarrow> admin_event list \<Rightarrow> 's" where
  "serve A w [] = w"
| "serve A w (Request p r # es) = serve A (snd (admin_endpoint A p r w)) es"
| "serve A w (Touch i # es) = serve A (touch_last_used_task (am_auth_service A) i w) es"

lemma touch_step:
  assumes A: "admin_store A view"
  shows "admin_step (am_database A) p (view w) (view (touch_last_used_task (am_auth_service A) i w))"
proof -
  obtain x w' where s: "session (am_database A) (touch_last_used (am_database A) i) w = (x, w')" by fastforce
  have q: "quiet_body view (touch_last_used (am_database A) i)"
    using admin_storeD(3) [OF A] by (simp add: quiet_body_def touch_last_used_def quiet_runtime_def Let_def case_prod_unfold)
  have "admin_step (am_database A) p (view w) (view w')"
    by (rule session_steps [OF admin_storeD(1) [OF A] q s])
      (auto simp: touch_last_used_def Let_def split: prod.splits intro: Unchanged KeyTouched)
  then show ?thesis by (simp add: touch_last_used_task_def admin_storeD(2) [OF A] s)
qed

text \<open>The principals of a run; a background task acts for a principal of no tenant.\<close>

definition nobody :: principal where
  "nobody = \<lparr>p_tenant_id = [], p_api_key_id = [], p_tenant_status = [], p_scopes = {}, p_rate_limit_per_minute = None\<rparr>"

fun actor :: "admin_event \<Rightarrow> principal" where
  "actor (Request p r) = p"
| "actor (Touch i) = nobody"

text \<open>What every step keeps, a run keeps.\<close>

lemma serve_induct:
  assumes A: "admin_store A view"
    and start: "P (view w)"
    and step: "\<And>e t t'. e \<in> set es \<Longrightarrow> P t \<Longrightarrow> admin_step (am_database A) (actor e) t t' \<Longrightarrow> P t'"
  shows "P (view (serve A w es))"
  using start step
proof (induction es arbitrary: w)
  case Nil
  then show ?case by simp
next
  case (Cons e es)
  have "\<exists>w1. serve A w (e # es) = serve A w1 es \<and> admin_step (am_database A) (actor e) (view w) (view w1)"
    using admin_endpoint_step [OF A] touch_step [OF A] by (cases e) (fastforce simp: prod_eq_iff)+
  then obtain w1 where w1: "serve A w (e # es) = serve A w1 es" "admin_step (am_database A) (actor e) (view w) (view w1)"
    by blast
  have "P (view w1)" using Cons.prems(2) [OF _ Cons.prems(1) w1(2)] by simp
  then show ?case unfolding w1(1) by (rule Cons.IH) (use Cons.prems(2) in auto)
qed

section \<open>The key table\<close>

definition keys_ok :: "tables \<Rightarrow> bool" where
  "keys_ok t \<longleftrightarrow> distinct (map ak_id (tb_api_keys t)) \<and> distinct (map ak_key_hash (tb_api_keys t))
     \<and> ak_tenant_id ` set (tb_api_keys t) \<subseteq> tn_id ` set (tb_tenants t)"

text \<open>A key may become revoked; all else that identifies it is fixed, and so is the time of its revocation.\<close>

definition key_evolves :: "api_key_row \<Rightarrow> api_key_row \<Rightarrow> bool" where
  "key_evolves k k' \<longleftrightarrow> k'\<lparr>ak_revoked_at := None, ak_last_used_at := None\<rparr> = k\<lparr>ak_revoked_at := None, ak_last_used_at := None\<rparr>
     \<and> (ak_revoked_at k = None \<or> ak_revoked_at k' = ak_revoked_at k)"

definition evolves :: "tables \<Rightarrow> tables \<Rightarrow> bool" where
  "evolves t t' \<longleftrightarrow> (\<exists>old new. tb_api_keys t' = old @ new \<and> list_all2 key_evolves (tb_api_keys t) old)"

lemma key_evolves_refl: "key_evolves k k"
  by (simp add: key_evolves_def)

lemma key_evolves_trans: "key_evolves k k' \<Longrightarrow> key_evolves k' k'' \<Longrightarrow> key_evolves k k''"
  by (auto simp: key_evolves_def)

lemma key_evolves_fields:
  "key_evolves k k' \<Longrightarrow> ak_id k' = ak_id k \<and> ak_key_hash k' = ak_key_hash k \<and> ak_tenant_id k' = ak_tenant_id k \<and> ak_scopes k' = ak_scopes k"
  by (cases k; cases k') (simp add: key_evolves_def)

lemma list_all2_key_evolves_trans:
  "list_all2 key_evolves xs ys \<Longrightarrow> list_all2 key_evolves ys zs \<Longrightarrow> list_all2 key_evolves xs zs"
  by (rule list_all2_trans [OF key_evolves_trans])

lemma evolves_append: "tb_api_keys t' = tb_api_keys t @ new \<Longrightarrow> evolves t t'"
  unfolding evolves_def by (intro exI [of _ "tb_api_keys t"] exI [of _ new]) (simp add: list_all2_same key_evolves_refl)

lemma evolves_same: "tb_api_keys t' = tb_api_keys t \<Longrightarrow> evolves t t'"
  using evolves_append [of t' t "[]"] by simp

lemma evolves_refl: "evolves t t"
  by (simp add: evolves_same)

lemma evolves_trans: "evolves t t' \<Longrightarrow> evolves t' t'' \<Longrightarrow> evolves t t''"
proof -
  assume "evolves t t'" "evolves t' t''"
  then obtain o1 n1 o2 n2 where h: "tb_api_keys t' = o1 @ n1" "list_all2 key_evolves (tb_api_keys t) o1"
    "tb_api_keys t'' = o2 @ n2" "list_all2 key_evolves (o1 @ n1) o2" by (auto simp: evolves_def)
  then obtain u v where "o2 = u @ v" "list_all2 key_evolves o1 u" by (auto simp: list_all2_append1)
  with h show ?thesis by (auto simp: evolves_def intro: list_all2_key_evolves_trans)
qed

lemma evolves_map:
  "(\<And>k. k \<in> set (tb_api_keys t) \<Longrightarrow> key_evolves k (f k)) \<Longrightarrow> tb_api_keys t' = map f (tb_api_keys t) \<Longrightarrow> evolves t t'"
  unfolding evolves_def
  by (intro exI [of _ "map f (tb_api_keys t)"] exI [of _ "[]"]) (simp add: list_all2_map2 list_all2_same)

lemma route_upsert_tables:
  "route_upsert D u als base adapter stage enabled pct (t, w) = (x, (t', w')) \<Longrightarrow>
     tb_api_keys t' = tb_api_keys t \<and> tb_tenants t' = tb_tenants t"
  by (auto simp: route_upsert_def write_route_def Let_def split: option.splits prod.splits if_splits)

lemma route_disable_tables:
  "route_disable u als stage (t, w) = (x, (t', w')) \<Longrightarrow>
     tb_api_keys t' = tb_api_keys t \<and> tb_tenants t' = tb_tenants t"
  by (auto simp: route_disable_def write_route_def Let_def split: option.splits)

lemma keys_ok_cong: "tb_api_keys t' = tb_api_keys t \<Longrightarrow> tb_tenants t' = tb_tenants t \<Longrightarrow> keys_ok t' = keys_ok t"
  by (simp add: keys_ok_def)

lemma keys_ok_map:
  assumes "keys_ok t" "tb_api_keys t' = map f (tb_api_keys t)" "tb_tenants t' = tb_tenants t"
    and "\<And>k. ak_id (f k) = ak_id k \<and> ak_key_hash (f k) = ak_key_hash k \<and> ak_tenant_id (f k) = ak_tenant_id k"
  shows "keys_ok t'"
  using assms by (auto simp: keys_ok_def comp_def)

lemma admin_step_keys:
  assumes "admin_step D p t t'" "keys_ok t"
  shows "keys_ok t' \<and> evolves t t'"
  using assms
proof (cases rule: admin_step.cases)
  case (KeyCreated k)
  with assms(2) show ?thesis
    by (auto simp: keys_ok_def intro: evolves_append)
next
  case (KeyRevoked i k now)
  have "k' = k" if "k' \<in> set (tb_api_keys t)" "ak_id k' = i" for k'
    using that find_Some_in [OF KeyRevoked(2) [unfolded api_key_get_by_id_def]] assms(2)
    by (auto simp: keys_ok_def distinct_map dest: inj_onD)
  then have "key_evolves k' (if ak_id k' = i then k'\<lparr>ak_revoked_at := Some now\<rparr> else k')"
    if "k' \<in> set (tb_api_keys t)" for k'
    using that KeyRevoked(4) by (auto simp: key_evolves_def)
  then have "evolves t t'"
    by (rule evolves_map [where f = "\<lambda>k. if ak_id k = i then k\<lparr>ak_revoked_at := Some now\<rparr> else k"])
      (auto simp: KeyRevoked revoked_def)
  moreover have "keys_ok t'"
    by (rule keys_ok_map [OF assms(2), where f = "\<lambda>k. if ak_id k = i then k\<lparr>ak_revoked_at := Some now\<rparr> else k"])
      (auto simp: KeyRevoked revoked_def)
  ultimately show ?thesis by simp
next
  case (KeyTouched i now)
  let ?f = "\<lambda>k. if ak_id k = i then k\<lparr>ak_last_used_at := Some now\<rparr> else k"
  have "evolves t t'" by (rule evolves_map [where f = ?f]) (auto simp: KeyTouched key_evolves_def)
  moreover have "keys_ok t'" by (rule keys_ok_map [OF assms(2), where f = ?f]) (auto simp: KeyTouched)
  ultimately show ?thesis by simp
next
  case (TenantCreated n)
  with assms(2) show ?thesis by (auto simp: keys_ok_def intro: evolves_same)
next
  case (RouteUpserted u als base adapter stage enabled pct w row w')
  with route_upsert_tables [OF RouteUpserted(2)] have "tb_api_keys t' = tb_api_keys t" "tb_tenants t' = tb_tenants t" by simp_all
  with assms(2) show ?thesis by (auto simp: keys_ok_def intro: evolves_same)
next
  case (RouteDisabled u als stage w row w')
  with route_disable_tables [OF RouteDisabled(2)] have "tb_api_keys t' = tb_api_keys t" "tb_tenants t' = tb_tenants t" by simp_all
  with assms(2) show ?thesis by (auto simp: keys_ok_def intro: evolves_same)
qed (auto simp: keys_ok_def intro: evolves_same)

lemma revoked_stays_inactive:
  assumes "evolves t t'" "keys_ok t'" "k \<in> set (tb_api_keys t)" "ak_revoked_at k \<noteq> None"
  shows "get_active_by_key_hash t' (ak_key_hash k) = None"
proof -
  obtain old new where oo: "tb_api_keys t' = old @ new" "list_all2 key_evolves (tb_api_keys t) old"
    using assms(1) by (auto simp: evolves_def)
  then obtain k' where k': "k' \<in> set old" "key_evolves k k'"
    using assms(3) by (metis in_set_conv_nth list_all2_conv_all_nth)
  then have "ak_key_hash k' = ak_key_hash k" "ak_revoked_at k' \<noteq> None"
    using key_evolves_fields [OF k'(2)] assms(4) by (simp, auto simp: key_evolves_def)
  moreover have "inj_on ak_key_hash (set (tb_api_keys t'))" using assms(2) by (simp add: keys_ok_def distinct_map)
  then have "a = k'" if "a \<in> set (tb_api_keys t')" "ak_key_hash a = ak_key_hash k'" for a
    using that k'(1) by (simp add: inj_on_def oo(1))
  ultimately show ?thesis by (intro get_active_by_key_hash_None) metis
qed

text \<open>C17. The key table over any run of admin requests, by any principals, and of background tasks: the ids and the hashes
  of its keys stay distinct and their tenants exist; no key disappears or changes its tenant, hash, name or scopes; a
  revocation and its time are final, so a key that is revoked is never again active.\<close>

theorem key_table_invariant:
  assumes A: "admin_store A view" and ok: "keys_ok (view w)"
  shows "keys_ok (view (serve A w es)) \<and> evolves (view w) (view (serve A w es))
    \<and> (\<forall>k\<in>set (tb_api_keys (view w)). ak_revoked_at k \<noteq> None \<longrightarrow>
         get_active_by_key_hash (view (serve A w es)) (ak_key_hash k) = None)"
proof -
  have "keys_ok (view (serve A w es)) \<and> evolves (view w) (view (serve A w es))"
    by (rule serve_induct [OF A, where P = "\<lambda>t. keys_ok t \<and> evolves (view w) t"])
      (use ok evolves_refl admin_step_keys evolves_trans in \<open>blast+\<close>)
  then show ?thesis using revoked_stays_inactive by blast
qed

section \<open>Isolation of tenants\<close>

text \<open>What belongs to tenant \<open>T\<close>: its keys, apart from the time of their last use, and its routes.\<close>

definition tenant_view :: "string \<Rightarrow> tables \<Rightarrow> api_key_row list \<times> adapter_route_row list" where
  "tenant_view T t =
     (map (\<lambda>k. k\<lparr>ak_last_used_at := None\<rparr>) (filter (\<lambda>k. ak_tenant_id k = T) (tb_api_keys t)),
      filter (\<lambda>r. ar_tenant_id r = T) (tb_adapter_routes t))"

definition row_ids_ok :: "tables \<Rightarrow> bool" where
  "row_ids_ok t \<longleftrightarrow> distinct (map ak_id (tb_api_keys t)) \<and> distinct (map ar_id (tb_adapter_routes t))"

lemma filter_map_keep:
  assumes "\<And>x. x \<in> set xs \<Longrightarrow> P (f x) = P x" "\<And>x. x \<in> set xs \<Longrightarrow> P x \<Longrightarrow> g (f x) = g x"
  shows "map g (filter P (map f xs)) = map g (filter P xs)"
  using assms by (induction xs) auto

lemma write_route_other:
  assumes "distinct (map ar_id (tb_adapter_routes t))" "get_by_unique t u als stage = Some old"
    "ar_id row = ar_id old" "ar_tenant_id row = u" "u \<noteq> T"
  shows "tenant_view T (write_route row t) = tenant_view T t \<and> row_ids_ok (write_route row t) = row_ids_ok t"
proof
  let ?f = "\<lambda>r. if ar_id r = ar_id row then row else r"
  have old: "old \<in> set (tb_adapter_routes t)" "ar_tenant_id old = u"
    using find_Some_in [OF assms(2) [unfolded get_by_unique_def]] by auto
  have "inj_on ar_id (set (tb_adapter_routes t))" using assms(1) by (simp add: distinct_map)
  then have same: "r = old" if "r \<in> set (tb_adapter_routes t)" "ar_id r = ar_id row" for r
    using that old(1) assms(3) by (simp add: inj_on_def)
  have "map (\<lambda>r. r) (filter (\<lambda>r. ar_tenant_id r = T) (map ?f (tb_adapter_routes t)))
      = map (\<lambda>r. r) (filter (\<lambda>r. ar_tenant_id r = T) (tb_adapter_routes t))"
  proof (rule filter_map_keep)
    fix x assume x: "x \<in> set (tb_adapter_routes t)"
    show "(ar_tenant_id (?f x) = T) = (ar_tenant_id x = T)" using same [OF x] old(2) assms(4) by auto
    show "?f x = x" if "ar_tenant_id x = T" using that same [OF x] old(2) assms(5) by auto
  qed
  then show "tenant_view T (write_route row t) = tenant_view T t" by (simp add: tenant_view_def write_route_def)
  have "map ar_id (map ?f (tb_adapter_routes t)) = map ar_id (tb_adapter_routes t)" by simp
  moreover have "tb_adapter_routes (write_route row t) = map ?f (tb_adapter_routes t)"
    "tb_api_keys (write_route row t) = tb_api_keys t" by (simp_all add: write_route_def)
  ultimately show "row_ids_ok (write_route row t) = row_ids_ok t" by (simp only: row_ids_ok_def)
qed

lemma route_upsert_other:
  assumes "route_upsert D u als base adapter stage enabled pct (t, w) = (Inr row, (t', w'))" "row_ids_ok t" "u \<noteq> T"
  shows "tenant_view T t' = tenant_view T t \<and> row_ids_ok t'"
proof (cases "get_by_unique t u als stage")
  case None
  with assms show ?thesis
    by (auto simp: route_upsert_def Let_def tenant_view_def row_ids_ok_def split: prod.splits if_splits)
next
  case (Some old)
  have "ar_tenant_id old = u" using find_Some_in [OF Some [unfolded get_by_unique_def]] by auto
  then show ?thesis
    using assms write_route_other [OF _ Some, of _ T] by (auto simp: route_upsert_def Some Let_def row_ids_ok_def split: if_splits)
qed

lemma route_disable_other:
  assumes "route_disable u als stage (t, w) = (Inr (Some row), (t', w'))" "row_ids_ok t" "u \<noteq> T"
  shows "tenant_view T t' = tenant_view T t \<and> row_ids_ok t'"
proof (cases "get_by_unique t u als stage")
  case None
  with assms(1) show ?thesis by (simp add: route_disable_def)
next
  case (Some old)
  have "ar_tenant_id old = u" using find_Some_in [OF Some [unfolded get_by_unique_def]] by auto
  then show ?thesis
    using assms write_route_other [OF _ Some, of _ T] by (auto simp: route_disable_def Some Let_def row_ids_ok_def)
qed

lemma key_map_other:
  assumes "\<And>k. k \<in> set (tb_api_keys t) \<Longrightarrow> ak_tenant_id (f k) = ak_tenant_id k \<and> ak_id (f k) = ak_id k"
    "\<And>k. k \<in> set (tb_api_keys t) \<Longrightarrow> ak_tenant_id k = T \<Longrightarrow> (f k)\<lparr>ak_last_used_at := None\<rparr> = k\<lparr>ak_last_used_at := None\<rparr>"
  shows "tenant_view T (t\<lparr>tb_api_keys := map f (tb_api_keys t)\<rparr>) = tenant_view T t
    \<and> row_ids_ok (t\<lparr>tb_api_keys := map f (tb_api_keys t)\<rparr>) = row_ids_ok t"
proof
  let ?t = "t\<lparr>tb_api_keys := map f (tb_api_keys t)\<rparr>"
  have tb: "tb_api_keys ?t = map f (tb_api_keys t)" "tb_adapter_routes ?t = tb_adapter_routes t" by simp_all
  have "map (\<lambda>k. k\<lparr>ak_last_used_at := None\<rparr>) (filter (\<lambda>k. ak_tenant_id k = T) (map f (tb_api_keys t)))
      = map (\<lambda>k. k\<lparr>ak_last_used_at := None\<rparr>) (filter (\<lambda>k. ak_tenant_id k = T) (tb_api_keys t))"
    by (rule filter_map_keep) (simp_all add: assms)
  then show "tenant_view T ?t = tenant_view T t" by (simp only: tenant_view_def tb)
  have "map ak_id (map f (tb_api_keys t)) = map ak_id (tb_api_keys t)" using assms(1) by simp
  then show "row_ids_ok ?t = row_ids_ok t" by (simp only: row_ids_ok_def tb)
qed

lemma admin_step_other:
  assumes "admin_step D p t t'" "row_ids_ok t" "parse_uuid T = Some T" "parse_uuid (p_tenant_id p) \<noteq> Some T"
    "''*'' \<notin> p_scopes p"
  shows "tenant_view T t' = tenant_view T t \<and> row_ids_ok t'"
  using assms(1)
proof (cases rule: admin_step.cases)
  case Unchanged
  with assms(2) show ?thesis by simp
next
  case (KeyCreated k)
  then have "ak_tenant_id k \<noteq> T" using assms(4) by auto
  with KeyCreated assms(2) show ?thesis by (auto simp: tenant_view_def row_ids_ok_def)
next
  case (KeyRevoked i k now)
  have k: "k \<in> set (tb_api_keys t)" "ak_id k = i"
    using find_Some_in [OF KeyRevoked(2) [unfolded api_key_get_by_id_def]] by auto
  have "inj_on ak_id (set (tb_api_keys t))" using assms(2) by (simp add: row_ids_ok_def distinct_map)
  then have "a = k" if "a \<in> set (tb_api_keys t)" "ak_id a = i" for a using that k by (simp add: inj_on_def)
  moreover have "ak_tenant_id k \<noteq> T" using KeyRevoked(3) assms(3,4) by auto
  ultimately have "tenant_view T (revoked i now t) = tenant_view T t \<and> row_ids_ok (revoked i now t) = row_ids_ok t"
    unfolding revoked_def by (intro key_map_other) auto
  with assms(2) show ?thesis by (simp add: KeyRevoked(1))
next
  case (KeyTouched i now)
  have "tenant_view T t' = tenant_view T t \<and> row_ids_ok t' = row_ids_ok t"
    unfolding KeyTouched by (rule key_map_other) auto
  with assms(2) show ?thesis by simp
next
  case (RouteUpserted u als base adapter stage enabled pct w row w')
  then have "u \<noteq> T" using assms(3,4,5) by auto
  with route_upsert_other [OF RouteUpserted(2) assms(2)] show ?thesis by simp
next
  case (RouteDisabled u als stage w row w')
  then have "u \<noteq> T" using assms(4) by auto
  with route_disable_other [OF RouteDisabled(2) assms(2)] show ?thesis by simp
qed (use assms(2) in \<open>simp_all add: tenant_view_def row_ids_ok_def\<close>)

text \<open>C16. Tenants are isolated from each other's admins: over any run of admin requests by principals of other tenants that
  do not hold the scope "*", and of background tasks, the keys of a tenant (apart from the time of their last use)
  and its routes stay exactly as they are.\<close>

theorem tenant_isolation:
  assumes A: "admin_store A view" and ok: "row_ids_ok (view w)" and T: "parse_uuid T = Some T"
    and others: "\<And>p r. Request p r \<in> set es \<Longrightarrow> parse_uuid (p_tenant_id p) \<noteq> Some T \<and> ''*'' \<notin> p_scopes p"
  shows "tenant_view T (view (serve A w es)) = tenant_view T (view w)"
proof -
  have "parse_uuid [] = None" by code_simp
  then have act: "parse_uuid (p_tenant_id (actor e)) \<noteq> Some T" "''*'' \<notin> p_scopes (actor e)" if "e \<in> set es" for e
    using that others by (cases e; fastforce simp: nobody_def)+
  have "row_ids_ok (view (serve A w es)) \<and> tenant_view T (view (serve A w es)) = tenant_view T (view w)"
    by (rule serve_induct [OF A, where P = "\<lambda>t. row_ids_ok t \<and> tenant_view T t = tenant_view T (view w)"])
      (use ok admin_step_other [OF _ _ T act] in auto)
  then show ?thesis by simp
qed

section \<open>New keys\<close>

lemma get_active_by_key_hash_found:
  assumes "distinct (map ak_key_hash (tb_api_keys t))" "k \<in> set (tb_api_keys t)" "ak_revoked_at k = None"
    "ak_tenant_id k \<in> tn_id ` set (tb_tenants t)"
  shows "\<exists>r. get_active_by_key_hash t (ak_key_hash k) = Some r \<and> kr_id r = ak_id k
    \<and> kr_tenant_id r = ak_tenant_id k \<and> kr_scopes r = ak_scopes k"
proof -
  obtain n where n: "n \<in> set (tb_tenants t)" "ak_tenant_id k = tn_id n" using assms(4) by auto
  let ?js = "[(a, n). a \<leftarrow> tb_api_keys t, n \<leftarrow> tb_tenants t,
              ak_tenant_id a = tn_id n \<and> ak_key_hash a = ak_key_hash k \<and> ak_revoked_at a = None]"
  have "(k, n) \<in> set ?js" using assms(2,3) n by auto
  then have "get_active_by_key_hash t (ak_key_hash k) \<noteq> None"
    unfolding get_active_by_key_hash_def by (cases ?js) auto
  then obtain r where r: "get_active_by_key_hash t (ak_key_hash k) = Some r" by blast
  from get_active_by_key_hash_Some [OF r] obtain a where a: "a \<in> set (tb_api_keys t)" "ak_key_hash a = ak_key_hash k"
    "kr_id r = ak_id a" "kr_tenant_id r = ak_tenant_id a" "kr_scopes r = ak_scopes a" by auto
  have "a = k" using assms(1,2) a(1,2) by (auto simp: distinct_map dest: inj_onD)
  with r a show ?thesis by simp
qed

lemma authenticate_from_database:
  assumes D: "database_store (au_database S) tbl" and R: "redis_store (au_redis S) cache"
    and up: "\<And>w. is_val (fst (db_open (au_database S) w))" "\<And>t w. is_val (fst (db_commit (au_database S) t w))"
    and indep: "\<And>k w. tbl (snd (redis_get (au_redis S) k w)) = tbl w"
    and valid: "is_valid_api_key_format raw" and miss: "cache w (auth_cache_key (hash_api_key (au_pepper S) raw)) = None"
    and act: "get_active_by_key_hash (tbl w) (hash_api_key (au_pepper S) raw) = Some r"
  shows "\<exists>w'. authenticate S raw w = (Inr (Some (principal_of r)), w')"
proof -
  let ?h = "hash_api_key (au_pepper S) raw"
  obtain x w1 where g: "redis_get (au_redis S) (auth_cache_key ?h) w = (x, w1)" by fastforce
  have c: "auth_get_cached S ?h w = (Inr None, w1)"
    using g redis_get_value [OF R] miss by (cases x) (fastforce simp: auth_get_cached_def)+
  have t1: "tbl w1 = tbl w" using indep [of "auth_cache_key ?h" w] g by simp
  obtain t w2 where o2: "db_open (au_database S) w1 = (Inr t, w2)"
    using up(1) [of w1] by (metis is_val_def old.sum.exhaust prod.collapse is_valE)
  then have t: "t = tbl w" using db_open_value [OF D] t1 by metis
  obtain u w3 where c3: "db_commit (au_database S) t w2 = (Inr u, w3)"
    using up(2) [of t w2] by (metis is_valE prod.collapse)
  have "load_from_database S ?h w1 = (Inr (Some (principal_of r)), w3)"
    using o2 c3 act by (simp add: load_from_database_def session_def t)
  with c valid show ?thesis by (simp add: authenticate_def Let_def)
qed

text \<open>C18. What an admin mints is what authenticates: the raw key in the answer of the create endpoint, shown once, is accepted by
  \<open>authenticate\<close> as the key of the answered id, for the admin's own tenant and with exactly the requested
  scopes.  Nothing compares these scopes with the admin's own, so a key that holds only \<open>admin:write\<close> can mint one with
  "*".\<close>

theorem created_key_authenticates:
  assumes A: "admin_store A view" and ok: "keys_ok (view w)" and tok: "fst (am_token A w) \<noteq> []"
    and S: "S = am_auth_service A" "au_pepper S = am_pepper A" and R: "redis_store (au_redis S) cache"
    and up: "\<And>w. is_val (fst (db_open (am_database A) w))" "\<And>t w. is_val (fst (db_commit (am_database A) t w))"
    and indep: "\<And>k w. view (snd (redis_get (au_redis S) k w)) = view w"
    and created: "admin_endpoint A p (CreateApiKey name scopes) w = (Inr (CreateApiKeyResponse i raw shown), w1)"
    and miss: "cache w1 (auth_cache_key (hash_api_key (am_pepper A) raw)) = None"
  shows "shown = scopes \<and> (\<exists>q w2. authenticate S raw w1 = (Inr (Some q), w2) \<and> p_api_key_id q = i
    \<and> Some (p_tenant_id q) = parse_uuid (p_tenant_id p) \<and> p_scopes q = set scopes)"
proof -
  note D = admin_storeD(1) [OF A]
  obtain token wt where t: "am_token A w = (token, wt)" by fastforce
  let ?h = "hash_api_key (am_pepper A) raw"
  from created t obtain u where u: "parse_uuid (p_tenant_id p) = Some u" and raw: "raw = api_key_prefix @ token" and sh: "shown = scopes"
    and c: "create_api_key (am_auth_service A) u ?h name scopes wt = (Inr i, w1)"
    by (auto simp: create_api_key_endpoint_def generate_api_key_def uuid_of_def Let_def split: option.splits sum.splits prod.splits)
  obtain k where k: "session (am_database A) (api_key_create (am_database A) u ?h name scopes) wt = (Inr k, w1)" "i = ak_id k"
    using c by (auto simp: create_api_key_def admin_storeD(2) [OF A] split: prod.splits sum.splits)
  obtain t0 wo t' wb v where s: "db_open (am_database A) wt = (Inr t0, wo)"
    "api_key_create (am_database A) u ?h name scopes (t0, wo) = (Inr k, (t', wb))" "db_commit (am_database A) t' wb = (Inr v, w1)"
    using k(1) by (rule session_ok)
  have t0: "t0 = view w" using db_open_value [OF D s(1)] admin_storeD(4) [OF A t] by simp
  have v1: "view w1 = t'" by (rule db_commit_view [OF D s(3)])
  from s(2) have kf: "k \<in> set (tb_api_keys t')" "ak_key_hash k = ?h" "ak_tenant_id k = u" "ak_scopes k = scopes" "ak_revoked_at k = None"
    by (auto simp: api_key_create_def Let_def split: prod.splits if_splits)
  have "keys_ok t'" using admin_step_keys [OF key_create_step [OF s(2) u]] ok t0 by simp
  then have "distinct (map ak_key_hash (tb_api_keys t'))" "ak_tenant_id k \<in> tn_id ` set (tb_tenants t')"
    using kf(1) by (auto simp: keys_ok_def)
  from get_active_by_key_hash_found [OF this(1) kf(1,5) this(2)] obtain r where
    r: "get_active_by_key_hash (view w1) ?h = Some r" "kr_id r = i" "kr_tenant_id r = u" "kr_scopes r = scopes"
    by (auto simp: kf k(2) v1)
  have "is_valid_api_key_format raw" using tok t by (simp add: raw is_valid_api_key_format_def)
  moreover have "au_database S = am_database A" using admin_storeD(2) [OF A] S(1) by simp
  ultimately obtain w2 where "authenticate S raw w1 = (Inr (Some (principal_of r)), w2)"
    using authenticate_from_database [of S view cache raw w1 r] D R up indep miss r(1) by (auto simp: S(2))
  with r u sh show ?thesis by (simp add: principal_of_def)
qed

section \<open>A run in memory\<close>

definition mem_admin :: "mem admin" where
  "mem_admin = \<lparr>am_database = mem_database, am_auth_service = mem_auth, am_pepper = ''pepper'', am_token = (\<lambda>w. (''abc'', w))\<rparr>"

lemma mem_admin_sel [simp]: "am_database mem_admin = mem_database" "am_auth_service mem_admin = mem_auth"
    "am_pepper mem_admin = ''pepper''" "am_token mem_admin w = (''abc'', w)"
  by (simp_all add: mem_admin_def)

lemma mem_admin_store: "admin_store mem_admin mem_tables"
  by (simp add: admin_store_def mem_database_store mem_quiet_runtime)

text \<open>The default tenant and a key of it; an admin of another tenant.\<close>

definition default_tables :: tables where
  "default_tables = \<lparr>
     tb_tenants = [\<lparr>tn_id = default_tenant_id, tn_name = ''Default'', tn_slug = ''default'', tn_budget_monthly_usd = None,
       tn_status = ''active'', tn_created_at = 0\<rparr>],
     tb_api_keys = [\<lparr>ak_id = ''k1'', ak_tenant_id = default_tenant_id, ak_key_hash = ''h1'', ak_name = ''old'',
       ak_scopes = [''chat:write''], ak_revoked_at = Some 5, ak_last_used_at = None, ak_created_at = 0\<rparr>],
     tb_pricing = [], tb_adapter_routes = [], tb_requests = [], tb_spans = [], tb_usage = []\<rparr>"

definition default_mem :: mem where
  "default_mem = \<lparr>mem_tables = default_tables, mem_clock = 7, mem_cache = Map.empty, mem_tasks = []\<rparr>"

definition default_admin :: principal where
  "default_admin = \<lparr>p_tenant_id = default_tenant_id, p_api_key_id = ''k0'', p_tenant_status = ''active'',
     p_scopes = {''admin:write''}, p_rate_limit_per_minute = None\<rparr>"

definition other_admin :: principal where
  "other_admin = default_admin\<lparr>p_tenant_id := uuid_text 2\<rparr>"

lemma default_mem_ok: "keys_ok (mem_tables default_mem)" "row_ids_ok (mem_tables default_mem)"
  by (simp_all add: keys_ok_def row_ids_ok_def default_mem_def default_tables_def)

theorem key_table_invariant_witness:
  "get_active_by_key_hash (mem_tables (serve mem_admin default_mem
     [Request default_admin (RevokeApiKey ''k1''), Touch ''k1'', Request default_admin (CreateTenant ''Acme'' ''acme'')])) ''h1'' = None"
  using key_table_invariant [OF mem_admin_store default_mem_ok(1),
      of "[Request default_admin (RevokeApiKey ''k1''), Touch ''k1'', Request default_admin (CreateTenant ''Acme'' ''acme'')]"]
  by (simp add: default_mem_def default_tables_def)

theorem tenant_isolation_witness:
  "tenant_view default_tenant_id (mem_tables (serve mem_admin default_mem
     [Request other_admin (RevokeApiKey ''k1''), Touch ''k1'', Request other_admin (DisableAdapterRoute ''bot'' ''Production'')]))
   = tenant_view default_tenant_id default_tables"
proof -
  have other: "parse_uuid (p_tenant_id other_admin) \<noteq> Some default_tenant_id"
  proof -
    have "uuid_text 2 \<noteq> uuid_text 1" by code_simp
    moreover have "parse_uuid (uuid_text 2) = Some (uuid_text 2)" by (rule parse_uuid_text) simp_all
    ultimately show ?thesis by (simp add: other_admin_def default_tenant_id_text)
  qed
  have "''*'' \<notin> p_scopes other_admin" by (simp add: other_admin_def default_admin_def)
  with other show ?thesis
    using tenant_isolation [OF mem_admin_store default_mem_ok(2) parse_default_tenant_id,
        of "[Request other_admin (RevokeApiKey ''k1''), Touch ''k1'', Request other_admin (DisableAdapterRoute ''bot'' ''Production'')]"]
    by (auto simp: default_mem_def)
qed

lemma sha_not_h1: "length (hash_api_key pepper raw) = 64"
  by (simp add: hash_api_key_def)

lemma create_in_memory:
  assumes "h \<noteq> ''h1''" "length h = 64"
  shows "\<exists>k w1. session mem_database (api_key_create mem_database default_tenant_id h ''root'' [''*'']) default_mem = (Inr k, w1)
    \<and> mem_cache w1 = Map.empty"
proof -
  have "show_int 7 \<noteq> ''k1''" by (simp add: show_int_def show_nat.simps digit_def char_of_def)
  with assms show ?thesis
    by (simp add: session_def mem_database_def mem_runtime_def api_key_create_def default_mem_def default_tables_def Let_def)
qed

theorem created_key_authenticates_witness:
  "\<exists>i raw w1 q w2. admin_endpoint mem_admin default_admin (CreateApiKey ''root'' [''*'']) default_mem
        = (Inr (CreateApiKeyResponse i raw [''*'']), w1)
      \<and> authenticate mem_auth raw w1 = (Inr (Some q), w2) \<and> p_scopes q = {''*''}"
proof -
  let ?h = "hash_api_key ''pepper'' (api_key_prefix @ ''abc'')"
  have "?h \<noteq> ''h1''" using sha_not_h1 [of "''pepper''" "api_key_prefix @ ''abc''"] by auto
  from create_in_memory [OF this sha_not_h1] obtain k w1 where
    k: "session mem_database (api_key_create mem_database default_tenant_id ?h ''root'' [''*'']) default_mem = (Inr k, w1)"
    "mem_cache w1 = Map.empty" by blast
  have c: "admin_endpoint mem_admin default_admin (CreateApiKey ''root'' [''*'']) default_mem
      = (Inr (CreateApiKeyResponse (ak_id k) (api_key_prefix @ ''abc'') [''*'']), w1)"
    by (simp add: create_api_key_endpoint_def generate_api_key_def uuid_of_def create_api_key_def k(1) Let_def
        default_admin_def parse_default_tenant_id)
  have up: "is_val (fst (db_open (am_database mem_admin) w))" "is_val (fst (db_commit (am_database mem_admin) t w))" for t w
    by (simp_all add: mem_database_def)
  from created_key_authenticates [OF mem_admin_store default_mem_ok(1) _ refl _ _ up _ c, of mem_cache] obtain q w2 where
    "authenticate mem_auth (api_key_prefix @ ''abc'') w1 = (Inr (Some q), w2)" "p_scopes q = {''*''}"
    by (auto simp: mem_redis_store k(2))
  with c show ?thesis by blast
qed

end
