(* ===== verification/Tracing.thy ===== *)
theory Tracing
  imports Persistence Uuid
begin

text \<open>
  Spans and their persistence: the span list of one request (\<open>services/tracing_service.py\<close>) and the
  unit of work that stores a request, its spans and its token usage
  (\<open>services/trace_persistence_service.py\<close>).

  The spans of a request are the list \<open>self.spans\<close>; the span object a \<open>with\<close> block binds is the
  position it was appended at.  The list and the state of everything else are threaded as a pair.
\<close>

section \<open>Spans\<close>

type_synonym 's traced = "trace_span list \<times> 's"

definition span_open ::
  "'s runtime \<Rightarrow> string \<Rightarrow> string \<Rightarrow> string option \<Rightarrow> 's traced \<Rightarrow> nat \<times> 's traced" where
  "span_open rt trace_id name parent_span_id = (\<lambda>(spans, s).
     let (now, s1) = rt_utcnow rt s
     in (length spans,
         (spans @ [\<lparr>sp_trace_id = trace_id,
                    sp_span_id = trace_id @ '':'' @ name @ '':'' @ show_int (int (length spans)),
                    sp_span_name = name, sp_started_at = now, sp_parent_span_id = parent_span_id,
                    sp_ended_at = None, sp_metadata = []\<rparr>], s1)))"

definition span_close :: "'s runtime \<Rightarrow> nat \<Rightarrow> 's traced \<Rightarrow> 's traced" where
  "span_close rt i = (\<lambda>(spans, s).
     let (now, s1) = rt_utcnow rt s in (spans[i := (spans ! i)\<lparr>sp_ended_at := Some now\<rparr>], s1))"

text \<open>\<open>span.metadata[key] = value\<close>: a dictionary keeps the position of a key it has.\<close>

fun dict_set :: "'k \<Rightarrow> 'v \<Rightarrow> ('k \<times> 'v) list \<Rightarrow> ('k \<times> 'v) list" where
  "dict_set k v [] = [(k, v)]"
| "dict_set k v ((k', v') # kvs) = (if k' = k then (k, v) # kvs else (k', v') # dict_set k v kvs)"

definition span_set :: "nat \<Rightarrow> string \<Rightarrow> meta \<Rightarrow> trace_span list \<Rightarrow> trace_span list" where
  "span_set i key v spans = spans[i := (spans ! i)\<lparr>sp_metadata := dict_set key v (sp_metadata (spans ! i))\<rparr>]"

text \<open>\<open>with tracing.span(name) as span: body\<close>: the span ends whether or not the body raises.\<close>

definition with_span ::
  "'s runtime \<Rightarrow> string \<Rightarrow> string \<Rightarrow> (nat \<Rightarrow> 's traced \<Rightarrow> (exn + 'a) \<times> 's traced) \<Rightarrow> 's traced \<Rightarrow> (exn + 'a) \<times> 's traced" where
  "with_span rt trace_id name body ts =
     (let (i, ts1) = span_open rt trace_id name None ts;
          (result, ts2) = body i ts1
      in (result, span_close rt i ts2))"

text \<open>Spans have distinct ids, begin with the trace id and belong to the trace.\<close>

definition spans_ok :: "string \<Rightarrow> trace_span list \<Rightarrow> bool" where
  "spans_ok trace_id spans \<longleftrightarrow>
     (\<forall>i<length spans. sp_trace_id (spans ! i) = trace_id
        \<and> sp_span_id (spans ! i) = trace_id @ '':'' @ sp_span_name (spans ! i) @ '':'' @ show_int (int i))"

lemma spans_ok_Nil [simp]: "spans_ok trace_id []"
  by (simp add: spans_ok_def)

lemma span_open_ok:
  "spans_ok tr spans \<Longrightarrow> span_open rt tr name parent (spans, s) = (i, (spans', s')) \<Longrightarrow>
     spans_ok tr spans' \<and> i = length spans \<and> length spans' = Suc i"
  by (auto simp: span_open_def spans_ok_def nth_append less_Suc_eq split: prod.splits)

lemma spans_ok_update:
  assumes "spans_ok tr spans" "\<And>x. sp_trace_id (f x) = sp_trace_id x" "\<And>x. sp_span_id (f x) = sp_span_id x"
    "\<And>x. sp_span_name (f x) = sp_span_name x"
  shows "spans_ok tr (spans[i := f (spans ! i)])"
  unfolding spans_ok_def
proof (intro allI impI)
  fix j assume "j < length (spans[i := f (spans ! i)])"
  with assms show "sp_trace_id (spans[i := f (spans ! i)] ! j) = tr
      \<and> sp_span_id (spans[i := f (spans ! i)] ! j) =
        tr @ '':'' @ sp_span_name (spans[i := f (spans ! i)] ! j) @ '':'' @ show_int (int j)"
    by (cases "i = j") (simp_all add: spans_ok_def)
qed

lemma span_close_ok:
  "spans_ok tr spans \<Longrightarrow> span_close rt i (spans, s) = (spans', s') \<Longrightarrow>
     spans_ok tr spans' \<and> length spans' = length spans"
  by (auto simp: span_close_def split: prod.splits intro!: spans_ok_update)

lemma span_set_ok: "spans_ok tr spans \<Longrightarrow> spans_ok tr (span_set i k v spans) \<and> length (span_set i k v spans) = length spans"
  unfolding span_set_def by (rule conjI, rule spans_ok_update) simp_all

lemma with_span_ok:
  assumes "spans_ok tr spans" "with_span rt tr name body (spans, s) = (r, (spans', s'))"
    and "\<And>i sp s r sp' s'. spans_ok tr sp \<Longrightarrow> body i (sp, s) = (r, (sp', s')) \<Longrightarrow> spans_ok tr sp' \<and> length sp' = length sp"
  shows "spans_ok tr spans' \<and> length spans' = Suc (length spans)"
proof -
  obtain i sp1 s1 where o: "span_open rt tr name None (spans, s) = (i, (sp1, s1))" by (metis surj_pair)
  obtain x sp2 s2 where b: "body i (sp1, s1) = (x, (sp2, s2))" by (metis surj_pair)
  from span_open_ok [OF assms(1) o] have "spans_ok tr sp1" "length sp1 = Suc (length spans)" by auto
  moreover from assms(3) [OF this(1) b] have "spans_ok tr sp2" "length sp2 = length sp1" by auto
  ultimately show ?thesis
    using assms(2) o b span_close_ok [of tr sp2 rt i s2] by (auto simp: with_span_def)
qed

lemma show_nat_no_colon_list: "CHR '':'' \<notin> set (show_int (int i))"
  by (simp add: show_int_def)

lemma spans_ok_distinct:
  assumes "spans_ok tr spans"
  shows "distinct (map sp_span_id spans)"
proof (unfold distinct_conv_nth, intro allI impI)
  fix i j assume ij: "i < length (map sp_span_id spans)" "j < length (map sp_span_id spans)" "i \<noteq> j"
  have rest: "c @ '':'' @ show_int (int i) \<noteq> d @ '':'' @ show_int (int j)" for c d
  proof
    assume eq: "c @ '':'' @ show_int (int i) = d @ '':'' @ show_int (int j)"
    have "takeWhile (\<lambda>x. x \<noteq> CHR '':'') (rev (e @ '':'' @ show_int (int k))) = rev (show_int (int k))" for e k
      using show_nat_no_colon_list [of k] by (simp add: takeWhile_upto)
    from this [of c i] this [of d j] have "rev (show_int (int i)) = rev (show_int (int j))"
      unfolding eq by simp
    then have "show_int (int i) = show_int (int j)" by simp
    with \<open>i \<noteq> j\<close> show False by (simp add: show_int_def)
  qed
  from ij assms rest [of "tr @ '':'' @ sp_span_name (spans ! i)" "tr @ '':'' @ sp_span_name (spans ! j)"]
  show "map sp_span_id spans ! i \<noteq> map sp_span_id spans ! j" by (auto simp: spans_ok_def)
qed

section \<open>Persisting a trace\<close>

record trace_args =
  ta_trace_id :: string
  ta_tenant_id :: string
  ta_api_key_id :: "string option"
  ta_http_status :: int
  ta_request :: chat_request
  ta_response :: chat_response
  ta_spans :: "trace_span list"

text \<open>The row that \<open>create\<close> gets; its id and creation time are set there.\<close>

definition request_fields :: "trace_args \<Rightarrow> string \<Rightarrow> string option \<Rightarrow> request_row" where
  "request_fields a tenant_uuid api_key_uuid = \<lparr>rr_id = [], rr_trace_id = ta_trace_id a, rr_tenant_id = tenant_uuid,
     rr_api_key_id = api_key_uuid, rr_provider = rs_provider (ta_response a),
     rr_model_requested = rq_model (ta_request a), rr_model_used = Some (rs_model (ta_response a)),
     rr_status = (if ta_http_status a < 400 then ''ok'' else ''error''),
     rr_cache_status = cache_status_value (rs_cache_status (ta_response a)),
     rr_http_status = ta_http_status a, rr_is_stream = rq_stream (ta_request a),
     rr_total_latency_ms = Some (rs_latency_ms (ta_response a)), rr_created_at = 0,
     rr_completed_at = Some (rs_created_at (ta_response a))\<rparr>"

definition uuid_or_none :: "string option \<Rightarrow> exn + string option" where
  "uuid_or_none s = (if truthy s
     then (case parse_uuid (the s) of None \<Rightarrow> Inl (ValueError ''badly formed hexadecimal UUID string'')
           | Some u \<Rightarrow> Inr (Some u))
     else Inr None)"

definition persist_body ::
  "(real \<Rightarrow> real) \<Rightarrow> (real \<Rightarrow> real) \<Rightarrow> 'w database \<Rightarrow> trace_args \<Rightarrow> string \<Rightarrow> ('w, unit) unit_of_work" where
  "persist_body rnd to_numeric D a tenant_uuid = (\<lambda>(t, w).
     case get_by_trace_id t (ta_trace_id a) of
       Inl e \<Rightarrow> (Inl e, (t, w))
     | Inr (Some existing) \<Rightarrow> (Inr (), (t, w))
     | Inr None \<Rightarrow>
         (case uuid_or_none (ta_api_key_id a) of
            Inl e \<Rightarrow> (Inl e, (t, w))
          | Inr api_key_uuid \<Rightarrow>
              (case request_create D (request_fields a tenant_uuid api_key_uuid) (t, w) of
                 (Inl e, s1) \<Rightarrow> (Inl e, s1)
               | (Inr record, s1) \<Rightarrow>
                   (case span_bulk_create rnd D (rr_id record) (ta_spans a) s1 of
                      (Inl e, s2) \<Rightarrow> (Inl e, s2)
                    | (Inr _, s2) \<Rightarrow>
                        (case usage_create to_numeric D (rr_id record) (rs_usage (ta_response a))
                                (rs_cost_usd (ta_response a)) s2 of
                           (Inl e, s3) \<Rightarrow> (Inl e, s3)
                         | (Inr _, s3) \<Rightarrow> (Inr (), s3))))))"

definition persist ::
  "(real \<Rightarrow> real) \<Rightarrow> (real \<Rightarrow> real) \<Rightarrow> 'w database \<Rightarrow> trace_args \<Rightarrow> 'w \<Rightarrow> (exn + unit) \<times> 'w" where
  "persist rnd to_numeric D a w =
     (case parse_uuid (ta_tenant_id a) of
        None \<Rightarrow> (Inr (), w)
      | Some tenant_uuid \<Rightarrow> session D (persist_body rnd to_numeric D a tenant_uuid) w)"

section \<open>Flushing a trace in process\<close>

type_synonym 'w exporter = "trace_span list \<Rightarrow> 'w \<Rightarrow> (exn + unit) \<times> 'w"

text \<open>Every exporter is called; what one raises is logged and dropped.\<close>

fun export_all :: "'w exporter list \<Rightarrow> trace_span list \<Rightarrow> 'w \<Rightarrow> 'w" where
  "export_all [] spans w = w"
| "export_all (ex # exs) spans w = (let (_, w1) = ex spans w in export_all exs spans w1)"

definition tracing_persist ::
  "(real \<Rightarrow> real) \<Rightarrow> (real \<Rightarrow> real) \<Rightarrow> 'w database option \<Rightarrow> trace_args \<Rightarrow> 'w \<Rightarrow> (exn + unit) \<times> 'w" where
  "tracing_persist rnd to_numeric database a w =
     (case database of None \<Rightarrow> (Inr (), w) | Some D \<Rightarrow> persist rnd to_numeric D a w)"

definition flush ::
  "(real \<Rightarrow> real) \<Rightarrow> (real \<Rightarrow> real) \<Rightarrow> 'w database option \<Rightarrow> 'w exporter list \<Rightarrow> trace_args \<Rightarrow> 'w \<Rightarrow> 'w" where
  "flush rnd to_numeric database exporters a w =
     (let (_, w1) = tracing_persist rnd to_numeric database a w in export_all exporters (ta_spans a) w1)"

section \<open>What persisting does to the tables\<close>

lemma span_rows_rows:
  "span_rows rnd rt rid ss w = (rows, w') \<Longrightarrow>
     map sr_span_name rows = map sp_span_name ss \<and> (\<forall>r\<in>set rows. sr_request_id r = rid)"
  by (induction ss arbitrary: w rows w') (auto simp: Let_def split: prod.splits)

text \<open>One request row, the rows of its spans, one usage row, linked by the request's id.\<close>

definition stored_trace :: "(real \<Rightarrow> real) \<Rightarrow> trace_args \<Rightarrow> tables \<Rightarrow> tables \<Rightarrow> bool" where
  "stored_trace to_numeric a t t' \<longleftrightarrow>
     (\<exists>row rows urow. t' = t\<lparr>tb_requests := tb_requests t @ [row], tb_spans := tb_spans t @ rows,
                           tb_usage := tb_usage t @ [urow]\<rparr>
        \<and> rr_trace_id row = ta_trace_id a \<and> parse_uuid (ta_tenant_id a) = Some (rr_tenant_id row)
        \<and> map sr_span_name rows = map sp_span_name (ta_spans a)
        \<and> (\<forall>r\<in>set rows. sr_request_id r = rr_id row) \<and> ur_request_id urow = rr_id row
        \<and> ur_cost_usd urow = to_numeric (rs_cost_usd (ta_response a)))"

lemma get_by_trace_id_None:
  "get_by_trace_id t tr = Inr None \<longleftrightarrow> (\<forall>r\<in>set (tb_requests t). rr_trace_id r \<noteq> tr)"
proof -
  have "get_by_trace_id t tr = Inr None \<longleftrightarrow> filter (\<lambda>r. rr_trace_id r = tr) (tb_requests t) = []"
    by (auto simp: get_by_trace_id_def split: list.splits)
  then show ?thesis by (simp add: filter_empty_conv)
qed

lemma request_create_row:
  assumes "request_create D f (t, w) = (Inr row, (t', w'))"
  shows "t' = t\<lparr>tb_requests := tb_requests t @ [row]\<rparr> \<and> rr_trace_id row = rr_trace_id f
    \<and> rr_tenant_id row = rr_tenant_id f"
  using assms by (auto simp: request_create_def Let_def split: prod.splits if_splits)

lemma span_bulk_create_rows:
  assumes "span_bulk_create rnd D rid ss (t, w) = (x, (t', w'))"
  shows "\<exists>rows. t' = t\<lparr>tb_spans := tb_spans t @ rows\<rparr> \<and> map sr_span_name rows = map sp_span_name ss
    \<and> (\<forall>r\<in>set rows. sr_request_id r = rid)"
proof (cases "ss = []")
  case True
  with assms show ?thesis by (intro exI [of _ "[]"]) (simp add: span_bulk_create_def)
next
  case False
  obtain rows w1 where r: "span_rows rnd (db_runtime D) rid ss w = (rows, w1)" by fastforce
  with assms False span_rows_rows [OF r] show ?thesis
    by (intro exI [of _ rows]) (simp add: span_bulk_create_def)
qed

lemma usage_create_row:
  assumes "usage_create tn D rid u c (t, w) = (Inr row, (t', w'))"
  shows "t' = t\<lparr>tb_usage := tb_usage t @ [row]\<rparr> \<and> ur_request_id row = rid \<and> ur_cost_usd row = tn c"
  using assms by (auto simp: usage_create_def Let_def split: prod.splits)

lemma persist_body_effect:
  assumes b: "persist_body rnd tn D a tid (t, w) = (Inr (), (t', w'))"
    and tid: "parse_uuid (ta_tenant_id a) = Some tid"
  shows "t' = t \<or> (\<forall>r\<in>set (tb_requests t). rr_trace_id r \<noteq> ta_trace_id a) \<and> stored_trace tn a t t'"
proof (cases "get_by_trace_id t (ta_trace_id a)")
  case (Inl e)
  with b show ?thesis by (simp add: persist_body_def)
next
  case (Inr found)
  show ?thesis
  proof (cases found)
    case (Some r)
    with b Inr show ?thesis by (simp add: persist_body_def)
  next
    case None
    from b Inr None obtain key where key: "uuid_or_none (ta_api_key_id a) = Inr key"
      by (auto simp: persist_body_def split: sum.splits)
    obtain x1 t1 w1 where c: "request_create D (request_fields a tid key) (t, w) = (x1, (t1, w1))" by (metis surj_pair)
    from b Inr None key c obtain row where x1: "x1 = Inr row" by (auto simp: persist_body_def split: sum.splits)
    obtain x2 t2 w2 where sp: "span_bulk_create rnd D (rr_id row) (ta_spans a) (t1, w1) = (x2, (t2, w2))" by (metis surj_pair)
    obtain x3 t3 w3 where u: "usage_create tn D (rr_id row) (rs_usage (ta_response a)) (rs_cost_usd (ta_response a)) (t2, w2)
        = (x3, (t3, w3))" by (metis surj_pair)
    from b Inr None key c x1 sp u obtain urow where x3: "x3 = Inr urow" and t3: "t' = t3"
      by (auto simp: persist_body_def split: sum.splits)
    from request_create_row [OF c [unfolded x1]] have row: "t1 = t\<lparr>tb_requests := tb_requests t @ [row]\<rparr>"
      "rr_trace_id row = ta_trace_id a" "rr_tenant_id row = tid" by (simp_all add: request_fields_def)
    from span_bulk_create_rows [OF sp] obtain rows where rows: "t2 = t1\<lparr>tb_spans := tb_spans t1 @ rows\<rparr>"
      "map sr_span_name rows = map sp_span_name (ta_spans a)" "\<forall>r\<in>set rows. sr_request_id r = rr_id row" by blast
    from usage_create_row [OF u [unfolded x3]] row rows tid t3 have "stored_trace tn a t t'"
      unfolding stored_trace_def by (intro exI [of _ row] exI [of _ rows] exI [of _ urow]) simp
    with Inr None show ?thesis by (simp add: get_by_trace_id_None)
  qed
qed

lemma span_rows_quiet:
  "quiet_runtime rt view \<Longrightarrow> span_rows rnd rt rid ss w = (rows, w') \<Longrightarrow> view w' = view w"
proof (induction ss arbitrary: w rows w')
  case Nil
  then show ?case by simp
next
  case (Cons s ss)
  obtain uid w1 where u: "rt_uuid4 rt w = (uid, w1)" by fastforce
  obtain rows1 w2 where r: "span_rows rnd rt rid ss w1 = (rows1, w2)" by fastforce
  from Cons.prems(2) u r have "w' = w2" by simp
  with Cons.IH [OF Cons.prems(1) r] quiet_runtimeD(1) [OF Cons.prems(1) u] show ?case by simp
qed

lemma persist_body_quiet:
  assumes Q: "quiet_runtime (db_runtime D) view" and b: "persist_body rnd tn D a tid (t, w) = (x, (t', w'))"
  shows "view w' = view w"
proof -
  have c: "view w2 = view w1" if "request_create D f (t1, w1) = (y, (t2, w2))" for f t1 w1 y t2 w2
  proof -
    obtain uid wa where u: "rt_uuid4 (db_runtime D) w1 = (uid, wa)" by fastforce
    obtain now wb where n: "rt_utcnow (db_runtime D) wa = (now, wb)" by fastforce
    have "w2 = wb" using that u n by (auto simp: request_create_def Let_def split: if_splits)
    with quiet_runtimeD(1) [OF Q u] quiet_runtimeD(2) [OF Q n] show ?thesis by simp
  qed
  have s: "view w2 = view w1" if "span_bulk_create rnd D rid ss (t1, w1) = (y, (t2, w2))" for rid ss t1 w1 y t2 w2
    using that by (auto simp: span_bulk_create_def split: prod.splits if_splits dest: span_rows_quiet [OF Q])
  have u: "view w2 = view w1" if "usage_create tn D rid us k (t1, w1) = (y, (t2, w2))" for rid us k t1 w1 y t2 w2
    using that by (auto simp: usage_create_def Let_def split: prod.splits dest: quiet_runtimeD(1) [OF Q])
  show ?thesis
    using b by (auto simp: persist_body_def split: sum.splits option.splits prod.splits dest!: c s u)
qed

lemma persist_atomic:
  assumes D: "database_store D view" and Q: "quiet_runtime (db_runtime D) view"
    and p: "persist rnd tn D a w = (x, w')"
  shows "view w' = view w \<or> x = Inr () \<and> (\<forall>r\<in>set (tb_requests (view w)). rr_trace_id r \<noteq> ta_trace_id a)
      \<and> stored_trace tn a (view w) (view w')"
proof (cases "parse_uuid (ta_tenant_id a)")
  case None
  with p show ?thesis by (simp add: persist_def)
next
  case (Some tid)
  with p have s: "session D (persist_body rnd tn D a tid) w = (x, w')" by (simp add: persist_def)
  have env: "\<forall>t w. view (snd (snd (persist_body rnd tn D a tid (t, w)))) = view w"
    by (metis persist_body_quiet [OF Q] surj_pair snd_conv)
  from session_atomic [OF D env s] show ?thesis
  proof (elim disjE exE conjE)
    assume "view w' = view w"
    then show ?thesis by simp
  next
    fix v w1 t' w2
    assume "x = Inr v" "persist_body rnd tn D a tid (view w, w1) = (Inr v, (t', w2))" "view w' = t'"
    with persist_body_effect [OF _ Some, of rnd tn D "view w" w1 t' w2] show ?thesis by auto
  qed
qed

text \<open>C38. Persisting a trace is all or nothing and happens once per trace id: either the tables stay as they
  are, or no request had this trace id and exactly one request row, one row per span and one usage row with
  the response's cost are added, all linked to the request; and when a request with the trace id is already
  there, nothing is stored, so a retried job never duplicates rows.\<close>

theorem persist_atomic_once:
  assumes D: "database_store D view" and Q: "quiet_runtime (db_runtime D) view"
    and p: "persist rnd tn D a w = (x, w')"
  shows "view w' = view w \<or> x = Inr () \<and> (\<forall>r\<in>set (tb_requests (view w)). rr_trace_id r \<noteq> ta_trace_id a)
      \<and> stored_trace tn a (view w) (view w')"
  by (rule persist_atomic [OF D Q p])

text \<open>Trace ids decide what is accounted, and the client may choose them (the header \<open>X-Trace-Id\<close> is taken
  over): once a request with a trace id is stored, no later request with the same trace id, of whichever
  tenant and at whatever cost, leaves a request, span or usage row.\<close>

theorem reused_trace_id_is_not_accounted:
  assumes D: "database_store D view" and Q: "quiet_runtime (db_runtime D) view"
    and first: "persist rnd tn D a w = (x, w1)" "view w1 \<noteq> view w"
    and later: "view v = view w1" "ta_trace_id b = ta_trace_id a" "persist rnd tn D b v = (y, v1)"
  shows "view v1 = view w1 \<and> length (tb_usage (view v1)) = length (tb_usage (view w)) + 1"
proof -
  from persist_atomic [OF D Q first(1)] first(2) have st: "stored_trace tn a (view w) (view w1)" by simp
  then have "\<exists>row\<in>set (tb_requests (view w1)). rr_trace_id row = ta_trace_id a"
    unfolding stored_trace_def by auto
  with persist_atomic [OF D Q later(3)] later have "view v1 = view w1" by fastforce
  moreover from st have "length (tb_usage (view w1)) = length (tb_usage (view w)) + 1"
    unfolding stored_trace_def by auto
  ultimately show ?thesis by simp
qed

text \<open>The column of the trace id holds 64 characters, and nothing bounds the header: whoever sends a longer \<open>X-Trace-Id\<close>
  is served, but no request, span or usage row is ever stored for it, and if it is well-formed otherwise, storing it fails.\<close>

lemma persist_body_long_trace:
  assumes "64 < length (ta_trace_id a)" "persist_body rnd tn D a tid (t, w) = (x, (t', w'))"
  shows "t' = t"
proof -
  have "\<exists>w1. request_create D (request_fields a tid key) (t, w) = (Inl (DatabaseError ''value too long''), (t, w1))" for key
    using assms(1) by (simp add: request_create_def request_texts_def request_fields_def Let_def split: prod.split)
  then have "\<exists>e w1. request_create D (request_fields a tid key) (t, w) = (Inl e, (t, w1))" for key by blast
  with assms(2) show ?thesis by (auto simp: persist_body_def split: sum.splits option.splits prod.splits) (metis Pair_inject old.sum.distinct(1))+
qed

theorem long_trace_id_is_not_accounted:
  assumes D: "database_store D view" and Q: "quiet_runtime (db_runtime D) view" and long: "64 < length (ta_trace_id a)"
  shows "view (snd (persist rnd tn D a w)) = view w"
proof (cases "parse_uuid (ta_tenant_id a)")
  case None
  then show ?thesis by (simp add: persist_def)
next
  case (Some tid)
  obtain x w' where s: "session D (persist_body rnd tn D a tid) w = (x, w')" by fastforce
  have env: "\<forall>t w. view (snd (snd (persist_body rnd tn D a tid (t, w)))) = view w"
    by (metis persist_body_quiet [OF Q] surj_pair snd_conv)
  from session_atomic [OF D env s] have "view w' = view w"
    using persist_body_long_trace [OF long] by metis
  with Some s show ?thesis by (simp add: persist_def)
qed

subsection \<open>A concrete trace\<close>

definition ping_request :: chat_request where
  "ping_request = \<lparr>rq_model = ''gpt-4o'', rq_messages = [\<lparr>m_role = User, m_content = ''ping''\<rparr>],
     rq_temperature = 1, rq_max_tokens = None, rq_top_p = 1, rq_stream = False, rq_stop = None,
     rq_cache_bypass = False, rq_provider_override = None, rq_adapter_id = None, rq_model_alias = None,
     rq_adapter_stage = None\<rparr>"

definition pong_response :: "real \<Rightarrow> chat_response" where
  "pong_response cost = \<lparr>rs_id = ''r1'', rs_model = ''gpt-4o'', rs_provider = ''openai'',
     rs_message = \<lparr>m_role = Assistant, m_content = ''pong''\<rparr>,
     rs_usage = \<lparr>input_tokens = 1, output_tokens = 1\<rparr>, rs_cost_usd = cost, rs_cache_status = MISS,
     rs_trace_id = ''trace'', rs_created_at = 0, rs_latency_ms = 0, rs_adapter_id = None, rs_model_alias = None,
     rs_adapter_stage = None\<rparr>"

definition ping_trace :: "real \<Rightarrow> trace_args" where
  "ping_trace cost = \<lparr>ta_trace_id = ''trace'', ta_tenant_id = default_tenant_id, ta_api_key_id = None,
     ta_http_status = 200, ta_request = ping_request, ta_response = pong_response cost,
     ta_spans = [\<lparr>sp_trace_id = ''trace'', sp_span_id = ''trace:upstream_call:0'', sp_span_name = ''upstream_call'',
                  sp_started_at = 0, sp_parent_span_id = None, sp_ended_at = Some 1, sp_metadata = []\<rparr>]\<rparr>"

definition seeded_mem :: mem where
  "seeded_mem = \<lparr>mem_tables = \<lparr>
     tb_tenants = [\<lparr>tn_id = default_tenant_id, tn_name = ''Default'', tn_slug = ''default'', tn_budget_monthly_usd = None,
       tn_status = ''active'', tn_created_at = 0\<rparr>], tb_api_keys = [], tb_pricing = [], tb_adapter_routes = [],
     tb_requests = [], tb_spans = [], tb_usage = []\<rparr>, mem_clock = 1, mem_cache = Map.empty, mem_tasks = []\<rparr>"

lemma persist_ping:
  "\<exists>w'. persist exact exact mem_database (ping_trace cost) seeded_mem = (Inr (), w') \<and> mem_tables w' \<noteq> mem_tables seeded_mem"
proof -
  have "\<exists>w'. persist exact exact mem_database (ping_trace cost) seeded_mem = (Inr (), w') \<and> tb_requests (mem_tables w') \<noteq> []"
    by (simp add: persist_def ping_trace_def parse_default_tenant_id session_def)
      (simp add: persist_body_def get_by_trace_id_def uuid_or_none_def mem_database_def mem_runtime_def seeded_mem_def
        request_create_def request_texts_def request_fields_def pong_response_def ping_request_def span_bulk_create_def usage_create_def Let_def)
  moreover have "tb_requests (mem_tables seeded_mem) = []" by (simp add: seeded_mem_def)
  ultimately show ?thesis by metis
qed

theorem persist_atomic_once_witness:
  "\<exists>w'. persist exact exact mem_database (ping_trace 3) seeded_mem = (Inr (), w')
    \<and> stored_trace exact (ping_trace 3) (mem_tables seeded_mem) (mem_tables w')"
proof -
  obtain w' where p: "persist exact exact mem_database (ping_trace 3) seeded_mem = (Inr (), w')"
      "mem_tables w' \<noteq> mem_tables seeded_mem" using persist_ping by blast
  from persist_atomic_once [OF mem_database_store mem_quiet_runtime p(1)] p show ?thesis by simp
qed

theorem reused_trace_id_is_not_accounted_witness:
  "\<exists>w1. persist exact exact mem_database (ping_trace 3) seeded_mem = (Inr (), w1)
    \<and> mem_tables (snd (persist exact exact mem_database (ping_trace 1000) w1)) = mem_tables w1
    \<and> length (tb_usage (mem_tables w1)) = 1"
proof -
  obtain w1 where p: "persist exact exact mem_database (ping_trace 3) seeded_mem = (Inr (), w1)"
      "mem_tables w1 \<noteq> mem_tables seeded_mem" using persist_ping by blast
  obtain y v1 where q: "persist exact exact mem_database (ping_trace 1000) w1 = (y, v1)" by fastforce
  have "tb_usage (mem_tables seeded_mem) = []" by (simp add: seeded_mem_def)
  with reused_trace_id_is_not_accounted [OF mem_database_store mem_quiet_runtime p refl _ q] p(1) q
  show ?thesis by (auto simp: ping_trace_def)
qed

theorem long_trace_id_is_not_accounted_witness:
  "mem_tables (snd (persist exact exact mem_database ((ping_trace 1000)\<lparr>ta_trace_id := replicate 65 (CHR ''x'')\<rparr>) seeded_mem))
    = mem_tables seeded_mem"
  by (rule long_trace_id_is_not_accounted [OF mem_database_store mem_quiet_runtime]) simp

end
