(* ===== verification/CircuitBreaker.thy ===== *)
theory CircuitBreaker
  imports Services
begin

text \<open>
  The per-provider circuit breaker of \<open>providers/base.py\<close>: its operations, a step relation over the
  calls the retry loop makes in any order, the invariant of its reachable states, and what it admits.

  The breaker's lock makes every operation atomic, so an operation is one step.  \<open>rnd\<close> is the float
  rounding of the subtraction of clock readings.
\<close>

datatype circuit_state = CLOSED | OPEN | HALF_OPEN

record breaker_config =
  bc_failure_threshold :: int
  bc_cooldown_seconds :: real

record breaker =
  cb_consecutive_failures :: int
  cb_state :: circuit_state
  cb_opened_at :: "real option"

definition new_breaker :: breaker where
  "new_breaker = \<lparr>cb_consecutive_failures = 0, cb_state = CLOSED, cb_opened_at = None\<rparr>"

text \<open>The clock is read only while the breaker is open.\<close>

definition effective_state ::
  "(real \<Rightarrow> real) \<Rightarrow> 'w runtime \<Rightarrow> breaker_config \<Rightarrow> breaker \<times> 'w \<Rightarrow> circuit_state \<times> (breaker \<times> 'w)" where
  "effective_state rnd rt B = (\<lambda>(b, w).
     case (cb_state b, cb_opened_at b) of
       (OPEN, Some opened_at) \<Rightarrow>
         (let (now, w1) = rt_monotonic rt w
          in (if rnd (now - opened_at) \<ge> bc_cooldown_seconds B then HALF_OPEN else OPEN, (b, w1)))
     | (st, _) \<Rightarrow> (st, (b, w)))"

definition allow_request ::
  "(real \<Rightarrow> real) \<Rightarrow> 'w runtime \<Rightarrow> breaker_config \<Rightarrow> breaker \<times> 'w \<Rightarrow> bool \<times> (breaker \<times> 'w)" where
  "allow_request rnd rt B s =
     (let (st, s1) = effective_state rnd rt B s in (st \<noteq> OPEN, s1))"

definition record_success :: "breaker \<times> 'w \<Rightarrow> breaker \<times> 'w" where
  "record_success = (\<lambda>(b, w).
     (b\<lparr>cb_consecutive_failures := 0, cb_state := CLOSED, cb_opened_at := None\<rparr>, w))"

definition trip :: "'w runtime \<Rightarrow> breaker \<times> 'w \<Rightarrow> breaker \<times> 'w" where
  "trip rt = (\<lambda>(b, w). let (now, w1) = rt_monotonic rt w
     in (b\<lparr>cb_state := OPEN, cb_opened_at := Some now\<rparr>, w1))"

definition record_failure ::
  "(real \<Rightarrow> real) \<Rightarrow> 'w runtime \<Rightarrow> breaker_config \<Rightarrow> breaker \<times> 'w \<Rightarrow> breaker \<times> 'w" where
  "record_failure rnd rt B = (\<lambda>(b, w).
     let b1 = b\<lparr>cb_consecutive_failures := cb_consecutive_failures b + 1\<rparr>;
         (st, (b2, w1)) = effective_state rnd rt B (b1, w)
     in if st = HALF_OPEN then trip rt (b2, w1)
        else if cb_consecutive_failures b2 \<ge> bc_failure_threshold B then trip rt (b2, w1)
        else (b2, w1))"

lemma new_breaker_sel [simp]:
  "cb_state new_breaker = CLOSED" "cb_consecutive_failures new_breaker = 0" "cb_opened_at new_breaker = None"
  by (simp_all add: new_breaker_def)

lemma record_success_new [simp]: "record_success (new_breaker, w) = (new_breaker, w)"
  by (simp add: record_success_def new_breaker_def)

lemma allow_request_closed [simp]:
  "cb_state b = CLOSED \<Longrightarrow> allow_request rnd rt B (b, w) = (True, (b, w))"
  by (simp add: allow_request_def effective_state_def)

section \<open>Runs of the breaker\<close>

text \<open>
  Between the calls on the breaker the rest of the program runs and time passes; \<open>elapse\<close> is any such
  change of the environment that does not turn the clock back.
\<close>

inductive breaker_run ::
  "(real \<Rightarrow> real) \<Rightarrow> 'w runtime \<Rightarrow> ('w \<Rightarrow> real) \<Rightarrow> breaker_config \<Rightarrow> breaker \<times> 'w \<Rightarrow> bool"
  for rnd rt clk B where
  created: "breaker_run rnd rt clk B (new_breaker, w)"
| allow: "breaker_run rnd rt clk B s \<Longrightarrow> breaker_run rnd rt clk B (snd (allow_request rnd rt B s))"
| success: "breaker_run rnd rt clk B s \<Longrightarrow> breaker_run rnd rt clk B (record_success s)"
| failure: "breaker_run rnd rt clk B s \<Longrightarrow> breaker_run rnd rt clk B (record_failure rnd rt B s)"
| elapse: "breaker_run rnd rt clk B (b, w) \<Longrightarrow> clk w \<le> clk w' \<Longrightarrow> breaker_run rnd rt clk B (b, w')"

inductive_cases breaker_runE: "breaker_run rnd rt clk B s"

definition breaker_inv :: "('w \<Rightarrow> real) \<Rightarrow> breaker_config \<Rightarrow> breaker \<times> 'w \<Rightarrow> bool" where
  "breaker_inv clk B = (\<lambda>(b, w).
     0 \<le> cb_consecutive_failures b
   \<and> (case cb_state b of
        CLOSED \<Rightarrow> cb_opened_at b = None \<and> cb_consecutive_failures b < max 1 (bc_failure_threshold B)
      | OPEN \<Rightarrow> 1 \<le> cb_consecutive_failures b \<and> (\<exists>t. cb_opened_at b = Some t \<and> t \<le> clk w)
      | HALF_OPEN \<Rightarrow> False))"

lemma clock_read: "clock_laws rt clk \<Longrightarrow> \<exists>w'. rt_monotonic rt w = (clk w, w') \<and> clk w \<le> clk w'"
  by (metis clock_laws_def prod.collapse)

lemma effective_state_cases:
  assumes "breaker_inv clk B (b, w)" "clock_laws rt clk"
  obtains (closed) "cb_state b = CLOSED" "effective_state rnd rt B (b, w) = (CLOSED, (b, w))"
  | (opened) t w' where "cb_state b = OPEN" "cb_opened_at b = Some t" "t \<le> clk w" "clk w \<le> clk w'"
      "effective_state rnd rt B (b, w) =
         (if bc_cooldown_seconds B \<le> rnd (clk w - t) then HALF_OPEN else OPEN, (b, w'))"
proof (cases "cb_state b")
  case CLOSED
  then show ?thesis using assms(1) by (intro closed) (auto simp: effective_state_def breaker_inv_def)
next
  case OPEN
  then obtain t where t: "cb_opened_at b = Some t" "t \<le> clk w"
    using assms(1) by (auto simp: breaker_inv_def)
  obtain w' where "rt_monotonic rt w = (clk w, w')" "clk w \<le> clk w'"
    using clock_read [OF assms(2)] by blast
  with OPEN t show ?thesis by (intro opened [of t w']) (auto simp: effective_state_def)
next
  case HALF_OPEN
  with assms(1) show ?thesis by (simp add: breaker_inv_def)
qed

lemma trip_inv:
  assumes "clock_laws rt clk" "1 \<le> cb_consecutive_failures b"
  shows "breaker_inv clk B (trip rt (b, w)) \<and> cb_state (fst (trip rt (b, w))) = OPEN
    \<and> cb_opened_at (fst (trip rt (b, w))) = Some (clk w)"
proof -
  obtain w' where "rt_monotonic rt w = (clk w, w')" "clk w \<le> clk w'"
    using clock_read [OF assms(1)] by blast
  with assms(2) show ?thesis by (simp add: trip_def breaker_inv_def)
qed

lemma effective_state_count:
  "effective_state rnd rt B (b\<lparr>cb_consecutive_failures := n\<rparr>, w) =
     (let (st, (b', w')) = effective_state rnd rt B (b, w) in (st, (b\<lparr>cb_consecutive_failures := n\<rparr>, w')))"
  by (auto simp: effective_state_def Let_def split: circuit_state.split option.split prod.split)

lemma record_failure_inv:
  assumes inv: "breaker_inv clk B (b, w)" and clk: "clock_laws rt clk"
  shows "breaker_inv clk B (record_failure rnd rt B (b, w))"
  using inv clk
proof (cases rule: effective_state_cases [where rnd = rnd])
  case closed
  with inv have "0 \<le> cb_consecutive_failures b" by (simp add: breaker_inv_def)
  moreover have "cb_opened_at b = None" using inv closed(1) by (simp add: breaker_inv_def)
  ultimately show ?thesis using closed
    by (auto simp: record_failure_def effective_state_count trip_inv [OF clk])
      (simp add: breaker_inv_def)
next
  case (opened t w')
  moreover from inv opened(1) have "0 \<le> cb_consecutive_failures b" by (simp add: breaker_inv_def)
  ultimately show ?thesis
    by (auto simp: record_failure_def effective_state_count trip_inv [OF clk])
      (auto simp: breaker_inv_def)
qed

text \<open>C27. Invariant of the circuit breaker, in every state that calls to it, in any order and at any
  times, can reach: the stored state is CLOSED or OPEN (HALF_OPEN is only ever computed), it is OPEN
  exactly when an opening time is recorded, that time is not in the future, the failure count is never
  negative, is at least one while OPEN, and while CLOSED is below the threshold.\<close>

theorem breaker_invariant:
  assumes "breaker_run rnd rt clk B s" and "clock_laws rt clk"
  shows "breaker_inv clk B s"
  using assms(1)
proof induction
  case (created w)
  then show ?case by (simp add: breaker_inv_def new_breaker_def)
next
  case (allow s)
  obtain b w where s: "s = (b, w)" by fastforce
  from allow.IH [unfolded s] assms(2) show ?case
    by (cases rule: effective_state_cases [where rnd = rnd])
      (use allow.IH s in \<open>auto simp: allow_request_def breaker_inv_def\<close>)
next
  case (success s)
  then show ?case by (auto simp: record_success_def breaker_inv_def split: prod.splits)
next
  case (failure s)
  then show ?case using record_failure_inv [OF _ assms(2)] by (cases s) auto
next
  case (elapse b w w')
  then show ?case by (auto simp: breaker_inv_def split: circuit_state.splits)
qed

definition sample_breaker :: breaker_config where
  "sample_breaker = \<lparr>bc_failure_threshold = 2, bc_cooldown_seconds = 30\<rparr>"

theorem breaker_invariant_witness:
  "breaker_inv (\<lambda>w. w) sample_breaker
     (record_failure exact clock_runtime sample_breaker (record_failure exact clock_runtime sample_breaker (new_breaker, 7)))"
  by (rule breaker_invariant [OF breaker_run.failure [OF breaker_run.failure [OF breaker_run.created]]
        clock_runtime_laws])

section \<open>Opening, refusing, half-open\<close>

text \<open>A run of failures, with time passing before each.\<close>

fun failures :: "(real \<Rightarrow> real) \<Rightarrow> 'w runtime \<Rightarrow> breaker_config \<Rightarrow> 'w list \<Rightarrow> breaker \<times> 'w \<Rightarrow> breaker \<times> 'w" where
  "failures rnd rt B [] s = s"
| "failures rnd rt B (w # ws) s = failures rnd rt B ws (record_failure rnd rt B (fst s, w))"

lemma record_failure_closed:
  assumes "cb_state b = CLOSED" "clock_laws rt clk"
  shows "cb_consecutive_failures (fst (record_failure rnd rt B (b, w))) = cb_consecutive_failures b + 1
    \<and> (if bc_failure_threshold B \<le> cb_consecutive_failures b + 1
       then cb_state (fst (record_failure rnd rt B (b, w))) = OPEN
          \<and> cb_opened_at (fst (record_failure rnd rt B (b, w))) = Some (clk w)
       else cb_state (fst (record_failure rnd rt B (b, w))) = CLOSED)"
proof -
  obtain w' where "rt_monotonic rt w = (clk w, w')" using clock_read [OF assms(2)] by blast
  with assms(1) show ?thesis by (auto simp: record_failure_def effective_state_def trip_def)
qed

lemma failures_below_threshold:
  assumes clk: "clock_laws rt clk"
  shows "cb_state b = CLOSED \<Longrightarrow> cb_consecutive_failures b + int (length ws) < bc_failure_threshold B \<Longrightarrow>
    cb_state (fst (failures rnd rt B ws (b, w))) = CLOSED
    \<and> cb_consecutive_failures (fst (failures rnd rt B ws (b, w))) = cb_consecutive_failures b + int (length ws)"
proof (induction ws arbitrary: b w)
  case (Cons v ws)
  obtain b' w' where r: "record_failure rnd rt B (b, v) = (b', w')" by fastforce
  from record_failure_closed [OF Cons.prems(1) clk, of rnd B v] Cons.prems(2) r
  have "cb_state b' = CLOSED" "cb_consecutive_failures b' = cb_consecutive_failures b + 1"
    by (auto split: if_splits)
  with Cons.IH [of b' w'] Cons.prems(2) r show ?case by simp
qed simp

lemma failures_append: "failures rnd rt B (us @ vs) s = failures rnd rt B vs (failures rnd rt B us s)"
  by (induction us arbitrary: s) simp_all

text \<open>C28. The breaker opens at exactly its threshold: from a fresh or just closed breaker any number of
  consecutive failures below the threshold leaves it CLOSED and admitting, and the failure that reaches
  the threshold opens it at that moment; it then refuses every request for as long as the time since it
  opened, as floats subtract it, is below the cooldown, and admits again from then on.\<close>

theorem breaker_opens_at_threshold:
  assumes clk: "clock_laws rt clk"
    and fresh: "cb_state b = CLOSED" "cb_consecutive_failures b = 0"
    and n: "int (length ws) + 1 = bc_failure_threshold B"
  shows "fst (allow_request binary64 rt B (failures binary64 rt B ws (b, w)))
    \<and> cb_opened_at (fst (failures binary64 rt B (ws @ [v]) (b, w))) = Some (clk v)
    \<and> fst (allow_request binary64 rt B (fst (failures binary64 rt B (ws @ [v]) (b, w)), w2)) =
        (bc_cooldown_seconds B \<le> binary64 (clk w2 - clk v))"
proof -
  obtain b1 w1 where f: "failures binary64 rt B ws (b, w) = (b1, w1)" by fastforce
  with failures_below_threshold [OF clk fresh(1), of ws B binary64 w] fresh n
  have b1: "cb_state b1 = CLOSED" "cb_consecutive_failures b1 = int (length ws)" by auto
  obtain b2 w3 where r: "record_failure binary64 rt B (b1, v) = (b2, w3)" by fastforce
  with record_failure_closed [OF b1(1) clk, of binary64 B v] b1 n
  have b2: "cb_state b2 = OPEN" "cb_opened_at b2 = Some (clk v)" by (auto split: if_splits)
  obtain w4 where "rt_monotonic rt w2 = (clk w2, w4)" using clock_read [OF clk] by blast
  with f b1 r b2 show ?thesis
    by (auto simp: failures_append allow_request_def effective_state_def)
qed

theorem breaker_opens_at_threshold_witness:
  "\<not> fst (allow_request binary64 clock_runtime sample_breaker
       (fst (failures binary64 clock_runtime sample_breaker ([7] @ [8]) (new_breaker, 7)), 8))"
  using breaker_opens_at_threshold [OF clock_runtime_laws, of new_breaker "[7]" sample_breaker 7 8 8]
  by (simp add: new_breaker_def sample_breaker_def)

text \<open>In the half-open window the breaker does not limit itself to one probe: once the cooldown is
  over, any number of requests that ask before the first of them has reported back is admitted, at any
  later times, while the comments promise "a single half-open probe ... only ever probing once per
  cooldown window rather than admitting a burst of traffic".\<close>

theorem half_open_admits_burst:
  assumes clk: "clock_laws rt clk"
    and opened: "cb_state b = OPEN" "cb_opened_at b = Some t"
    and cooled: "bc_cooldown_seconds B \<le> binary64 (clk w - t)"
  shows "\<forall>w'\<in>set ws. clk w \<le> clk w' \<longrightarrow>
    (\<exists>w''. allow_request binary64 rt B (b, w') = (True, (b, w'')))"
proof (intro ballI impI)
  fix w' assume "clk w \<le> clk w'"
  then have "binary64 (clk w - t) \<le> binary64 (clk w' - t)" by (intro ieee.rnd_mono) simp
  moreover obtain w'' where "rt_monotonic rt w' = (clk w', w'')" using clock_read [OF clk] by blast
  ultimately show "\<exists>w''. allow_request binary64 rt B (b, w') = (True, (b, w''))"
    using opened cooled by (auto simp: allow_request_def effective_state_def)
qed

theorem half_open_admits_burst_witness:
  "\<exists>w''. allow_request binary64 clock_runtime sample_breaker
     (\<lparr>cb_consecutive_failures = 2, cb_state = OPEN, cb_opened_at = Some 0\<rparr>, 42) =
     (True, (\<lparr>cb_consecutive_failures = 2, cb_state = OPEN, cb_opened_at = Some 0\<rparr>, w''))"
proof -
  have "binary64 40 = 40" by (rule binary64_numeral) simp
  with half_open_admits_burst [OF clock_runtime_laws,
      of "\<lparr>cb_consecutive_failures = 2, cb_state = OPEN, cb_opened_at = Some 0\<rparr>" 0 sample_breaker 40 "[40, 41, 42]"]
  show ?thesis by (simp add: sample_breaker_def)
qed

text \<open>What follows a probe: a recorded success closes the breaker and forgets every failure, so it
  admits the next request; a failure recorded in the half-open window opens it again at once with a new
  opening time, whatever the count and the threshold.\<close>

theorem half_open_probe_result:
  assumes clk: "clock_laws rt clk"
    and opened: "cb_state b = OPEN" "cb_opened_at b = Some t"
    and cooled: "bc_cooldown_seconds B \<le> binary64 (clk w - t)"
  shows "fst (record_success (b, w)) = new_breaker
    \<and> fst (allow_request binary64 rt B (record_success (b, w)))
    \<and> cb_state (fst (record_failure binary64 rt B (b, w))) = OPEN
    \<and> (\<exists>t'. cb_opened_at (fst (record_failure binary64 rt B (b, w))) = Some t' \<and> clk w \<le> t')"
proof -
  obtain w1 where w1: "rt_monotonic rt w = (clk w, w1)" "clk w \<le> clk w1"
    using clock_read [OF clk] by blast
  obtain w2 where w2: "rt_monotonic rt w1 = (clk w1, w2)" using clock_read [OF clk] by blast
  from w1 w2 opened cooled show ?thesis
    by (simp add: record_success_def new_breaker_def allow_request_def effective_state_def
        record_failure_def trip_def)
qed

theorem half_open_probe_result_witness:
  "cb_state (fst (record_failure binary64 clock_runtime sample_breaker
     (\<lparr>cb_consecutive_failures = 2, cb_state = OPEN, cb_opened_at = Some 0\<rparr>, 40))) = OPEN"
proof -
  have "binary64 40 = 40" by (rule binary64_numeral) simp
  with half_open_probe_result [OF clock_runtime_laws,
      of "\<lparr>cb_consecutive_failures = 2, cb_state = OPEN, cb_opened_at = Some 0\<rparr>" 0 sample_breaker 40]
  show ?thesis by (simp add: sample_breaker_def)
qed

end
