(* ===== verification/Resilience.thy ===== *)
theory Resilience
  imports CircuitBreaker
begin

text \<open>
  The retry loops of \<open>BaseLLMProvider\<close> (\<open>providers/base.py\<close>) around the two hooks an adapter
  implements, and the back-off between attempts.

  The state pairs the provider's circuit breaker with the environment.  The hooks and the pause between
  attempts run on the whole state: while this request waits, other requests to the same provider may
  use its breaker.  A stream is run to its end: it yields the chunks the caller has received and then
  finishes or raises.
\<close>

type_synonym 's streaming = "string list \<times> (exn + unit) \<times> 's"

record 'w base_provider =
  bp_name :: string
  bp_max_retries :: int
  bp_breaker :: breaker_config
  bp_runtime :: "'w runtime"
  bp_sleep :: "real \<Rightarrow> breaker \<times> 'w \<Rightarrow> breaker \<times> 'w"
  bp_complete_impl :: "chat_request \<Rightarrow> breaker \<times> 'w \<Rightarrow> (exn + chat_response) \<times> (breaker \<times> 'w)"
  bp_stream_impl :: "chat_request \<Rightarrow> breaker \<times> 'w \<Rightarrow> (breaker \<times> 'w) streaming"

section \<open>Back-off\<close>

definition backoff_base_seconds :: real where "backoff_base_seconds = 1/2"
definition backoff_max_seconds :: real where "backoff_max_seconds = 20"
definition backoff_jitter_seconds :: real where "backoff_jitter_seconds = 1/2"

definition compute_backoff_delay ::
  "(real \<Rightarrow> real) \<Rightarrow> 'w runtime \<Rightarrow> nat \<Rightarrow> real option \<Rightarrow> 'w \<Rightarrow> real \<times> 'w" where
  "compute_backoff_delay rnd rt attempt retry_after w =
     (case retry_after of
        Some r \<Rightarrow> (max 0 r, w)
      | None \<Rightarrow>
          (let delay = min backoff_max_seconds (rnd (backoff_base_seconds * 2 ^ attempt));
               (jitter, w1) = rt_uniform rt 0 backoff_jitter_seconds w
           in (rnd (delay + jitter), w1)))"

section \<open>The retry loops\<close>

definition back_off ::
  "(real \<Rightarrow> real) \<Rightarrow> 'w base_provider \<Rightarrow> nat \<Rightarrow> provider_error \<Rightarrow> breaker \<times> 'w \<Rightarrow> breaker \<times> 'w" where
  "back_off rnd P attempt exc = (\<lambda>(b, w).
     let (delay, w1) = compute_backoff_delay rnd (bp_runtime P) attempt (retry_after_seconds exc) w
     in bp_sleep P delay (b, w1))"

function complete_loop ::
  "(real \<Rightarrow> real) \<Rightarrow> 'w base_provider \<Rightarrow> nat \<Rightarrow> chat_request \<Rightarrow> breaker \<times> 'w \<Rightarrow>
     (exn + chat_response) \<times> (breaker \<times> 'w)" where
  "complete_loop rnd P attempt request s =
     (case bp_complete_impl P request s of
        (Inr response, s1) \<Rightarrow> (Inr response, record_success s1)
      | (Inl (Provider exc), s1) \<Rightarrow>
          (let s2 = record_failure rnd (bp_runtime P) (bp_breaker P) s1
           in if \<not> retryable exc \<or> int attempt \<ge> bp_max_retries P then (Inl (Provider exc), s2)
              else complete_loop rnd P (attempt + 1) request (back_off rnd P attempt exc s2))
      | (Inl e, s1) \<Rightarrow> (Inl e, s1))"
  by pat_completeness auto
termination complete_loop
  by (relation "measure (\<lambda>(rnd, P, attempt, request, s). nat (bp_max_retries P - int attempt))") auto

declare complete_loop.simps [simp del]

definition base_complete ::
  "(real \<Rightarrow> real) \<Rightarrow> 'w base_provider \<Rightarrow> chat_request \<Rightarrow> breaker \<times> 'w \<Rightarrow>
     (exn + chat_response) \<times> (breaker \<times> 'w)" where
  "base_complete rnd P request s =
     (let (admitted, s1) = allow_request rnd (bp_runtime P) (bp_breaker P) s
      in if \<not> admitted then (Inl (Provider (ProviderUnavailableError (bp_name P))), s1)
         else complete_loop rnd P 0 request s1)"

function stream_loop ::
  "(real \<Rightarrow> real) \<Rightarrow> 'w base_provider \<Rightarrow> nat \<Rightarrow> chat_request \<Rightarrow> breaker \<times> 'w \<Rightarrow>
     (breaker \<times> 'w) streaming" where
  "stream_loop rnd P attempt request s =
     (case bp_stream_impl P request s of
        (chunks, Inr _, s1) \<Rightarrow> (chunks, Inr (), record_success s1)
      | (chunks, Inl (Provider exc), s1) \<Rightarrow>
          (let s2 = record_failure rnd (bp_runtime P) (bp_breaker P) s1
           in if chunks \<noteq> [] \<or> \<not> retryable exc \<or> int attempt \<ge> bp_max_retries P
              then (chunks, Inl (Provider exc), s2)
              else stream_loop rnd P (attempt + 1) request (back_off rnd P attempt exc s2))
      | (chunks, Inl e, s1) \<Rightarrow> (chunks, Inl e, s1))"
  by pat_completeness auto
termination stream_loop
  by (relation "measure (\<lambda>(rnd, P, attempt, request, s). nat (bp_max_retries P - int attempt))") auto

declare stream_loop.simps [simp del]

definition base_stream ::
  "(real \<Rightarrow> real) \<Rightarrow> 'w base_provider \<Rightarrow> chat_request \<Rightarrow> breaker \<times> 'w \<Rightarrow> (breaker \<times> 'w) streaming" where
  "base_stream rnd P request s =
     (let (admitted, s1) = allow_request rnd (bp_runtime P) (bp_breaker P) s
      in if \<not> admitted then ([], Inl (Provider (ProviderUnavailableError (bp_name P))), s1)
         else stream_loop rnd P 0 request s1)"

section \<open>Back-off bounds\<close>

text \<open>\<open>random.uniform(a, b)\<close> returns a float between \<open>a\<close> and \<open>b\<close>.\<close>

definition uniform_in_range :: "'w runtime \<Rightarrow> bool" where
  "uniform_in_range rt \<longleftrightarrow> (\<forall>a b w. a \<le> b \<longrightarrow> a \<le> fst (rt_uniform rt a b w) \<and> fst (rt_uniform rt a b w) \<le> b)"

lemma binary64_half: "binary64 (1/2) = 1/2"
  using binary64_fixed [of 1 "-1"] by (simp add: powr_minus)

lemma binary64_half_power: "binary64 (1/2 * 2 ^ n) = 1/2 * 2 ^ n"
  using binary64_fixed [of 1 "int n - 1"] by (simp add: powr_diff powr_realpow)

lemma binary64_41_halves: "binary64 (41/2) = 41/2"
  using binary64_fixed [of 41 "-1"] by (simp add: powr_minus)

text \<open>C30. The pause before a retry: an explicit Retry-After is used as it is when it is not negative
  and replaced by zero when it is; otherwise the pause lies between half a second doubled per attempt,
  capped at 20 seconds, and half a second more, in float arithmetic.  It is never negative and, without
  a Retry-After, never above 20.5 seconds.\<close>

theorem backoff_delay_bounds:
  assumes "uniform_in_range rt"
  shows "fst (compute_backoff_delay binary64 rt n (Some r) w) = (if 0 \<le> r then r else 0)
    \<and> min 20 (1/2 * 2 ^ n) \<le> fst (compute_backoff_delay binary64 rt n None w)
    \<and> fst (compute_backoff_delay binary64 rt n None w) \<le> 41/2
    \<and> 0 \<le> fst (compute_backoff_delay binary64 rt n ra w)"
proof -
  obtain j w1 where u: "rt_uniform rt 0 (1/2) w = (j, w1)" by fastforce
  then have j: "0 \<le> j" "j \<le> 1/2"
    using assms [unfolded uniform_in_range_def, rule_format, of 0 "1/2" w] by simp_all
  let ?d = "min 20 (1/2 * 2 ^ n) :: real"
  have half: "binary64 (2 ^ n / 2) = 2 ^ n / 2" using binary64_half_power [of n] by simp
  have d: "fst (compute_backoff_delay binary64 rt n None w) = binary64 (?d + j)"
    using u by (simp add: half compute_backoff_delay_def backoff_base_seconds_def backoff_max_seconds_def backoff_jitter_seconds_def)
  have "binary64 ?d = ?d"
    using binary64_half_power [of n] binary64_numeral [of "Num.Bit0 (Num.Bit0 (Num.Bit1 (Num.Bit0 Num.One)))"]
    by (auto simp: min_def)
  then have lo: "?d \<le> binary64 (?d + j)" using j by (intro ieee.rnd_ge_fixed) auto
  have hi: "binary64 (?d + j) \<le> 41/2"
    using j by (intro ieee.rnd_le_fixed binary64_41_halves) (auto simp: min_def)
  have "0 \<le> ?d" by simp
  with lo have pos: "0 \<le> binary64 (?d + j)" by linarith
  show ?thesis
    using lo hi pos d by (cases ra) (auto simp: compute_backoff_delay_def max_def)
qed

lemma clock_runtime_uniform: "uniform_in_range clock_runtime"
  by (simp add: uniform_in_range_def clock_runtime_def)

theorem backoff_delay_bounds_witness:
  "fst (compute_backoff_delay binary64 clock_runtime 10 None 0) \<le> 41/2"
  using backoff_delay_bounds [OF clock_runtime_uniform, of 10 1 0 None] by simp

section \<open>How often the upstream is called\<close>

text \<open>
  \<open>calls s\<close> counts the calls of the hooks made so far; nothing else in the loops changes it.
\<close>

definition counts_calls :: "'w base_provider \<Rightarrow> (breaker \<times> 'w \<Rightarrow> nat) \<Rightarrow> bool" where
  "counts_calls P calls \<longleftrightarrow>
     (\<forall>r s. calls (snd (bp_complete_impl P r s)) = calls s + 1)
   \<and> (\<forall>r s. calls (snd (snd (bp_stream_impl P r s))) = calls s + 1)
   \<and> (\<forall>s. calls (record_success s) = calls s)
   \<and> (\<forall>rnd s. calls (record_failure rnd (bp_runtime P) (bp_breaker P) s) = calls s)
   \<and> (\<forall>rnd n e s. calls (back_off rnd P n e s) = calls s)
   \<and> (\<forall>rnd s. calls (snd (allow_request rnd (bp_runtime P) (bp_breaker P) s)) = calls s)"

lemma counts_callsD:
  assumes "counts_calls P calls"
  shows "bp_complete_impl P r s = (x, s') \<Longrightarrow> calls s' = calls s + 1"
    and "bp_stream_impl P r s = (cs, y, s') \<Longrightarrow> calls s' = calls s + 1"
    and "calls (record_success s) = calls s"
    and "calls (record_failure rnd (bp_runtime P) (bp_breaker P) s) = calls s"
    and "calls (back_off rnd P n e s) = calls s"
    and "allow_request rnd (bp_runtime P) (bp_breaker P) s = (b, s') \<Longrightarrow> calls s' = calls s"
  using assms unfolding counts_calls_def by (metis snd_conv)+

text \<open>The ways an iteration can go.\<close>

lemma complete_loop_step:
  obtains (answered) response s1 where "bp_complete_impl P r s = (Inr response, s1)"
      "complete_loop rnd P n r s = (Inr response, record_success s1)"
  | (gave_up) exc s1 where "bp_complete_impl P r s = (Inl (Provider exc), s1)"
      "\<not> retryable exc \<or> bp_max_retries P \<le> int n"
      "complete_loop rnd P n r s = (Inl (Provider exc), record_failure rnd (bp_runtime P) (bp_breaker P) s1)"
  | (retried) exc s1 where "bp_complete_impl P r s = (Inl (Provider exc), s1)"
      "retryable exc" "int n < bp_max_retries P"
      "complete_loop rnd P n r s = complete_loop rnd P (n + 1) r
         (back_off rnd P n exc (record_failure rnd (bp_runtime P) (bp_breaker P) s1))"
  | (other) e s1 where "bp_complete_impl P r s = (Inl e, s1)" "\<forall>x. e \<noteq> Provider x"
      "complete_loop rnd P n r s = (Inl e, s1)"
proof -
  obtain x s1 where Pair: "bp_complete_impl P r s = (x, s1)" by (metis surj_pair)
  show ?thesis
  proof (cases x)
    case (Inr response)
    with Pair show ?thesis by (intro answered) (simp_all add: complete_loop.simps)
  next
    case (Inl e)
    show ?thesis
    proof (cases "\<exists>exc. e = Provider exc")
      case False
      with Pair Inl show ?thesis
        by (intro other [of e s1]) (auto simp: complete_loop.simps split: exn.splits)
    next
      case True
      then obtain exc where "e = Provider exc" by blast
      with Pair Inl gave_up [of exc s1] retried [of exc s1] show ?thesis
        by (cases "\<not> retryable exc \<or> bp_max_retries P \<le> int n")
          (auto simp: complete_loop.simps [of rnd P n r s] Let_def)
    qed
  qed
qed

lemma stream_loop_step:
  obtains (finished) chunks s1 where "bp_stream_impl P r s = (chunks, Inr (), s1)"
      "stream_loop rnd P n r s = (chunks, Inr (), record_success s1)"
  | (gave_up) chunks exc s1 where "bp_stream_impl P r s = (chunks, Inl (Provider exc), s1)"
      "chunks \<noteq> [] \<or> \<not> retryable exc \<or> bp_max_retries P \<le> int n"
      "stream_loop rnd P n r s = (chunks, Inl (Provider exc), record_failure rnd (bp_runtime P) (bp_breaker P) s1)"
  | (retried) exc s1 where "bp_stream_impl P r s = ([], Inl (Provider exc), s1)"
      "retryable exc" "int n < bp_max_retries P"
      "stream_loop rnd P n r s = stream_loop rnd P (n + 1) r
         (back_off rnd P n exc (record_failure rnd (bp_runtime P) (bp_breaker P) s1))"
  | (other) chunks e s1 where "bp_stream_impl P r s = (chunks, Inl e, s1)" "\<forall>x. e \<noteq> Provider x"
      "stream_loop rnd P n r s = (chunks, Inl e, s1)"
proof -
  obtain chunks x s1 where fields: "bp_stream_impl P r s = (chunks, x, s1)" by (metis surj_pair)
  show ?thesis
  proof (cases x)
    case (Inr u)
    with fields show ?thesis by (intro finished) (simp_all add: stream_loop.simps)
  next
    case (Inl e)
    show ?thesis
    proof (cases "\<exists>exc. e = Provider exc")
      case False
      with fields Inl show ?thesis
        by (intro other [of chunks e s1]) (auto simp: stream_loop.simps split: exn.splits)
    next
      case True
      then obtain exc where "e = Provider exc" by blast
      with fields Inl gave_up [of chunks exc s1] retried [of exc s1] show ?thesis
        by (cases "chunks \<noteq> [] \<or> \<not> retryable exc \<or> bp_max_retries P \<le> int n")
          (auto simp: stream_loop.simps [of rnd P n r s] Let_def)
    qed
  qed
qed

lemma complete_loop_calls:
  "counts_calls P calls \<Longrightarrow>
    calls (snd (complete_loop rnd P n r s)) \<le> calls s + nat (bp_max_retries P - int n) + 1"
proof (induction "nat (bp_max_retries P - int n)" arbitrary: n s rule: less_induct)
  case less
  note c = counts_callsD [OF less.prems]
  show ?case
  proof (cases rule: complete_loop_step [of P r s rnd n])
    case (retried exc s1)
    let ?s2 = "back_off rnd P n exc (record_failure rnd (bp_runtime P) (bp_breaker P) s1)"
    have "calls ?s2 = calls s + 1" using c(1) [OF retried(1)] by (simp add: c)
    moreover have "calls (snd (complete_loop rnd P (n + 1) r ?s2)) \<le>
        calls ?s2 + nat (bp_max_retries P - int (n + 1)) + 1"
      by (rule less.hyps) (use retried(3) less.prems in auto)
    ultimately show ?thesis using retried(3) by (simp add: retried(4))
  qed (auto simp: c dest: c(1))
qed

text \<open>When every attempt fails in a retryable way, no attempt is saved by the breaker opening.\<close>

definition always_fails :: "'w base_provider \<Rightarrow> bool" where
  "always_fails P \<longleftrightarrow> (\<forall>r s. \<exists>exc s'. bp_complete_impl P r s = (Inl (Provider exc), s') \<and> retryable exc)"

lemma complete_loop_calls_all:
  "counts_calls P calls \<Longrightarrow> always_fails P \<Longrightarrow>
    calls (snd (complete_loop rnd P n r s)) = calls s + nat (bp_max_retries P - int n) + 1"
proof (induction "nat (bp_max_retries P - int n)" arbitrary: n s rule: less_induct)
  case less
  note c = counts_callsD [OF less.prems(1)]
  obtain exc s1 where f: "bp_complete_impl P r s = (Inl (Provider exc), s1)" "retryable exc"
    using less.prems(2) by (metis always_fails_def)
  show ?case
  proof (cases rule: complete_loop_step [of P r s rnd n])
    case (retried exc s1)
    let ?s2 = "back_off rnd P n exc (record_failure rnd (bp_runtime P) (bp_breaker P) s1)"
    have "calls ?s2 = calls s + 1" using c(1) [OF retried(1)] by (simp add: c)
    moreover have "calls (snd (complete_loop rnd P (n + 1) r ?s2)) =
        calls ?s2 + nat (bp_max_retries P - int (n + 1)) + 1"
      by (rule less.hyps) (use retried(3) less.prems in auto)
    ultimately show ?thesis using retried(3) by (simp add: retried(4))
  qed (use f in \<open>auto simp: c dest: c(1)\<close>)
qed

text \<open>C29. The retry budget: one completion calls the upstream at most \<open>max_retries + 1\<close> times (once when
  \<open>max_retries\<close> is not positive) and not at all when the breaker refuses, and then it always returns.
  The budget is exhausted when every call fails in a retryable way, whatever the breaker's threshold:
  the breaker is only asked before the first call, so a breaker that opens on the way does not stop the
  remaining retries.\<close>

theorem complete_call_budget:
  assumes "counts_calls P calls"
  shows "calls (snd (base_complete rnd P r s)) \<le> calls s + nat (bp_max_retries P) + 1
    \<and> (\<not> fst (allow_request rnd (bp_runtime P) (bp_breaker P) s) \<longrightarrow>
         calls (snd (base_complete rnd P r s)) = calls s
         \<and> fst (base_complete rnd P r s) = Inl (Provider (ProviderUnavailableError (bp_name P))))
    \<and> (fst (allow_request rnd (bp_runtime P) (bp_breaker P) s) \<longrightarrow> always_fails P \<longrightarrow>
         calls (snd (base_complete rnd P r s)) = calls s + nat (bp_max_retries P) + 1)"
proof -
  obtain a s1 where a: "allow_request rnd (bp_runtime P) (bp_breaker P) s = (a, s1)" by (metis surj_pair)
  with counts_callsD(6) [OF assms] have "calls s1 = calls s" by blast
  with a complete_loop_calls [OF assms, of rnd 0 r s1] complete_loop_calls_all [OF assms, of rnd 0 r s1]
  show ?thesis by (simp add: base_complete_def)
qed

text \<open>An upstream that always times out, over an environment that counts the calls.\<close>

definition counter_runtime :: "nat runtime" where
  "counter_runtime = idle_runtime"

definition dead_provider :: "nat base_provider" where
  "dead_provider = \<lparr>bp_name = ''openai'', bp_max_retries = 3, bp_breaker = sample_breaker,
     bp_runtime = counter_runtime, bp_sleep = (\<lambda>d s. s),
     bp_complete_impl = (\<lambda>r (b, w). (Inl (Provider (ProviderTimeoutError ''late'')), (b, w + 1))),
     bp_stream_impl = (\<lambda>r (b, w). ([], Inl (Provider (ProviderTimeoutError ''late'')), (b, w + 1)))\<rparr>"

lemma counter_runtime_env:
  "snd (snd (effective_state rnd counter_runtime B s)) = snd s"
  "snd (trip counter_runtime s) = snd s" "snd (record_failure rnd counter_runtime B s) = snd s"
proof -
  show e: "snd (snd (effective_state rnd counter_runtime B s)) = snd s" for s
    by (auto simp: effective_state_def counter_runtime_def idle_runtime_def split: prod.splits circuit_state.splits option.splits)
  show t: "snd (trip counter_runtime s) = snd s" for s
    by (auto simp: trip_def counter_runtime_def idle_runtime_def split: prod.splits)
  show "snd (record_failure rnd counter_runtime B s) = snd s"
    using e by (auto simp: record_failure_def Let_def t split: prod.splits) (metis snd_conv)+
qed

lemma dead_provider_counts: "counts_calls dead_provider snd"
  unfolding counts_calls_def
proof (intro conjI allI)
  fix r s rnd n e
  show "snd (snd (bp_complete_impl dead_provider r s)) = snd s + 1"
    and "snd (snd (snd (bp_stream_impl dead_provider r s))) = snd s + 1"
    by (auto simp: dead_provider_def split: prod.splits)
  show "snd (record_success s) = snd (s :: breaker \<times> nat)"
    by (auto simp: record_success_def split: prod.splits)
  show "snd (record_failure rnd (bp_runtime dead_provider) (bp_breaker dead_provider) s) = snd s"
    by (simp add: dead_provider_def counter_runtime_env)
  show "snd (back_off rnd dead_provider n e s) = snd s"
    by (auto simp: back_off_def dead_provider_def counter_runtime_def idle_runtime_def
        compute_backoff_delay_def split: prod.splits option.splits)
  show "snd (snd (allow_request rnd (bp_runtime dead_provider) (bp_breaker dead_provider) s)) = snd s"
    by (simp add: dead_provider_def counter_runtime_env allow_request_def split: prod.split)
      (metis counter_runtime_env(1) snd_conv)
qed

theorem complete_call_budget_witness:
  "\<forall>r. snd (snd (base_complete binary64 dead_provider r (new_breaker, 0))) = 4"
proof
  fix r
  have "always_fails dead_provider" by (simp add: always_fails_def dead_provider_def)
  moreover have "fst (allow_request binary64 (bp_runtime dead_provider) (bp_breaker dead_provider) (new_breaker, 0))"
    by (simp add: allow_request_def effective_state_def new_breaker_def)
  ultimately show "snd (snd (base_complete binary64 dead_provider r (new_breaker, 0))) = 4"
    using complete_call_budget [OF dead_provider_counts, of binary64 r "(new_breaker, 0)"]
    by (simp add: dead_provider_def)
qed

section \<open>What a streaming caller sees\<close>

lemma stream_loop_single_source:
  "\<exists>s0 s1. bp_stream_impl P r s0 =
     (fst (stream_loop rnd P n r s), fst (snd (stream_loop rnd P n r s)), s1)"
proof (induction "nat (bp_max_retries P - int n)" arbitrary: n s rule: less_induct)
  case less
  show ?case
  proof (cases rule: stream_loop_step [of P r s rnd n])
    case (retried exc s1)
    let ?s2 = "back_off rnd P n exc (record_failure rnd (bp_runtime P) (bp_breaker P) s1)"
    have "nat (bp_max_retries P - int (n + 1)) < nat (bp_max_retries P - int n)"
      using retried(3) by simp
    from less.hyps [OF this, of ?s2] show ?thesis by (simp add: retried(4))
  qed (metis fst_conv snd_conv)+
qed

text \<open>Retries never duplicate output: what a caller of \<open>stream\<close> receives, the chunks and then the
  end or the error, is exactly what one single upstream stream produced; every attempt before it
  yielded nothing.  When the breaker refuses, nothing is yielded and ProviderUnavailableError is
  raised.\<close>

theorem stream_output_from_one_attempt:
  "if fst (allow_request rnd (bp_runtime P) (bp_breaker P) s)
   then \<exists>s0 s1. bp_stream_impl P r s0 = (fst (base_stream rnd P r s), fst (snd (base_stream rnd P r s)), s1)
   else fst (base_stream rnd P r s) = []
     \<and> fst (snd (base_stream rnd P r s)) = Inl (Provider (ProviderUnavailableError (bp_name P)))"
proof -
  obtain a s1 where "allow_request rnd (bp_runtime P) (bp_breaker P) s = (a, s1)" by (metis surj_pair)
  with stream_loop_single_source [of P r rnd 0 s1] show ?thesis by (simp add: base_stream_def)
qed

section \<open>Client errors and the breaker\<close>

text \<open>Requests answered one after the other, each in the environment it finds.\<close>

fun complete_all ::
  "(real \<Rightarrow> real) \<Rightarrow> 'w base_provider \<Rightarrow> (chat_request \<times> 'w) list \<Rightarrow> breaker \<times> 'w \<Rightarrow> breaker \<times> 'w" where
  "complete_all rnd P [] s = s"
| "complete_all rnd P ((r, w) # rs) s = complete_all rnd P rs (snd (base_complete rnd P r (fst s, w)))"

text \<open>The upstream rejects every request as malformed, leaving the breaker alone.\<close>

definition rejects_all :: "'w base_provider \<Rightarrow> bool" where
  "rejects_all P \<longleftrightarrow> (\<forall>r b w. \<exists>msg w'.
     bp_complete_impl P r (b, w) = (Inl (Provider (ProviderResponseError msg 400)), (b, w')))"

lemma complete_rejected:
  assumes "rejects_all P" "cb_state b = CLOSED"
  shows "\<exists>w'. snd (base_complete rnd P r (b, w)) = record_failure rnd (bp_runtime P) (bp_breaker P) (b, w')"
proof -
  have "allow_request rnd (bp_runtime P) (bp_breaker P) (b, w) = (True, (b, w))"
    using assms(2) by (simp add: allow_request_def effective_state_def)
  moreover obtain msg w' where
    "bp_complete_impl P r (b, w) = (Inl (Provider (ProviderResponseError msg 400)), (b, w'))"
    using assms(1) by (metis rejects_all_def)
  ultimately show ?thesis
    by (auto simp: base_complete_def complete_loop.simps)
qed

lemma complete_all_rejected:
  assumes "rejects_all P" "clock_laws (bp_runtime P) clk"
  shows "cb_state b = CLOSED \<Longrightarrow>
    cb_consecutive_failures b + int (length rs) = bc_failure_threshold (bp_breaker P) \<Longrightarrow> rs \<noteq> [] \<Longrightarrow>
    \<exists>t. cb_state (fst (complete_all rnd P rs (b, w))) = OPEN
      \<and> cb_opened_at (fst (complete_all rnd P rs (b, w))) = Some t"
proof (induction rs arbitrary: b w)
  case Nil
  then show ?case by simp
next
  case (Cons q rs)
  obtain r v where q: "q = (r, v)" by fastforce
  obtain w' where "snd (base_complete rnd P r (b, v)) = record_failure rnd (bp_runtime P) (bp_breaker P) (b, w')"
    using complete_rejected [OF assms(1) Cons.prems(1)] by blast
  then have e: "complete_all rnd P (q # rs) (b, w) =
      complete_all rnd P rs (record_failure rnd (bp_runtime P) (bp_breaker P) (b, w'))"
    by (simp add: q)
  obtain b1 w1 where r: "record_failure rnd (bp_runtime P) (bp_breaker P) (b, w') = (b1, w1)"
    by (metis surj_pair)
  note rf = record_failure_closed [OF Cons.prems(1) assms(2), of rnd "bp_breaker P" w', unfolded r]
  show ?case
  proof (cases "rs = []")
    case True
    with rf Cons.prems(2) show ?thesis unfolding e r by simp
  next
    case False
    with rf Cons.prems(2) have "cb_state b1 = CLOSED"
      "cb_consecutive_failures b1 + int (length rs) = bc_failure_threshold (bp_breaker P)"
      by (cases rs; auto split: if_splits)+
    with Cons.IH [OF _ _ False] show ?thesis unfolding e r by blast
  qed
qed

text \<open>Requests that the upstream rejects as malformed count as failures of the provider: as many
  HTTP 400 answers in a row as the threshold, which retrying or another moment cannot change, open the
  breaker of a healthy provider, and the next request, however well-formed, is refused without a call
  until the cooldown has passed.\<close>

theorem client_errors_open_breaker:
  assumes "rejects_all P" and "clock_laws (bp_runtime P) clk"
    and "int (length rs) = bc_failure_threshold (bp_breaker P)" "rs \<noteq> []"
  shows "\<exists>t. cb_opened_at (fst (complete_all binary64 P rs (new_breaker, w))) = Some t
    \<and> (\<forall>r w'. binary64 (clk w' - t) < bc_cooldown_seconds (bp_breaker P) \<longrightarrow>
         fst (base_complete binary64 P r (fst (complete_all binary64 P rs (new_breaker, w)), w')) =
           Inl (Provider (ProviderUnavailableError (bp_name P))))"
proof -
  let ?b = "fst (complete_all binary64 P rs (new_breaker, w))"
  obtain t where t: "cb_state ?b = OPEN" "cb_opened_at ?b = Some t"
    using complete_all_rejected [OF assms(1,2), of new_breaker rs binary64 w] assms(3,4)
    by (auto simp: new_breaker_def)
  have "fst (base_complete binary64 P r (?b, w')) = Inl (Provider (ProviderUnavailableError (bp_name P)))"
    if "binary64 (clk w' - t) < bc_cooldown_seconds (bp_breaker P)" for r w'
  proof -
    obtain w'' where "rt_monotonic (bp_runtime P) w' = (clk w', w'')"
      using clock_read [OF assms(2)] by blast
    with t that show ?thesis by (simp add: base_complete_def allow_request_def effective_state_def)
  qed
  with t show ?thesis by blast
qed

definition strict_provider :: "real base_provider" where
  "strict_provider = \<lparr>bp_name = ''openai'', bp_max_retries = 3, bp_breaker = sample_breaker,
     bp_runtime = clock_runtime, bp_sleep = (\<lambda>d (b, w). (b, w + max 0 d)),
     bp_complete_impl = (\<lambda>r s. (Inl (Provider (ProviderResponseError ''bad'' 400)), s)),
     bp_stream_impl = (\<lambda>r s. ([], Inl (Provider (ProviderResponseError ''bad'' 400)), s))\<rparr>"

theorem client_errors_open_breaker_witness:
  "\<forall>r. \<exists>t. cb_opened_at (fst (complete_all binary64 strict_provider [(r, 1), (r, 2)] (new_breaker, 0))) = Some t"
proof
  fix r
  have "rejects_all strict_provider" by (simp add: rejects_all_def strict_provider_def)
  from client_errors_open_breaker [OF this, of "\<lambda>w. w" "[(r, 1), (r, 2)]" 0]
  show "\<exists>t. cb_opened_at (fst (complete_all binary64 strict_provider [(r, 1), (r, 2)] (new_breaker, 0))) = Some t"
    by (auto simp: strict_provider_def clock_runtime_laws sample_breaker_def)
qed

section \<open>The port the rest of the gateway calls (\<open>domain/interfaces/llm_provider.py\<close>)\<close>

record 's llm_provider =
  pv_name :: string
  pv_supports_model :: "string \<Rightarrow> bool"
  pv_complete :: "chat_request \<Rightarrow> 's \<Rightarrow> (exn + chat_response) \<times> 's"
  pv_stream :: "chat_request \<Rightarrow> 's \<Rightarrow> 's streaming"
  pv_count_tokens :: "chat_request \<Rightarrow> string \<Rightarrow> 's \<Rightarrow> (exn + token_usage) \<times> 's"

text \<open>
  What routing and cost accounting rely on: a response carries the name of the provider that served
  it, with the placeholders the adapters leave for the gateway to fill in.
\<close>

locale llm_port =
  fixes P :: "'s llm_provider"
  assumes complete_response: "pv_complete P r s = (Inr resp, s') \<Longrightarrow>
    rs_provider resp = pv_name P \<and> rs_cost_usd resp = 0 \<and> rs_cache_status resp = MISS"

end
