(* ===== verification/Adapters.thy ===== *)
theory Adapters
  imports Resilience
begin

text \<open>
  The two provider adapters, \<open>providers/openai_provider.py\<close> and \<open>providers/anthropic_provider.py\<close>:
  request payloads, classification of HTTP answers, decoding of completions, the parsers of the
  server-sent event streams, and token counting.

  A JSON document is a value of \<open>json\<close>; an object keeps its keys in order.  The HTTP client, the JSON
  decoder, the tokenizer, \<open>float(str)\<close> and pydantic's coercion to \<open>int\<close> are parameters.
\<close>

section \<open>JSON values and Python's access to them\<close>

datatype json =
    JNull
  | JBool bool
  | JInt int
  | JFloat real
  | JStr string
  | JArr "json list"
  | JObj "(string \<times> json) list"

fun json_truthy :: "json \<Rightarrow> bool" where
  "json_truthy JNull = False"
| "json_truthy (JBool b) = b"
| "json_truthy (JInt i) = (i \<noteq> 0)"
| "json_truthy (JFloat x) = (x \<noteq> 0)"
| "json_truthy (JStr s) = (s \<noteq> [])"
| "json_truthy (JArr xs) = (xs \<noteq> [])"
| "json_truthy (JObj kvs) = (kvs \<noteq> [])"

definition json_or :: "json \<Rightarrow> json \<Rightarrow> json" where
  "json_or j d = (if json_truthy j then j else d)"

definition attribute_error :: exn where
  "attribute_error = OtherError ''AttributeError''"

text \<open>\<open>j["k"]\<close>, \<open>j[0]\<close> and \<open>j.get("k", d)\<close>.\<close>

fun item_key :: "json \<Rightarrow> string \<Rightarrow> exn + json" where
  "item_key (JObj kvs) k = (case map_of kvs k of None \<Rightarrow> Inl (KeyError k) | Some v \<Rightarrow> Inr v)"
| "item_key _ k = Inl TypeError"

fun item_first :: "json \<Rightarrow> exn + json" where
  "item_first (JArr []) = Inl IndexError"
| "item_first (JArr (x # xs)) = Inr x"
| "item_first (JStr []) = Inl IndexError"
| "item_first (JStr (c # cs)) = Inr (JStr [c])"
| "item_first (JObj kvs) = Inl (KeyError ''0'')"
| "item_first _ = Inl TypeError"

fun get_key :: "json \<Rightarrow> string \<Rightarrow> json \<Rightarrow> exn + json" where
  "get_key (JObj kvs) k d = Inr (case map_of kvs k of None \<Rightarrow> d | Some v \<Rightarrow> v)"
| "get_key _ k d = Inl attribute_error"

definition bind :: "'e + 'a \<Rightarrow> ('a \<Rightarrow> 'e + 'b) \<Rightarrow> 'e + 'b" where
  "bind r f = (case r of Inl e \<Rightarrow> Inl e | Inr v \<Rightarrow> f v)"

lemma bind_simps [simp]: "bind (Inl e) f = Inl e" "bind (Inr v) f = f v"
  by (simp_all add: bind_def)

lemma bind_val: "bind r f = Inr v \<longleftrightarrow> (\<exists>x. r = Inr x \<and> f x = Inr v)"
  by (cases r) simp_all

section \<open>HTTP\<close>

datatype http_error = HttpTimeout string | HttpTransport string | HttpOther exn

record http_response =
  hr_status_code :: int
  hr_retry_after :: "string option"
  hr_text :: string
  hr_json :: "json option"

text \<open>
  \<open>client.stream\<close> opens the response; \<open>aiter_lines\<close> then yields its lines until the end or an error.
\<close>

record http_stream =
  hs_response :: http_response
  hs_lines :: "string list"
  hs_error :: "http_error option"

record 'w adapter =
  ad_provider :: "'w base_provider"
  ad_post :: "string \<Rightarrow> json \<Rightarrow> breaker \<times> 'w \<Rightarrow> (http_error + http_response) \<times> (breaker \<times> 'w)"
  ad_stream :: "string \<Rightarrow> json \<Rightarrow> breaker \<times> 'w \<Rightarrow> (http_error + http_stream) \<times> (breaker \<times> 'w)"
  ad_json_loads :: "string \<Rightarrow> json option"
  ad_float :: "string \<Rightarrow> real option"
  ad_int_of :: "json \<Rightarrow> int option"
  ad_uuid4 :: "breaker \<times> 'w \<Rightarrow> string \<times> (breaker \<times> 'w)"
  ad_utcnow :: "breaker \<times> 'w \<Rightarrow> datetime \<times> (breaker \<times> 'w)"
  ad_token_count :: "string \<Rightarrow> string \<Rightarrow> int"

text \<open>Both adapters read the header and classify the status in the same way, under their own name.\<close>

definition retry_after_from_headers :: "'w adapter \<Rightarrow> http_response \<Rightarrow> real option" where
  "retry_after_from_headers A resp =
     (case hr_retry_after resp of None \<Rightarrow> None | Some v \<Rightarrow> ad_float A v)"

definition raise_for_status :: "'w adapter \<Rightarrow> string \<Rightarrow> http_response \<Rightarrow> exn + unit" where
  "raise_for_status A vendor resp =
     (if hr_status_code resp = 429
      then Inl (Provider (ProviderRateLimitedError (retry_after_from_headers A resp)))
      else if hr_status_code resp \<ge> 400
      then Inl (Provider (ProviderResponseError
        (vendor @ '' returned HTTP '' @ show_int (hr_status_code resp) @ '': '' @ take 500 (hr_text resp))
        (hr_status_code resp)))
      else Inr ())"

definition http_exn :: "string \<Rightarrow> string \<Rightarrow> http_error \<Rightarrow> exn" where
  "http_exn vendor what err = (case err of
     HttpTimeout m \<Rightarrow> Provider (ProviderTimeoutError (vendor @ '' '' @ what @ '' timed out: '' @ m))
   | HttpTransport m \<Rightarrow> Provider (ProviderConnectionError (''Failed to connect to '' @ vendor @ '': '' @ m))
   | HttpOther e \<Rightarrow> e)"

definition post ::
  "'w adapter \<Rightarrow> string \<Rightarrow> string \<Rightarrow> json \<Rightarrow> breaker \<times> 'w \<Rightarrow> (exn + http_response) \<times> (breaker \<times> 'w)" where
  "post A vendor path payload s =
     (case ad_post A path payload s of
        (Inl err, s1) \<Rightarrow> (Inl (http_exn vendor ''request'' err), s1)
      | (Inr resp, s1) \<Rightarrow> (Inr resp, s1))"

text \<open>The fields of a response pydantic has to coerce; what it rejects is a \<open>ValueError\<close>.\<close>

definition validate_int :: "'w adapter \<Rightarrow> json \<Rightarrow> exn + int" where
  "validate_int A j = (case ad_int_of A j of None \<Rightarrow> Inl (ValueError ''int'') | Some i \<Rightarrow> Inr i)"

fun validate_str :: "json \<Rightarrow> exn + string" where
  "validate_str (JStr s) = Inr s"
| "validate_str _ = Inl (ValueError ''str'')"

text \<open>A response as an adapter returns it, with the placeholders the gateway fills in.\<close>

definition fresh_response ::
  "string \<Rightarrow> string \<Rightarrow> string \<Rightarrow> string \<Rightarrow> token_usage \<Rightarrow> datetime \<Rightarrow> chat_response" where
  "fresh_response rid model provider content usage now =
     \<lparr>rs_id = rid, rs_model = model, rs_provider = provider,
      rs_message = \<lparr>m_role = Assistant, m_content = content\<rparr>, rs_usage = usage, rs_cost_usd = 0,
      rs_cache_status = MISS, rs_trace_id = [], rs_created_at = now, rs_latency_ms = 0,
      rs_adapter_id = None, rs_model_alias = None, rs_adapter_stage = None\<rparr>"

definition message_json :: "chat_message \<Rightarrow> json" where
  "message_json m = JObj [(''role'', JStr (role_str (m_role m))), (''content'', JStr (m_content m))]"

definition stop_json :: "string \<Rightarrow> chat_request \<Rightarrow> (string \<times> json) list" where
  "stop_json key r = (case rq_stop r of None \<Rightarrow> [] | Some [] \<Rightarrow> []
     | Some xs \<Rightarrow> [(key, JArr (map JStr xs))])"

section \<open>OpenAI\<close>

definition openai_supports_model :: "string \<Rightarrow> bool" where
  "openai_supports_model model =
     list_ex (startswith model) [''gpt-'', ''o1'', ''o3'', ''o4'', ''chatgpt-'']"

definition openai_build_payload :: "chat_request \<Rightarrow> bool \<Rightarrow> json" where
  "openai_build_payload r strm = JObj (
     [(''model'', JStr (rq_model r)),
      (''messages'', JArr (map message_json (rq_messages r))),
      (''temperature'', JFloat (rq_temperature r)),
      (''top_p'', JFloat (rq_top_p r)),
      (''stream'', JBool strm)]
     @ (case rq_max_tokens r of None \<Rightarrow> [] | Some n \<Rightarrow> [(''max_tokens'', JInt n)])
     @ stop_json ''stop'' r
     @ (if strm then [(''stream_options'', JObj [(''include_usage'', JBool True)])] else []))"

definition openai_decode ::
  "'w adapter \<Rightarrow> chat_request \<Rightarrow> json \<Rightarrow> string \<Rightarrow> datetime \<Rightarrow> exn + chat_response" where
  "openai_decode A r data uid now =
     bind (bind (item_key data ''choices'') item_first) (\<lambda>choice.
     bind (get_key data ''usage'' JNull) (\<lambda>u. let usage_raw = json_or u (JObj []) in
     bind (bind (get_key usage_raw ''prompt_tokens'' (JInt 0)) (validate_int A)) (\<lambda>n_in.
     bind (bind (get_key usage_raw ''completion_tokens'' (JInt 0)) (validate_int A)) (\<lambda>n_out.
     bind (bind (item_key choice ''message'') (\<lambda>m. item_key m ''content'')) (\<lambda>c.
     bind (validate_str (json_or c (JStr []))) (\<lambda>content.
     bind (bind (get_key data ''id'' (JStr uid)) validate_str) (\<lambda>rid.
     bind (bind (get_key data ''model'' (JStr (rq_model r))) validate_str) (\<lambda>model.
       Inr (fresh_response rid model ''openai'' content
         \<lparr>input_tokens = n_in, output_tokens = n_out\<rparr> now)))))))))"

text \<open>
  \<open>data.get("id", str(uuid.uuid4()))\<close> draws a UUID whether or not it is used.
\<close>

definition openai_complete_impl ::
  "'w adapter \<Rightarrow> chat_request \<Rightarrow> breaker \<times> 'w \<Rightarrow> (exn + chat_response) \<times> (breaker \<times> 'w)" where
  "openai_complete_impl A r s =
     (case post A ''OpenAI'' ''/chat/completions'' (openai_build_payload r False) s of
        (Inl e, s1) \<Rightarrow> (Inl e, s1)
      | (Inr resp, s1) \<Rightarrow>
          (case raise_for_status A ''OpenAI'' resp of
             Inl e \<Rightarrow> (Inl e, s1)
           | Inr _ \<Rightarrow>
               (case hr_json resp of
                  None \<Rightarrow> (Inl (Provider (ProviderResponseError ''OpenAI returned invalid JSON'' (hr_status_code resp))), s1)
                | Some data \<Rightarrow>
                    (let (uid, s2) = ad_uuid4 A s1; (now, s3) = ad_utcnow A s2
                     in (openai_decode A r data uid now, s3)))))"

text \<open>
  The content of one event: none when there is no choice or no text.  A truthy content that is not a
  string would be yielded as it is and fail when the gateway joins the chunks; here it is the
  \<open>TypeError\<close> of that join.
\<close>

definition openai_event_text :: "json \<Rightarrow> exn + string option" where
  "openai_event_text event =
     bind (get_key event ''choices'' JNull) (\<lambda>c. let choices = json_or c (JArr []) in
     if \<not> json_truthy choices then Inr None
     else bind (item_first choices) (\<lambda>choice.
       bind (get_key choice ''delta'' (JObj [])) (\<lambda>delta.
       bind (get_key delta ''content'' JNull) (\<lambda>content.
         if \<not> json_truthy content then Inr None
         else case content of JStr s \<Rightarrow> Inr (Some s) | _ \<Rightarrow> Inl TypeError))))"

fun openai_lines :: "(string \<Rightarrow> json option) \<Rightarrow> string list \<Rightarrow> exn option \<Rightarrow> string list \<times> (exn + unit)" where
  "openai_lines loads [] err = ([], case err of None \<Rightarrow> Inr () | Some e \<Rightarrow> Inl e)"
| "openai_lines loads (line # rest) err =
     (if line = [] \<or> \<not> startswith line ''data:'' then openai_lines loads rest err
      else let data_str = strip_ws (drop 5 line) in
        if data_str = ''[DONE]'' then ([], Inr ())
        else case loads data_str of
          None \<Rightarrow> openai_lines loads rest err
        | Some event \<Rightarrow>
            (case openai_event_text event of
               Inl e \<Rightarrow> ([], Inl e)
             | Inr None \<Rightarrow> openai_lines loads rest err
             | Inr (Some content) \<Rightarrow>
                 (let (chunks, result) = openai_lines loads rest err in (content # chunks, result))))"

definition openai_stream_impl :: "'w adapter \<Rightarrow> chat_request \<Rightarrow> breaker \<times> 'w \<Rightarrow> (breaker \<times> 'w) streaming" where
  "openai_stream_impl A r s =
     (case ad_stream A ''/chat/completions'' (openai_build_payload r True) s of
        (Inl err, s1) \<Rightarrow> ([], Inl (http_exn ''OpenAI'' ''stream'' err), s1)
      | (Inr st, s1) \<Rightarrow>
          (case (if hr_status_code (hs_response st) \<noteq> 200
                 then raise_for_status A ''OpenAI'' (hs_response st) else Inr ()) of
             Inl e \<Rightarrow> ([], Inl e, s1)
           | Inr _ \<Rightarrow>
               (let (chunks, result) = openai_lines (ad_json_loads A) (hs_lines st)
                      (map_option (http_exn ''OpenAI'' ''stream'') (hs_error st))
                in (chunks, result, s1))))"

definition openai_count_tokens :: "'w adapter \<Rightarrow> chat_request \<Rightarrow> string \<Rightarrow> token_usage" where
  "openai_count_tokens A r completion_text =
     \<lparr>input_tokens = sum_list (map (\<lambda>m. ad_token_count A (rq_model r) (message_line m)) (rq_messages r)),
      output_tokens = ad_token_count A (rq_model r) completion_text\<rparr>"

section \<open>Anthropic\<close>

definition anthropic_supports_model :: "string \<Rightarrow> bool" where
  "anthropic_supports_model model = startswith model ''claude-''"

text \<open>The module's own copies of the status check and the POST.\<close>

definition anthropic_raise_for_status :: "'w adapter \<Rightarrow> http_response \<Rightarrow> exn + unit" where
  "anthropic_raise_for_status A resp = raise_for_status A ''Anthropic'' resp"

definition anthropic_post ::
  "'w adapter \<Rightarrow> json \<Rightarrow> breaker \<times> 'w \<Rightarrow> (exn + http_response) \<times> (breaker \<times> 'w)" where
  "anthropic_post A payload s = post A ''Anthropic'' ''/messages'' payload s"

definition default_max_tokens :: int where
  "default_max_tokens = 4096"

definition anthropic_build_payload :: "chat_request \<Rightarrow> bool \<Rightarrow> json" where
  "anthropic_build_payload r strm =
     (let system_parts = map m_content (filter (\<lambda>m. m_role m = System) (rq_messages r));
          conversation = map message_json (filter (\<lambda>m. m_role m \<in> {User, Assistant}) (rq_messages r))
      in JObj (
     [(''model'', JStr (rq_model r)),
      (''messages'', JArr conversation),
      (''max_tokens'', JInt (case rq_max_tokens r of None \<Rightarrow> default_max_tokens
         | Some n \<Rightarrow> if n = 0 then default_max_tokens else n)),
      (''temperature'', JFloat (rq_temperature r)),
      (''top_p'', JFloat (rq_top_p r)),
      (''stream'', JBool strm)]
     @ (if system_parts \<noteq> [] then [(''system'', JStr (str_join [NL] system_parts))] else [])
     @ stop_json ''stop_sequences'' r))"

text \<open>The texts of the content blocks of type \<open>text\<close>, joined.\<close>

fun anthropic_text :: "json list \<Rightarrow> exn + string" where
  "anthropic_text [] = Inr []"
| "anthropic_text (block # rest) =
     bind (get_key block ''type'' JNull) (\<lambda>ty.
     if ty \<noteq> JStr ''text'' then anthropic_text rest
     else bind (get_key block ''text'' (JStr [])) (\<lambda>t.
       case t of
         JStr s \<Rightarrow> bind (anthropic_text rest) (\<lambda>ss. Inr (s @ ss))
       | _ \<Rightarrow> bind (anthropic_text rest) (\<lambda>ss. Inl TypeError)))"

fun iterate_blocks :: "json \<Rightarrow> exn + string" where
  "iterate_blocks (JArr bs) = anthropic_text bs"
| "iterate_blocks (JObj kvs) = (if kvs = [] then Inr [] else Inl attribute_error)"
| "iterate_blocks (JStr s) = (if s = [] then Inr [] else Inl attribute_error)"
| "iterate_blocks _ = Inl TypeError"

definition anthropic_decode ::
  "'w adapter \<Rightarrow> chat_request \<Rightarrow> json \<Rightarrow> datetime \<Rightarrow> exn + chat_response" where
  "anthropic_decode A r data now =
     bind (bind (get_key data ''content'' (JArr [])) iterate_blocks) (\<lambda>text.
     bind (get_key data ''usage'' JNull) (\<lambda>u. let usage_raw = json_or u (JObj []) in
     bind (bind (get_key usage_raw ''input_tokens'' (JInt 0)) (validate_int A)) (\<lambda>n_in.
     bind (bind (get_key usage_raw ''output_tokens'' (JInt 0)) (validate_int A)) (\<lambda>n_out.
     bind (bind (get_key data ''id'' (JStr [])) validate_str) (\<lambda>rid.
     bind (bind (get_key data ''model'' (JStr (rq_model r))) validate_str) (\<lambda>model.
       Inr (fresh_response rid model ''anthropic'' text
         \<lparr>input_tokens = n_in, output_tokens = n_out\<rparr> now)))))))"

definition anthropic_complete_impl ::
  "'w adapter \<Rightarrow> chat_request \<Rightarrow> breaker \<times> 'w \<Rightarrow> (exn + chat_response) \<times> (breaker \<times> 'w)" where
  "anthropic_complete_impl A r s =
     (case anthropic_post A (anthropic_build_payload r False) s of
        (Inl e, s1) \<Rightarrow> (Inl e, s1)
      | (Inr resp, s1) \<Rightarrow>
          (case anthropic_raise_for_status A resp of
             Inl e \<Rightarrow> (Inl e, s1)
           | Inr _ \<Rightarrow>
               (case hr_json resp of
                  None \<Rightarrow> (Inl (Provider (ProviderResponseError ''Anthropic returned invalid JSON'' (hr_status_code resp))), s1)
                | Some data \<Rightarrow>
                    (let (now, s2) = ad_utcnow A s1 in (anthropic_decode A r data now, s2)))))"

text \<open>What the data of a \<open>content_block_delta\<close> event yields.\<close>

definition anthropic_delta_text :: "json \<Rightarrow> exn + string option" where
  "anthropic_delta_text event_data =
     bind (get_key event_data ''delta'' (JObj [])) (\<lambda>delta.
     bind (get_key delta ''text'' JNull) (\<lambda>t.
       if \<not> json_truthy t then Inr None
       else case t of JStr s \<Rightarrow> Inr (Some s) | _ \<Rightarrow> Inl TypeError))"

text \<open>The message of an \<open>error\<close> event; \<open>show_json\<close> prints what has no text of its own.\<close>

definition anthropic_event_error :: "(json \<Rightarrow> string) \<Rightarrow> int \<Rightarrow> json \<Rightarrow> exn" where
  "anthropic_event_error show_json status event_data =
     (case bind (get_key event_data ''error'' (JObj [])) (\<lambda>err. get_key err ''message'' event_data) of
        Inl e \<Rightarrow> e
      | Inr m \<Rightarrow> Provider (ProviderResponseError (''Anthropic stream error: '' @
          (case m of JStr s \<Rightarrow> s | _ \<Rightarrow> show_json m)) status))"

fun anthropic_lines ::
  "(string \<Rightarrow> json option) \<Rightarrow> (json \<Rightarrow> string) \<Rightarrow> int \<Rightarrow> string option \<Rightarrow> string list \<Rightarrow> exn option \<Rightarrow>
     string list \<times> (exn + unit)" where
  "anthropic_lines loads show_json status current [] err = ([], case err of None \<Rightarrow> Inr () | Some e \<Rightarrow> Inl e)"
| "anthropic_lines loads show_json status current (line # rest) err =
     (if line = [] then anthropic_lines loads show_json status current rest err
      else if startswith line ''event:''
      then anthropic_lines loads show_json status (Some (strip_ws (drop 6 line))) rest err
      else if \<not> startswith line ''data:'' then anthropic_lines loads show_json status current rest err
      else case loads (strip_ws (drop 5 line)) of
        None \<Rightarrow> anthropic_lines loads show_json status current rest err
      | Some event_data \<Rightarrow>
          (if current = Some ''content_block_delta''
           then case anthropic_delta_text event_data of
                  Inl e \<Rightarrow> ([], Inl e)
                | Inr None \<Rightarrow> anthropic_lines loads show_json status current rest err
                | Inr (Some t) \<Rightarrow>
                    (let (chunks, result) = anthropic_lines loads show_json status current rest err
                     in (t # chunks, result))
           else if current = Some ''error'' then ([], Inl (anthropic_event_error show_json status event_data))
           else if current = Some ''message_stop'' then ([], Inr ())
           else anthropic_lines loads show_json status current rest err))"

definition anthropic_stream_impl ::
  "(json \<Rightarrow> string) \<Rightarrow> 'w adapter \<Rightarrow> chat_request \<Rightarrow> breaker \<times> 'w \<Rightarrow> (breaker \<times> 'w) streaming" where
  "anthropic_stream_impl show_json A r s =
     (case ad_stream A ''/messages'' (anthropic_build_payload r True) s of
        (Inl err, s1) \<Rightarrow> ([], Inl (http_exn ''Anthropic'' ''stream'' err), s1)
      | (Inr st, s1) \<Rightarrow>
          (case (if hr_status_code (hs_response st) \<noteq> 200
                 then anthropic_raise_for_status A (hs_response st) else Inr ()) of
             Inl e \<Rightarrow> ([], Inl e, s1)
           | Inr _ \<Rightarrow>
               (let (chunks, result) = anthropic_lines (ad_json_loads A) show_json
                      (hr_status_code (hs_response st)) None (hs_lines st)
                      (map_option (http_exn ''Anthropic'' ''stream'') (hs_error st))
                in (chunks, result, s1))))"

definition anthropic_count_tokens :: "chat_request \<Rightarrow> string \<Rightarrow> token_usage" where
  "anthropic_count_tokens r completion_text =
     (let prompt_chars = sum_list (map (\<lambda>m. int (length (m_content m))) (rq_messages r));
          completion_chars = int (length completion_text)
      in \<lparr>input_tokens = max 1 (prompt_chars div 4), output_tokens = max 1 (completion_chars div 4)\<rparr>)"

section \<open>The adapters as providers\<close>

definition openai_provider :: "(real \<Rightarrow> real) \<Rightarrow> 'w adapter \<Rightarrow> (breaker \<times> 'w) llm_provider" where
  "openai_provider rnd A =
     (let P = (ad_provider A)\<lparr>bp_name := ''openai'', bp_complete_impl := openai_complete_impl A,
                bp_stream_impl := openai_stream_impl A\<rparr>
      in \<lparr>pv_name = ''openai'', pv_supports_model = openai_supports_model,
          pv_complete = base_complete rnd P, pv_stream = base_stream rnd P,
          pv_count_tokens = (\<lambda>r text s. (Inr (openai_count_tokens A r text), s))\<rparr>)"

definition anthropic_provider ::
  "(real \<Rightarrow> real) \<Rightarrow> (json \<Rightarrow> string) \<Rightarrow> 'w adapter \<Rightarrow> (breaker \<times> 'w) llm_provider" where
  "anthropic_provider rnd show_json A =
     (let P = (ad_provider A)\<lparr>bp_name := ''anthropic'', bp_complete_impl := anthropic_complete_impl A,
                bp_stream_impl := anthropic_stream_impl show_json A\<rparr>
      in \<lparr>pv_name = ''anthropic'', pv_supports_model = anthropic_supports_model,
          pv_complete = base_complete rnd P, pv_stream = base_stream rnd P,
          pv_count_tokens = (\<lambda>r text s. (Inr (anthropic_count_tokens r text), s))\<rparr>)"

text \<open>What a completion returns, the hook returned in some attempt.\<close>

lemma complete_loop_response:
  "fst (complete_loop rnd P n r s) = Inr resp \<Longrightarrow> \<exists>s0. fst (bp_complete_impl P r s0) = Inr resp"
proof (induction "nat (bp_max_retries P - int n)" arbitrary: n s rule: less_induct)
  case less
  show ?case
  proof (cases rule: complete_loop_step [of P r s rnd n])
    case (answered response s1)
    with less.prems show ?thesis by (intro exI [of _ s]) simp
  next
    case (retried exc s1)
    let ?s2 = "back_off rnd P n exc (record_failure rnd (bp_runtime P) (bp_breaker P) s1)"
    have "nat (bp_max_retries P - int (n + 1)) < nat (bp_max_retries P - int n)"
      using retried(3) by simp
    from less.hyps [OF this, of ?s2] less.prems show ?thesis by (simp add: retried(4))
  qed (use less.prems in simp_all)
qed

lemma base_complete_response:
  assumes "base_complete rnd P r s = (Inr resp, s')"
  shows "\<exists>s0. fst (bp_complete_impl P r s0) = Inr resp"
proof -
  obtain a s1 where "allow_request rnd (bp_runtime P) (bp_breaker P) s = (a, s1)" by (metis surj_pair)
  with assms have "fst (complete_loop rnd P 0 r s1) = Inr resp"
    by (simp add: base_complete_def split: if_splits)
  then show ?thesis by (rule complete_loop_response)
qed

definition from_provider :: "string \<Rightarrow> chat_response \<Rightarrow> bool" where
  "from_provider name resp \<longleftrightarrow> rs_provider resp = name \<and> rs_cost_usd resp = 0 \<and> rs_cache_status resp = MISS"

lemma from_fresh: "from_provider name (fresh_response a b name c d e)"
  by (simp add: from_provider_def fresh_response_def)

lemma openai_decode_provider: "openai_decode A r data uid now = Inr resp \<Longrightarrow> from_provider ''openai'' resp"
  by (auto simp: openai_decode_def bind_val Let_def from_fresh)

lemma anthropic_decode_provider: "anthropic_decode A r data now = Inr resp \<Longrightarrow> from_provider ''anthropic'' resp"
  by (auto simp: anthropic_decode_def bind_val Let_def from_fresh)

lemma openai_complete_provider: "fst (openai_complete_impl A r s) = Inr resp \<Longrightarrow> from_provider ''openai'' resp"
  by (auto simp: openai_complete_impl_def Let_def openai_decode_provider
      split: prod.splits sum.splits option.splits)

lemma anthropic_complete_provider:
  "fst (anthropic_complete_impl A r s) = Inr resp \<Longrightarrow> from_provider ''anthropic'' resp"
  by (auto simp: anthropic_complete_impl_def Let_def anthropic_decode_provider
      split: prod.splits sum.splits option.splits)

interpretation openai: llm_port "openai_provider rnd A" for rnd and A :: "'w adapter"
proof
  fix r s resp s'
  assume "pv_complete (openai_provider rnd A) r s = (Inr resp, s')"
  then show "rs_provider resp = pv_name (openai_provider rnd A) \<and> rs_cost_usd resp = 0 \<and> rs_cache_status resp = MISS"
    by (auto simp: openai_provider_def Let_def from_provider_def
        dest!: base_complete_response openai_complete_provider)
qed

interpretation anthropic: llm_port "anthropic_provider rnd sj A" for rnd sj and A :: "'w adapter"
proof
  fix r s resp s'
  assume "pv_complete (anthropic_provider rnd sj A) r s = (Inr resp, s')"
  then show "rs_provider resp = pv_name (anthropic_provider rnd sj A) \<and> rs_cost_usd resp = 0 \<and> rs_cache_status resp = MISS"
    by (auto simp: anthropic_provider_def Let_def from_provider_def
        dest!: base_complete_response anthropic_complete_provider)
qed

section \<open>Properties\<close>

text \<open>Classification of HTTP answers, for both vendors: an answer below 400 is accepted; 429 becomes
  the rate-limit error, always retryable, carrying the Retry-After header when it parses as a number;
  any other status from 400 on becomes a response error with that status, retryable exactly from 500
  on.\<close>

theorem status_classification:
  "case raise_for_status A vendor resp of
     Inr _ \<Rightarrow> hr_status_code resp < 400
   | Inl (Provider exc) \<Rightarrow> 400 \<le> hr_status_code resp \<and> status_code exc = Some (hr_status_code resp)
       \<and> (retryable exc \<longleftrightarrow> hr_status_code resp = 429 \<or> 500 \<le> hr_status_code resp)
       \<and> retry_after_seconds exc =
           (if hr_status_code resp = 429 then Option.bind (hr_retry_after resp) (ad_float A) else None)
   | Inl _ \<Rightarrow> False"
  by (auto simp: raise_for_status_def retry_after_from_headers_def split: option.splits)

text \<open>What Anthropic is sent: the system texts joined with newlines as the top-level system prompt
  (left out when there is none), the user and assistant messages in their order and nothing else, so a
  tool message is silently dropped, and always a max_tokens that is not zero, 4096 when the request has
  none.  OpenAI is sent every message.\<close>

theorem anthropic_payload:
  "item_key (anthropic_build_payload r strm) ''messages'' =
     Inr (JArr (map message_json (filter (\<lambda>m. m_role m = User \<or> m_role m = Assistant) (rq_messages r))))
   \<and> get_key (anthropic_build_payload r strm) ''system'' JNull = Inr
       (if \<exists>m\<in>set (rq_messages r). m_role m = System
        then JStr (str_join [NL] (map m_content (filter (\<lambda>m. m_role m = System) (rq_messages r)))) else JNull)
   \<and> (\<exists>n. item_key (anthropic_build_payload r strm) ''max_tokens'' = Inr (JInt n) \<and> n \<noteq> 0
        \<and> n \<in> {4096} \<union> set_option (rq_max_tokens r))
   \<and> item_key (openai_build_payload r strm) ''messages'' = Inr (JArr (map message_json (rq_messages r)))"
proof (intro conjI)
  show "item_key (anthropic_build_payload r strm) ''messages'' =
     Inr (JArr (map message_json (filter (\<lambda>m. m_role m = User \<or> m_role m = Assistant) (rq_messages r))))"
    by (simp add: anthropic_build_payload_def Let_def)
  show "item_key (openai_build_payload r strm) ''messages'' = Inr (JArr (map message_json (rq_messages r)))"
    by (simp add: openai_build_payload_def)
  show "\<exists>n. item_key (anthropic_build_payload r strm) ''max_tokens'' = Inr (JInt n) \<and> n \<noteq> 0
        \<and> n \<in> {4096} \<union> set_option (rq_max_tokens r)"
    by (auto simp: anthropic_build_payload_def Let_def default_max_tokens_def split: option.split)
  have stop: "map_of (stop_json ''stop_sequences'' r) ''system'' = None"
    by (simp add: stop_json_def split: option.split list.split)
  show "get_key (anthropic_build_payload r strm) ''system'' JNull = Inr
       (if \<exists>m\<in>set (rq_messages r). m_role m = System
        then JStr (str_join [NL] (map m_content (filter (\<lambda>m. m_role m = System) (rq_messages r)))) else JNull)"
    by (auto simp: anthropic_build_payload_def Let_def stop filter_empty_conv)
qed

section \<open>The event-stream parsers\<close>

text \<open>
  The lines a server sends for a list of text deltas: one \<open>data:\<close> line per delta between lines the
  protocol allows in between (blank lines and comments), then the end marker.
\<close>

definition openai_event :: "string \<Rightarrow> json" where
  "openai_event t = JObj [(''choices'', JArr [JObj [(''delta'', JObj [(''content'', JStr t)])]])]"

definition ignorable :: "string \<Rightarrow> bool" where
  "ignorable line \<longleftrightarrow> line = [] \<or> hd line = CHR '':''"

fun openai_wire :: "(json \<Rightarrow> string) \<Rightarrow> string list \<Rightarrow> string list \<Rightarrow> string list" where
  "openai_wire dumps filler [] = filler @ [''data: [DONE]'']"
| "openai_wire dumps filler (t # ts) = filler @ (''data: '' @ dumps (openai_event t)) # openai_wire dumps filler ts"

lemma ignorable_data: "ignorable line \<Longrightarrow> line = [] \<or> \<not> startswith line ''data:''"
  by (cases line) (auto simp: ignorable_def startswith_def)

lemma openai_lines_filler:
  "\<forall>line\<in>set filler. ignorable line \<Longrightarrow> openai_lines loads (filler @ rest) err = openai_lines loads rest err"
  by (induction filler) (auto dest: ignorable_data)

lemma strip_ws_id: "s \<noteq> [] \<Longrightarrow> \<not> is_space (hd s) \<Longrightarrow> \<not> is_space (last s) \<Longrightarrow> strip_ws (SP # s) = s"
proof -
  assume s: "s \<noteq> []" "\<not> is_space (hd s)" "\<not> is_space (last s)"
  have "dropWhile is_space (SP # s) = s"
    using s by (cases s) (auto simp: is_space_def)
  moreover have "dropWhile is_space (rev s) = rev s"
    using s by (cases "rev s") (auto simp: last_rev [symmetric] hd_rev)
  ultimately show ?thesis by (simp add: strip_ws_def)
qed

text \<open>What is used of the JSON encoder: objects print on one line without surrounding white space, and
  decoding gives back what was encoded.\<close>

definition json_codec :: "(json \<Rightarrow> string) \<Rightarrow> (string \<Rightarrow> json option) \<Rightarrow> json \<Rightarrow> bool" where
  "json_codec dumps loads j \<longleftrightarrow> loads (dumps j) = Some j \<and> dumps j \<noteq> []
     \<and> \<not> is_space (hd (dumps j)) \<and> \<not> is_space (last (dumps j)) \<and> dumps j \<noteq> ''[DONE]''"

lemma openai_event_text_event: "t \<noteq> [] \<Longrightarrow> openai_event_text (openai_event t) = Inr (Some t)"
  by (simp add: openai_event_text_def openai_event_def Let_def json_or_def)

text \<open>The OpenAI stream parser inverts the wire format: for any text deltas, with any blank lines
  and comment lines between the events, the chunks it yields are exactly the deltas in order and it ends
  normally at the end marker, ignoring whatever follows, including a connection error.\<close>

theorem openai_stream_roundtrip:
  assumes "\<forall>t\<in>set ts. t \<noteq> [] \<and> json_codec dumps loads (openai_event t)"
    and "\<forall>line\<in>set filler. ignorable line"
  shows "openai_lines loads (openai_wire dumps filler ts @ rest) err = (ts, Inr ())"
  using assms(1)
proof (induction ts)
  case Nil
  have "strip_ws '' [DONE]'' = ''[DONE]''"
    using strip_ws_id [of "''[DONE]''"] by (simp add: is_space_def)
  then show ?case
    by (simp add: openai_lines_filler [OF assms(2)] startswith_def)
next
  case (Cons t ts)
  then have c: "json_codec dumps loads (openai_event t)" and t: "t \<noteq> []" by simp_all
  from c have "strip_ws (SP # dumps (openai_event t)) = dumps (openai_event t)"
    by (intro strip_ws_id) (simp_all add: json_codec_def)
  with c t Cons show ?case
    by (simp add: openai_lines_filler [OF assms(2)] startswith_def json_codec_def
        openai_event_text_event)
qed

text \<open>A codec for the events of one delta, enough for an example.\<close>

definition hello_dumps :: "json \<Rightarrow> string" where "hello_dumps j = ''{hello}''"
definition hello_loads :: "string \<Rightarrow> json option" where
  "hello_loads s = (if s = ''{hello}'' then Some (openai_event ''hello'') else None)"

theorem openai_stream_roundtrip_witness:
  "openai_lines hello_loads ([[], '': ping'', ''data: {hello}'', [], '': ping'', ''data: [DONE]''] @ []) None = ([''hello''], Inr ())"
  using openai_stream_roundtrip [of "[''hello'']" hello_dumps hello_loads "[[], '': ping'']" "[]" None]
  by (simp add: json_codec_def hello_dumps_def hello_loads_def ignorable_def is_space_def)

text \<open>The lines Anthropic sends: each event is named on a line of its own before its data.\<close>

definition anthropic_delta :: "string \<Rightarrow> json" where
  "anthropic_delta t = JObj [(''delta'', JObj [(''text'', JStr t)])]"

fun anthropic_wire :: "(json \<Rightarrow> string) \<Rightarrow> string list \<Rightarrow> string list" where
  "anthropic_wire dumps [] = []"
| "anthropic_wire dumps (t # ts) =
     ''event: content_block_delta'' # (''data: '' @ dumps (anthropic_delta t)) # [] # anthropic_wire dumps ts"

lemma anthropic_delta_text_delta: "t \<noteq> [] \<Longrightarrow> anthropic_delta_text (anthropic_delta t) = Inr (Some t)"
  by (simp add: anthropic_delta_text_def anthropic_delta_def)

lemma strip_event: "strip_ws '' content_block_delta'' = ''content_block_delta''"
    "strip_ws '' error'' = ''error''" "strip_ws '' message_stop'' = ''message_stop''"
  using strip_ws_id [of "''content_block_delta''"] strip_ws_id [of "''error''"]
    strip_ws_id [of "''message_stop''"] by (simp_all add: is_space_def)

lemma anthropic_lines_wire:
  assumes "\<forall>t\<in>set ts. t \<noteq> [] \<and> json_codec dumps loads (anthropic_delta t)"
  shows "\<exists>current'. anthropic_lines loads sj status current (anthropic_wire dumps ts @ rest) err =
    (let (chunks, result) = anthropic_lines loads sj status current' rest err in (ts @ chunks, result))"
  using assms
proof (induction ts arbitrary: current)
  case Nil
  then show ?case by (auto intro!: exI [of _ current])
next
  case (Cons t ts)
  then have c: "json_codec dumps loads (anthropic_delta t)" and t: "t \<noteq> []" by simp_all
  from c have s: "strip_ws (SP # dumps (anthropic_delta t)) = dumps (anthropic_delta t)"
    by (intro strip_ws_id) (simp_all add: json_codec_def)
  from Cons.IH [of "Some ''content_block_delta''"] Cons.prems obtain current' where
    "anthropic_lines loads sj status (Some ''content_block_delta'') (anthropic_wire dumps ts @ rest) err =
      (let (chunks, result) = anthropic_lines loads sj status current' rest err in (ts @ chunks, result))"
    by auto
  with c t s show ?case
    by (intro exI [of _ current'])
      (simp add: startswith_def strip_event json_codec_def anthropic_delta_text_delta split: prod.split)
qed

text \<open>The Anthropic stream parser: text deltas are yielded in order; a \<open>message_stop\<close> event ends the
  stream normally; an \<open>error\<close> event ends it with a response error that carries the HTTP status of the
  stream.  Since a stream that has started has status 200, an error event, even before any text and even
  for a passing overload, is never retried by the provider's retry loop.\<close>

theorem anthropic_stream_events:
  assumes "\<forall>t\<in>set ts. t \<noteq> [] \<and> json_codec dumps loads (anthropic_delta t)"
    and "json_codec dumps loads j"
  shows "anthropic_lines loads sj status None (anthropic_wire dumps ts @ [''event: message_stop'', ''data: '' @ dumps j] @ rest) err = (ts, Inr ())
    \<and> (\<exists>e. anthropic_lines loads sj 200 None (anthropic_wire dumps ts @ [''event: error'', ''data: '' @ dumps j] @ rest) err = (ts, Inl e)
        \<and> (\<forall>exc. e = Provider exc \<longrightarrow> status_code exc = Some 200 \<and> \<not> retryable exc)
        \<and> (\<forall>m kvs. j = JObj [(''error'', JObj ((''message'', JStr m) # kvs))] \<longrightarrow>
             e = Provider (ProviderResponseError (''Anthropic stream error: '' @ m) 200)))"
proof -
  have s: "strip_ws (SP # dumps j) = dumps j"
    using assms(2) by (intro strip_ws_id) (simp_all add: json_codec_def)
  have l: "loads (dumps j) = Some j" using assms(2) by (simp add: json_codec_def)
  have stop: "anthropic_lines loads sj status c ([''event: message_stop'', ''data: '' @ dumps j] @ rest) err = ([], Inr ())" for c
    using s l by (simp add: startswith_def strip_event)
  have fail: "anthropic_lines loads sj 200 c ([''event: error'', ''data: '' @ dumps j] @ rest) err =
      ([], Inl (anthropic_event_error sj 200 j))" for c
    using s l by (simp add: startswith_def strip_event)
  have e: "\<forall>exc. anthropic_event_error sj 200 j = Provider exc \<longrightarrow> status_code exc = Some 200 \<and> \<not> retryable exc"
    by (cases j; auto simp: anthropic_event_error_def attribute_error_def split: sum.splits)
      (auto simp: attribute_error_def bind_def split: sum.splits option.splits elim!: get_key.elims)
  show ?thesis
  proof
    show "anthropic_lines loads sj status None (anthropic_wire dumps ts @ [''event: message_stop'', ''data: '' @ dumps j] @ rest) err = (ts, Inr ())"
      using anthropic_lines_wire [OF assms(1), of sj status None "[''event: message_stop'', ''data: '' @ dumps j] @ rest" err]
      unfolding stop by simp
    show "\<exists>e. anthropic_lines loads sj 200 None (anthropic_wire dumps ts @ [''event: error'', ''data: '' @ dumps j] @ rest) err = (ts, Inl e)
        \<and> (\<forall>exc. e = Provider exc \<longrightarrow> status_code exc = Some 200 \<and> \<not> retryable exc)
        \<and> (\<forall>m kvs. j = JObj [(''error'', JObj ((''message'', JStr m) # kvs))] \<longrightarrow>
             e = Provider (ProviderResponseError (''Anthropic stream error: '' @ m) 200))"
      using anthropic_lines_wire [OF assms(1), of sj 200 None "[''event: error'', ''data: '' @ dumps j] @ rest" err] e
      unfolding fail by (intro exI [of _ "anthropic_event_error sj 200 j"]) (simp add: anthropic_event_error_def)
  qed
qed

definition overload_event :: json where
  "overload_event = JObj [(''error'', JObj [(''message'', JStr ''Overloaded'')])]"
definition claude_dumps :: "json \<Rightarrow> string" where
  "claude_dumps j = (if j = overload_event then ''{overloaded}'' else ''{hello}'')"
definition claude_loads :: "string \<Rightarrow> json option" where
  "claude_loads s = (if s = ''{overloaded}'' then Some overload_event
     else if s = ''{hello}'' then Some (anthropic_delta ''hello'') else None)"

theorem anthropic_stream_events_witness:
  "anthropic_lines claude_loads (\<lambda>j. []) 200 None
     (anthropic_wire claude_dumps [] @ [''event: error'', ''data: '' @ claude_dumps overload_event] @ []) None =
   ([], Inl (Provider (ProviderResponseError ''Anthropic stream error: Overloaded'' 200)))"
proof -
  have "json_codec claude_dumps claude_loads overload_event"
    by (simp add: json_codec_def claude_dumps_def claude_loads_def is_space_def)
  from anthropic_stream_events [of "[]" claude_dumps claude_loads overload_event "\<lambda>j. []" 200 "[]" None, OF _ this]
  show ?thesis by (auto simp: overload_event_def)
qed

text \<open>A completion without choices escapes as a \<open>KeyError\<close>, which no retry or fallback handles.\<close>

lemma openai_missing_choices:
  "map_of kvs ''choices'' = None \<Longrightarrow> openai_decode A r (JObj kvs) uid now = Inl (KeyError ''choices'')"
  by (simp add: openai_decode_def)

end
