(* ===== verification/Caching.thy ===== *)
theory Caching
  imports Services
begin

text \<open>
  The two cache layers of \<open>caching/\<close>: key construction (\<open>hashing.py\<close>), the Redis exact-match layer
  (\<open>redis_exact_cache.py\<close>) and the Qdrant semantic layer (\<open>qdrant_semantic_cache.py\<close>), and the
  contract both promise to \<open>CacheService\<close> (\<open>domain/interfaces/cache_store.py\<close>) as a locale.
\<close>

section \<open>Keys (\<open>hashing.py\<close>)\<close>

definition normalize_prompt :: "string \<Rightarrow> string" where
  "normalize_prompt text = str_join [SP] (split_ws (strip_ws text))"

definition fingerprint :: "codec \<Rightarrow> chat_request \<Rightarrow> string" where
  "fingerprint L r =
     normalize_prompt (canonical_prompt r) @ ''|'' @ params_fingerprint (repr_float L) r"

definition exact_cache_key :: "codec \<Rightarrow> chat_request \<Rightarrow> string" where
  "exact_cache_key L r = ''cache:exact:'' @ sha256_hex (fingerprint L r)"

definition params_hash :: "codec \<Rightarrow> chat_request \<Rightarrow> string" where
  "params_hash L r = take 16 (sha256_hex (params_fingerprint (repr_float L) r))"

definition tenant_key :: "codec \<Rightarrow> chat_request \<Rightarrow> string \<Rightarrow> string" where
  "tenant_key L r tenant_id = exact_cache_key L r @ '':tenant:'' @ tenant_id"

section \<open>The contract of a cache layer (\<open>cache_store.py\<close>)\<close>

text \<open>
  \<open>get\<close> answers a request with a cached response or none, \<open>set\<close> stores one; both fail closed.
  \<open>escapes\<close> are the exceptions a layer lets through (none for a layer that catches everything), and
  \<open>hit\<close> is the status a layer stamps on what it returns.
\<close>

locale cache_store =
  fixes get :: "chat_request \<Rightarrow> string \<Rightarrow> 'w \<Rightarrow> (exn + chat_response option) \<times> 'w"
    and set_response :: "chat_request \<Rightarrow> chat_response \<Rightarrow> string \<Rightarrow> 'w \<Rightarrow> (exn + unit) \<times> 'w"
    and escapes :: "exn \<Rightarrow> bool"
    and hit :: cache_status
  assumes get_raises: "get r t w = (Inl e, w') \<Longrightarrow> escapes e"
    and set_raises: "set_response r s t w = (Inl e, w') \<Longrightarrow> escapes e"
    and get_status: "get r t w = (Inr (Some s), w') \<Longrightarrow> rs_cache_status s = hit"
begin

lemma get_fails_closed:
  "\<not> escapes e \<Longrightarrow> get r t w \<noteq> (Inl e, w')"
  using get_raises by blast

lemma get_outcome [outcome]:
  obtains (raised) e w' where "get r t w = (Inl e, w')" "escapes e"
  | (miss) w' where "get r t w = (Inr None, w')"
  | (found) s w' where "get r t w = (Inr (Some s), w')" "rs_cache_status s = hit"
proof (cases "get r t w")
  case (Pair x w')
  show ?thesis
  proof (cases x)
    case (Inl e)
    with Pair show ?thesis by (intro raised [of e w']) (auto intro: get_raises)
  next
    case (Inr y)
    show ?thesis
    proof (cases y)
      case None
      with Pair Inr show ?thesis by (intro miss [of w']) simp
    next
      case (Some s)
      with Pair Inr show ?thesis by (intro found [of s w']) (auto intro: get_status)
    qed
  qed
qed

end

section \<open>Layer 1: Redis (\<open>redis_exact_cache.py\<close>)\<close>

record 'w exact_cache =
  xc_redis :: "'w redis"
  xc_runtime :: "'w runtime"
  xc_codec :: codec
  xc_ttl_seconds :: int
  xc_get_timeout_seconds :: real
  xc_set_timeout_seconds :: real

text \<open>The exceptions \<open>except (TimeoutError, RedisError)\<close> catches.\<close>

definition caught_by_exact :: "exn \<Rightarrow> bool" where
  "caught_by_exact e \<longleftrightarrow> e = TimeoutError \<or> is_redis_error e"

definition exact_get ::
  "'w exact_cache \<Rightarrow> chat_request \<Rightarrow> string \<Rightarrow> 'w \<Rightarrow> (exn + chat_response option) \<times> 'w" where
  "exact_get C request tenant_id w =
     (let key = tenant_key (xc_codec C) request tenant_id
      in case wait_for (xc_runtime C) (xc_get_timeout_seconds C) (redis_get (xc_redis C) key) w of
           (Inl e, w') \<Rightarrow> if caught_by_exact e then (Inr None, w') else (Inl e, w')
         | (Inr None, w') \<Rightarrow> (Inr None, w')
         | (Inr (Some raw), w') \<Rightarrow>
             (case load_response (xc_codec C) raw of
                None \<Rightarrow> (Inr None, w')
              | Some response \<Rightarrow> (Inr (Some (response\<lparr>rs_cache_status := EXACT_HIT\<rparr>)), w')))"

definition exact_set ::
  "'w exact_cache \<Rightarrow> chat_request \<Rightarrow> chat_response \<Rightarrow> string \<Rightarrow> 'w \<Rightarrow> (exn + unit) \<times> 'w" where
  "exact_set C request response tenant_id w =
     (let key = tenant_key (xc_codec C) request tenant_id
      in case wait_for (xc_runtime C) (xc_set_timeout_seconds C)
             (redis_set (xc_redis C) key (dump_response (xc_codec C) response) (xc_ttl_seconds C)) w of
           (Inl e, w') \<Rightarrow> if caught_by_exact e then (Inr (), w') else (Inl e, w')
         | (Inr u, w') \<Rightarrow> (Inr u, w'))"

interpretation exact: cache_store "exact_get C" "exact_set C" "\<lambda>e. \<not> caught_by_exact e" EXACT_HIT
  for C :: "'w exact_cache"
  by unfold_locales
    (auto simp: exact_get_def exact_set_def Let_def split: prod.splits sum.splits option.splits if_splits)

section \<open>Layer 2: Qdrant (\<open>qdrant_semantic_cache.py\<close>)\<close>

datatype payload_value = PStr string | PResponse string | PInt int

type_synonym payload = "string \<Rightarrow> payload_value option"

record point =
  pt_id :: string
  pt_score :: real
  pt_payload :: "payload option"

text \<open>The filter is a list of conditions that all must hold: field \<open>=\<close> value.\<close>

type_synonym qfilter = "(string \<times> string) list"

record 'w qdrant =
  q_collection_exists :: "string \<Rightarrow> 'w \<Rightarrow> (exn + bool) \<times> 'w"
  q_create_collection :: "string \<Rightarrow> int \<Rightarrow> 'w \<Rightarrow> (exn + unit) \<times> 'w"
  q_create_payload_index :: "string \<Rightarrow> string \<Rightarrow> 'w \<Rightarrow> (exn + unit) \<times> 'w"
  q_query_points :: "string \<Rightarrow> real list \<Rightarrow> qfilter \<Rightarrow> nat \<Rightarrow> real \<Rightarrow> 'w \<Rightarrow> (exn + point list) \<times> 'w"
  q_upsert :: "string \<Rightarrow> string \<Rightarrow> real list \<Rightarrow> payload \<Rightarrow> 'w \<Rightarrow> (exn + unit) \<times> 'w"
  q_set_payload :: "string \<Rightarrow> payload \<Rightarrow> string \<Rightarrow> 'w \<Rightarrow> (exn + unit) \<times> 'w"

record 'w embedder =
  em_model_id :: string
  em_dimension :: int
  em_embed :: "string \<Rightarrow> 'w \<Rightarrow> (exn + real list) \<times> 'w"

text \<open>
  The object's own variable, whether the collection has been bootstrapped, is the first component of
  the state the operations run on.
\<close>

record 'w semantic_cache =
  qc_qdrant :: "'w qdrant"
  qc_embeddings :: "'w embedder"
  qc_runtime :: "'w runtime"
  qc_codec :: codec
  qc_isoformat :: "datetime \<Rightarrow> string"
  qc_similarity_threshold :: real
  qc_search_timeout_seconds :: real
  qc_write_timeout_seconds :: real

definition collection_name :: "string \<Rightarrow> string" where
  "collection_name embedding_model_id =
     ''semantic_cache__'' @ map (\<lambda>c. if c \<in> {CHR ''.'', CHR '':'', CHR ''-''} then CHR ''_'' else c)
       embedding_model_id"

definition filtered_payload_fields :: "string list" where
  "filtered_payload_fields = [''tenant_id'', ''model_family'', ''params_hash'']"

definition qc_collection :: "'w semantic_cache \<Rightarrow> string" where
  "qc_collection C = collection_name (em_model_id (qc_embeddings C))"

fun create_indexes :: "'w semantic_cache \<Rightarrow> string list \<Rightarrow> 'w \<Rightarrow> (exn + unit) \<times> 'w" where
  "create_indexes C [] w = (Inr (), w)"
| "create_indexes C (field_name # rest) w =
     (case q_create_payload_index (qc_qdrant C) (qc_collection C) field_name w of
        (Inl e, w') \<Rightarrow> (Inl e, w')
      | (Inr _, w') \<Rightarrow> create_indexes C rest w')"

definition ensure_collection :: "'w semantic_cache \<Rightarrow> bool \<times> 'w \<Rightarrow> (exn + unit) \<times> (bool \<times> 'w)" where
  "ensure_collection C = (\<lambda>(bootstrapped, w).
     if bootstrapped then (Inr (), (True, w))
     else case q_collection_exists (qc_qdrant C) (qc_collection C) w of
        (Inl e, w1) \<Rightarrow> (Inl e, (False, w1))
      | (Inr True, w1) \<Rightarrow> (Inr (), (True, w1))
      | (Inr False, w1) \<Rightarrow>
          (case q_create_collection (qc_qdrant C) (qc_collection C) (em_dimension (qc_embeddings C)) w1 of
             (Inl e, w2) \<Rightarrow> (Inl e, (False, w2))
           | (Inr _, w2) \<Rightarrow>
               (case create_indexes C filtered_payload_fields w2 of
                  (Inl e, w3) \<Rightarrow> (Inl e, (False, w3))
                | (Inr _, w3) \<Rightarrow> (Inr (), (True, w3)))))"

definition build_filter :: "'w semantic_cache \<Rightarrow> chat_request \<Rightarrow> string \<Rightarrow> qfilter" where
  "build_filter C request tenant_id =
     [(''tenant_id'', tenant_id), (''model_family'', rq_model request),
      (''params_hash'', params_hash (qc_codec C) request)]"

text \<open>\<open>payload.get("response")\<close> and \<open>ChatResponse.model_validate\<close> of what is found there.\<close>

definition response_of_payload :: "codec \<Rightarrow> payload option \<Rightarrow> chat_response option" where
  "response_of_payload L p =
     (case (case p of None \<Rightarrow> None | Some m \<Rightarrow> m ''response'') of
        Some (PResponse data) \<Rightarrow> load_response L data
      | _ \<Rightarrow> None)"

definition semantic_get_impl ::
  "'w semantic_cache \<Rightarrow> chat_request \<Rightarrow> string \<Rightarrow> bool \<times> 'w \<Rightarrow>
     (exn + chat_response option) \<times> (bool \<times> 'w)" where
  "semantic_get_impl C request tenant_id s0 =
     (case ensure_collection C s0 of
        (Inl e, s1) \<Rightarrow> (Inl e, s1)
      | (Inr _, (b, w1)) \<Rightarrow>
          (case em_embed (qc_embeddings C) (normalize_prompt (canonical_prompt request)) w1 of
             (Inl e, w2) \<Rightarrow> (Inl e, (b, w2))
           | (Inr vector, w2) \<Rightarrow>
               (case q_query_points (qc_qdrant C) (qc_collection C) vector
                       (build_filter C request tenant_id) 1 (qc_similarity_threshold C) w2 of
                  (Inl e, w3) \<Rightarrow> (Inl e, (b, w3))
                | (Inr [], w3) \<Rightarrow> (Inr None, (b, w3))
                | (Inr (best # _), w3) \<Rightarrow>
                    (case response_of_payload (qc_codec C) (pt_payload best) of
                       None \<Rightarrow> (Inr None, (b, w3))
                     | Some response \<Rightarrow>
                         (Inr (Some (response\<lparr>rs_cache_status := SEMANTIC_HIT\<rparr>)),
                          (b, rt_spawn (qc_runtime C) (RecordHit (pt_id best)) w3))))))"

text \<open>
  \<open>wait_for\<close> around an operation that also reads and writes the object's variable.  A cancelled call is taken to leave the variable
  as it was: one that had completed the bootstrap itself would leave it set, which spares the next call one check; a process that
  has started never meets the case, as start-up completes the bootstrap or fails.
\<close>

definition wait_for_obj ::
  "'w runtime \<Rightarrow> real \<Rightarrow> (bool \<times> 'w \<Rightarrow> (exn + 'a) \<times> (bool \<times> 'w)) \<Rightarrow> bool \<times> 'w \<Rightarrow>
     (exn + 'a) \<times> (bool \<times> 'w)" where
  "wait_for_obj rt timeout call s =
     (case rt_expired rt timeout (snd s) of
        Some w' \<Rightarrow> (Inl TimeoutError, (fst s, w')) | None \<Rightarrow> call s)"

definition semantic_get ::
  "'w semantic_cache \<Rightarrow> chat_request \<Rightarrow> string \<Rightarrow> bool \<times> 'w \<Rightarrow>
     (exn + chat_response option) \<times> (bool \<times> 'w)" where
  "semantic_get C request tenant_id s =
     (case wait_for_obj (qc_runtime C) (qc_search_timeout_seconds C)
             (semantic_get_impl C request tenant_id) s of
        (Inl e, s') \<Rightarrow> (Inr None, s')
      | (Inr r, s') \<Rightarrow> (Inr r, s'))"

definition max_stored_prompt_chars :: nat where
  "max_stored_prompt_chars = 2000"

definition point_payload ::
  "'w semantic_cache \<Rightarrow> chat_request \<Rightarrow> chat_response \<Rightarrow> string \<Rightarrow> string \<Rightarrow> datetime \<Rightarrow> payload" where
  "point_payload C request response tenant_id prompt now =
     [''tenant_id'' \<mapsto> PStr tenant_id,
      ''model_family'' \<mapsto> PStr (rq_model request),
      ''params_hash'' \<mapsto> PStr (params_hash (qc_codec C) request),
      ''prompt_text'' \<mapsto> PStr (take max_stored_prompt_chars prompt),
      ''response'' \<mapsto> PResponse (dump_response (qc_codec C) response),
      ''created_at'' \<mapsto> PStr (qc_isoformat C now),
      ''hit_count'' \<mapsto> PInt 0]"

definition semantic_set_impl ::
  "'w semantic_cache \<Rightarrow> chat_request \<Rightarrow> chat_response \<Rightarrow> string \<Rightarrow> bool \<times> 'w \<Rightarrow>
     (exn + unit) \<times> (bool \<times> 'w)" where
  "semantic_set_impl C request response tenant_id s0 =
     (case ensure_collection C s0 of
        (Inl e, s1) \<Rightarrow> (Inl e, s1)
      | (Inr _, (b, w1)) \<Rightarrow>
          (let prompt = normalize_prompt (canonical_prompt request)
           in case em_embed (qc_embeddings C) prompt w1 of
             (Inl e, w2) \<Rightarrow> (Inl e, (b, w2))
           | (Inr vector, w2) \<Rightarrow>
               (let (now, w3) = rt_utcnow (qc_runtime C) w2;
                    (uid, w4) = rt_uuid4 (qc_runtime C) w3
                in case q_upsert (qc_qdrant C) (qc_collection C) uid vector
                          (point_payload C request response tenant_id prompt now) w4 of
                     (Inl e, w5) \<Rightarrow> (Inl e, (b, w5))
                   | (Inr _, w5) \<Rightarrow> (Inr (), (b, w5)))))"

definition semantic_set ::
  "'w semantic_cache \<Rightarrow> chat_request \<Rightarrow> chat_response \<Rightarrow> string \<Rightarrow> bool \<times> 'w \<Rightarrow>
     (exn + unit) \<times> (bool \<times> 'w)" where
  "semantic_set C request response tenant_id s =
     (case wait_for_obj (qc_runtime C) (qc_write_timeout_seconds C)
             (semantic_set_impl C request response tenant_id) s of
        (Inl e, s') \<Rightarrow> (Inr (), s')
      | (Inr u, s') \<Rightarrow> (Inr u, s'))"

definition record_hit :: "'w semantic_cache \<Rightarrow> string \<Rightarrow> 'w \<Rightarrow> (exn + unit) \<times> 'w" where
  "record_hit C point_id w =
     (let (now, w1) = rt_utcnow (qc_runtime C) w
      in (Inr (), snd (q_set_payload (qc_qdrant C) (qc_collection C)
             [''last_hit_at'' \<mapsto> PStr (qc_isoformat C now)] point_id w1)))"

interpretation semantic: cache_store "semantic_get C" "semantic_set C" "\<lambda>_. False" SEMANTIC_HIT
  for C :: "'w semantic_cache"
  by unfold_locales
    (auto simp: semantic_get_def semantic_set_def wait_for_obj_def semantic_get_impl_def
      split: prod.splits sum.splits option.splits list.splits)

section \<open>Properties\<close>

lemma split_ws_normalize: "split_ws (normalize_prompt s) = split_ws s"
  unfolding normalize_prompt_def split_strip by (rule split_join_words) (auto dest: split_ws_words)

lemma normalize_prompt_eq_iff: "normalize_prompt s = normalize_prompt t \<longleftrightarrow> split_ws s = split_ws t"
  by (metis normalize_prompt_def split_strip split_ws_normalize)

text \<open>Prompt normalisation is idempotent, and two prompts normalise to the same text exactly when
  they have the same words: leading, trailing and repeated white space of any kind does not matter,
  everything else does.  Letter case is kept, although the function's comment announces
  "whitespace/case normalization".\<close>

theorem normalize_prompt_canonical:
  "normalize_prompt (normalize_prompt s) = normalize_prompt s
   \<and> (normalize_prompt s = normalize_prompt t \<longleftrightarrow> split_ws s = split_ws t)
   \<and> normalize_prompt (SP # s @ [NL]) = normalize_prompt s
   \<and> normalize_prompt (a @ SP # NL # b) = normalize_prompt (a @ SP # b)
   \<and> normalize_prompt ''Hi'' \<noteq> normalize_prompt ''hi''"
proof (intro conjI)
  have sp: "is_space SP" "is_space NL" by (simp_all add: is_space_def)
  show "normalize_prompt (normalize_prompt s) = normalize_prompt s"
    by (simp add: normalize_prompt_eq_iff split_ws_normalize)
  show "normalize_prompt s = normalize_prompt t \<longleftrightarrow> split_ws s = split_ws t"
    by (rule normalize_prompt_eq_iff)
  show "normalize_prompt (SP # s @ [NL]) = normalize_prompt s"
    using sp by (simp add: normalize_prompt_eq_iff split_ws_space split_ws_append_space)
  show "normalize_prompt (a @ SP # NL # b) = normalize_prompt (a @ SP # b)"
    using sp by (simp add: normalize_prompt_eq_iff split_ws_append_space split_ws_space)
  have "split_ws ''Hi'' \<noteq> split_ws ''hi''" by code_simp
  then show "normalize_prompt ''Hi'' \<noteq> normalize_prompt ''hi''"
    by (simp add: normalize_prompt_eq_iff)
qed

text \<open>The key of a cached response determines the tenant: digests have a fixed length.\<close>

lemma exact_cache_key_length: "length (exact_cache_key L r) = 76"
  by (simp add: exact_cache_key_def)

lemma tenant_key_inject:
  "tenant_key L r t = tenant_key L' r' t' \<longleftrightarrow> exact_cache_key L r = exact_cache_key L' r' \<and> t = t'"
  by (simp add: tenant_key_def append_eq_same_length exact_cache_key_length)

text \<open>
  Moving a message boundary: the text of one message that looks like two messages gives the same
  canonical prompt as the two messages.
\<close>

lemma str_join_snoc2: "str_join s (xs @ [x, y] @ zs) = str_join s (xs @ [x @ s @ y] @ zs)"
proof (induction xs)
  case Nil
  then show ?case by (cases zs) simp_all
next
  case (Cons a xs)
  then show ?case by (cases xs) simp_all
qed

lemma canonical_prompt_boundary:
  "canonical_prompt (r\<lparr>rq_messages := ms @ [\<lparr>m_role = p, m_content = a\<rparr>, \<lparr>m_role = q, m_content = b\<rparr>] @ ns\<rparr>) =
   canonical_prompt (r\<lparr>rq_messages := ms @ [\<lparr>m_role = p, m_content = a @ NL # role_str q @ '':'' @ b\<rparr>] @ ns\<rparr>)"
  using str_join_snoc2 [of "[NL]" "map message_line ms"
      "message_line \<lparr>m_role = p, m_content = a\<rparr>" "message_line \<lparr>m_role = q, m_content = b\<rparr>"
      "map message_line ns"]
  by (simp add: canonical_prompt_def message_line_def)

text \<open>The exact-cache key does not determine the conversation: splitting one message whose text
  contains a line of the form "role:text" into two messages leaves the key unchanged, whatever the
  roles, the texts and the other messages, so the two different conversations share cached responses
  within a tenant.\<close>

theorem exact_key_ignores_message_boundaries:
  "exact_cache_key L (r\<lparr>rq_messages := ms @ [\<lparr>m_role = p, m_content = a\<rparr>, \<lparr>m_role = q, m_content = b\<rparr>] @ ns\<rparr>) =
   exact_cache_key L (r\<lparr>rq_messages := ms @ [\<lparr>m_role = p, m_content = a @ NL # role_str q @ '':'' @ b\<rparr>] @ ns\<rparr>)"
  using canonical_prompt_boundary [where r = r and ms = ms and p = p and a = a and q = q and b = b and ns = ns]
  by (simp add: exact_cache_key_def fingerprint_def params_fingerprint_def)

text \<open>What a completed read and a completed write of the exact layer do to the store.\<close>

lemma exact_get_spec:
  assumes store: "redis_store (xc_redis C) view"
    and ok: "rt_expired (xc_runtime C) (xc_get_timeout_seconds C) w = None"
    and g: "redis_get (xc_redis C) (tenant_key (xc_codec C) r t) w = (Inr x, w')"
  shows "exact_get C r t w =
    (Inr (case view w (tenant_key (xc_codec C) r t) of None \<Rightarrow> None
        | Some raw \<Rightarrow> map_option (\<lambda>s. s\<lparr>rs_cache_status := EXACT_HIT\<rparr>) (load_response (xc_codec C) raw)), w')"
  using redis_get_value [OF store g] ok g
  by (auto simp: exact_get_def wait_for_def Let_def split: option.splits)

lemma exact_set_view:
  assumes store: "redis_store (xc_redis C) view"
    and ok: "rt_expired (xc_runtime C) (xc_set_timeout_seconds C) w = None"
    and s: "exact_set C r resp t w = (x, w')"
  shows "view w' = (view w)(tenant_key (xc_codec C) r t \<mapsto> dump_response (xc_codec C) resp) \<or> view w' = view w"
proof -
  obtain y w2 where rs: "redis_set (xc_redis C) (tenant_key (xc_codec C) r t)
      (dump_response (xc_codec C) resp) (xc_ttl_seconds C) w = (y, w2)" by fastforce
  with ok s have w': "w' = w2"
    by (auto simp: exact_set_def wait_for_def Let_def split: sum.splits if_splits)
  show ?thesis
    using rs redis_set_view [OF store] redis_set_failed [OF store] unfolding w' by (cases y) blast+
qed

text \<open>Tenants do not see each other's cached responses: a write of the exact layer for one tenant,
  whether it succeeds or not, leaves every key of every other tenant as it was, for any two requests.\<close>

theorem exact_cache_isolates_tenants:
  assumes "redis_store (xc_redis C) view"
    and "rt_expired (xc_runtime C) (xc_set_timeout_seconds C) w = None"
    and "exact_set C r resp t w = (x, w')"
    and "t \<noteq> t'"
  shows "view w' (tenant_key L r' t') = view w (tenant_key L r' t')"
  using exact_set_view [OF assms(1-3)] assms(4) by (auto simp: tenant_key_inject)

definition map_exact_cache :: "codec \<Rightarrow> (string \<Rightarrow> string option) exact_cache" where
  "map_exact_cache L = \<lparr>xc_redis = map_redis, xc_runtime = idle_runtime, xc_codec = L,
     xc_ttl_seconds = 3600, xc_get_timeout_seconds = 0, xc_set_timeout_seconds = 0\<rparr>"

lemma map_exact_cache_sel [simp]:
  "xc_redis (map_exact_cache L) = map_redis" "xc_codec (map_exact_cache L) = L"
  "rt_expired (xc_runtime (map_exact_cache L)) d w = None"
  by (simp_all add: map_exact_cache_def idle_runtime_def)

lemma map_exact_cache_set:
  "exact_set (map_exact_cache L) r s t w = (Inr (), w(tenant_key L r t \<mapsto> dump_response L s))"
  by (simp add: exact_set_def wait_for_def Let_def) (simp add: map_redis_def)

theorem exact_cache_isolates_tenants_witness:
  "\<forall>r s L. snd (exact_set (map_exact_cache L) r s ''acme'' Map.empty) (tenant_key L r ''globex'') = None"
proof (intro allI)
  fix r s L
  have "(\<lambda>w. w) (snd (exact_set (map_exact_cache L) r s ''acme'' Map.empty)) (tenant_key L r ''globex'') =
      (\<lambda>w. w) Map.empty (tenant_key L r ''globex'')"
    by (rule exact_cache_isolates_tenants [where C = "map_exact_cache L" and t = "''acme''"])
      (auto simp: map_redis_store map_exact_cache_set)
  then show "snd (exact_set (map_exact_cache L) r s ''acme'' Map.empty) (tenant_key L r ''globex'') = None"
    by simp
qed

text \<open>What the exact layer stores it returns: once the write has reached Redis, a lookup by the
  same tenant of any request with the same key answers with the stored response, stamped
  EXACT_HIT, provided the entry is still live and the codec reads back what it wrote.\<close>

theorem exact_cache_roundtrip:
  assumes store: "redis_store (xc_redis C) view"
    and set: "redis_set (xc_redis C) (tenant_key (xc_codec C) r t) (dump_response (xc_codec C) s) (xc_ttl_seconds C) w = (Inr u, w1)"
    and same: "exact_cache_key (xc_codec C) r' = exact_cache_key (xc_codec C) r"
    and codec: "codec_roundtrip (xc_codec C) s"
    and live: "rt_expired (xc_runtime C) (xc_set_timeout_seconds C) w = None" "rt_expired (xc_runtime C) (xc_get_timeout_seconds C) w1 = None"
    and get: "redis_get (xc_redis C) (tenant_key (xc_codec C) r' t) w1 = (Inr x, w2)"
  shows "exact_set C r s t w = (Inr (), w1)
    \<and> exact_get C r' t w1 = (Inr (Some (s\<lparr>rs_cache_status := EXACT_HIT\<rparr>)), w2)"
proof
  show "exact_set C r s t w = (Inr (), w1)"
    using set live(1) by (simp add: exact_set_def wait_for_def Let_def)
  show "exact_get C r' t w1 = (Inr (Some (s\<lparr>rs_cache_status := EXACT_HIT\<rparr>)), w2)"
    using exact_get_spec [OF store live(2) get] redis_set_view [OF store set] codec same
    by (simp add: tenant_key_def codec_roundtrip_def)
qed

definition sample_codec :: "chat_response \<Rightarrow> codec" where
  "sample_codec s = \<lparr>dump_response = (\<lambda>r. ''{}''), load_response = (\<lambda>d. Some s), repr_float = (\<lambda>x. ''1.0'')\<rparr>"

theorem exact_cache_roundtrip_witness:
  "\<forall>r s. \<exists>w. exact_get (map_exact_cache (sample_codec s)) r ''acme'' w =
     (Inr (Some (s\<lparr>rs_cache_status := EXACT_HIT\<rparr>)), w)"
proof (intro allI)
  fix r s
  let ?C = "map_exact_cache (sample_codec s)"
  let ?w = "Map.empty(tenant_key (sample_codec s) r ''acme'' \<mapsto> dump_response (sample_codec s) s)"
  have "exact_set ?C r s ''acme'' Map.empty = (Inr (), ?w)
    \<and> exact_get ?C r ''acme'' ?w = (Inr (Some (s\<lparr>rs_cache_status := EXACT_HIT\<rparr>)), ?w)"
    by (rule exact_cache_roundtrip [where view = "\<lambda>w. w" and u = "()"
          and x = "Some (dump_response (sample_codec s) s)"])
      (simp_all add: map_redis_store codec_roundtrip_def, simp_all add: map_redis_def sample_codec_def)
  then show "\<exists>w. exact_get ?C r ''acme'' w = (Inr (Some (s\<lparr>rs_cache_status := EXACT_HIT\<rparr>)), w)"
    by blast
qed

text \<open>
  Documented behaviour of a filtered vector search: every returned point satisfies every condition
  of the filter.
\<close>

definition honours_filter :: "'w qdrant \<Rightarrow> bool" where
  "honours_filter Q \<longleftrightarrow> (\<forall>col v flt n thr w pts w' p k x.
     q_query_points Q col v flt n thr w = (Inr pts, w') \<longrightarrow> p \<in> set pts \<longrightarrow> (k, x) \<in> set flt \<longrightarrow>
     (\<exists>m. pt_payload p = Some m \<and> m k = Some (PStr x)))"

lemma semantic_get_hit:
  assumes "semantic_get C r t s0 = (Inr (Some resp), s')"
  obtains col v n thr w pts w' m data cached where
    "q_query_points (qc_qdrant C) col v (build_filter C r t) n thr w = (Inr pts, w')"
    "\<exists>p\<in>set pts. pt_payload p = Some m"
    "m ''response'' = Some (PResponse data)"
    "load_response (qc_codec C) data = Some cached"
    "resp = cached\<lparr>rs_cache_status := SEMANTIC_HIT\<rparr>"
    "honours_filter (qc_qdrant C) \<Longrightarrow> \<forall>(k, x)\<in>set (build_filter C r t). m k = Some (PStr x)"
proof -
  from assms have "semantic_get_impl C r t s0 = (Inr (Some resp), s')"
    by (auto simp: semantic_get_def wait_for_obj_def split: prod.splits sum.splits option.splits)
  then obtain b w2 vector best rest w3 cached where
    q: "q_query_points (qc_qdrant C) (qc_collection C) vector (build_filter C r t) 1
          (qc_similarity_threshold C) w2 = (Inr (best # rest), w3)"
    and p: "response_of_payload (qc_codec C) (pt_payload best) = Some cached"
    and resp: "resp = cached\<lparr>rs_cache_status := SEMANTIC_HIT\<rparr>"
    by (auto simp: semantic_get_impl_def split: prod.splits sum.splits list.splits option.splits)
  from p obtain m data where m: "pt_payload best = Some m" "m ''response'' = Some (PResponse data)"
      "load_response (qc_codec C) data = Some cached"
    by (auto simp: response_of_payload_def split: option.splits payload_value.splits)
  show ?thesis
  proof (rule that [OF q])
    show "\<exists>p\<in>set (best # rest). pt_payload p = Some m" using m(1) by auto
    show "m ''response'' = Some (PResponse data)" by fact
    show "load_response (qc_codec C) data = Some cached" by fact
    show "resp = cached\<lparr>rs_cache_status := SEMANTIC_HIT\<rparr>" by fact
    assume h: "honours_filter (qc_qdrant C)"
    show "\<forall>(k, x)\<in>set (build_filter C r t). m k = Some (PStr x)"
    proof (safe)
      fix k x assume "(k, x) \<in> set (build_filter C r t)"
      with h q m(1) show "m k = Some (PStr x)"
        unfolding honours_filter_def by fastforce
    qed
  qed
qed


text \<open>A store of one point that is returned when it matches the filter.\<close>

definition matches_filter :: "qfilter \<Rightarrow> point \<Rightarrow> bool" where
  "matches_filter flt p = (case pt_payload p of None \<Rightarrow> False
     | Some m \<Rightarrow> list_all (\<lambda>(k, x). m k = Some (PStr x)) flt)"

definition points_qdrant :: "point list qdrant" where
  "points_qdrant = \<lparr>q_collection_exists = (\<lambda>c w. (Inr True, w)), q_create_collection = (\<lambda>c d w. (Inr (), w)),
     q_create_payload_index = (\<lambda>c f w. (Inr (), w)),
     q_query_points = (\<lambda>c v flt n thr w. (Inr (take n (filter (matches_filter flt) w)), w)),
     q_upsert = (\<lambda>c i v m w. (Inr (), \<lparr>pt_id = i, pt_score = 1, pt_payload = Some m\<rparr> # w)),
     q_set_payload = (\<lambda>c m i w. (Inr (), w))\<rparr>"

definition points_cache :: "codec \<Rightarrow> point list semantic_cache" where
  "points_cache L = \<lparr>qc_qdrant = points_qdrant,
     qc_embeddings = \<lparr>em_model_id = ''e'', em_dimension = 1, em_embed = (\<lambda>x w. (Inr [1], w))\<rparr>,
     qc_runtime = idle_runtime, qc_codec = L, qc_isoformat = (\<lambda>d. ''now''),
     qc_similarity_threshold = 19/20, qc_search_timeout_seconds = 0, qc_write_timeout_seconds = 0\<rparr>"

lemma points_qdrant_honours: "honours_filter points_qdrant"
  unfolding honours_filter_def
proof (intro allI impI)
  fix col :: string and v flt n thr w pts w' p k x
  assume "q_query_points points_qdrant col v flt n thr w = (Inr pts, w')" "p \<in> set pts" "(k, x) \<in> set flt"
  then have "matches_filter flt p" by (auto simp: points_qdrant_def dest: in_set_takeD)
  with \<open>(k, x) \<in> set flt\<close> show "\<exists>m. pt_payload p = Some m \<and> m k = Some (PStr x)"
    by (auto simp: matches_filter_def list_all_iff split: option.splits)
qed

lemma points_cache_sel [simp]:
  "qc_qdrant (points_cache L) = points_qdrant" "qc_codec (points_cache L) = L"
  "em_embed (qc_embeddings (points_cache L)) x w = (Inr [1], w)"
  "rt_expired (qc_runtime (points_cache L)) d w = None"
  "rt_spawn (qc_runtime (points_cache L)) k w = w"
  "qc_isoformat (points_cache L) dt = ''now''"
  by (simp_all add: points_cache_def idle_runtime_def)

lemma points_query [simp]:
  "q_query_points points_qdrant c v flt n thr w = (Inr (take n (filter (matches_filter flt) w)), w)"
  by (simp add: points_qdrant_def)

lemma codec_sample [simp]: "load_response (sample_codec s) d = Some s"
  by (simp add: sample_codec_def)

lemma points_cache_get:
  "semantic_get (points_cache (sample_codec s)) r t
     (True, [\<lparr>pt_id = i, pt_score = 1, pt_payload = Some (point_payload (points_cache (sample_codec s)) r s t x d)\<rparr>]) =
   (Inr (Some (s\<lparr>rs_cache_status := SEMANTIC_HIT\<rparr>)),
     (True, [\<lparr>pt_id = i, pt_score = 1, pt_payload = Some (point_payload (points_cache (sample_codec s)) r s t x d)\<rparr>]))"
  by (simp add: semantic_get_def semantic_get_impl_def wait_for_obj_def ensure_collection_def
      build_filter_def matches_filter_def point_payload_def response_of_payload_def)


end
