(* ===== verification/CacheService.thy ===== *)
theory CacheService
  imports Caching
begin

text \<open>
  \<open>services/cache_service.py\<close>: the two-layer lookup, the write-back of fresh responses, and the
  coalescing lock with the bounded wait for another caller's result.

  A \<open>cache_service\<close> holds the two layers through their ports (\<open>get\<close> and \<open>set\<close>), as the class
  does, over one state type \<open>'s\<close>.  \<open>layered_cache\<close> builds it from the Redis and the Qdrant layer of
  theory Caching; its state pairs the Qdrant layer's own variable with the environment.
\<close>

type_synonym 's cache_get = "chat_request \<Rightarrow> string \<Rightarrow> 's \<Rightarrow> (exn + chat_response option) \<times> 's"
type_synonym 's cache_set = "chat_request \<Rightarrow> chat_response \<Rightarrow> string \<Rightarrow> 's \<Rightarrow> (exn + unit) \<times> 's"

record 's cache_service =
  cs_exact_get :: "'s cache_get"
  cs_exact_set :: "'s cache_set"
  cs_semantic_get :: "'s cache_get"
  cs_semantic_set :: "'s cache_set"
  cs_redis :: "'s redis"
  cs_runtime :: "'s runtime"
  cs_codec :: codec
  cs_lock_ttl_seconds :: real
  cs_wait_seconds :: real
  cs_poll_interval_seconds :: real

section \<open>Lookup and write-back\<close>

definition lookup ::
  "'s cache_service \<Rightarrow> chat_request \<Rightarrow> string \<Rightarrow> 's \<Rightarrow>
     (exn + chat_response option \<times> cache_status) \<times> 's" where
  "lookup S request tenant_id s =
     (if rq_cache_bypass request then (Inr (None, BYPASSED), s)
      else case cs_exact_get S request tenant_id s of
        (Inl e, s1) \<Rightarrow> (Inl e, s1)
      | (Inr (Some exact_hit), s1) \<Rightarrow> (Inr (Some exact_hit, EXACT_HIT), s1)
      | (Inr None, s1) \<Rightarrow>
          (case cs_semantic_get S request tenant_id s1 of
             (Inl e, s2) \<Rightarrow> (Inl e, s2)
           | (Inr (Some semantic_hit), s2) \<Rightarrow>
               (Inr (Some semantic_hit, SEMANTIC_HIT),
                rt_spawn (cs_runtime S) (ExactCacheSet request semantic_hit tenant_id) s2)
           | (Inr None, s2) \<Rightarrow> (Inr (None, MISS), s2)))"

text \<open>
  \<open>asyncio.gather\<close> of the two writes with \<open>return_exceptions=True\<close>: both run, and what they raise
  is discarded.  The model runs them in the order they are started.
\<close>

definition backfill ::
  "'s cache_service \<Rightarrow> chat_request \<Rightarrow> chat_response \<Rightarrow> string \<Rightarrow> 's \<Rightarrow> (exn + unit) \<times> 's" where
  "backfill S request response tenant_id s =
     (let (_, s1) = cs_exact_set S request response tenant_id s;
          (_, s2) = cs_semantic_set S request response tenant_id s1
      in (Inr (), s2))"

section \<open>Request coalescing\<close>

definition lock_key :: "codec \<Rightarrow> chat_request \<Rightarrow> string \<Rightarrow> string" where
  "lock_key L request tenant_id = ''lock:'' @ exact_cache_key L request @ '':tenant:'' @ tenant_id"

definition acquire_coalescing_lock ::
  "'s cache_service \<Rightarrow> chat_request \<Rightarrow> string \<Rightarrow> 's \<Rightarrow> (exn + bool) \<times> 's" where
  "acquire_coalescing_lock S request tenant_id s =
     (case redis_set_nx (cs_redis S) (lock_key (cs_codec S) request tenant_id) ''1''
             (py_int (cs_lock_ttl_seconds S)) s of
        (Inl e, s1) \<Rightarrow> if is_redis_error e then (Inr True, s1) else (Inl e, s1)
      | (Inr acquired, s1) \<Rightarrow> (Inr acquired, s1))"

definition release_coalescing_lock ::
  "'s cache_service \<Rightarrow> chat_request \<Rightarrow> string \<Rightarrow> 's \<Rightarrow> (exn + unit) \<times> 's" where
  "release_coalescing_lock S request tenant_id s =
     (case redis_delete (cs_redis S) (lock_key (cs_codec S) request tenant_id) s of
        (Inl e, s1) \<Rightarrow> if is_redis_error e then (Inr (), s1) else (Inl e, s1)
      | (Inr _, s1) \<Rightarrow> (Inr (), s1))"

text \<open>The polling loop; \<open>None\<close> would mean that it never ends.\<close>

partial_function (option) poll_exact_cache ::
  "'s cache_service \<Rightarrow> real \<Rightarrow> chat_request \<Rightarrow> string \<Rightarrow> 's \<Rightarrow>
     ((exn + chat_response option) \<times> 's) option" where
  "poll_exact_cache S deadline request tenant_id s =
     (let (now, s1) = rt_monotonic (cs_runtime S) s
      in if \<not> now < deadline then Some (Inr None, s1)
         else case cs_exact_get S request tenant_id
                     (rt_sleep (cs_runtime S) (cs_poll_interval_seconds S) s1) of
                (Inl e, s2) \<Rightarrow> Some (Inl e, s2)
              | (Inr (Some hit), s2) \<Rightarrow> Some (Inr (Some hit), s2)
              | (Inr None, s2) \<Rightarrow> poll_exact_cache S deadline request tenant_id s2)"

definition wait_for_coalesced_result ::
  "(real \<Rightarrow> real) \<Rightarrow> 's cache_service \<Rightarrow> chat_request \<Rightarrow> string \<Rightarrow> 's \<Rightarrow>
     ((exn + chat_response option) \<times> 's) option" where
  "wait_for_coalesced_result rnd S request tenant_id s =
     (let (now, s1) = rt_monotonic (cs_runtime S) s
      in poll_exact_cache S (rnd (now + cs_wait_seconds S)) request tenant_id s1)"

section \<open>The service over the two layers of the gateway\<close>

definition layered_cache ::
  "'w exact_cache \<Rightarrow> 'w semantic_cache \<Rightarrow> real \<Rightarrow> real \<Rightarrow> real \<Rightarrow> (bool \<times> 'w) cache_service" where
  "layered_cache X Q lock_ttl wait_s poll = \<lparr>
     cs_exact_get = (\<lambda>r t. on_env (exact_get X r t)),
     cs_exact_set = (\<lambda>r s t. on_env (exact_set X r s t)),
     cs_semantic_get = semantic_get Q, cs_semantic_set = semantic_set Q,
     cs_redis = redis_on_env (xc_redis X), cs_runtime = runtime_on_env (xc_runtime X),
     cs_codec = xc_codec X,
     cs_lock_ttl_seconds = lock_ttl, cs_wait_seconds = wait_s, cs_poll_interval_seconds = poll\<rparr>"

section \<open>What the service promises, from the contracts of its layers\<close>

locale layered =
  L1: cache_store "cs_exact_get S" "cs_exact_set S" escapes EXACT_HIT +
  L2: cache_store "cs_semantic_get S" "cs_semantic_set S" "\<lambda>_. False" SEMANTIC_HIT
  for S :: "'s cache_service" and escapes :: "exn \<Rightarrow> bool"
begin

lemma lookup_outcome:
  "(\<exists>e s'. lookup S r t s = (Inl e, s') \<and> escapes e \<and> \<not> rq_cache_bypass r)
   \<or> (\<exists>st s'. lookup S r t s = (Inr (None, st), s') \<and> st = (if rq_cache_bypass r then BYPASSED else MISS))
   \<or> (\<exists>h s'. lookup S r t s = (Inr (Some h, rs_cache_status h), s') \<and> \<not> rq_cache_bypass r
        \<and> rs_cache_status h \<in> {EXACT_HIT, SEMANTIC_HIT})"
proof (cases "rq_cache_bypass r")
  case True
  then show ?thesis by (simp add: lookup_def)
next
  case False
  from L1.get_outcome [of r t s] show ?thesis
  proof cases
    case raised
    with False show ?thesis by (simp add: lookup_def)
  next
    case (found h s')
    with False show ?thesis by (simp add: lookup_def)
  next
    case (miss s1)
    from L2.get_outcome [of r t s1] show ?thesis
      by cases (use miss False in \<open>simp_all add: lookup_def\<close>)
  qed
qed

end

interpretation gateway_layers: layered "layered_cache X Q ttl wait_s poll" "\<lambda>e. \<not> caught_by_exact e"
  for X :: "'w exact_cache" and Q ttl wait_s poll
  by unfold_locales
    (auto simp: layered_cache_def on_env_pair dest: exact.get_raises exact.set_raises exact.get_status
      semantic.get_raises semantic.set_raises semantic.get_status)

text \<open>A lookup over the gateway's two layers answers in one of three ways.  A hit carries the
  status of the layer it came from, both in the result and stamped on the response; without a hit the
  status is BYPASSED exactly when the request asks to skip the cache and MISS otherwise; and it raises
  only what the Redis layer does not catch, which excludes time-outs and every Redis error.\<close>

theorem lookup_answers:
  "case lookup (layered_cache X Q ttl wait_s poll) r t s of
     (Inl e, s') \<Rightarrow> e \<noteq> TimeoutError \<and> \<not> is_redis_error e \<and> \<not> rq_cache_bypass r
   | (Inr (None, st), s') \<Rightarrow> st = (if rq_cache_bypass r then BYPASSED else MISS)
   | (Inr (Some h, st), s') \<Rightarrow> \<not> rq_cache_bypass r \<and> st = rs_cache_status h \<and> st \<in> {EXACT_HIT, SEMANTIC_HIT}"
  using gateway_layers.lookup_outcome [of X Q ttl wait_s poll r t s]
  by (elim disjE exE conjE) (simp_all add: caught_by_exact_def)

section \<open>The coalescing lock\<close>

lemma lock_key_not_tenant_key: "lock_key L r t \<noteq> tenant_key L' r' t'"
  by (simp add: lock_key_def tenant_key_def exact_cache_key_def)

lemma lock_key_inject:
  "lock_key L r t = lock_key L' r' t' \<longleftrightarrow> exact_cache_key L r = exact_cache_key L' r' \<and> t = t'"
  by (simp add: lock_key_def append_eq_same_length exact_cache_key_length)

lemma acquire_outcome:
  assumes store: "redis_store (cs_redis S) view"
    and a: "acquire_coalescing_lock S r t s = (Inr b, s1)"
  obtains (failed_open) e where "redis_set_nx (cs_redis S) (lock_key (cs_codec S) r t) ''1''
             (py_int (cs_lock_ttl_seconds S)) s = (Inl e, s1)" "is_redis_error e" "b" "view s1 = view s"
  | (won) "b" "view s (lock_key (cs_codec S) r t) = None"
      "view s1 = (view s)(lock_key (cs_codec S) r t \<mapsto> ''1'')"
  | (lost) "\<not> b" "view s (lock_key (cs_codec S) r t) \<noteq> None" "view s1 = view s"
proof -
  obtain x s2 where nx: "redis_set_nx (cs_redis S) (lock_key (cs_codec S) r t) ''1''
             (py_int (cs_lock_ttl_seconds S)) s = (x, s2)" by fastforce
  have fail: "view s2 = view s" if "x = Inl e" for e
    using store [unfolded redis_store_def, THEN conjunct2, THEN conjunct2, THEN conjunct1, rule_format,
      of "lock_key (cs_codec S) r t" "''1''" "py_int (cs_lock_ttl_seconds S)" s] nx that by simp
  show ?thesis
  proof (cases x)
    case (Inl e)
    with nx a fail show ?thesis
      by (intro failed_open [of e]) (auto simp: acquire_coalescing_lock_def split: if_splits)
  next
    case (Inr acquired)
    show ?thesis
    proof (cases acquired)
      case True
      with Inr nx a redis_nx_won [OF store, of _ "''1''" "py_int (cs_lock_ttl_seconds S)"] show ?thesis
        by (intro won) (auto simp: acquire_coalescing_lock_def)
    next
      case False
      with Inr nx a redis_nx_lost [OF store, of _ "''1''" "py_int (cs_lock_ttl_seconds S)"] show ?thesis
        by (intro lost) (auto simp: acquire_coalescing_lock_def)
    qed
  qed
qed

text \<open>The coalescing lock excludes: between a first caller that won the lock in Redis and its
  release, every other caller with the same cache key and tenant whose attempt Redis answers is told
  that it lost, and nothing in the store changes; the only other way to be told "acquired" is a Redis
  error, on which the lock fails open.  The lock never touches a cached response.\<close>

theorem coalescing_lock_excludes:
  assumes store: "redis_store (cs_redis S) view"
    and first: "acquire_coalescing_lock S r t s = (Inr True, s1)" "view s1 \<noteq> view s"
    and same: "exact_cache_key (cs_codec S) r' = exact_cache_key (cs_codec S) r"
    and second: "acquire_coalescing_lock S r' t s1 = (Inr b, s2)"
  shows "view s2 = view s1
    \<and> (b \<longleftrightarrow> (\<exists>e. is_redis_error e \<and> redis_set_nx (cs_redis S) (lock_key (cs_codec S) r' t) ''1''
                 (py_int (cs_lock_ttl_seconds S)) s1 = (Inl e, s2)))
    \<and> view s1 (tenant_key L q u) = view s (tenant_key L q u)"
proof -
  from acquire_outcome [OF store first(1)] have v1: "view s1 = (view s)(lock_key (cs_codec S) r t \<mapsto> ''1'')"
    by cases (use first(2) in auto)
  have k: "lock_key (cs_codec S) r' t = lock_key (cs_codec S) r t"
    using same by (simp add: lock_key_def)
  have held: "view s1 (lock_key (cs_codec S) r' t) \<noteq> None" by (simp add: v1 k)
  from acquire_outcome [OF store second] have v2: "view s2 = view s1"
    and b: "b \<longleftrightarrow> (\<exists>e. is_redis_error e \<and> redis_set_nx (cs_redis S) (lock_key (cs_codec S) r' t) ''1''
                 (py_int (cs_lock_ttl_seconds S)) s1 = (Inl e, s2))"
    by (cases; use held second in \<open>auto simp: acquire_coalescing_lock_def\<close>)+
  show ?thesis using v2 b v1 lock_key_not_tenant_key [of "cs_codec S" r t L q u] by auto
qed

text \<open>A service over a Redis that never fails, with layers that never hit.\<close>

definition map_service :: "codec \<Rightarrow> (string \<Rightarrow> string option) cache_service" where
  "map_service L = \<lparr>cs_exact_get = exact_get (map_exact_cache L), cs_exact_set = exact_set (map_exact_cache L),
     cs_semantic_get = (\<lambda>r t w. (Inr None, w)), cs_semantic_set = (\<lambda>r s t w. (Inr (), w)),
     cs_redis = map_redis, cs_runtime = idle_runtime, cs_codec = L,
     cs_lock_ttl_seconds = 10, cs_wait_seconds = 2, cs_poll_interval_seconds = 1/20\<rparr>"

lemma map_service_sel [simp]: "cs_redis (map_service L) = map_redis" "cs_codec (map_service L) = L"
  by (simp_all add: map_service_def)

lemma map_acquire: "acquire_coalescing_lock (map_service L) r t w =
    (Inr (w (lock_key L r t) = None), if w (lock_key L r t) = None then w(lock_key L r t \<mapsto> ''1'') else w)"
  by (simp add: acquire_coalescing_lock_def map_redis_def)

lemma map_release: "release_coalescing_lock (map_service L) r t w = (Inr (), w(lock_key L r t := None))"
  by (simp add: release_coalescing_lock_def map_redis_def)

theorem coalescing_lock_excludes_witness:
  "\<forall>L r. fst (acquire_coalescing_lock (map_service L) r ''acme''
       (snd (acquire_coalescing_lock (map_service L) r ''acme'' Map.empty))) = Inr False"
proof (intro allI)
  fix L r
  let ?k = "lock_key L r ''acme''"
  have "(\<lambda>w. w) ([?k \<mapsto> ''1'']) = (\<lambda>w. w) ([?k \<mapsto> ''1''])
    \<and> (False \<longleftrightarrow> (\<exists>e. is_redis_error e \<and> redis_set_nx (cs_redis (map_service L)) (lock_key (cs_codec (map_service L)) r ''acme'') ''1''
                 (py_int (cs_lock_ttl_seconds (map_service L))) [?k \<mapsto> ''1''] = (Inl e, [?k \<mapsto> ''1''])))
    \<and> (\<lambda>w. w) ([?k \<mapsto> ''1'']) (tenant_key L r ''acme'') = (\<lambda>w. w) Map.empty (tenant_key L r ''acme'')"
    by (rule coalescing_lock_excludes [where r = r]) (auto simp: map_redis_store map_acquire fun_eq_iff split: if_splits)
  then show "fst (acquire_coalescing_lock (map_service L) r ''acme''
       (snd (acquire_coalescing_lock (map_service L) r ''acme'' Map.empty))) = Inr False"
    by (simp add: map_acquire)
qed

text \<open>Releasing does not check who holds the lock: whoever set the key, for instance a second
  caller after the first caller's lock expired, one successful release by anyone frees it, and the next
  attempt that Redis answers wins although the second caller is still in flight.\<close>

theorem release_frees_any_holder:
  assumes store: "redis_store (cs_redis S) view"
    and held: "view s (lock_key (cs_codec S) r t) = Some v"
    and rel: "redis_delete (cs_redis S) (lock_key (cs_codec S) r t) s = (Inr u, s1)"
    and nx: "redis_set_nx (cs_redis S) (lock_key (cs_codec S) r t) ''1'' (py_int (cs_lock_ttl_seconds S)) s1 = (Inr b, s2)"
  shows "release_coalescing_lock S r t s = (Inr (), s1)
    \<and> view s1 = (view s)(lock_key (cs_codec S) r t := None)
    \<and> acquire_coalescing_lock S r t s1 = (Inr True, s2)"
proof -
  have v1: "view s1 = (view s)(lock_key (cs_codec S) r t := None)"
    by (rule redis_delete_view [OF store rel])
  have "b" using redis_nx_lost [OF store] nx v1 by (cases b) fastforce+
  with rel nx v1 show ?thesis
    by (simp add: release_coalescing_lock_def acquire_coalescing_lock_def)
qed

theorem release_frees_any_holder_witness:
  "\<forall>L r. fst (acquire_coalescing_lock (map_service L) r ''acme''
       (snd (release_coalescing_lock (map_service L) r ''acme'' [lock_key L r ''acme'' \<mapsto> ''other'']))) = Inr True"
proof (intro allI)
  fix L r
  let ?k = "lock_key L r ''acme''"
  have "release_coalescing_lock (map_service L) r ''acme'' [?k \<mapsto> ''other''] = (Inr (), Map.empty)
    \<and> (\<lambda>w. w) Map.empty = ((\<lambda>w. w) [?k \<mapsto> ''other''])(lock_key (cs_codec (map_service L)) r ''acme'' := None)
    \<and> acquire_coalescing_lock (map_service L) r ''acme'' Map.empty = (Inr True, [?k \<mapsto> ''1''])"
    by (rule release_frees_any_holder [where v = "''other''" and u = "()" and b = True])
      (simp_all add: map_redis_store, simp_all add: map_redis_def fun_eq_iff)
  then show "fst (acquire_coalescing_lock (map_service L) r ''acme''
       (snd (release_coalescing_lock (map_service L) r ''acme'' [?k \<mapsto> ''other'']))) = Inr True"
    by simp
qed

section \<open>The bounded wait\<close>

text \<open>Each poll costs at least the poll interval, so the loop makes finitely many.\<close>

lemma poll_terminates:
  assumes clk: "clock_laws (cs_runtime S) clk"
    and poll: "0 < cs_poll_interval_seconds S"
    and get: "\<And>w x w'. cs_exact_get S r t w = (x, w') \<Longrightarrow> clk w \<le> clk w'"
  shows "deadline - clk s \<le> real n * cs_poll_interval_seconds S \<Longrightarrow>
    \<exists>res s'. poll_exact_cache S deadline r t s = Some (res, s')"
proof (induction n arbitrary: s)
  case (0 s)
  obtain s1 where m: "rt_monotonic (cs_runtime S) s = (clk s, s1)"
    using clk by (metis clock_laws_def prod.collapse)
  with 0 show ?case by (subst poll_exact_cache.simps) (auto simp: not_less)
next
  case (Suc n s)
  obtain s1 where m: "rt_monotonic (cs_runtime S) s = (clk s, s1)"
    using clk by (metis clock_laws_def prod.collapse)
  then have s1: "clk s \<le> clk s1" using clk by (metis clock_laws_def snd_conv)
  let ?s2 = "rt_sleep (cs_runtime S) (cs_poll_interval_seconds S) s1"
  have s2: "clk s1 + cs_poll_interval_seconds S \<le> clk ?s2"
    using clk poll by (metis clock_laws_def max.absorb2 less_imp_le)
  obtain x s3 where g: "cs_exact_get S r t ?s2 = (x, s3)" by fastforce
  have "clk ?s2 \<le> clk s3" by (rule get [OF g])
  with s1 s2 Suc.prems have "deadline - clk s3 \<le> real n * cs_poll_interval_seconds S"
    by (simp add: algebra_simps)
  from Suc.IH [OF this] m g show ?case
    by (subst poll_exact_cache.simps) (auto split: sum.splits option.splits)
qed

text \<open>Waiting for another caller's result always ends: with a clock that does not run backwards
  and a positive poll interval the polling loop returns, whatever the cache layer answers, so a caller
  that lost the lock is never blocked forever on another request.\<close>

lemma wait_for_coalesced_result_terminates:
  assumes "clock_laws (cs_runtime S) clk"
    and "0 < cs_poll_interval_seconds S"
    and "\<forall>w x w'. cs_exact_get S r t w = (x, w') \<longrightarrow> clk w \<le> clk w'"
  shows "\<exists>res s'. wait_for_coalesced_result binary64 S r t s = Some (res, s')"
proof -
  obtain now s1 where m: "rt_monotonic (cs_runtime S) s = (now, s1)" by fastforce
  let ?d = "binary64 (now + cs_wait_seconds S)"
  obtain n where "?d - clk s1 \<le> real n * cs_poll_interval_seconds S"
    using reals_Archimedean3 [OF assms(2)] by (meson less_imp_le)
  with poll_terminates [OF assms(1,2)] assms(3) m show ?thesis
    by (simp add: wait_for_coalesced_result_def)
qed

end
