(* ===== verification/Jobs.thy ===== *)
theory Jobs
  imports Tracing Adapters CacheService Settings
begin

text \<open>
  Work that leaves the request: the payloads of the worker queue (\<open>workers/payloads.py\<close>), the service
  that enqueues them (\<open>services/background_job_service.py\<close>), the worker's tasks (\<open>workers/tasks\<close>,
  \<open>workers/worker_app.py\<close>) and the trace exporters (\<open>observability\<close>).

  pydantic's \<open>model_dump(mode="json")\<close> and \<open>model_validate\<close>, and the ISO text of a \<open>datetime\<close>, are the
  parameter \<open>wire\<close>; \<open>None\<close> is the \<open>ValueError\<close> of text or data that does not parse.
\<close>

record wire =
  wi_dump_request :: "chat_request \<Rightarrow> json"
  wi_load_request :: "json \<Rightarrow> chat_request option"
  wi_dump_response :: "chat_response \<Rightarrow> json"
  wi_load_response :: "json \<Rightarrow> chat_response option"
  wi_isoformat :: "datetime \<Rightarrow> string"
  wi_fromisoformat :: "string \<Rightarrow> datetime option"

section \<open>Payloads (\<open>workers/payloads.py\<close>)\<close>

record span_payload =
  pl_trace_id :: string
  pl_span_id :: string
  pl_span_name :: string
  pl_parent_span_id :: "string option"
  pl_started_at :: string
  pl_ended_at :: "string option"
  pl_metadata :: "(string \<times> meta) list"

definition spans_to_payload :: "wire \<Rightarrow> trace_span list \<Rightarrow> span_payload list" where
  "spans_to_payload W spans = map (\<lambda>s. \<lparr>pl_trace_id = sp_trace_id s, pl_span_id = sp_span_id s,
     pl_span_name = sp_span_name s, pl_parent_span_id = sp_parent_span_id s,
     pl_started_at = wi_isoformat W (sp_started_at s), pl_ended_at = map_option (wi_isoformat W) (sp_ended_at s),
     pl_metadata = sp_metadata s\<rparr>) spans"

definition parse_iso :: "wire \<Rightarrow> string \<Rightarrow> exn + datetime" where
  "parse_iso W text = (case wi_fromisoformat W text of
     None \<Rightarrow> Inl (ValueError ''Invalid isoformat string'') | Some d \<Rightarrow> Inr d)"

definition span_from_payload :: "wire \<Rightarrow> span_payload \<Rightarrow> exn + trace_span" where
  "span_from_payload W item =
     bind (parse_iso W (pl_started_at item)) (\<lambda>started.
       let span = \<lparr>sp_trace_id = pl_trace_id item, sp_span_id = pl_span_id item, sp_span_name = pl_span_name item,
                   sp_started_at = started, sp_parent_span_id = pl_parent_span_id item, sp_ended_at = None,
                   sp_metadata = pl_metadata item\<rparr>
       in if truthy (pl_ended_at item)
          then bind (parse_iso W (the (pl_ended_at item))) (\<lambda>e. Inr (span\<lparr>sp_ended_at := Some e\<rparr>))
          else Inr span)"

fun spans_from_payload :: "wire \<Rightarrow> span_payload list \<Rightarrow> exn + trace_span list" where
  "spans_from_payload W [] = Inr []"
| "spans_from_payload W (item # items) =
     bind (span_from_payload W item) (\<lambda>s. bind (spans_from_payload W items) (\<lambda>ss. Inr (s # ss)))"

record trace_job =
  tj_trace_id :: string
  tj_tenant_id :: string
  tj_api_key_id :: "string option"
  tj_http_status :: int
  tj_request :: json
  tj_response :: json
  tj_spans :: "span_payload list"

definition build_trace_job_payload :: "wire \<Rightarrow> trace_args \<Rightarrow> trace_job" where
  "build_trace_job_payload W a = \<lparr>tj_trace_id = ta_trace_id a, tj_tenant_id = ta_tenant_id a,
     tj_api_key_id = ta_api_key_id a, tj_http_status = ta_http_status a,
     tj_request = wi_dump_request W (ta_request a), tj_response = wi_dump_response W (ta_response a),
     tj_spans = spans_to_payload W (ta_spans a)\<rparr>"

definition validated :: "'a option \<Rightarrow> exn + 'a" where
  "validated x = (case x of None \<Rightarrow> Inl (ValueError ''ValidationError'') | Some v \<Rightarrow> Inr v)"

definition parse_trace_job_payload :: "wire \<Rightarrow> trace_job \<Rightarrow> exn + trace_args" where
  "parse_trace_job_payload W j =
     bind (validated (wi_load_request W (tj_request j))) (\<lambda>request.
     bind (validated (wi_load_response W (tj_response j))) (\<lambda>response.
     bind (spans_from_payload W (tj_spans j)) (\<lambda>spans.
       Inr \<lparr>ta_trace_id = tj_trace_id j, ta_tenant_id = tj_tenant_id j, ta_api_key_id = tj_api_key_id j,
            ta_http_status = tj_http_status j, ta_request = request, ta_response = response, ta_spans = spans\<rparr>)))"

section \<open>Enqueueing (\<open>services/background_job_service.py\<close>)\<close>

datatype job =
    JobPersistTrace trace_job
  | JobExportOtelSpans trace_job
  | JobBackfillCache json json string

type_synonym 's queue = "job \<Rightarrow> 's \<Rightarrow> (exn + unit) \<times> 's"

record 's job_service =
  bj_settings :: settings
  bj_pool :: "'s queue option"

definition use_arq :: "'s job_service \<Rightarrow> bool" where
  "use_arq J = st_use_arq_workers (bj_settings J)"

definition jobs_connect ::
  "(string \<Rightarrow> 's \<Rightarrow> (exn + 's queue) \<times> 's) \<Rightarrow> 's job_service \<Rightarrow> 's \<Rightarrow> (exn + 's job_service) \<times> 's" where
  "jobs_connect create_pool J s =
     (if \<not> use_arq J then (Inr J, s)
      else case create_pool (resolved_arq_redis_url (bj_settings J)) s of
             (Inl e, s1) \<Rightarrow> (Inl e, s1)
           | (Inr pool, s1) \<Rightarrow> (Inr (J\<lparr>bj_pool := Some pool\<rparr>), s1))"

definition try_enqueue :: "'s job_service \<Rightarrow> job \<Rightarrow> 's \<Rightarrow> bool \<times> 's" where
  "try_enqueue J job s =
     (if \<not> use_arq J then (False, s)
      else case bj_pool J of
             None \<Rightarrow> (False, s)
           | Some enqueue \<Rightarrow> (case enqueue job s of (Inr _, s1) \<Rightarrow> (True, s1) | (Inl e, s1) \<Rightarrow> (False, s1)))"

definition persist_task :: "trace_args \<Rightarrow> task" where
  "persist_task a = PersistTrace (ta_request a) (ta_response a) (ta_tenant_id a) (ta_http_status a)
     (ta_api_key_id a) (ta_trace_id a) (ta_spans a)"

definition export_task :: "trace_args \<Rightarrow> task" where
  "export_task a = ExportTrace (ta_trace_id a) (ta_spans a)"

definition run_trace_flush :: "'s job_service \<Rightarrow> 's runtime \<Rightarrow> trace_args \<Rightarrow> trace_job \<Rightarrow> 's \<Rightarrow> 's" where
  "run_trace_flush J rt a payload s =
     (let (accepted, s1) = try_enqueue J (JobPersistTrace payload) s
      in if accepted then snd (try_enqueue J (JobExportOtelSpans payload) s1)
         else rt_spawn rt (export_task a) (rt_spawn rt (persist_task a) s1))"

definition run_backfill ::
  "wire \<Rightarrow> 's job_service \<Rightarrow> 's runtime \<Rightarrow> chat_request \<Rightarrow> chat_response \<Rightarrow> string \<Rightarrow> 's \<Rightarrow> 's" where
  "run_backfill W J rt request response tenant_id s =
     (let (accepted, s1) = try_enqueue J
            (JobBackfillCache (wi_dump_request W request) (wi_dump_response W response) tenant_id) s
      in if accepted then s1 else rt_spawn rt (CacheBackfill request response tenant_id) s1)"

section \<open>The worker (\<open>workers/tasks\<close>)\<close>

record 's worker =
  wk_database :: "'s database"
  wk_cache_service :: "'s cache_service"
  wk_trace_exporters :: "'s exporter list"
  wk_wire :: wire

definition persist_trace ::
  "(real \<Rightarrow> real) \<Rightarrow> (real \<Rightarrow> real) \<Rightarrow> 's worker \<Rightarrow> trace_job \<Rightarrow> 's \<Rightarrow> (exn + unit) \<times> 's" where
  "persist_trace rnd to_numeric K payload s =
     (case parse_trace_job_payload (wk_wire K) payload of
        Inl e \<Rightarrow> (Inl e, s)
      | Inr a \<Rightarrow> persist rnd to_numeric (wk_database K) a s)"

definition export_otel_spans :: "'s worker \<Rightarrow> trace_job \<Rightarrow> 's \<Rightarrow> (exn + unit) \<times> 's" where
  "export_otel_spans K payload s =
     (case spans_from_payload (wk_wire K) (tj_spans payload) of
        Inl e \<Rightarrow> (Inl e, s)
      | Inr spans \<Rightarrow> (Inr (), export_all (wk_trace_exporters K) spans s))"

definition backfill_cache :: "'s worker \<Rightarrow> json \<Rightarrow> json \<Rightarrow> string \<Rightarrow> 's \<Rightarrow> (exn + unit) \<times> 's" where
  "backfill_cache K request_payload response_payload tenant_id s =
     (case bind (validated (wi_load_request (wk_wire K) request_payload)) (\<lambda>request.
           bind (validated (wi_load_response (wk_wire K) response_payload)) (\<lambda>response. Inr (request, response))) of
        Inl e \<Rightarrow> (Inl e, s)
      | Inr (request, response) \<Rightarrow> backfill (wk_cache_service K) request response tenant_id s)"

definition gc_expired_cache_entries :: "'s worker \<Rightarrow> 's \<Rightarrow> (exn + unit) \<times> 's" where
  "gc_expired_cache_entries K s = (Inr (), s)"

definition run_job :: "(real \<Rightarrow> real) \<Rightarrow> (real \<Rightarrow> real) \<Rightarrow> 's worker \<Rightarrow> job \<Rightarrow> 's \<Rightarrow> (exn + unit) \<times> 's" where
  "run_job rnd to_numeric K job = (case job of
     JobPersistTrace payload \<Rightarrow> persist_trace rnd to_numeric K payload
   | JobExportOtelSpans payload \<Rightarrow> export_otel_spans K payload
   | JobBackfillCache request response tenant_id \<Rightarrow> backfill_cache K request response tenant_id)"

section \<open>Exporters\<close>

subsection \<open>Langfuse (\<open>langfuse_exporter.py\<close>)\<close>

fun meta_json :: "meta \<Rightarrow> json" where
  "meta_json (MStr s) = JStr s"
| "meta_json (MFloat x) = JFloat x"

definition option_json :: "string option \<Rightarrow> json" where
  "option_json s = (case s of None \<Rightarrow> JNull | Some t \<Rightarrow> JStr t)"

text \<open>\<open>lf_post\<close> posts the batch to the ingestion path of the host and gives the status.\<close>

record 's langfuse =
  lf_host :: string
  lf_runtime :: "'s runtime"
  lf_wire :: wire
  lf_post :: "string \<Rightarrow> json \<Rightarrow> 's \<Rightarrow> (http_error + int) \<times> 's"

definition langfuse_event :: "string \<Rightarrow> string \<Rightarrow> string \<Rightarrow> (string \<times> json) list \<Rightarrow> json" where
  "langfuse_event uid now_iso kind body =
     JObj [(''id'', JStr uid), (''timestamp'', JStr now_iso), (''type'', JStr kind), (''body'', JObj body)]"

fun langfuse_span_events :: "'s langfuse \<Rightarrow> string \<Rightarrow> trace_span list \<Rightarrow> 's \<Rightarrow> json list \<times> 's" where
  "langfuse_span_events F now_iso [] s = ([], s)"
| "langfuse_span_events F now_iso (sp # sps) s =
     (let (uid, s1) = rt_uuid4 (lf_runtime F) s; (rest, s2) = langfuse_span_events F now_iso sps s1
      in (langfuse_event uid now_iso ''span-create''
            [(''id'', JStr (sp_span_id sp)), (''traceId'', JStr (sp_trace_id sp)),
             (''parentObservationId'', option_json (sp_parent_span_id sp)), (''name'', JStr (sp_span_name sp)),
             (''startTime'', JStr (wi_isoformat (lf_wire F) (sp_started_at sp))),
             (''endTime'', option_json (map_option (wi_isoformat (lf_wire F)) (sp_ended_at sp))),
             (''metadata'', JObj (map (map_prod id meta_json) (sp_metadata sp)))] # rest, s2))"

definition langfuse_build_events :: "'s langfuse \<Rightarrow> trace_span list \<Rightarrow> 's \<Rightarrow> json list \<times> 's" where
  "langfuse_build_events F spans s =
     (let (now, s1) = rt_utcnow (lf_runtime F) s;
          now_iso = wi_isoformat (lf_wire F) now;
          (uid, s2) = rt_uuid4 (lf_runtime F) s1;
          (rest, s3) = langfuse_span_events F now_iso spans s2
      in (langfuse_event uid now_iso ''trace-create''
            [(''id'', JStr (sp_trace_id (hd spans))), (''name'', JStr ''chat_completion''), (''timestamp'', JStr now_iso)]
          # rest, s3))"

definition langfuse_export :: "'s langfuse \<Rightarrow> 's exporter" where
  "langfuse_export F spans s =
     (if spans = [] then (Inr (), s)
      else let (events, s1) = langfuse_build_events F spans s
      in case lf_post F (lf_host F) (JObj [(''batch'', JArr events)]) s1 of
           (Inl (HttpOther e), s2) \<Rightarrow> (Inl e, s2)
         | (_, s2) \<Rightarrow> (Inr (), s2))"

subsection \<open>OpenTelemetry (\<open>otel_trace_exporter.py\<close>)\<close>

text \<open>A finished span, as the tracer gets it; \<open>'c\<close> is the context that it gives back.\<close>

record 'c otel_span =
  ot_name :: string
  ot_context :: "'c option"
  ot_start_ns :: int
  ot_attributes :: "(string \<times> meta) list"
  ot_end_ns :: int

type_synonym ('c, 's) tracer = "'c otel_span \<Rightarrow> 's \<Rightarrow> 'c \<times> 's"

text \<open>\<open>int(moment.timestamp() * 1_000_000_000)\<close>, two float operations.\<close>

definition to_epoch_nanos :: "(real \<Rightarrow> real) \<Rightarrow> datetime \<Rightarrow> int" where
  "to_epoch_nanos rnd moment = py_int (rnd (rnd (of_int moment / 1000000) * 1000000000))"

definition otel_span_of :: "(real \<Rightarrow> real) \<Rightarrow> 'c option \<Rightarrow> trace_span \<Rightarrow> 'c otel_span" where
  "otel_span_of rnd parent_context sp =
     (let start_ns = to_epoch_nanos rnd (sp_started_at sp)
      in \<lparr>ot_name = sp_span_name sp, ot_context = parent_context, ot_start_ns = start_ns,
          ot_attributes = fold (\<lambda>(k, v). dict_set k v) (sp_metadata sp) [(''llmops.trace_id'', MStr (sp_trace_id sp))],
          ot_end_ns = (case sp_ended_at sp of None \<Rightarrow> start_ns | Some e \<Rightarrow> to_epoch_nanos rnd e)\<rparr>)"

fun otel_export_from ::
  "(real \<Rightarrow> real) \<Rightarrow> ('c, 's) tracer \<Rightarrow> (string \<Rightarrow> 'c option) \<Rightarrow> trace_span list \<Rightarrow> 's \<Rightarrow> 's" where
  "otel_export_from rnd start contexts [] s = s"
| "otel_export_from rnd start contexts (sp # sps) s =
     (let parent_context = (if truthy (sp_parent_span_id sp) then contexts (the (sp_parent_span_id sp)) else None);
          (ctx, s1) = start (otel_span_of rnd parent_context sp) s
      in otel_export_from rnd start (contexts(sp_span_id sp \<mapsto> ctx)) sps s1)"

definition otel_export :: "(real \<Rightarrow> real) \<Rightarrow> ('c, 's) tracer \<Rightarrow> 's exporter" where
  "otel_export rnd start spans s = (Inr (), otel_export_from rnd start Map.empty spans s)"

subsection \<open>Which exporters run (\<open>exporter_factory.py\<close>)\<close>

definition build_trace_exporters ::
  "(real \<Rightarrow> real) \<Rightarrow> ('c, 's) tracer \<Rightarrow> 's langfuse \<Rightarrow> settings \<Rightarrow> 's exporter list" where
  "build_trace_exporters rnd start F S =
     (if st_tracing_enabled S then [otel_export rnd start] else [])
     @ (if st_langfuse_enabled S \<and> truthy (st_langfuse_public_key S) \<and> truthy (st_langfuse_secret_key S)
        then [langfuse_export F] else [])"

section \<open>A job does what the request would have done\<close>

text \<open>Documented behaviour of the codecs, for the data of one trace: what is dumped validates back, and the ISO
  text of a time is not empty and parses back.\<close>

definition wire_ok :: "wire \<Rightarrow> trace_args \<Rightarrow> bool" where
  "wire_ok W a \<longleftrightarrow>
     wi_load_request W (wi_dump_request W (ta_request a)) = Some (ta_request a)
   \<and> wi_load_response W (wi_dump_response W (ta_response a)) = Some (ta_response a)
   \<and> (\<forall>s\<in>set (ta_spans a). \<forall>d\<in>insert (sp_started_at s) (set_option (sp_ended_at s)).
        wi_isoformat W d \<noteq> [] \<and> wi_fromisoformat W (wi_isoformat W d) = Some d)"

lemma spans_roundtrip:
  "\<forall>s\<in>set spans. \<forall>d\<in>insert (sp_started_at s) (set_option (sp_ended_at s)).
      wi_isoformat W d \<noteq> [] \<and> wi_fromisoformat W (wi_isoformat W d) = Some d \<Longrightarrow>
   spans_from_payload W (spans_to_payload W spans) = Inr spans"
proof (induction spans)
  case Nil
  then show ?case by (simp add: spans_to_payload_def)
next
  case (Cons sp sps)
  then have ih: "spans_from_payload W (spans_to_payload W sps) = Inr sps" by simp
  show ?case
    using Cons.prems ih
    by (cases "sp_ended_at sp") (simp_all add: spans_to_payload_def span_from_payload_def parse_iso_def Let_def)
qed

text \<open>The payload of a trace job is a faithful copy.\<close>

lemma parse_build:
  "wire_ok W a \<Longrightarrow> parse_trace_job_payload W (build_trace_job_payload W a) = Inr a"
  using spans_roundtrip [of "ta_spans a" W]
  by (simp add: parse_trace_job_payload_def build_trace_job_payload_def wire_ok_def validated_def)

text \<open>Where background work runs makes no difference to what it does: running the two trace jobs of the
  queue one after the other in a worker has exactly the effect of flushing the trace in the gateway's own
  process, and the backfill job does exactly the in-process backfill.\<close>

theorem worker_equals_in_process:
  assumes "wire_ok (wk_wire K) a"
  shows "snd (run_job rnd tn K (JobExportOtelSpans (build_trace_job_payload (wk_wire K) a))
            (snd (run_job rnd tn K (JobPersistTrace (build_trace_job_payload (wk_wire K) a)) s)))
        = flush rnd tn (Some (wk_database K)) (wk_trace_exporters K) a s
    \<and> run_job rnd tn K (JobBackfillCache (wi_dump_request (wk_wire K) (ta_request a))
          (wi_dump_response (wk_wire K) (ta_response a)) tenant) s
        = backfill (wk_cache_service K) (ta_request a) (ta_response a) tenant s"
proof
  have spans: "spans_from_payload (wk_wire K) (tj_spans (build_trace_job_payload (wk_wire K) a)) = Inr (ta_spans a)"
    using assms by (simp add: build_trace_job_payload_def wire_ok_def spans_roundtrip)
  show "snd (run_job rnd tn K (JobExportOtelSpans (build_trace_job_payload (wk_wire K) a))
            (snd (run_job rnd tn K (JobPersistTrace (build_trace_job_payload (wk_wire K) a)) s)))
        = flush rnd tn (Some (wk_database K)) (wk_trace_exporters K) a s"
    by (simp add: run_job_def persist_trace_def export_otel_spans_def spans assms
        flush_def tracing_persist_def parse_build split: prod.split)
  show "run_job rnd tn K (JobBackfillCache (wi_dump_request (wk_wire K) (ta_request a))
          (wi_dump_response (wk_wire K) (ta_response a)) tenant) s
        = backfill (wk_cache_service K) (ta_request a) (ta_response a) tenant s"
    using assms by (simp add: run_job_def backfill_cache_def wire_ok_def validated_def)
qed

text \<open>A codec for one trace.\<close>

definition ping_wire :: wire where
  "ping_wire = \<lparr>wi_dump_request = (\<lambda>r. JNull), wi_load_request = (\<lambda>j. Some ping_request),
     wi_dump_response = (\<lambda>r. JNull), wi_load_response = (\<lambda>j. Some (pong_response 3)),
     wi_isoformat = (\<lambda>d. if d = 0 then ''0'' else ''1''),
     wi_fromisoformat = (\<lambda>s. if s = ''0'' then Some 0 else if s = ''1'' then Some 1 else None)\<rparr>"

lemma ping_wire_ok: "wire_ok ping_wire (ping_trace 3)"
  by (simp add: wire_ok_def ping_wire_def ping_trace_def)

definition mem_cache_service :: "mem cache_service" where
  "mem_cache_service = \<lparr>cs_exact_get = (\<lambda>r t w. (Inr None, w)), cs_exact_set = (\<lambda>r p t w. (Inr (), w)),
     cs_semantic_get = (\<lambda>r t w. (Inr None, w)), cs_semantic_set = (\<lambda>r p t w. (Inr (), w)),
     cs_redis = mem_redis, cs_runtime = mem_runtime, cs_codec = sample_codec (pong_response 3),
     cs_lock_ttl_seconds = 10, cs_wait_seconds = 2, cs_poll_interval_seconds = 1\<rparr>"

definition ping_worker :: "mem worker" where
  "ping_worker = \<lparr>wk_database = mem_database, wk_cache_service = mem_cache_service, wk_trace_exporters = [],
     wk_wire = ping_wire\<rparr>"

theorem worker_equals_in_process_witness:
  "snd (run_job exact exact ping_worker (JobExportOtelSpans (build_trace_job_payload ping_wire (ping_trace 3)))
      (snd (run_job exact exact ping_worker (JobPersistTrace (build_trace_job_payload ping_wire (ping_trace 3))) seeded_mem)))
    = flush exact exact (Some mem_database) [] (ping_trace 3) seeded_mem"
proof -
  have ok: "wire_ok (wk_wire ping_worker) (ping_trace 3)" using ping_wire_ok by (simp add: ping_worker_def)
  from worker_equals_in_process [OF ok, of exact exact seeded_mem] show ?thesis by (simp add: ping_worker_def)
qed

end
