(* ===== verification/Routing.thy ===== *)
theory Routing
  imports Adapters Settings
begin

text \<open>
  The provider registry (\<open>providers/registry.py\<close>) and the routing service
  (\<open>services/routing_service.py\<close>): which providers are tried for a request, with which models, and
  how failures move from one to the next.
\<close>

section \<open>The registry\<close>

record 's registry =
  rg_providers :: "(string \<times> 's llm_provider) list"
  rg_settings :: settings

definition registry_get :: "'s registry \<Rightarrow> string \<Rightarrow> exn + 's llm_provider" where
  "registry_get R name = (case map_of (rg_providers R) name of
     None \<Rightarrow> Inl (ValueError (''No provider registered for '' @ repr_str name)) | Some p \<Rightarrow> Inr p)"

definition registry_try_get :: "'s registry \<Rightarrow> string \<Rightarrow> 's llm_provider option" where
  "registry_try_get R name = map_of (rg_providers R) name"

definition find_supporting :: "'s registry \<Rightarrow> string \<Rightarrow> 's llm_provider option" where
  "find_supporting R model = find (\<lambda>p. pv_supports_model p model) (map snd (rg_providers R))"

definition resolve_equivalent_model :: "'s registry \<Rightarrow> string \<Rightarrow> string \<Rightarrow> exn + string option" where
  "resolve_equivalent_model R model target_provider =
     (case find_supporting R model of
        None \<Rightarrow> Inr None
      | Some source \<Rightarrow>
          (case map_of (st_provider_model_fallback_map (rg_settings R))
                  (mi_str \<lparr>mi_provider = pv_name source, mi_model = model\<rparr>) of
             None \<Rightarrow> Inr None
           | Some mapped \<Rightarrow>
               (case mi_parse mapped of
                  Inl e \<Rightarrow> Inl e
                | Inr ident \<Rightarrow>
                    if mi_provider ident \<noteq> target_provider then Inr None else Inr (Some (mi_model ident)))))"

definition fallback_chain :: "'s registry \<Rightarrow> string option \<Rightarrow> exn + 's llm_provider list" where
  "fallback_chain R override =
     (if truthy override then map_sum id (\<lambda>p. [p]) (registry_get R (the override))
      else Inr (List.map_filter (map_of (rg_providers R)) (st_provider_fallback_chain (rg_settings R))))"

section \<open>Resolving the attempts\<close>

type_synonym 's attempt = "'s llm_provider \<times> string"

fun add_names :: "string list \<Rightarrow> string list \<Rightarrow> string list" where
  "add_names ordered [] = ordered"
| "add_names ordered (name # names) =
     add_names (if name \<in> set ordered then ordered else ordered @ [name]) names"

fun collect_attempts :: "'s registry \<Rightarrow> string \<Rightarrow> string list \<Rightarrow> exn + 's attempt list" where
  "collect_attempts R model [] = Inr []"
| "collect_attempts R model (name # names) =
     (case registry_try_get R name of
        None \<Rightarrow> collect_attempts R model names
      | Some provider \<Rightarrow>
          if pv_supports_model provider model
          then map_sum id ((#) (provider, model)) (collect_attempts R model names)
          else (case resolve_equivalent_model R model name of
                  Inl e \<Rightarrow> Inl e
                | Inr None \<Rightarrow> collect_attempts R model names
                | Inr (Some equivalent) \<Rightarrow>
                    map_sum id ((#) (provider, equivalent)) (collect_attempts R model names)))"

definition ordered_names :: "'s registry \<Rightarrow> string \<Rightarrow> string list" where
  "ordered_names R model =
     add_names (case find_supporting R model of None \<Rightarrow> [] | Some primary \<Rightarrow> [pv_name primary])
       (st_provider_fallback_chain (rg_settings R))"

definition resolve_attempts :: "'s registry \<Rightarrow> chat_request \<Rightarrow> exn + 's attempt list" where
  "resolve_attempts R request =
     (if truthy (rq_provider_override request)
      then map_sum id (\<lambda>p. [(p, rq_model request)]) (registry_get R (the (rq_provider_override request)))
      else collect_attempts R (rq_model request) (ordered_names R (rq_model request)))"

definition attempt_request :: "chat_request \<Rightarrow> string \<Rightarrow> chat_request" where
  "attempt_request request model =
     (if model = rq_model request then request else request\<lparr>rq_model := model\<rparr>)"

section \<open>Trying them\<close>

fun complete_attempts ::
  "chat_request \<Rightarrow> 's attempt list \<Rightarrow> (string \<times> provider_error) list \<Rightarrow> 's \<Rightarrow>
     (exn + chat_response) \<times> 's" where
  "complete_attempts request [] errors s = (Inl (AllProvidersExhaustedError errors), s)"
| "complete_attempts request ((provider, model) # rest) errors s =
     (case pv_complete provider (attempt_request request model) s of
        (Inr response, s1) \<Rightarrow> (Inr response, s1)
      | (Inl (Provider exc), s1) \<Rightarrow>
          complete_attempts request rest (errors @ [(pv_name provider, exc)]) s1
      | (Inl e, s1) \<Rightarrow> (Inl e, s1))"

definition route_complete :: "'s registry \<Rightarrow> chat_request \<Rightarrow> 's \<Rightarrow> (exn + chat_response) \<times> 's" where
  "route_complete R request s =
     (case resolve_attempts R request of
        Inl e \<Rightarrow> (Inl e, s)
      | Inr attempts \<Rightarrow> complete_attempts request attempts [] s)"

text \<open>
  A routed stream: the chunks the caller received, the calls of \<open>on_provider_selected\<close> (each made
  right before the first chunk of a provider is passed on), how it ended, and the state.
\<close>

type_synonym 's selection = "'s llm_provider \<times> chat_request"
type_synonym 's routed = "string list \<times> 's selection list \<times> (exn + unit) \<times> 's"

fun stream_attempts ::
  "chat_request \<Rightarrow> 's attempt list \<Rightarrow> (string \<times> provider_error) list \<Rightarrow> 's \<Rightarrow> 's routed" where
  "stream_attempts request [] errors s = ([], [], Inl (AllProvidersExhaustedError errors), s)"
| "stream_attempts request ((provider, model) # rest) errors s =
     (let req = attempt_request request model;
          (chunks, result, s1) = pv_stream provider req s;
          selected = (if chunks = [] then [] else [(provider, req)])
      in case result of
           Inr _ \<Rightarrow> (chunks, selected, Inr (), s1)
         | Inl (Provider exc) \<Rightarrow>
             if chunks \<noteq> [] then (chunks, selected, Inl (Provider exc), s1)
             else stream_attempts request rest (errors @ [(pv_name provider, exc)]) s1
         | Inl e \<Rightarrow> (chunks, selected, Inl e, s1))"

definition route_stream :: "'s registry \<Rightarrow> chat_request \<Rightarrow> 's \<Rightarrow> 's routed" where
  "route_stream R request s =
     (case resolve_attempts R request of
        Inl e \<Rightarrow> ([], [], Inl e, s)
      | Inr attempts \<Rightarrow> stream_attempts request attempts [] s)"

section \<open>Which attempts are made\<close>

lemma set_add_names: "set (add_names us ns) = set us \<union> set ns"
  by (induction ns arbitrary: us) auto

lemma distinct_add_names: "distinct us \<Longrightarrow> distinct (add_names us ns)"
  by (induction ns arbitrary: us) auto

lemma add_names_prefix: "\<exists>vs. add_names us ns = us @ vs"
  by (induction us ns rule: add_names.induct) (auto split: if_splits)

lemma ordered_names_distinct: "distinct (ordered_names R m)"
  by (auto simp: ordered_names_def intro!: distinct_add_names split: option.split)

text \<open>An attempt is justified when the provider serves the model itself or by the configured map.\<close>

definition justified :: "'s registry \<Rightarrow> string \<Rightarrow> 's attempt \<Rightarrow> bool" where
  "justified R model = (\<lambda>(p, m).
     (\<exists>name. map_of (rg_providers R) name = Some p \<and>
       (if pv_supports_model p model then m = model
        else \<exists>src. find_supporting R model = Some src
           \<and> map_of (st_provider_model_fallback_map (rg_settings R)) (mi_str \<lparr>mi_provider = pv_name src, mi_model = model\<rparr>)
               = Some (mi_str \<lparr>mi_provider = name, mi_model = m\<rparr>))))"

lemma resolve_equivalent_Some:
  assumes "resolve_equivalent_model R model name = Inr (Some m)"
  shows "\<exists>src. find_supporting R model = Some src
     \<and> map_of (st_provider_model_fallback_map (rg_settings R)) (mi_str \<lparr>mi_provider = pv_name src, mi_model = model\<rparr>)
         = Some (mi_str \<lparr>mi_provider = name, mi_model = m\<rparr>)"
proof -
  from assms obtain src mapped ident where
    "find_supporting R model = Some src"
    "map_of (st_provider_model_fallback_map (rg_settings R)) (mi_str \<lparr>mi_provider = pv_name src, mi_model = model\<rparr>) = Some mapped"
    "mi_parse mapped = Inr ident" "mi_provider ident = name" "mi_model ident = m"
    by (auto simp: resolve_equivalent_model_def split: option.splits sum.splits if_splits)
  moreover from this(3-5) have "mapped = mi_str \<lparr>mi_provider = name, mi_model = m\<rparr>"
    using mi_str_parse [of mapped ident] by (cases ident) auto
  ultimately show ?thesis by auto
qed

lemma collect_attempts_sound:
  "collect_attempts R model names = Inr as \<Longrightarrow>
     (\<forall>a\<in>set as. justified R model a)
   \<and> (\<exists>sub. subseq sub names \<and> map fst as = map (\<lambda>n. the (map_of (rg_providers R) n)) sub
        \<and> (\<forall>n\<in>set sub. map_of (rg_providers R) n \<noteq> None))"
proof (induction names arbitrary: as)
  case Nil
  then show ?case by (auto intro!: exI [of _ "[]"])
next
  case (Cons n ns)
  have skip: ?case if "collect_attempts R model ns = Inr as"
    using Cons.IH [OF that] by (meson list_emb_Cons)
  show ?case
  proof (cases "registry_try_get R n")
    case None
    with Cons.prems skip show ?thesis by simp
  next
    case (Some p)
    note reg = Some [unfolded registry_try_get_def]
    have add: ?thesis if "as = (p, m) # as'" "collect_attempts R model ns = Inr as'" "justified R model (p, m)" for m as'
    proof -
      from Cons.IH [OF that(2)] obtain sub where "subseq sub ns"
        "map fst as' = map (\<lambda>n. the (map_of (rg_providers R) n)) sub" "\<forall>n\<in>set sub. map_of (rg_providers R) n \<noteq> None"
        "\<forall>a\<in>set as'. justified R model a" by blast
      with that reg show ?thesis by (intro conjI exI [of _ "n # sub"]) simp_all
    qed
    show ?thesis
    proof (cases "pv_supports_model p model")
      case True
      with Cons.prems Some obtain as' where as': "collect_attempts R model ns = Inr as'" "as = (p, model) # as'"
        by (auto split: sum.splits simp: map_sum_def)
      from True reg have "justified R model (p, model)" by (auto simp: justified_def)
      from add [OF as'(2,1) this] show ?thesis .
    next
      case False
      show ?thesis
      proof (cases "resolve_equivalent_model R model n")
        case (Inl e)
        with Cons.prems Some False show ?thesis by simp
      next
        case (Inr eq)
        show ?thesis
        proof (cases eq)
          case None
          with Cons.prems Some False Inr have "collect_attempts R model ns = Inr as" by simp
          then show ?thesis by (rule skip)
        next
          fix m assume m: "eq = Some m"
          with Cons.prems Some False Inr obtain as' where as': "collect_attempts R model ns = Inr as'" "as = (p, m) # as'"
            by (auto split: sum.splits simp: map_sum_def)
          have "justified R model (p, m)"
            using False reg resolve_equivalent_Some [of R model n m] Inr m by (auto simp: justified_def)
          from add [OF as'(2,1) this] show ?thesis .
        qed
      qed
    qed
  qed
qed

section \<open>A pool of providers\<close>

text \<open>
  What the constructor of the registry establishes: one entry per name, each under its own name, each a
  provider that keeps the contract of its port.
\<close>

locale provider_pool =
  fixes R :: "'s registry"
  assumes keys: "distinct (map fst (rg_providers R))"
    and named: "(n, p) \<in> set (rg_providers R) \<Longrightarrow> pv_name p = n"
    and port: "(n, p) \<in> set (rg_providers R) \<Longrightarrow> llm_port p"
begin

lemma lookup_name: "map_of (rg_providers R) n = Some p \<Longrightarrow> pv_name p = n"
  by (auto dest: map_of_SomeD named)

lemma lookup_self: "p \<in> snd ` set (rg_providers R) \<Longrightarrow> map_of (rg_providers R) (pv_name p) = Some p"
  using keys map_of_is_SomeI [of "rg_providers R"] by (auto dest: named) (metis named)

lemma supporting_registered:
  assumes "find_supporting R model = Some p"
  shows "map_of (rg_providers R) (pv_name p) = Some p" "pv_supports_model p model"
  using find_Some_in [OF assms [unfolded find_supporting_def]] lookup_self by auto

lemma attempts_names_distinct:
  assumes "resolve_attempts R r = Inr as"
  shows "distinct (map (pv_name \<circ> fst) as)"
proof (cases "truthy (rq_provider_override r)")
  case True
  with assms show ?thesis by (auto simp: resolve_attempts_def map_sum_def split: sum.splits)
next
  case False
  with assms have "collect_attempts R (rq_model r) (ordered_names R (rq_model r)) = Inr as"
    by (simp add: resolve_attempts_def)
  from collect_attempts_sound [OF this] obtain sub where
    sub: "subseq sub (ordered_names R (rq_model r))"
    "map fst as = map (\<lambda>n. the (map_of (rg_providers R) n)) sub" "\<forall>n\<in>set sub. map_of (rg_providers R) n \<noteq> None"
    by blast
  have "map (pv_name \<circ> fst) as = map pv_name (map fst as)" by simp
  also have "\<dots> = map (\<lambda>n. pv_name (the (map_of (rg_providers R) n))) sub" by (simp add: sub(2))
  also have "\<dots> = sub" by (rule map_idI) (use sub(3) lookup_name in fastforce)
  finally show ?thesis
    using subseq_distinct [OF sub(1) ordered_names_distinct] by simp
qed

lemma native_provider_first:
  assumes "resolve_attempts R r = Inr as" "\<not> truthy (rq_provider_override r)"
    and "find_supporting R (rq_model r) = Some p"
  shows "\<exists>rest. as = (p, rq_model r) # rest"
proof -
  from add_names_prefix [of "[pv_name p]" "st_provider_fallback_chain (rg_settings R)"]
  obtain ns where "ordered_names R (rq_model r) = pv_name p # ns"
    using assms(3) by (auto simp: ordered_names_def)
  with assms supporting_registered [OF assms(3)] show ?thesis
    by (auto simp: resolve_attempts_def registry_try_get_def map_sum_def split: sum.splits)
qed

lemma attempts_registered:
  assumes "resolve_attempts R r = Inr as" "(p, m) \<in> set as"
  shows "p \<in> snd ` set (rg_providers R)"
proof (cases "truthy (rq_provider_override r)")
  case True
  with assms show ?thesis
    by (force simp: resolve_attempts_def registry_get_def map_sum_def split: sum.splits option.splits dest: map_of_SomeD)
next
  case False
  with assms have "collect_attempts R (rq_model r) (ordered_names R (rq_model r)) = Inr as"
    by (simp add: resolve_attempts_def)
  with collect_attempts_sound assms(2) have "justified R (rq_model r) (p, m)" by blast
  then show ?thesis by (force simp: justified_def dest: map_of_SomeD)
qed

end

section \<open>The registry of the gateway\<close>

definition lift_provider :: "'w llm_provider \<Rightarrow> ('o \<times> 'w) llm_provider" where
  "lift_provider p = \<lparr>pv_name = pv_name p, pv_supports_model = pv_supports_model p,
     pv_complete = (\<lambda>r. on_env (pv_complete p r)), pv_stream = (\<lambda>r. stream_on_env (pv_stream p r)),
     pv_count_tokens = (\<lambda>r t. on_env (pv_count_tokens p r t))\<rparr>"

lemma lift_provider_port: "llm_port p \<Longrightarrow> llm_port (lift_provider p)"
  by unfold_locales (auto simp: lift_provider_def on_env_pair dest: llm_port.complete_response)

text \<open>The keyword arguments the registry passes to both adapters.\<close>

definition configured :: "settings \<Rightarrow> 'w adapter \<Rightarrow> 'w adapter" where
  "configured S A = A\<lparr>ad_provider := (ad_provider A)\<lparr>bp_max_retries := st_provider_max_retries S,
     bp_breaker := \<lparr>bc_failure_threshold = st_provider_circuit_failure_threshold S,
                    bc_cooldown_seconds = st_provider_circuit_cooldown_seconds S\<rparr>\<rparr>\<rparr>"

text \<open>
  The state of the registry holds the breaker of OpenAI, then that of Anthropic, then the environment.
\<close>

definition gateway_registry ::
  "(real \<Rightarrow> real) \<Rightarrow> (json \<Rightarrow> string) \<Rightarrow> settings \<Rightarrow> (breaker \<times> 'w) adapter \<Rightarrow> 'w adapter \<Rightarrow>
     (breaker \<times> breaker \<times> 'w) registry" where
  "gateway_registry rnd show_json S openai_http anthropic_http = \<lparr>
     rg_providers =
       (if truthy (st_openai_api_key S)
        then [(''openai'', openai_provider rnd (configured S openai_http))] else [])
       @ (if truthy (st_anthropic_api_key S)
          then [(''anthropic'', lift_provider (anthropic_provider rnd show_json (configured S anthropic_http)))] else []),
     rg_settings = S\<rparr>"

lemma provider_names [simp]: "pv_name (openai_provider rnd A) = ''openai''"
    "pv_name (anthropic_provider rnd sj B) = ''anthropic''"
    "pv_name (lift_provider p) = pv_name p"
  by (simp_all add: openai_provider_def anthropic_provider_def Let_def lift_provider_def)

interpretation gateway_pool: provider_pool "gateway_registry rnd sj S AO AA"
  for rnd sj S AO and AA :: "'w adapter"
proof (rule provider_pool.intro)
  let ?R = "gateway_registry rnd sj S AO AA"
  show "distinct (map fst (rg_providers ?R))" by (simp add: gateway_registry_def)
  fix n p assume "(n, p) \<in> set (rg_providers ?R)"
  then consider "n = ''openai''" "p = openai_provider rnd (configured S AO)"
    | "n = ''anthropic''" "p = lift_provider (anthropic_provider rnd sj (configured S AA))"
    by (auto simp: gateway_registry_def split: if_splits)
  then show "pv_name p = n" "llm_port p"
    by (cases; simp add: openai.llm_port_axioms lift_provider_port [OF anthropic.llm_port_axioms])+
qed

section \<open>Properties\<close>

text \<open>Which attempts a request gets on the gateway's registry, when no provider is pinned: never two
  for the same provider; the provider that serves the model natively comes first, with that model; and
  every other attempt is for a registered provider, either with the requested model because it serves it
  or with the model that the configured map names for exactly this provider; no model is ever guessed.\<close>

theorem resolved_attempts:
  assumes "resolve_attempts (gateway_registry rnd sj S AO AA) r = Inr as"
    and "\<not> truthy (rq_provider_override r)"
  shows "distinct (map (pv_name \<circ> fst) as)
    \<and> (\<forall>p. find_supporting (gateway_registry rnd sj S AO AA) (rq_model r) = Some p \<longrightarrow>
         (\<exists>rest. as = (p, rq_model r) # rest))
    \<and> (\<forall>a\<in>set as. justified (gateway_registry rnd sj S AO AA) (rq_model r) a)"
proof -
  from assms have "collect_attempts (gateway_registry rnd sj S AO AA) (rq_model r)
      (ordered_names (gateway_registry rnd sj S AO AA) (rq_model r)) = Inr as"
    by (simp add: resolve_attempts_def)
  from collect_attempts_sound [OF this] gateway_pool.attempts_names_distinct [OF assms(1)]
    gateway_pool.native_provider_first [OF assms]
  show ?thesis by blast
qed

definition both_keys :: settings where
  "both_keys = default_settings\<lparr>st_openai_api_key := Some ''sk-1'', st_anthropic_api_key := Some ''sk-2''\<rparr>"

definition hello_request :: chat_request where
  "hello_request = \<lparr>rq_model = ''gpt-4o'', rq_messages = [\<lparr>m_role = User, m_content = ''hello''\<rparr>],
     rq_temperature = 1, rq_max_tokens = None, rq_top_p = 1, rq_stream = False, rq_stop = None,
     rq_cache_bypass = False, rq_provider_override = None, rq_adapter_id = None, rq_model_alias = None,
     rq_adapter_stage = None\<rparr>"

lemma gateway_both: "rg_providers (gateway_registry rnd sj both_keys AO AA) =
    [(''openai'', openai_provider rnd (configured both_keys AO)),
     (''anthropic'', lift_provider (anthropic_provider rnd sj (configured both_keys AA)))]"
  "rg_settings (gateway_registry rnd sj both_keys AO AA) = both_keys"
  by (simp_all add: gateway_registry_def both_keys_def)

lemma provider_supports [simp]: "pv_supports_model (openai_provider rnd A) = openai_supports_model"
    "pv_supports_model (anthropic_provider rnd sj B) = anthropic_supports_model"
    "pv_supports_model (lift_provider p) = pv_supports_model p"
  by (simp_all add: openai_provider_def anthropic_provider_def Let_def lift_provider_def)

lemma hello_attempts: "resolve_attempts (gateway_registry rnd sj both_keys AO AA) hello_request =
    Inr [(openai_provider rnd (configured both_keys AO), ''gpt-4o''),
         (lift_provider (anthropic_provider rnd sj (configured both_keys AA)), ''claude-3-5-sonnet-20241022'')]"
proof -
  have chain: "st_provider_fallback_chain both_keys = [''openai'', ''anthropic'']"
    "st_provider_model_fallback_map both_keys = default_fallback_map"
    by (simp_all add: both_keys_def default_settings_def)
  have s: "openai_supports_model ''gpt-4o''" "\<not> anthropic_supports_model ''gpt-4o''" by code_simp+
  have f: "find_supporting (gateway_registry rnd sj both_keys AO AA) ''gpt-4o'' =
      Some (openai_provider rnd (configured both_keys AO))"
    by (simp add: find_supporting_def gateway_both s)
  have m: "map_of default_fallback_map (mi_str \<lparr>mi_provider = ''openai'', mi_model = ''gpt-4o''\<rparr>) =
      Some (mi_str \<lparr>mi_provider = ''anthropic'', mi_model = ''claude-3-5-sonnet-20241022''\<rparr>)"
    by (simp add: default_fallback_map_def mi_str_def)
  have e: "resolve_equivalent_model (gateway_registry rnd sj both_keys AO AA) ''gpt-4o'' ''anthropic'' =
      Inr (Some ''claude-3-5-sonnet-20241022'')"
    by (simp add: resolve_equivalent_model_def f gateway_both chain m mi_parse_str)
  show ?thesis
    by (simp add: resolve_attempts_def hello_request_def ordered_names_def f gateway_both chain
        registry_try_get_def s e)
qed

theorem resolved_attempts_witness:
  "\<forall>AO AA sj. distinct (map (pv_name \<circ> fst) [(openai_provider exact (configured both_keys AO), ''gpt-4o''),
     (lift_provider (anthropic_provider exact sj (configured both_keys AA)), ''claude-3-5-sonnet-20241022'')])"
proof (intro allI)
  fix AO AA sj
  show "distinct (map (pv_name \<circ> fst) [(openai_provider exact (configured both_keys AO), ''gpt-4o''),
     (lift_provider (anthropic_provider exact sj (configured both_keys AA)), ''claude-3-5-sonnet-20241022'')])"
    by (rule resolved_attempts [OF hello_attempts, THEN conjunct1]) (simp add: hello_request_def)
qed

section \<open>How failures move on\<close>

text \<open>
  A run of attempts each of which failed with a provider error: the errors in order, and the state the
  last one left.  \<open>call\<close> is one attempt.
\<close>

inductive failed_run ::
  "('s llm_provider \<Rightarrow> chat_request \<Rightarrow> 's \<Rightarrow> provider_error option \<times> 's) \<Rightarrow> chat_request \<Rightarrow>
     's attempt list \<Rightarrow> 's \<Rightarrow> (string \<times> provider_error) list \<Rightarrow> 's \<Rightarrow> bool"
  for call r where
  none: "failed_run call r [] s [] s"
| more: "call p (attempt_request r m) s = (Some exc, s1) \<Longrightarrow> failed_run call r as s1 errs s2 \<Longrightarrow>
    failed_run call r ((p, m) # as) s ((pv_name p, exc) # errs) s2"

inductive_cases failed_run_NilE: "failed_run call r [] s errs s'"
inductive_cases failed_run_ConsE: "failed_run call r (a # as) s errs s'"

lemma failed_run_names: "failed_run call r as s errs s' \<Longrightarrow> map fst errs = map (pv_name \<circ> fst) as"
  by (induction rule: failed_run.induct) auto

definition complete_failure ::
  "'s llm_provider \<Rightarrow> chat_request \<Rightarrow> 's \<Rightarrow> provider_error option \<times> 's" where
  "complete_failure p r s = (case pv_complete p r s of
     (Inl (Provider exc), s1) \<Rightarrow> (Some exc, s1) | (_, s1) \<Rightarrow> (None, s1))"

definition stream_failure ::
  "'s llm_provider \<Rightarrow> chat_request \<Rightarrow> 's \<Rightarrow> provider_error option \<times> 's" where
  "stream_failure p r s = (case pv_stream p r s of
     ([], Inl (Provider exc), s1) \<Rightarrow> (Some exc, s1) | (_, _, s1) \<Rightarrow> (None, s1))"

lemma complete_attempts_outcome:
  "complete_attempts r as es s = (x, s') \<Longrightarrow>
     (\<exists>errs. failed_run complete_failure r as s errs s' \<and> x = Inl (AllProvidersExhaustedError (es @ errs)))
   \<or> (\<exists>pre p m post errs s1. as = pre @ (p, m) # post \<and> failed_run complete_failure r pre s errs s1
        \<and> pv_complete p (attempt_request r m) s1 = (x, s') \<and> (\<forall>exc. x \<noteq> Inl (Provider exc)))"
proof (induction as arbitrary: es s)
  case Nil
  then show ?case by (auto intro: failed_run.none)
next
  case (Cons a as)
  obtain p m where a: "a = (p, m)" by fastforce
  obtain y s1 where c: "pv_complete p (attempt_request r m) s = (y, s1)" by fastforce
  show ?case
  proof (cases "\<exists>exc. y = Inl (Provider exc)")
    case True
    then obtain exc where y: "y = Inl (Provider exc)" by blast
    with Cons.prems a c have "complete_attempts r as (es @ [(pv_name p, exc)]) s1 = (x, s')" by simp
    note ih = Cons.IH [OF this]
    have f: "complete_failure p (attempt_request r m) s = (Some exc, s1)"
      by (simp add: complete_failure_def c y)
    note run = failed_run.more [where call = complete_failure and p = p and r = r and m = m and s = s and exc = exc, OF f]
    from ih show ?thesis
    proof
      assume "\<exists>errs. failed_run complete_failure r as s1 errs s' \<and>
        x = Inl (AllProvidersExhaustedError ((es @ [(pv_name p, exc)]) @ errs))"
      then show ?thesis unfolding a by (auto dest!: run)
    next
      assume "\<exists>pre q n post errs t. as = pre @ (q, n) # post \<and> failed_run complete_failure r pre s1 errs t
        \<and> pv_complete q (attempt_request r n) t = (x, s') \<and> (\<forall>exc. x \<noteq> Inl (Provider exc))"
      then obtain pre q n post errs t where "a # as = (a # pre) @ (q, n) # post"
        "failed_run complete_failure r (a # pre) s ((pv_name p, exc) # errs) t"
        "pv_complete q (attempt_request r n) t = (x, s')" "\<forall>exc. x \<noteq> Inl (Provider exc)"
        unfolding a using run by fastforce
      then show ?thesis by blast
    qed
  next
    case False
    with Cons.prems a c have "x = y" "s' = s1" by (auto split: sum.splits exn.splits)
    with False c a show ?thesis
      by (intro disjI2 exI [of _ "[]"] exI [of _ p] exI [of _ m] exI [of _ as] exI [of _ s])
        (auto intro: failed_run.none)
  qed
qed

lemma stream_attempts_outcome:
  "stream_attempts r as es s = (cs, sel, x, s') \<Longrightarrow>
     (\<exists>errs. failed_run stream_failure r as s errs s' \<and> cs = [] \<and> sel = [] \<and> x = Inl (AllProvidersExhaustedError (es @ errs)))
   \<or> (\<exists>pre p m post errs s1. as = pre @ (p, m) # post \<and> failed_run stream_failure r pre s errs s1
        \<and> pv_stream p (attempt_request r m) s1 = (cs, x, s')
        \<and> sel = (if cs = [] then [] else [(p, attempt_request r m)])
        \<and> (cs = [] \<longrightarrow> (\<forall>exc. x \<noteq> Inl (Provider exc))))"
proof (induction as arbitrary: es s)
  case Nil
  then show ?case by (auto intro: failed_run.none)
next
  case (Cons a as)
  obtain p m where a: "a = (p, m)" by fastforce
  obtain ds y s1 where c: "pv_stream p (attempt_request r m) s = (ds, y, s1)" by (metis surj_pair)
  show ?case
  proof (cases "ds = [] \<and> (\<exists>exc. y = Inl (Provider exc))")
    case True
    then obtain exc where y: "y = Inl (Provider exc)" "ds = []" by blast
    with Cons.prems a c have "stream_attempts r as (es @ [(pv_name p, exc)]) s1 = (cs, sel, x, s')" by simp
    note ih = Cons.IH [OF this]
    have f: "stream_failure p (attempt_request r m) s = (Some exc, s1)"
      by (simp add: stream_failure_def c y)
    note run = failed_run.more [where call = stream_failure and p = p and r = r and m = m and s = s and exc = exc, OF f]
    from ih show ?thesis
    proof
      assume "\<exists>errs. failed_run stream_failure r as s1 errs s' \<and> cs = [] \<and> sel = [] \<and>
        x = Inl (AllProvidersExhaustedError ((es @ [(pv_name p, exc)]) @ errs))"
      then show ?thesis unfolding a by (auto dest!: run)
    next
      assume "\<exists>pre q n post errs t. as = pre @ (q, n) # post \<and> failed_run stream_failure r pre s1 errs t
        \<and> pv_stream q (attempt_request r n) t = (cs, x, s')
        \<and> sel = (if cs = [] then [] else [(q, attempt_request r n)])
        \<and> (cs = [] \<longrightarrow> (\<forall>exc. x \<noteq> Inl (Provider exc)))"
      then obtain pre q n post errs t where "a # as = (a # pre) @ (q, n) # post"
        "failed_run stream_failure r (a # pre) s ((pv_name p, exc) # errs) t"
        "pv_stream q (attempt_request r n) t = (cs, x, s')"
        "sel = (if cs = [] then [] else [(q, attempt_request r n)])"
        "cs = [] \<longrightarrow> (\<forall>exc. x \<noteq> Inl (Provider exc))"
        unfolding a using run by fastforce
      then show ?thesis by blast
    qed
  next
    case False
    with Cons.prems a c have "x = y" "s' = s1" "cs = ds"
      "sel = (if cs = [] then [] else [(p, attempt_request r m)])"
      by (auto simp: Let_def split: sum.splits exn.splits if_splits)
    with False c a show ?thesis
      by (intro disjI2 exI [of _ "[]"] exI [of _ p] exI [of _ m] exI [of _ as] exI [of _ s])
        (auto intro: failed_run.none)
  qed
qed

text \<open>C25. Fallback of completions.  When the attempts cannot be resolved the error is raised and nothing
  is called.  Otherwise the attempts are made in order, and either every one failed with a provider error
  and AllProvidersExhaustedError carries all of them, in order, under the providers' names; or some
  attempt, the first that did not fail with a provider error, decides the result, whether it is a
  response or an exception of another kind, and no later provider is called.\<close>

theorem route_complete_fallback:
  "case resolve_attempts R r of
     Inl e \<Rightarrow> route_complete R r s = (Inl e, s)
   | Inr as \<Rightarrow>
       (\<exists>errs. failed_run complete_failure r as s errs (snd (route_complete R r s))
          \<and> fst (route_complete R r s) = Inl (AllProvidersExhaustedError errs)
          \<and> map fst errs = map (pv_name \<circ> fst) as)
     \<or> (\<exists>pre p m post errs s1. as = pre @ (p, m) # post \<and> failed_run complete_failure r pre s errs s1
          \<and> pv_complete p (attempt_request r m) s1 = route_complete R r s
          \<and> (\<forall>exc. fst (route_complete R r s) \<noteq> Inl (Provider exc)))"
proof (cases "resolve_attempts R r")
  case (Inl e)
  then show ?thesis by (simp add: route_complete_def)
next
  case (Inr as)
  obtain x s' where c: "complete_attempts r as [] s = (x, s')" by fastforce
  then have "route_complete R r s = (x, s')" by (simp add: route_complete_def Inr)
  then show ?thesis
    using complete_attempts_outcome [OF c] failed_run_names [of complete_failure r as s]
    unfolding Inr by (simp, blast)
qed

text \<open>C26. Fallback of streams.  Everything the caller receives comes from one attempt, made after every
  attempt before it failed without yielding anything; its provider and the request it was sent are
  reported exactly once when it yielded something and not at all when it did not.  Once a chunk has been
  passed on, an error of that provider is raised as it is and no other provider is tried; if no attempt
  yields and every one fails with a provider error, AllProvidersExhaustedError lists them all.\<close>

theorem route_stream_single_provider:
  "case resolve_attempts R r of
     Inl e \<Rightarrow> route_stream R r s = ([], [], Inl e, s)
   | Inr as \<Rightarrow> (case route_stream R r s of (cs, sel, x, s') \<Rightarrow>
       (\<exists>errs. failed_run stream_failure r as s errs s' \<and> cs = [] \<and> sel = []
          \<and> x = Inl (AllProvidersExhaustedError errs) \<and> map fst errs = map (pv_name \<circ> fst) as)
     \<or> (\<exists>pre p m post errs s1. as = pre @ (p, m) # post \<and> failed_run stream_failure r pre s errs s1
          \<and> pv_stream p (attempt_request r m) s1 = (cs, x, s')
          \<and> sel = (if cs = [] then [] else [(p, attempt_request r m)])
          \<and> (if cs = [] then \<forall>exc. x \<noteq> Inl (Provider exc) else True)))"
proof (cases "resolve_attempts R r")
  case (Inl e)
  then show ?thesis by (simp add: route_stream_def)
next
  case (Inr as)
  obtain cs sel x s' where c: "stream_attempts r as [] s = (cs, sel, x, s')" by (metis surj_pair)
  then have "route_stream R r s = (cs, sel, x, s')" by (simp add: route_stream_def Inr)
  moreover note stream_attempts_outcome [OF c]
  ultimately show ?thesis
    using failed_run_names [of stream_failure r as s]
    unfolding Inr by (simp only: sum.case prod.case append_Nil if_bool_eq_conj) blast
qed

context provider_pool
begin

lemma response_attribution:
  assumes "route_complete R r s = (Inr resp, s')"
  shows "\<exists>as p m. resolve_attempts R r = Inr as \<and> (p, m) \<in> set as \<and> rs_provider resp = pv_name p
    \<and> rs_cost_usd resp = 0 \<and> rs_cache_status resp = MISS"
proof -
  obtain as where as: "resolve_attempts R r = Inr as"
    using assms by (auto simp: route_complete_def split: sum.splits)
  then have "complete_attempts r as [] s = (Inr resp, s')"
    using assms by (simp add: route_complete_def)
  from complete_attempts_outcome [OF this] obtain p m s1 where
    pm: "(p, m) \<in> set as" "pv_complete p (attempt_request r m) s1 = (Inr resp, s')"
    by (metis Inl_Inr_False in_set_conv_decomp)
  from attempts_registered [OF as pm(1)] port have "llm_port p" by auto
  from llm_port.complete_response [OF this pm(2)] as pm(1) show ?thesis by blast
qed

end

text \<open>Attribution: a response that routing returns on the gateway's registry names, as its provider,
  the provider of one of the request's attempts, the one that served it, whatever fallback took place,
  and carries the adapters' placeholders: cost zero and status MISS.\<close>

theorem routed_response_attribution:
  assumes "route_complete (gateway_registry rnd sj S AO AA) r s = (Inr resp, s')"
  shows "\<exists>as p m. resolve_attempts (gateway_registry rnd sj S AO AA) r = Inr as \<and> (p, m) \<in> set as
    \<and> rs_provider resp = pv_name p \<and> rs_cost_usd resp = 0 \<and> rs_cache_status resp = MISS"
  using assms by (rule gateway_pool.response_attribution)

text \<open>An upstream that answers every completion with the text "hi".\<close>

definition hi_answer :: http_response where
  "hi_answer = \<lparr>hr_status_code = 200, hr_retry_after = None, hr_text = [],
     hr_json = Some (JObj [(''id'', JStr ''r1''),
       (''choices'', JArr [JObj [(''message'', JObj [(''content'', JStr ''hi'')])]]),
       (''usage'', JObj [(''prompt_tokens'', JInt 5), (''completion_tokens'', JInt 2)])])\<rparr>"

definition int_of_json :: "json \<Rightarrow> int option" where
  "int_of_json j = (case j of JInt i \<Rightarrow> Some i | _ \<Rightarrow> None)"

definition hi_adapter :: "'w adapter" where
  "hi_adapter = \<lparr>ad_provider = \<lparr>bp_name = [], bp_max_retries = 0, bp_breaker = sample_breaker,
       bp_runtime = idle_runtime, bp_sleep = (\<lambda>d s. s), bp_complete_impl = (\<lambda>r s. (Inl TypeError, s)),
       bp_stream_impl = (\<lambda>r s. ([], Inl TypeError, s))\<rparr>,
     ad_post = (\<lambda>p j s. (Inr hi_answer, s)),
     ad_stream = (\<lambda>p j s. (Inr \<lparr>hs_response = hi_answer, hs_lines = [''data: [DONE]''], hs_error = None\<rparr>, s)),
     ad_json_loads = (\<lambda>s. None), ad_float = (\<lambda>s. None), ad_int_of = int_of_json,
     ad_uuid4 = (\<lambda>s. (''u1'', s)), ad_utcnow = (\<lambda>s. (0, s)), ad_token_count = (\<lambda>m t. int (length t))\<rparr>"

definition hi_response :: chat_response where
  "hi_response = fresh_response ''r1'' ''gpt-4o'' ''openai'' ''hi'' \<lparr>input_tokens = 5, output_tokens = 2\<rparr> 0"

lemma hi_decode: "openai_complete_impl (configured S hi_adapter) hello_request s = (Inr hi_response, s)"
  by (simp add: openai_complete_impl_def post_def configured_def hi_adapter_def hi_answer_def
      raise_for_status_def openai_decode_def json_or_def validate_int_def int_of_json_def hello_request_def
      hi_response_def)

lemma hi_complete: "pv_complete (openai_provider rnd (configured S hi_adapter)) hello_request (new_breaker, w) =
    (Inr hi_response, (new_breaker, w))"
  by (simp add: openai_provider_def Let_def base_complete_def complete_loop.simps hi_decode)

lemma hi_route: "route_complete (gateway_registry rnd sj both_keys hi_adapter AA) hello_request (new_breaker, w) =
    (Inr hi_response, (new_breaker, w))"
proof -
  have "attempt_request hello_request ''gpt-4o'' = hello_request"
    by (simp add: attempt_request_def hello_request_def)
  then show ?thesis by (simp add: route_complete_def hello_attempts hi_complete)
qed

theorem routed_response_attribution_witness:
  "\<forall>AA :: unit adapter. \<exists>as p m. resolve_attempts (gateway_registry exact (\<lambda>j. []) both_keys hi_adapter AA) hello_request = Inr as
     \<and> (p, m) \<in> set as \<and> ''openai'' = pv_name p"
proof
  fix AA :: "unit adapter"
  have "rs_provider hi_response = ''openai''" by (simp add: hi_response_def fresh_response_def)
  with routed_response_attribution [OF hi_route [where rnd = exact and sj = "\<lambda>j. []" and AA = AA]]
  show "\<exists>as p m. resolve_attempts (gateway_registry exact (\<lambda>j. []) both_keys hi_adapter AA) hello_request = Inr as
     \<and> (p, m) \<in> set as \<and> ''openai'' = pv_name p" by auto
qed

end
