(* ===== verification/Cost.thy ===== *)
theory Cost
  imports Persistence
begin

text \<open>
  \<open>services/cost_service.py\<close>: the price of a model, read from Redis or else from the versioned pricing
  table, and the cost of a completion in float arithmetic.
\<close>

section \<open>The service\<close>

text \<open>\<open>co_repr_float\<close> and \<open>co_parse_float\<close> are Python's text of a float and \<open>float(text)\<close>, \<open>None\<close> for
  its \<open>ValueError\<close>.\<close>

record 'w cost_service =
  co_database :: "'w database"
  co_redis :: "'w redis"
  co_pricing_cache_ttl_seconds :: real
  co_repr_float :: "real \<Rightarrow> string"
  co_parse_float :: "string \<Rightarrow> real option"

type_synonym pricing = "real \<times> real"

definition no_price_sentinel :: string where
  "no_price_sentinel = ''NONE''"

definition pricing_key :: "model_identifier \<Rightarrow> string" where
  "pricing_key model = ''pricing:'' @ mi_str model"

definition encode_pricing :: "'w cost_service \<Rightarrow> pricing \<Rightarrow> string" where
  "encode_pricing S pricing = co_repr_float S (fst pricing) @ '','' @ co_repr_float S (snd pricing)"

definition decode_pricing :: "'w cost_service \<Rightarrow> string \<Rightarrow> pricing option" where
  "decode_pricing S raw =
     (let (input_str, _, output_str) = str_partition (CHR '','') raw
      in case co_parse_float S input_str of None \<Rightarrow> None
         | Some i \<Rightarrow> (case co_parse_float S output_str of None \<Rightarrow> None | Some u \<Rightarrow> Some (i, u)))"

text \<open>The unit of work: the clock is read inside it.\<close>

definition read_price :: "'w cost_service \<Rightarrow> model_identifier \<Rightarrow> ('w, pricing_row option) unit_of_work" where
  "read_price S model = (\<lambda>(t, w).
     let (now, w1) = rt_utcnow (db_runtime (co_database S)) w
     in (Inr (get_active_price t (mi_provider model) (mi_model model) now), (t, w1)))"

text \<open>Every failure of the database is caught and reads as "no price".\<close>

definition load_pricing ::
  "(real \<Rightarrow> real) \<Rightarrow> 'w cost_service \<Rightarrow> model_identifier \<Rightarrow> 'w \<Rightarrow> pricing option \<times> 'w" where
  "load_pricing rnd S model w =
     (case session (co_database S) (read_price S model) w of
        (Inl e, w1) \<Rightarrow> (None, w1)
      | (Inr None, w1) \<Rightarrow> (None, w1)
      | (Inr (Some record), w1) \<Rightarrow>
          (Some (rnd (mp_input_price_per_1k record), rnd (mp_output_price_per_1k record)), w1))"

text \<open>The rest of \<open>_get_pricing\<close> once the cache gave no answer.\<close>

definition fetch_pricing ::
  "(real \<Rightarrow> real) \<Rightarrow> 'w cost_service \<Rightarrow> model_identifier \<Rightarrow> 'w \<Rightarrow> (exn + pricing option) \<times> 'w" where
  "fetch_pricing rnd S model w =
     (let (pricing, w1) = load_pricing rnd S model w;
          cache_value = (case pricing of None \<Rightarrow> no_price_sentinel | Some p \<Rightarrow> encode_pricing S p)
      in case redis_set (co_redis S) (pricing_key model) cache_value (py_int (co_pricing_cache_ttl_seconds S)) w1 of
           (Inl e, w2) \<Rightarrow> if is_redis_error e then (Inr pricing, w2) else (Inl e, w2)
         | (Inr _, w2) \<Rightarrow> (Inr pricing, w2))"

definition get_pricing ::
  "(real \<Rightarrow> real) \<Rightarrow> 'w cost_service \<Rightarrow> model_identifier \<Rightarrow> 'w \<Rightarrow> (exn + pricing option) \<times> 'w" where
  "get_pricing rnd S model w =
     (case redis_get (co_redis S) (pricing_key model) w of
        (Inl e, w1) \<Rightarrow> if is_redis_error e then fetch_pricing rnd S model w1 else (Inl e, w1)
      | (Inr (Some cached), w1) \<Rightarrow>
          (Inr (if cached = no_price_sentinel then None else decode_pricing S cached), w1)
      | (Inr None, w1) \<Rightarrow> fetch_pricing rnd S model w1)"

definition price_cost :: "(real \<Rightarrow> real) \<Rightarrow> pricing option \<Rightarrow> token_usage \<Rightarrow> real" where
  "price_cost rnd pricing usage = (case pricing of None \<Rightarrow> 0
     | Some (input_price_per_1k, output_price_per_1k) \<Rightarrow>
         rnd (rnd (rnd (of_int (input_tokens usage) / 1000) * input_price_per_1k)
            + rnd (rnd (of_int (output_tokens usage) / 1000) * output_price_per_1k)))"

definition calculate_cost_usd ::
  "(real \<Rightarrow> real) \<Rightarrow> 'w cost_service \<Rightarrow> model_identifier \<Rightarrow> token_usage \<Rightarrow> 'w \<Rightarrow> (exn + real) \<times> 'w" where
  "calculate_cost_usd rnd S model usage w =
     (case get_pricing rnd S model w of
        (Inl e, w1) \<Rightarrow> (Inl e, w1)
      | (Inr pricing, w1) \<Rightarrow> (Inr (price_cost rnd pricing usage), w1))"

section \<open>Properties\<close>

text \<open>Documented behaviour of \<open>repr\<close> and \<open>float\<close>: the text of a float has no comma and reads back.\<close>

definition float_text :: "'w cost_service \<Rightarrow> real \<Rightarrow> bool" where
  "float_text S x \<longleftrightarrow> co_parse_float S (co_repr_float S x) = Some x \<and> CHR '','' \<notin> set (co_repr_float S x)"

lemma decode_encode:
  "float_text S (fst p) \<Longrightarrow> float_text S (snd p) \<Longrightarrow> decode_pricing S (encode_pricing S p) = Some p"
  by (cases p) (simp add: decode_pricing_def encode_pricing_def float_text_def pystr)

lemma encode_not_sentinel: "encode_pricing S p \<noteq> no_price_sentinel"
proof -
  have "CHR '','' \<in> set (encode_pricing S p)" "CHR '','' \<notin> set no_price_sentinel"
    by (simp_all add: encode_pricing_def no_price_sentinel_def)
  then show ?thesis by metis
qed

lemma load_pricing_active:
  assumes D: "database_store (co_database S) tbl" and l: "load_pricing rnd S m w = (pr, w')"
  shows "pr = None \<or> (\<exists>now r. get_active_price (tbl w) (mi_provider m) (mi_model m) now = Some r
    \<and> pr = Some (rnd (mp_input_price_per_1k r), rnd (mp_output_price_per_1k r)))"
proof (cases "session (co_database S) (read_price S m) w")
  case (Pair x w1)
  show ?thesis
  proof (cases x)
    case (Inl e)
    with Pair l show ?thesis by (simp add: load_pricing_def)
  next
    case (Inr found)
    with Pair have "session (co_database S) (read_price S m) w = (Inr found, w1)" by simp
    then obtain t wo t' wb u where "db_open (co_database S) w = (Inr t, wo)"
      "read_price S m (t, wo) = (Inr found, (t', wb))" "db_commit (co_database S) t' wb = (Inr u, w1)"
      by (rule session_ok)
    then obtain now where found: "found = get_active_price (tbl w) (mi_provider m) (mi_model m) now"
      using db_open_value [OF D] by (auto simp: read_price_def split: prod.splits)
    have "pr = map_option (\<lambda>r. (rnd (mp_input_price_per_1k r), rnd (mp_output_price_per_1k r))) found"
      using Pair Inr l by (auto simp: load_pricing_def split: option.splits)
    then show ?thesis unfolding found
      by (cases "get_active_price (tbl w) (mi_provider m) (mi_model m) now") auto
  qed
qed

lemma fetch_pricing_value:
  "fetch_pricing rnd S m w = (Inr pr, w') \<Longrightarrow> \<exists>w1. load_pricing rnd S m w = (pr, w1)"
  by (auto simp: fetch_pricing_def split: prod.splits sum.splits if_splits)

lemma fetch_pricing_stores:
  assumes R: "redis_store (co_redis S) cache" and f: "fetch_pricing rnd S m w = (Inr pr, w')"
    and same: "\<And>w pr w1. load_pricing rnd S m w = (pr, w1) \<Longrightarrow> cache w1 = cache w"
  shows "cache w' (pricing_key m) = Some (case pr of None \<Rightarrow> no_price_sentinel | Some p \<Rightarrow> encode_pricing S p)
    \<or> cache w' = cache w"
proof -
  from fetch_pricing_value [OF f] obtain w1 where l: "load_pricing rnd S m w = (pr, w1)" by blast
  let ?v = "case pr of None \<Rightarrow> no_price_sentinel | Some p \<Rightarrow> encode_pricing S p"
  obtain x w2 where s: "redis_set (co_redis S) (pricing_key m) ?v (py_int (co_pricing_cache_ttl_seconds S)) w1 = (x, w2)"
    by fastforce
  have w': "w' = w2" using f l s by (auto simp: fetch_pricing_def split: sum.splits if_splits)
  show ?thesis
  proof (cases x)
    case (Inl e)
    with s w' redis_set_failed [OF R] same [OF l] show ?thesis by metis
  next
    case (Inr u)
    with s w' redis_set_view [OF R] show ?thesis by fastforce
  qed
qed


text \<open>The Redis layer does not change a price: after a lookup that missed and whose write succeeded, every
  lookup in a state that still has the entry answers with the same price, whatever the pricing table and the
  database do meanwhile, provided the two floats print and read back as Python's do.\<close>

theorem price_cache_transparent:
  assumes R: "redis_store (co_redis S) cache"
    and miss: "redis_get (co_redis S) (pricing_key m) w = (Inr None, w1)"
    and load: "load_pricing rnd S m w1 = (pr, w2)"
    and text_law: "case pr of None \<Rightarrow> True | Some (i, u) \<Rightarrow> float_text S i \<and> float_text S u"
    and set: "redis_set (co_redis S) (pricing_key m)
        (case pr of None \<Rightarrow> no_price_sentinel | Some p \<Rightarrow> encode_pricing S p) (py_int (co_pricing_cache_ttl_seconds S)) w2
        = (Inr (), w3)"
    and later: "cache v (pricing_key m) = cache w3 (pricing_key m)"
      "redis_get (co_redis S) (pricing_key m) v = (Inr x, v1)"
  shows "get_pricing rnd S m w = (Inr pr, w3) \<and> get_pricing rnd S m v = (Inr pr, v1)"
proof
  show "get_pricing rnd S m w = (Inr pr, w3)"
    using miss load set by (simp add: get_pricing_def fetch_pricing_def)
  let ?v = "case pr of None \<Rightarrow> no_price_sentinel | Some p \<Rightarrow> encode_pricing S p"
  have "x = Some ?v"
    using redis_get_value [OF R later(2)] later(1) redis_set_view [OF R set] by simp
  moreover have "(if ?v = no_price_sentinel then None else decode_pricing S ?v) = pr"
    using text_law encode_not_sentinel decode_encode [of S] by (cases pr) (auto split: prod.splits)
  ultimately show "get_pricing rnd S m v = (Inr pr, v1)"
    using later(2) by (simp add: get_pricing_def)
qed

text \<open>A database outage makes a model free of charge for as long as the Redis entry lives: the failed lookup
  is cached like a missing price, so every later completion of the model costs zero, although the table has a
  price and the database is back.\<close>

theorem outage_is_cached_as_free:
  assumes R: "redis_store (co_redis S) cache"
    and miss: "redis_get (co_redis S) (pricing_key m) w = (Inr None, w1)"
    and outage: "db_open (co_database S) w1 = (Inl e, w2)"
    and set: "redis_set (co_redis S) (pricing_key m) no_price_sentinel (py_int (co_pricing_cache_ttl_seconds S)) w2 = (Inr (), w3)"
    and later: "cache v (pricing_key m) = cache w3 (pricing_key m)"
      "redis_get (co_redis S) (pricing_key m) v = (Inr x, v1)"
  shows "calculate_cost_usd rnd S m u w = (Inr 0, w3) \<and> calculate_cost_usd rnd S m u' v = (Inr 0, v1)"
proof -
  have "load_pricing rnd S m w1 = (None, w2)" using outage by (simp add: load_pricing_def session_def)
  then have "get_pricing rnd S m w = (Inr None, w3)"
    using miss set by (simp add: get_pricing_def fetch_pricing_def)
  moreover have "x = Some no_price_sentinel"
    using redis_get_value [OF R later(2)] later(1) redis_set_view [OF R set] by simp
  then have "get_pricing rnd S m v = (Inr None, v1)" using later(2) by (simp add: get_pricing_def)
  ultimately show ?thesis by (simp add: calculate_cost_usd_def price_cost_def)
qed

subsection \<open>A concrete service\<close>

text \<open>One price, one dollar per thousand tokens in and two out; a codec for these two floats.\<close>

definition sample_price :: pricing_row where
  "sample_price = \<lparr>mp_id = ''p1'', mp_provider = ''openai'', mp_model_name = ''gpt-4o'', mp_input_price_per_1k = 1,
     mp_output_price_per_1k = 2, mp_currency = ''USD'', mp_effective_from = 0, mp_effective_to = None, mp_created_at = 0\<rparr>"

definition priced_mem :: mem where
  "priced_mem = \<lparr>mem_tables = \<lparr>tb_tenants = [], tb_api_keys = [], tb_pricing = [sample_price], tb_adapter_routes = [],
     tb_requests = [], tb_spans = [], tb_usage = []\<rparr>, mem_clock = 1, mem_cache = Map.empty, mem_tasks = []\<rparr>"

definition mem_cost :: "mem database \<Rightarrow> mem cost_service" where
  "mem_cost D = \<lparr>co_database = D, co_redis = mem_redis, co_pricing_cache_ttl_seconds = 300,
     co_repr_float = (\<lambda>x. if x = 1 then ''1.0'' else ''2.0''),
     co_parse_float = (\<lambda>s. if s = ''1.0'' then Some 1 else if s = ''2.0'' then Some 2 else None)\<rparr>"

definition gpt_4o :: model_identifier where
  "gpt_4o = \<lparr>mi_provider = ''openai'', mi_model = ''gpt-4o''\<rparr>"

lemma mem_cost_sel [simp]: "co_redis (mem_cost D) = mem_redis" "co_database (mem_cost D) = D"
  by (simp_all add: mem_cost_def)

lemma mem_load: "load_pricing exact (mem_cost mem_database) gpt_4o priced_mem =
    (Some (1, 2), priced_mem\<lparr>mem_clock := 2\<rparr>)"
  by (simp add: load_pricing_def session_def read_price_def mem_database_def mem_runtime_def priced_mem_def
      gpt_4o_def sample_price_def get_active_price_def price_covers_def)

lemma priced_mem_sel [simp]: "mem_cache priced_mem = Map.empty" "tb_pricing (mem_tables priced_mem) = [sample_price]"
  by (simp_all add: priced_mem_def)

lemma mem_get_set: "redis_get mem_redis k w = (Inr (mem_cache w k), w)"
    "redis_set mem_redis k v ex w = (Inr (), w\<lparr>mem_cache := (mem_cache w)(k \<mapsto> v)\<rparr>)"
  by (simp_all add: mem_redis_def)


theorem price_cache_transparent_witness:
  "\<exists>w'. get_pricing exact (mem_cost mem_database) gpt_4o priced_mem = (Inr (Some (1, 2)), w')
    \<and> fst (get_pricing exact (mem_cost mem_database) gpt_4o (w'\<lparr>mem_tables := (mem_tables w')\<lparr>tb_pricing := []\<rparr>\<rparr>))
        = Inr (Some (1, 2))"
proof -
  let ?S = "mem_cost mem_database" and ?w2 = "priced_mem\<lparr>mem_clock := 2\<rparr>"
  let ?w3 = "?w2\<lparr>mem_cache := (mem_cache ?w2)(pricing_key gpt_4o \<mapsto> encode_pricing ?S (1, 2))\<rparr>"
  let ?v = "?w3\<lparr>mem_tables := (mem_tables ?w3)\<lparr>tb_pricing := []\<rparr>\<rparr>"
  have text_law: "float_text ?S 1 \<and> float_text ?S 2" by (simp add: float_text_def mem_cost_def)
  have "get_pricing exact ?S gpt_4o priced_mem = (Inr (Some (1, 2)), ?w3)
      \<and> get_pricing exact ?S gpt_4o ?v = (Inr (Some (1, 2)), ?v)"
    by (rule price_cache_transparent [where cache = mem_cache, OF _ _ mem_load])
      (simp_all add: mem_redis_store mem_get_set text_law)
  then show ?thesis by (intro exI [of _ ?w3]) simp
qed

definition down_database :: "mem database" where
  "down_database = mem_database\<lparr>db_open := \<lambda>w. (Inl (DatabaseError ''down''), w)\<rparr>"

theorem outage_is_cached_as_free_witness:
  "\<exists>w'. calculate_cost_usd exact (mem_cost down_database) gpt_4o \<lparr>input_tokens = 1000, output_tokens = 0\<rparr> priced_mem
      = (Inr 0, w') \<and> tb_pricing (mem_tables w') = [sample_price]"
proof -
  let ?w3 = "priced_mem\<lparr>mem_cache := (mem_cache priced_mem)(pricing_key gpt_4o \<mapsto> no_price_sentinel)\<rparr>"
  have "calculate_cost_usd exact (mem_cost down_database) gpt_4o \<lparr>input_tokens = 1000, output_tokens = 0\<rparr> priced_mem
      = (Inr 0, ?w3) \<and> calculate_cost_usd exact (mem_cost down_database) gpt_4o \<lparr>input_tokens = 5, output_tokens = 5\<rparr> ?w3
      = (Inr 0, ?w3)"
    by (rule outage_is_cached_as_free [where cache = mem_cache and e = "DatabaseError ''down''" and ?w1.0 = priced_mem
          and ?w2.0 = priced_mem])
      (simp_all add: mem_redis_store mem_get_set down_database_def)
  then show ?thesis by (intro exI [of _ ?w3]) simp
qed

end
