(* ===== verification/Gateway.thy ===== *)
theory Gateway
  imports Jobs Routing Cost AdapterRoutes
begin

text \<open>
  The request orchestrator (\<open>services/gateway_service.py\<close>): adapter routing, cache lookup, coalescing,
  the upstream call, pricing, stamping and the hand-over to background work, for plain and for
  streamed completions; and the metrics it records (\<open>observability/metrics.py\<close>).

  All services of a \<open>gateway\<close> work on one state \<open>'s\<close>.  The handler of plain completions is an option:
  \<open>None\<close> would mean that the bounded wait for another caller's result never ends.  The handler of
  streams gives the items it yields, in order, and how it ends, for a client that reads to the end.
\<close>

section \<open>Metrics\<close>

datatype metric_update =
    ObserveLatency string string real
  | IncCacheLookups string string
  | IncProviderRequests string string string
  | IncRequestCost string string string real

definition request_metrics ::
  "(real \<Rightarrow> real) \<Rightarrow> string \<Rightarrow> string \<Rightarrow> chat_response \<Rightarrow> metric_update list" where
  "request_metrics rnd route tenant_id response =
     (let cache_status = cache_status_value (rs_cache_status response)
      in [ObserveLatency route cache_status (rnd (rs_latency_ms response / 1000)),
          IncCacheLookups ''combined'' cache_status,
          IncProviderRequests (rs_provider response) (rs_model response) ''success'']
         @ (if rs_cost_usd response \<noteq> 0
            then [IncRequestCost tenant_id (rs_provider response) (rs_model response) (rs_cost_usd response)] else []))"

section \<open>The service\<close>

record 's gateway =
  gw_cache_service :: "'s cache_service"
  gw_registry :: "'s registry"
  gw_cost_service :: "'s cost_service"
  gw_database :: "'s database option"
  gw_trace_exporters :: "'s exporter list"
  gw_background_jobs :: "'s job_service option"
  gw_runtime :: "'s runtime"
  gw_wire :: wire
  gw_metric :: "metric_update \<Rightarrow> 's \<Rightarrow> 's"

definition stamp ::
  "(real \<Rightarrow> real) \<Rightarrow> 's runtime \<Rightarrow> chat_response \<Rightarrow> string \<Rightarrow> cache_status \<Rightarrow> real \<Rightarrow> chat_request option \<Rightarrow> 's \<Rightarrow>
     chat_response \<times> 's" where
  "stamp rnd rt response trace_id cache_status started_at request s =
     (let cost_usd = (if cache_status = EXACT_HIT \<or> cache_status = SEMANTIC_HIT then 0 else rs_cost_usd response);
          (now, s1) = rt_monotonic rt s;
          updated = response\<lparr>rs_trace_id := trace_id, rs_cache_status := cache_status,
                             rs_latency_ms := rnd (rnd (now - started_at) * 1000), rs_cost_usd := cost_usd\<rparr>
      in (case request of
            None \<Rightarrow> updated
          | Some r \<Rightarrow> updated\<lparr>rs_adapter_id := rq_adapter_id r, rs_model_alias := rq_model_alias r,
                             rs_adapter_stage := rq_adapter_stage r\<rparr>, s1))"

text \<open>What a request carries through its handler, besides the request itself.\<close>

record call =
  ca_trace_id :: string
  ca_tenant_id :: string
  ca_api_key_id :: "string option"

definition finalize ::
  "(real \<Rightarrow> real) \<Rightarrow> 's gateway \<Rightarrow> call \<Rightarrow> string \<Rightarrow> chat_request \<Rightarrow> chat_response \<Rightarrow> trace_span list \<Rightarrow> 's \<Rightarrow> 's" where
  "finalize rnd G c route request response spans s =
     (let s1 = fold (gw_metric G) (request_metrics rnd route (ca_tenant_id c) response) s
      in case gw_background_jobs G of
           None \<Rightarrow> rt_spawn (gw_runtime G)
             (FlushTrace request response (ca_tenant_id c) 200 (ca_api_key_id c) (ca_trace_id c) spans) s1
         | Some _ \<Rightarrow> rt_spawn (gw_runtime G)
             (RunTraceFlush request response (ca_tenant_id c) 200 (ca_api_key_id c) (ca_trace_id c) spans) s1)"

definition routing_key :: "string \<Rightarrow> chat_request \<Rightarrow> string" where
  "routing_key tenant_id request = tenant_id @ '':'' @ rq_model request @ '':'' @ canonical_prompt request"

text \<open>The unit of work of the route lookup.\<close>

definition find_route :: "string \<Rightarrow> string \<Rightarrow> chat_request \<Rightarrow> ('s, adapter_route_row option) unit_of_work" where
  "find_route tenant_uuid tenant_id request = (\<lambda>(t, w).
     (Inr (resolve_with_canary t tenant_uuid (rq_model request) (routing_key tenant_id request)
             (rq_adapter_stage request)), (t, w)))"

definition apply_adapter_route :: "'s gateway \<Rightarrow> string \<Rightarrow> chat_request \<Rightarrow> 's \<Rightarrow> chat_request \<times> 's" where
  "apply_adapter_route G tenant_id request s =
     (if truthy (rq_adapter_id request) \<and> truthy (rq_model_alias request) then (request, s)
      else case gw_database G of
        None \<Rightarrow> (request, s)
      | Some D \<Rightarrow>
          (case parse_uuid tenant_id of
             None \<Rightarrow> (request, s)
           | Some tenant_uuid \<Rightarrow>
               (case session D (find_route tenant_uuid tenant_id request) s of
                  (Inl e, s1) \<Rightarrow> (request, s1)
                | (Inr None, s1) \<Rightarrow> (request, s1)
                | (Inr (Some row), s1) \<Rightarrow>
                    (request\<lparr>rq_model_alias := Some (rq_model request), rq_model := ar_base_model row,
                             rq_adapter_id := Some (ar_adapter_id row), rq_adapter_stage := Some (ar_stage row)\<rparr>, s1))))"

section \<open>Plain completions\<close>

text \<open>The lookup in its span; the metadata is written after the span has ended.\<close>

definition traced_lookup ::
  "'s gateway \<Rightarrow> call \<Rightarrow> chat_request \<Rightarrow> 's \<Rightarrow> (exn + chat_response option \<times> cache_status) \<times> 's traced" where
  "traced_lookup G c request s =
     (case with_span (gw_runtime G) (ca_trace_id c) ''cache_lookup''
             (\<lambda>i (spans, s). let (r, s1) = lookup (gw_cache_service G) request (ca_tenant_id c) s in (r, (spans, s1)))
             ([], s) of
        (Inl e, ts) \<Rightarrow> (Inl e, ts)
      | (Inr (cached, status), (spans, s1)) \<Rightarrow>
          (let spans1 = span_set 0 ''cache_status'' (MStr (cache_status_value status)) spans;
               spans2 = (if truthy (rq_adapter_id request)
                         then span_set 0 ''adapter_id'' (MStr (the (rq_adapter_id request))) spans1 else spans1)
           in (Inr (cached, status), (spans2, s1))))"

text \<open>Whether the caller holds the lock, and the result it was spared from computing.\<close>

definition coalesce ::
  "(real \<Rightarrow> real) \<Rightarrow> 's gateway \<Rightarrow> call \<Rightarrow> chat_request \<Rightarrow> cache_status \<Rightarrow> 's \<Rightarrow>
     ((exn + bool \<times> chat_response option) \<times> 's) option" where
  "coalesce rnd G c request status s =
     (if status = BYPASSED then Some (Inr (False, None), s)
      else case acquire_coalescing_lock (gw_cache_service G) request (ca_tenant_id c) s of
        (Inl e, s1) \<Rightarrow> Some (Inl e, s1)
      | (Inr True, s1) \<Rightarrow> Some (Inr (True, None), s1)
      | (Inr False, s1) \<Rightarrow>
          (case wait_for_coalesced_result rnd (gw_cache_service G) request (ca_tenant_id c) s1 of
             None \<Rightarrow> None
           | Some (Inl e, s2) \<Rightarrow> Some (Inl e, s2)
           | Some (Inr coalesced, s2) \<Rightarrow> Some (Inr (False, coalesced), s2)))"

text \<open>The body of the span: the routed call, and who answered.\<close>

definition upstream_body ::
  "'s gateway \<Rightarrow> chat_request \<Rightarrow> nat \<Rightarrow> 's traced \<Rightarrow> (exn + chat_response) \<times> 's traced" where
  "upstream_body G request i = (\<lambda>(spans, s).
     case route_complete (gw_registry G) request s of
       (Inl e, s1) \<Rightarrow> (Inl e, (spans, s1))
     | (Inr response, s1) \<Rightarrow>
         (Inr response, (span_set i ''model'' (MStr (rs_model response))
           (span_set i ''provider'' (MStr (rs_provider response)) spans), s1)))"

text \<open>\<open>try ... finally\<close>: the lock is released whether or not the call raises, and an exception of the
  release replaces the outcome.\<close>

definition upstream_call ::
  "'s gateway \<Rightarrow> call \<Rightarrow> chat_request \<Rightarrow> bool \<Rightarrow> 's traced \<Rightarrow> (exn + chat_response) \<times> 's traced" where
  "upstream_call G c request won_lock ts =
     (let (result, (spans, s1)) = with_span (gw_runtime G) (ca_trace_id c) ''upstream_call''
            (upstream_body G request) ts
      in if won_lock
         then (case release_coalescing_lock (gw_cache_service G) request (ca_tenant_id c) s1 of
                 (Inl e, s2) \<Rightarrow> (Inl e, (spans, s2))
               | (Inr _, s2) \<Rightarrow> (result, (spans, s2)))
         else (result, (spans, s1)))"

definition traced_cost ::
  "(real \<Rightarrow> real) \<Rightarrow> 's gateway \<Rightarrow> call \<Rightarrow> model_identifier \<Rightarrow> token_usage \<Rightarrow> 's traced \<Rightarrow> (exn + real) \<times> 's traced" where
  "traced_cost rnd G c model usage =
     with_span (gw_runtime G) (ca_trace_id c) ''cost_calculation''
       (\<lambda>i (spans, s). case calculate_cost_usd rnd (gw_cost_service G) model usage s of
          (Inl e, s1) \<Rightarrow> (Inl e, (spans, s1))
        | (Inr cost_usd, s1) \<Rightarrow> (Inr cost_usd, (span_set i ''cost_usd'' (MFloat cost_usd) spans, s1)))"

definition respond ::
  "(real \<Rightarrow> real) \<Rightarrow> 's gateway \<Rightarrow> call \<Rightarrow> string \<Rightarrow> real \<Rightarrow> chat_request \<Rightarrow> chat_response \<Rightarrow> cache_status \<Rightarrow> 's traced \<Rightarrow>
     chat_response \<times> 's" where
  "respond rnd G c route started_at request response status = (\<lambda>(spans, s).
     let (result, s1) = stamp rnd (gw_runtime G) response (ca_trace_id c) status started_at (Some request) s
     in (result, finalize rnd G c route request result spans s1))"

definition schedule ::
  "'s gateway \<Rightarrow> call \<Rightarrow> chat_request \<Rightarrow> chat_response \<Rightarrow> 's \<Rightarrow> 's" where
  "schedule G c request response s =
     rt_spawn (gw_runtime G) (ScheduleBackfill request response (ca_tenant_id c)) s"

text \<open>A cache miss: call the provider, price the answer, hand it to the cache, answer.\<close>

definition answer_fresh ::
  "(real \<Rightarrow> real) \<Rightarrow> 's gateway \<Rightarrow> call \<Rightarrow> real \<Rightarrow> chat_request \<Rightarrow> cache_status \<Rightarrow> bool \<Rightarrow> 's traced \<Rightarrow>
     (exn + chat_response) \<times> 's" where
  "answer_fresh rnd G c started_at request status won_lock ts =
     (case upstream_call G c request won_lock ts of
        (Inl e, (spans, s1)) \<Rightarrow> (Inl e, s1)
      | (Inr response, ts1) \<Rightarrow>
          (case traced_cost rnd G c \<lparr>mi_provider = rs_provider response, mi_model = rs_model response\<rparr>
                  (rs_usage response) ts1 of
             (Inl e, (spans, s2)) \<Rightarrow> (Inl e, s2)
           | (Inr cost_usd, (spans, s2)) \<Rightarrow>
               (let priced = response\<lparr>rs_cost_usd := cost_usd\<rparr>;
                    s3 = (if status = BYPASSED then s2 else schedule G c request priced s2);
                    (result, s4) = respond rnd G c ''chat_completions'' started_at request priced status (spans, s3)
                in (Inr result, s4))))"

definition handle_chat_completion ::
  "(real \<Rightarrow> real) \<Rightarrow> 's gateway \<Rightarrow> call \<Rightarrow> chat_request \<Rightarrow> 's \<Rightarrow> ((exn + chat_response) \<times> 's) option" where
  "handle_chat_completion rnd G c original s =
     (let (started_at, s0) = rt_monotonic (gw_runtime G) s;
          (request, s1) = apply_adapter_route G (ca_tenant_id c) original s0
      in case traced_lookup G c request s1 of
           (Inl e, (spans, s2)) \<Rightarrow> Some (Inl e, s2)
         | (Inr (Some cached, status), ts) \<Rightarrow>
             (let (result, s3) = respond rnd G c ''chat_completions'' started_at request cached status ts
              in Some (Inr result, s3))
         | (Inr (None, status), (spans, s2)) \<Rightarrow>
             (case coalesce rnd G c request status s2 of
                None \<Rightarrow> None
              | Some (Inl e, s3) \<Rightarrow> Some (Inl e, s3)
              | Some (Inr (won_lock, Some coalesced), s3) \<Rightarrow>
                  (let (result, s4) = respond rnd G c ''chat_completions'' started_at request coalesced EXACT_HIT (spans, s3)
                   in Some (Inr result, s4))
              | Some (Inr (won_lock, None), s3) \<Rightarrow>
                  Some (answer_fresh rnd G c started_at request status won_lock (spans, s3))))"

section \<open>Streamed completions\<close>

datatype stream_item = Chunk string | Metadata chat_response

type_synonym 's gateway_stream = "stream_item list \<times> (exn + unit) \<times> 's"

text \<open>The upstream stream in its span; the provider is noted only when the stream ends well.\<close>

definition stream_upstream :: "'s gateway \<Rightarrow> call \<Rightarrow> chat_request \<Rightarrow> 's traced \<Rightarrow>
     (string list \<times> 's selection option \<times> (exn + unit)) \<times> 's traced" where
  "stream_upstream G c request ts =
     (let (i, (spans, s)) = span_open (gw_runtime G) (ca_trace_id c) ''upstream_call'' None ts;
          (chunks, selections, result, s1) = route_stream (gw_registry G) request s;
          selection = (if selections = [] then None else Some (last selections));
          spans1 = (case result of
                      Inl e \<Rightarrow> spans
                    | Inr _ \<Rightarrow> span_set i ''provider'' (MStr (case selection of None \<Rightarrow> ''unknown'' | Some (p, _) \<Rightarrow> pv_name p)) spans)
      in ((chunks, selection, result), span_close (gw_runtime G) i (spans1, s1)))"

definition stream_usage :: "'s selection option \<Rightarrow> string \<Rightarrow> 's \<Rightarrow> (exn + token_usage \<times> string) \<times> 's" where
  "stream_usage selection full_text s =
     (case selection of
        None \<Rightarrow> (Inr (\<lparr>input_tokens = 0, output_tokens = 0\<rparr>, ''unknown''), s)
      | Some (provider, attempt) \<Rightarrow>
          (case pv_count_tokens provider attempt full_text s of
             (Inl e, s1) \<Rightarrow> (Inl e, s1)
           | (Inr usage, s1) \<Rightarrow> (Inr (usage, pv_name provider), s1)))"

definition streamed_response ::
  "(real \<Rightarrow> real) \<Rightarrow> 's gateway \<Rightarrow> call \<Rightarrow> real \<Rightarrow> chat_request \<Rightarrow> cache_status \<Rightarrow> string \<Rightarrow> token_usage \<Rightarrow> string \<Rightarrow> real \<Rightarrow> 's \<Rightarrow>
     chat_response \<times> 's" where
  "streamed_response rnd G c started_at request status provider_name usage full_text cost_usd s =
     (let (uid, s1) = rt_uuid4 (gw_runtime G) s; (now, s2) = rt_utcnow (gw_runtime G) s1;
          (finished_at, s3) = rt_monotonic (gw_runtime G) s2
      in (\<lparr>rs_id = uid, rs_model = rq_model request, rs_provider = provider_name,
           rs_message = \<lparr>m_role = Assistant, m_content = full_text\<rparr>, rs_usage = usage, rs_cost_usd = cost_usd,
           rs_cache_status = status, rs_trace_id = ca_trace_id c, rs_created_at = now,
           rs_latency_ms = rnd (rnd (finished_at - started_at) * 1000),
           rs_adapter_id = rq_adapter_id request, rs_model_alias = rq_model_alias request,
           rs_adapter_stage = rq_adapter_stage request\<rparr>, s3))"

definition stream_fresh ::
  "(real \<Rightarrow> real) \<Rightarrow> 's gateway \<Rightarrow> call \<Rightarrow> real \<Rightarrow> chat_request \<Rightarrow> cache_status \<Rightarrow> 's traced \<Rightarrow> 's gateway_stream" where
  "stream_fresh rnd G c started_at request status ts =
     (case stream_upstream G c request ts of
        ((chunks, selection, Inl e), (spans, s1)) \<Rightarrow> (map Chunk chunks, Inl e, s1)
      | ((chunks, selection, Inr _), (spans, s1)) \<Rightarrow>
          if status = BYPASSED then (map Chunk chunks, Inr (), s1)
          else (case stream_usage selection (concat chunks) s1 of
                  (Inl e, s2) \<Rightarrow> (map Chunk chunks, Inl e, s2)
                | (Inr (usage, provider_name), s2) \<Rightarrow>
                    (case traced_cost rnd G c \<lparr>mi_provider = provider_name, mi_model = rq_model request\<rparr> usage (spans, s2) of
                       (Inl e, (spans1, s3)) \<Rightarrow> (map Chunk chunks, Inl e, s3)
                     | (Inr cost_usd, (spans1, s3)) \<Rightarrow>
                         (let (response, s4) = streamed_response rnd G c started_at request status provider_name usage
                                (concat chunks) cost_usd s3;
                              s5 = schedule G c request response s4
                          in (map Chunk chunks @ [Metadata response], Inr (),
                              finalize rnd G c ''chat_completions_stream'' request response spans1 s5)))))"

definition handle_chat_completion_stream ::
  "(real \<Rightarrow> real) \<Rightarrow> 's gateway \<Rightarrow> call \<Rightarrow> chat_request \<Rightarrow> 's \<Rightarrow> 's gateway_stream" where
  "handle_chat_completion_stream rnd G c original s =
     (let (started_at, s0) = rt_monotonic (gw_runtime G) s;
          (request, s1) = apply_adapter_route G (ca_tenant_id c) original s0
      in case traced_lookup G c request s1 of
           (Inl e, (spans, s2)) \<Rightarrow> ([], Inl e, s2)
         | (Inr (Some cached, status), ts) \<Rightarrow>
             (let (result, s3) = respond rnd G c ''chat_completions_stream'' started_at request cached status ts
              in ([Chunk (m_content (rs_message cached)), Metadata result], Inr (), s3))
         | (Inr (None, status), ts) \<Rightarrow> stream_fresh rnd G c started_at request status ts)"

section \<open>Background tasks\<close>

definition schedule_backfill ::
  "'s gateway \<Rightarrow> chat_request \<Rightarrow> chat_response \<Rightarrow> string \<Rightarrow> 's \<Rightarrow> 's" where
  "schedule_backfill G request response tenant_id s =
     (case gw_background_jobs G of
        None \<Rightarrow> snd (backfill (gw_cache_service G) request response tenant_id s)
      | Some J \<Rightarrow> run_backfill (gw_wire G) J (gw_runtime G) request response tenant_id s)"

text \<open>What a task of the gateway does when the loop runs it; \<open>other\<close> runs the tasks of the other services.\<close>

definition run_task ::
  "(real \<Rightarrow> real) \<Rightarrow> (real \<Rightarrow> real) \<Rightarrow> (task \<Rightarrow> 's \<Rightarrow> 's) \<Rightarrow> 's gateway \<Rightarrow> task \<Rightarrow> 's \<Rightarrow> 's" where
  "run_task rnd to_numeric other G tk s = (case tk of
     ScheduleBackfill request response tenant_id \<Rightarrow> schedule_backfill G request response tenant_id s
   | CacheBackfill request response tenant_id \<Rightarrow> snd (backfill (gw_cache_service G) request response tenant_id s)
   | ExactCacheSet request response tenant_id \<Rightarrow>
       snd (cs_exact_set (gw_cache_service G) request response tenant_id s)
   | FlushTrace request response tenant_id http_status api_key_id trace_id spans \<Rightarrow>
       flush rnd to_numeric (gw_database G) (gw_trace_exporters G)
         \<lparr>ta_trace_id = trace_id, ta_tenant_id = tenant_id, ta_api_key_id = api_key_id, ta_http_status = http_status,
          ta_request = request, ta_response = response, ta_spans = spans\<rparr> s
   | RunTraceFlush request response tenant_id http_status api_key_id trace_id spans \<Rightarrow>
       (case gw_background_jobs G of
          None \<Rightarrow> s
        | Some J \<Rightarrow>
            let a = \<lparr>ta_trace_id = trace_id, ta_tenant_id = tenant_id, ta_api_key_id = api_key_id,
                     ta_http_status = http_status, ta_request = request, ta_response = response, ta_spans = spans\<rparr>
            in run_trace_flush J (gw_runtime G) a (build_trace_job_payload (gw_wire G) a) s)
   | PersistTrace request response tenant_id http_status api_key_id trace_id spans \<Rightarrow>
       snd (tracing_persist rnd to_numeric (gw_database G)
         \<lparr>ta_trace_id = trace_id, ta_tenant_id = tenant_id, ta_api_key_id = api_key_id, ta_http_status = http_status,
          ta_request = request, ta_response = response, ta_spans = spans\<rparr> s)
   | ExportTrace trace_id spans \<Rightarrow> export_all (gw_trace_exporters G) spans s
   | _ \<Rightarrow> other tk s)"

section \<open>A concrete gateway\<close>

text \<open>In memory, with an empty cache, the pricing of theory Cost, and providers that answer "pong" to the models
  they serve or are down.\<close>

definition stub_provider :: "string \<Rightarrow> string list \<Rightarrow> bool \<Rightarrow> mem llm_provider" where
  "stub_provider name models up = \<lparr>pv_name = name, pv_supports_model = (\<lambda>m. m \<in> set models),
     pv_complete = (\<lambda>r s. (if up then Inr ((pong_response 0)\<lparr>rs_provider := name, rs_model := rq_model r\<rparr>)
                           else Inl (Provider (ProviderTimeoutError ''timeout'')), s)),
     pv_stream = (\<lambda>r s. if up then ([''po'', ''ng''], Inr (), s)
                        else ([], Inl (Provider (ProviderTimeoutError ''timeout'')), s)),
     pv_count_tokens = (\<lambda>r t s. (Inr \<lparr>input_tokens = 1000, output_tokens = 1000\<rparr>, s))\<rparr>"

definition stub_gateway :: "(string \<times> mem llm_provider) list \<Rightarrow> mem gateway" where
  "stub_gateway ps = \<lparr>gw_cache_service = mem_cache_service,
     gw_registry = \<lparr>rg_providers = ps, rg_settings = default_settings\<rparr>,
     gw_cost_service = mem_cost mem_database, gw_database = None, gw_trace_exporters = [],
     gw_background_jobs = None, gw_runtime = mem_runtime, gw_wire = ping_wire, gw_metric = (\<lambda>u w. w)\<rparr>"

definition ping_call :: call where
  "ping_call = \<lparr>ca_trace_id = ''trace'', ca_tenant_id = default_tenant_id, ca_api_key_id = None\<rparr>"

lemma stub_gateway_sel [simp]:
  "gw_cache_service (stub_gateway ps) = mem_cache_service"
  "gw_registry (stub_gateway ps) = \<lparr>rg_providers = ps, rg_settings = default_settings\<rparr>"
  "gw_cost_service (stub_gateway ps) = mem_cost mem_database" "gw_database (stub_gateway ps) = None"
  "gw_background_jobs (stub_gateway ps) = None" "gw_runtime (stub_gateway ps) = mem_runtime"
  "gw_metric (stub_gateway ps) = (\<lambda>u w. w)"
  by (simp_all add: stub_gateway_def)

end
