(* ===== verification/GatewaySafety.thy ===== *)
theory GatewaySafety
  imports Gateway
begin

text \<open>
  What the orchestrator of theory Gateway guarantees: which services a request can touch, what a
  response carries, that the coalescing lock is given back on every path, and that a plain completion
  always returns.
\<close>

section \<open>The courses that a completion can take\<close>

text \<open>The request is routed to \<open>r'\<close>, the lookup gives \<open>x\<close>; the clock read \<open>t0\<close> at the start.\<close>

definition looked_up :: "'s gateway \<Rightarrow> call \<Rightarrow> chat_request \<Rightarrow> 's \<Rightarrow> real \<Rightarrow> chat_request \<Rightarrow>
    exn + chat_response option \<times> cache_status \<Rightarrow> 's traced \<Rightarrow> bool" where
  "looked_up G c r s t0 r' x ts \<longleftrightarrow> (\<exists>s0 s1. rt_monotonic (gw_runtime G) s = (t0, s0)
     \<and> apply_adapter_route G (ca_tenant_id c) r s0 = (r', s1) \<and> traced_lookup G c r' s1 = (x, ts))"

lemma looked_upE:
  obtains t0 r' x sp s2 where "looked_up G c r s t0 r' x (sp, s2)"
  unfolding looked_up_def by (metis surj_pair)

lemma completion_looked_up:
  "looked_up G c r s t0 r' x (sp, s2) \<Longrightarrow> handle_chat_completion rnd G c r s =
    (case x of
       Inl e \<Rightarrow> Some (Inl e, s2)
     | Inr (Some cached, st) \<Rightarrow>
         Some (let (p, s3) = respond rnd G c ''chat_completions'' t0 r' cached st (sp, s2) in (Inr p, s3))
     | Inr (None, st) \<Rightarrow>
         (case coalesce rnd G c r' st s2 of
            None \<Rightarrow> None
          | Some (Inl e, s3) \<Rightarrow> Some (Inl e, s3)
          | Some (Inr (won, Some hit), s3) \<Rightarrow>
              Some (let (p, s4) = respond rnd G c ''chat_completions'' t0 r' hit EXACT_HIT (sp, s3) in (Inr p, s4))
          | Some (Inr (won, None), s3) \<Rightarrow> Some (answer_fresh rnd G c t0 r' st won (sp, s3))))"
  by (auto simp: looked_up_def handle_chat_completion_def case_prod_beta split: sum.split prod.split option.split)

lemma completion_cases:
  assumes "handle_chat_completion rnd G c r s = Some (res, s')"
  obtains (lookup_failed) t0 r' e sp where "looked_up G c r s t0 r' (Inl e) (sp, s')" "res = Inl e"
  | (cached) t0 r' hit st sp s2 p where "looked_up G c r s t0 r' (Inr (Some hit, st)) (sp, s2)"
      "respond rnd G c ''chat_completions'' t0 r' hit st (sp, s2) = (p, s')" "res = Inr p"
  | (lock_failed) t0 r' st sp s2 e where "looked_up G c r s t0 r' (Inr (None, st)) (sp, s2)"
      "coalesce rnd G c r' st s2 = Some (Inl e, s')" "res = Inl e"
  | (joined) t0 r' st sp s2 won hit s3 p where "looked_up G c r s t0 r' (Inr (None, st)) (sp, s2)"
      "coalesce rnd G c r' st s2 = Some (Inr (won, Some hit), s3)"
      "respond rnd G c ''chat_completions'' t0 r' hit EXACT_HIT (sp, s3) = (p, s')" "res = Inr p"
  | (fresh) t0 r' st sp s2 won s3 where "looked_up G c r s t0 r' (Inr (None, st)) (sp, s2)"
      "coalesce rnd G c r' st s2 = Some (Inr (won, None), s3)" "answer_fresh rnd G c t0 r' st won (sp, s3) = (res, s')"
proof -
  obtain t0 r' x sp s2 where l: "looked_up G c r s t0 r' x (sp, s2)" by (rule looked_upE)
  note h = assms [unfolded completion_looked_up [OF l]]
  show thesis
  proof (cases x)
    case (Inl e)
    with l h lookup_failed show thesis by simp
  next
    case (Inr v)
    then obtain cached st where x: "x = Inr (cached, st)" by (cases v) simp
    show thesis
    proof (cases cached)
      case (Some hit)
      with l h x cached show thesis by (auto split: prod.splits)
    next
      case None
      note l' = l [unfolded x None]
      from h x None obtain y s3 where q: "coalesce rnd G c r' st s2 = Some (y, s3)"
        by (cases "coalesce rnd G c r' st s2") auto
      with l' h x None lock_failed joined fresh show thesis
        by (cases y) (auto split: prod.splits option.splits)
    qed
  qed
qed

section \<open>Which services a request depends on\<close>

named_theorems untouched \<open>steps that do not depend on a replaced service\<close>

lemma stamp_status: "rs_cache_status (fst (stamp rnd rt p tr st t0 rq s)) = st"
  by (simp add: stamp_def Let_def split: prod.split option.split)

lemma respond_status: "rs_cache_status (fst (respond rnd G c route t0 rq p st ts)) = st"
  by (cases ts) (simp add: respond_def case_prod_beta stamp_status)

lemma apply_route_bypass: "rq_cache_bypass (fst (apply_adapter_route G t r s)) = rq_cache_bypass r"
  by (simp add: apply_adapter_route_def split: option.split prod.split sum.split)

text \<open>Replacing the cache service.\<close>

lemma swap_cache [untouched]:
  "finalize rnd (G\<lparr>gw_cache_service := C\<rparr>) = finalize rnd G"
  "apply_adapter_route (G\<lparr>gw_cache_service := C\<rparr>) = apply_adapter_route G"
  "traced_cost rnd (G\<lparr>gw_cache_service := C\<rparr>) = traced_cost rnd G"
  "stream_upstream (G\<lparr>gw_cache_service := C\<rparr>) = stream_upstream G"
  "streamed_response rnd (G\<lparr>gw_cache_service := C\<rparr>) = streamed_response rnd G"
  "schedule (G\<lparr>gw_cache_service := C\<rparr>) = schedule G"
  "upstream_body (G\<lparr>gw_cache_service := C\<rparr>) = upstream_body G"
  by (intro ext; simp add: finalize_def apply_adapter_route_def traced_cost_def stream_upstream_def
      streamed_response_def schedule_def upstream_body_def cong: option.case_cong)+

lemma swap_cache_respond [untouched]: "respond rnd (G\<lparr>gw_cache_service := C\<rparr>) = respond rnd G"
  by (intro ext) (simp add: respond_def untouched)

lemma swap_cache_upstream [untouched]:
  "upstream_call (G\<lparr>gw_cache_service := C\<rparr>) c r False = upstream_call G c r False"
  by (intro ext) (simp add: upstream_call_def untouched)

lemma swap_cache_fresh [untouched]:
  "answer_fresh rnd (G\<lparr>gw_cache_service := C\<rparr>) c t0 r st False = answer_fresh rnd G c t0 r st False"
  by (intro ext) (simp add: answer_fresh_def untouched cong: sum.case_cong prod.case_cong if_cong)

lemma swap_cache_stream [untouched]:
  "stream_fresh rnd (G\<lparr>gw_cache_service := C\<rparr>) = stream_fresh rnd G"
  by (intro ext) (simp add: stream_fresh_def untouched cong: sum.case_cong prod.case_cong if_cong)

lemma bypass_lookup:
  assumes "rq_cache_bypass r"
  shows "traced_lookup (G\<lparr>gw_cache_service := C\<rparr>) c r = traced_lookup G c r"
    and "fst (traced_lookup G c r s) = Inr (None, BYPASSED)"
  using assms by (simp_all add: traced_lookup_def lookup_def with_span_def fun_eq_iff case_prod_beta Let_def)

text \<open>A request that bypasses the cache never touches it: its outcome, plain or streamed, and everything
  it leaves behind are the same whatever the cache service would have answered, done or raised; no lookup,
  no lock, no write-back.\<close>

theorem bypass_ignores_cache:
  assumes "rq_cache_bypass r"
  shows "handle_chat_completion rnd (G\<lparr>gw_cache_service := C\<rparr>) c r s = handle_chat_completion rnd G c r s
    \<and> handle_chat_completion_stream rnd (G\<lparr>gw_cache_service := C\<rparr>) c r s = handle_chat_completion_stream rnd G c r s"
proof -
  obtain t0 s0 where m: "rt_monotonic (gw_runtime G) s = (t0, s0)" by fastforce
  obtain r1 s1 where a: "apply_adapter_route G (ca_tenant_id c) r s0 = (r1, s1)" by fastforce
  have b: "rq_cache_bypass r1" using apply_route_bypass [of G "ca_tenant_id c" r s0] a assms by simp
  obtain sp s2 where l: "traced_lookup G c r1 s1 = (Inr (None, BYPASSED), (sp, s2))"
    using bypass_lookup(2) [OF b, of G c s1] by (cases "traced_lookup G c r1 s1") auto
  have l': "traced_lookup (G\<lparr>gw_cache_service := C\<rparr>) c r1 s1 = (Inr (None, BYPASSED), (sp, s2))"
    using bypass_lookup(1) [OF b, where G = G and C = C and c = c] l by simp
  show ?thesis
    using m a l l' by (simp add: handle_chat_completion_def handle_chat_completion_stream_def coalesce_def untouched)
qed

text \<open>Replacing the registry and the cost service.\<close>

abbreviation swap_upstream :: "'s gateway \<Rightarrow> 's registry \<Rightarrow> 's cost_service \<Rightarrow> 's gateway" where
  "swap_upstream G R K \<equiv> G\<lparr>gw_registry := R, gw_cost_service := K\<rparr>"

lemma swap_upstream_simps [untouched]:
  "finalize rnd (swap_upstream G R K) = finalize rnd G"
  "apply_adapter_route (swap_upstream G R K) = apply_adapter_route G"
  "traced_lookup (swap_upstream G R K) = traced_lookup G"
  "coalesce rnd (swap_upstream G R K) = coalesce rnd G"
  by (intro ext; simp add: finalize_def apply_adapter_route_def traced_lookup_def coalesce_def
      cong: option.case_cong sum.case_cong prod.case_cong bool.case_cong)+

lemma swap_upstream_respond [untouched]: "respond rnd (swap_upstream G R K) = respond rnd G"
  by (intro ext) (simp add: respond_def untouched)

lemma lookup_miss_status: "lookup S r t s = (Inr (None, st), s') \<Longrightarrow> st = BYPASSED \<or> st = MISS"
  by (auto simp: lookup_def split: if_splits prod.splits sum.splits option.splits)

lemma traced_lookup_miss_status:
  assumes "traced_lookup G c r s = (Inr (None, st), ts)"
  shows "st = BYPASSED \<or> st = MISS"
  using assms lookup_miss_status [of "gw_cache_service G" r "ca_tenant_id c"]
  by (auto simp: traced_lookup_def with_span_def Let_def split: prod.splits sum.splits)

lemma answer_fresh_status: "answer_fresh rnd G c t0 r st won ts = (Inr p, s') \<Longrightarrow> rs_cache_status p = st"
  by (auto simp: answer_fresh_def Let_def case_prod_beta respond_status split: sum.splits)

text \<open>C3. A cache hit never reaches a provider: a response stamped as a hit, exact, semantic or coalesced, is
  the same, with the same final state, under any registry and any cost service, so no provider was called
  and nothing was priced for it.\<close>

theorem hit_never_calls_upstream:
  assumes h: "handle_chat_completion rnd G c r s = Some (Inr p, s')"
    and hit: "rs_cache_status p = EXACT_HIT \<or> rs_cache_status p = SEMANTIC_HIT"
  shows "handle_chat_completion rnd (G\<lparr>gw_registry := R, gw_cost_service := K\<rparr>) c r s = Some (Inr p, s')"
proof -
  have same: "looked_up (swap_upstream G R K) c r s t0 r' x ts = looked_up G c r s t0 r' x ts" for t0 r' x ts
    by (simp add: looked_up_def untouched)
  from h show ?thesis
  proof (cases rule: completion_cases)
    case (cached t0 r' q st sp s2 p')
    with completion_looked_up [OF same [THEN iffD2, OF cached(1)]] show ?thesis by (simp add: untouched)
  next
    case (joined t0 r' st sp s2 won q s3 p')
    with completion_looked_up [OF same [THEN iffD2, OF joined(1)]] show ?thesis by (simp add: untouched)
  next
    case (fresh t0 r' st sp s2 won s3)
    from fresh(1) have "st = BYPASSED \<or> st = MISS" by (auto simp: looked_up_def dest: traced_lookup_miss_status)
    with answer_fresh_status [OF fresh(3)] hit show ?thesis by auto
  qed simp_all
qed

section \<open>The coalescing lock is given back\<close>

text \<open>An operation keeps \<open>v\<close>, an observation of the state, when it does not change it.\<close>

definition keeps :: "('s \<Rightarrow> 'v) \<Rightarrow> ('s \<Rightarrow> 'a \<times> 's) \<Rightarrow> bool" where
  "keeps v f \<longleftrightarrow> (\<forall>s. v (snd (f s)) = v s)"

lemma keepsD: "keeps v f \<Longrightarrow> f s = (x, s') \<Longrightarrow> v s' = v s"
  by (metis keeps_def snd_conv)

text \<open>The locks that the store holds.\<close>

definition locks :: "codec \<Rightarrow> ('s \<Rightarrow> string \<Rightarrow> string option) \<Rightarrow> 's \<Rightarrow> string \<Rightarrow> string option" where
  "locks L view s = (\<lambda>k. if \<exists>r t. k = lock_key L r t then view s k else None)"

text \<open>Everything the handler calls, apart from the lock operations, leaves \<open>v\<close> alone.\<close>

definition surroundings_keep :: "(real \<Rightarrow> real) \<Rightarrow> 's gateway \<Rightarrow> ('s \<Rightarrow> 'v) \<Rightarrow> bool" where
  "surroundings_keep rnd G v \<longleftrightarrow>
     keeps v (rt_monotonic (gw_runtime G)) \<and> keeps v (rt_utcnow (gw_runtime G))
   \<and> (\<forall>k s. v (rt_spawn (gw_runtime G) k s) = v s) \<and> (\<forall>u s. v (gw_metric G u s) = v s)
   \<and> (\<forall>D\<in>set_option (gw_database G). keeps v (db_open D) \<and> (\<forall>t. keeps v (db_commit D t)))
   \<and> keeps v (rt_monotonic (cs_runtime (gw_cache_service G)))
   \<and> (\<forall>d s. v (rt_sleep (cs_runtime (gw_cache_service G)) d s) = v s)
   \<and> (\<forall>k s. v (rt_spawn (cs_runtime (gw_cache_service G)) k s) = v s)
   \<and> (\<forall>r t. keeps v (cs_exact_get (gw_cache_service G) r t) \<and> keeps v (cs_semantic_get (gw_cache_service G) r t))
   \<and> (\<forall>r. keeps v (route_complete (gw_registry G) r))
   \<and> (\<forall>m u. keeps v (calculate_cost_usd rnd (gw_cost_service G) m u))"

lemma surroundings_keepD:
  assumes "surroundings_keep rnd G v"
  shows "rt_monotonic (gw_runtime G) s = (x, s') \<Longrightarrow> v s' = v s"
    "rt_utcnow (gw_runtime G) s = (now, s') \<Longrightarrow> v s' = v s"
    "v (rt_spawn (gw_runtime G) k s) = v s" "v (gw_metric G m s) = v s"
    "rt_monotonic (cs_runtime (gw_cache_service G)) s = (x, s') \<Longrightarrow> v s' = v s"
    "v (rt_sleep (cs_runtime (gw_cache_service G)) d s) = v s"
    "v (rt_spawn (cs_runtime (gw_cache_service G)) k s) = v s"
    "cs_exact_get (gw_cache_service G) r t s = (y, s') \<Longrightarrow> v s' = v s"
    "cs_semantic_get (gw_cache_service G) r t s = (y, s') \<Longrightarrow> v s' = v s"
    "route_complete (gw_registry G) r s = (z, s') \<Longrightarrow> v s' = v s"
    "calculate_cost_usd rnd (gw_cost_service G) mi u s = (c, s') \<Longrightarrow> v s' = v s"
  using assms unfolding surroundings_keep_def by (blast intro: keepsD)+

lemma surroundings_database:
  assumes "surroundings_keep rnd G v" "gw_database G = Some D"
  shows "db_open D s = (x, s') \<Longrightarrow> v s' = v s" "db_commit D t s = (y, s') \<Longrightarrow> v s' = v s"
  using assms unfolding surroundings_keep_def by (auto intro: keepsD)

lemma span_keeps:
  assumes "surroundings_keep rnd G v"
  shows "v (snd (snd (span_open (gw_runtime G) tr n par (sp, s)))) = v s"
    and "v (snd (span_close (gw_runtime G) i (sp, s))) = v s"
  using surroundings_keepD(2) [OF assms]
  by (auto simp: span_open_def span_close_def split: prod.split)

lemma with_span_keeps:
  assumes K: "surroundings_keep rnd G v" and body: "\<And>i sp s. v (snd (snd (body i (sp, s)))) = v s"
  shows "v (snd (snd (with_span (gw_runtime G) tr n body (sp, s)))) = v s"
proof -
  obtain i sp1 s1 where o: "span_open (gw_runtime G) tr n None (sp, s) = (i, (sp1, s1))" by (metis surj_pair)
  obtain x sp2 s2 where b: "body i (sp1, s1) = (x, (sp2, s2))" by (metis surj_pair)
  show ?thesis
    using o b body [of i sp1 s1] span_keeps(1) [OF K, of tr n None sp s] span_keeps(2) [OF K, of i sp2 s2]
    by (simp add: with_span_def)
qed

lemma apply_route_keeps:
  assumes K: "surroundings_keep rnd G v"
  shows "v (snd (apply_adapter_route G t r s)) = v s"
proof -
  have "v s' = v s" if "gw_database G = Some D" "session D (find_route u t r) s = (x, s')" for D u x s'
    using that surroundings_database [OF K that(1)]
    by (auto simp: session_def find_route_def split: prod.splits sum.splits)
  then show ?thesis
    by (fastforce simp: apply_adapter_route_def split: option.splits prod.splits sum.splits)
qed

lemma lookup_keeps:
  assumes K: "surroundings_keep rnd G v"
  shows "v (snd (lookup (gw_cache_service G) r t s)) = v s"
  using surroundings_keepD(7-9) [OF K]
  by (auto simp: lookup_def split: prod.splits sum.splits option.splits)

lemma traced_lookup_keeps:
  assumes K: "surroundings_keep rnd G v"
  shows "v (snd (snd (traced_lookup G c r s))) = v s"
proof -
  have "v (snd (snd (with_span (gw_runtime G) (ca_trace_id c) ''cache_lookup''
      (\<lambda>i (spans, s). let (r', s1) = lookup (gw_cache_service G) r (ca_tenant_id c) s in (r', (spans, s1))) ([], s)))) = v s"
    by (rule with_span_keeps [OF K]) (simp add: lookup_keeps [OF K] split: prod.split, metis lookup_keeps [OF K] snd_conv)
  then show ?thesis
    by (auto simp: traced_lookup_def Let_def split: prod.splits sum.splits)
qed

lemma respond_keeps:
  assumes K: "surroundings_keep rnd G v"
  shows "v (snd (respond rnd G c route t0 r p st (sp, s))) = v s"
proof -
  have "v (fold (gw_metric G) ms s1) = v s1" for ms s1
    using surroundings_keepD(4) [OF K] by (induction ms arbitrary: s1) simp_all
  then have f: "v (finalize rnd G c route r' p' spans s1) = v s1" for r' p' spans s1
    using surroundings_keepD(3) [OF K] by (simp add: finalize_def Let_def split: option.split)
  have "v (snd (stamp rnd (gw_runtime G) p tr st t0 rq s1)) = v s1" for tr rq s1
    using surroundings_keepD(1) [OF K] by (simp add: stamp_def Let_def split: prod.split)
  with f show ?thesis by (simp add: respond_def case_prod_beta)
qed

lemma traced_cost_keeps:
  assumes K: "surroundings_keep rnd G v"
  shows "v (snd (snd (traced_cost rnd G c m u (sp, s)))) = v s"
  unfolding traced_cost_def
  by (rule with_span_keeps [OF K]) (simp split: prod.split sum.split, metis surroundings_keepD(11) [OF K])

text \<open>An upstream call without the lock keeps \<open>v\<close>; with the lock it ends with the release.\<close>

lemma upstream_call_keeps:
  assumes K: "surroundings_keep rnd G v"
  shows "v (snd (snd (upstream_call G c r False (sp, s)))) = v s"
    and "\<exists>s1. v s1 = v s \<and> snd (snd (upstream_call G c r True (sp, s))) =
      snd (release_coalescing_lock (gw_cache_service G) r (ca_tenant_id c) s1)"
proof -
  let ?span = "with_span (gw_runtime G) (ca_trace_id c) ''upstream_call'' (upstream_body G r) (sp, s)"
  obtain x spans s1 where b: "?span = (x, (spans, s1))" by (metis surj_pair)
  have "v (snd (snd ?span)) = v s"
    by (rule with_span_keeps [OF K])
      (auto simp: upstream_body_def dest: surroundings_keepD(10) [OF K] split: prod.split sum.split)
  then have v1: "v s1 = v s" using b by simp
  then show "v (snd (snd (upstream_call G c r False (sp, s)))) = v s"
    using b by (simp add: upstream_call_def)
  obtain y s2 where rel: "release_coalescing_lock (gw_cache_service G) r (ca_tenant_id c) s1 = (y, s2)" by fastforce
  have "snd (snd (upstream_call G c r True (sp, s))) = s2"
    using b rel by (cases y) (simp_all add: upstream_call_def)
  with v1 rel show "\<exists>s1. v s1 = v s \<and> snd (snd (upstream_call G c r True (sp, s))) =
      snd (release_coalescing_lock (gw_cache_service G) r (ca_tenant_id c) s1)"
    by (intro exI [of _ s1]) simp
qed

lemma answer_fresh_keeps:
  assumes K: "surroundings_keep rnd G v"
  shows "v (snd (answer_fresh rnd G c t0 r st won (sp, s))) = v (snd (snd (upstream_call G c r won (sp, s))))"
proof -
  obtain x sp1 s1 where u: "upstream_call G c r won (sp, s) = (x, (sp1, s1))" by (metis surj_pair)
  show ?thesis
  proof (cases x)
    case (Inl e)
    with u show ?thesis by (simp add: answer_fresh_def)
  next
    case (Inr p)
    obtain y sp2 s2 where t: "traced_cost rnd G c \<lparr>mi_provider = rs_provider p, mi_model = rs_model p\<rparr> (rs_usage p) (sp1, s1)
        = (y, (sp2, s2))" by (metis surj_pair)
    have "v s2 = v s1" using traced_cost_keeps [OF K] t by (metis snd_conv)
    then show ?thesis
      using u Inr t surroundings_keepD(3) [OF K] respond_keeps [OF K]
      by (cases y) (simp_all add: answer_fresh_def Let_def case_prod_beta schedule_def)
  qed
qed

text \<open>What the lock operations do to the locks, when Redis answers.\<close>

lemma locks_at: "locks L view s (lock_key L r t) = view s (lock_key L r t)"
  by (auto simp: locks_def)

lemma acquire_locks:
  assumes R: "redis_store (cs_redis C) view" and up: "\<And>k x e s. is_val (fst (redis_set_nx (cs_redis C) k x e s))"
    and a: "acquire_coalescing_lock C r t s = (res, s1)"
  shows "\<exists>won. res = Inr won \<and> (if won then locks (cs_codec C) view s (lock_key (cs_codec C) r t) = None
      \<and> locks (cs_codec C) view s1 = (locks (cs_codec C) view s)(lock_key (cs_codec C) r t \<mapsto> ''1'')
    else locks (cs_codec C) view s1 = locks (cs_codec C) view s)"
proof -
  obtain x s2 where nx: "redis_set_nx (cs_redis C) (lock_key (cs_codec C) r t) ''1'' (py_int (cs_lock_ttl_seconds C)) s = (x, s2)"
    by fastforce
  then obtain won where x: "x = Inr won" using up by (metis fst_conv is_val_simps(2) sum.exhaust)
  with nx a have res: "res = Inr won" "s1 = s2" by (simp_all add: acquire_coalescing_lock_def)
  show ?thesis
  proof (cases won)
    case True
    with redis_nx_won [OF R] nx x res locks_at [of "cs_codec C" view s r t] show ?thesis
      by (auto simp: locks_def fun_eq_iff)
  next
    case False
    with redis_nx_lost [OF R] nx x res show ?thesis by (auto simp: locks_def fun_eq_iff)
  qed
qed

lemma release_locks:
  assumes R: "redis_store (cs_redis C) view" and up: "\<And>k s. is_val (fst (redis_delete (cs_redis C) k s))"
    and rel: "release_coalescing_lock C r t s = (res, s1)"
  shows "locks (cs_codec C) view s1 = (locks (cs_codec C) view s)(lock_key (cs_codec C) r t := None)"
proof -
  obtain x s2 where d: "redis_delete (cs_redis C) (lock_key (cs_codec C) r t) s = (x, s2)" by fastforce
  then obtain u where x: "x = Inr u" using up by (metis fst_conv is_val_simps(2) sum.exhaust)
  with d rel have "s1 = s2" by (simp add: release_coalescing_lock_def)
  with redis_delete_view [OF R] d x show ?thesis by (auto simp: locks_def fun_eq_iff)
qed

lemma poll_keeps:
  assumes K: "surroundings_keep rnd G v"
  shows "poll_exact_cache (gw_cache_service G) dl r t s = Some y \<Longrightarrow> v (snd y) = v s"
proof -
  have "S = gw_cache_service G \<longrightarrow> v (snd y) = v s" if "poll_exact_cache S dl r t s = Some y" for S
    using that
  proof (rule poll_exact_cache.raw_induct [rotated], intro impI)
    fix f S dl r t s y
    assume ih: "\<And>S dl r t s y. f S dl r t s = Some y \<Longrightarrow> S = gw_cache_service G \<longrightarrow> v (snd y) = v s"
      and b: "(let (now, s1) = rt_monotonic (cs_runtime S) s
         in if \<not> now < dl then Some (Inr None, s1)
            else case cs_exact_get S r t (rt_sleep (cs_runtime S) (cs_poll_interval_seconds S) s1) of
                   (Inl e, s2) \<Rightarrow> Some (Inl e, s2)
                 | (Inr (Some hit), s2) \<Rightarrow> Some (Inr (Some hit), s2)
                 | (Inr None, s2) \<Rightarrow> f S dl r t s2) = Some y"
      and S: "S = gw_cache_service G"
    obtain now s1 where m: "rt_monotonic (cs_runtime S) s = (now, s1)" by fastforce
    let ?s2 = "rt_sleep (cs_runtime S) (cs_poll_interval_seconds S) s1"
    obtain x s3 where g: "cs_exact_get S r t ?s2 = (x, s3)" by fastforce
    have v1: "v s1 = v s" using surroundings_keepD(5) [OF K] m S by metis
    have v3: "v s3 = v s" using surroundings_keepD(8) [OF K] surroundings_keepD(6) [OF K] g S v1 by metis
    have "(if \<not> now < dl then Some (Inr None, s1)
            else case (x, s3) of
                   (Inl e, s2) \<Rightarrow> Some (Inl e, s2)
                 | (Inr (Some hit), s2) \<Rightarrow> Some (Inr (Some hit), s2)
                 | (Inr None, s2) \<Rightarrow> f S dl r t s2) = Some y"
      using b unfolding m g [symmetric] by simp
    then show "v (snd y) = v s"
      using v1 v3 ih [of S dl r t s3] S by (auto split: if_splits sum.splits option.splits)
  qed
  then show "poll_exact_cache (gw_cache_service G) dl r t s = Some y \<Longrightarrow> v (snd y) = v s" by blast
qed

lemma wait_keeps:
  assumes K: "surroundings_keep rnd G v"
    and w: "wait_for_coalesced_result rnd (gw_cache_service G) r t s = Some (x, s')"
  shows "v s' = v s"
proof -
  obtain now s1 where m: "rt_monotonic (cs_runtime (gw_cache_service G)) s = (now, s1)" by fastforce
  with w poll_keeps [OF K, of _ r t s1] surroundings_keepD(5) [OF K m] show ?thesis
    by (fastforce simp: wait_for_coalesced_result_def)
qed

lemma looked_up_keeps:
  assumes K: "surroundings_keep rnd G v" and l: "looked_up G c r s t0 r' x (sp, s2)"
  shows "v s2 = v s"
proof -
  obtain s0 s1 where m: "rt_monotonic (gw_runtime G) s = (t0, s0)"
    and a: "apply_adapter_route G (ca_tenant_id c) r s0 = (r', s1)" and t: "traced_lookup G c r' s1 = (x, (sp, s2))"
    using l by (auto simp: looked_up_def)
  show ?thesis
    using surroundings_keepD(1) [OF K m] apply_route_keeps [OF K, of "ca_tenant_id c" r s0] a
      traced_lookup_keeps [OF K, of c r' s1] t by simp
qed

lemma coalesce_locks:
  assumes R: "redis_store (cs_redis (gw_cache_service G)) view"
    and up: "\<And>k x e s. is_val (fst (redis_set_nx (cs_redis (gw_cache_service G)) k x e s))"
    and K: "surroundings_keep rnd G (locks (cs_codec (gw_cache_service G)) view)"
    and q: "coalesce rnd G c r st s = Some (x, s')"
  obtains (won) "x = Inr (True, None)"
      "locks (cs_codec (gw_cache_service G)) view s (lock_key (cs_codec (gw_cache_service G)) r (ca_tenant_id c)) = None"
      "locks (cs_codec (gw_cache_service G)) view s' = (locks (cs_codec (gw_cache_service G)) view s)
         (lock_key (cs_codec (gw_cache_service G)) r (ca_tenant_id c) \<mapsto> ''1'')"
  | (other) "\<And>co. x \<noteq> Inr (True, co)"
      "locks (cs_codec (gw_cache_service G)) view s' = locks (cs_codec (gw_cache_service G)) view s"
proof (cases "st = BYPASSED")
  case True
  with q other show thesis by (auto simp: coalesce_def)
next
  case False
  let ?C = "gw_cache_service G"
  obtain y s4 where acq: "acquire_coalescing_lock ?C r (ca_tenant_id c) s = (y, s4)" by fastforce
  let ?k = "lock_key (cs_codec ?C) r (ca_tenant_id c)" and ?v = "locks (cs_codec ?C) view"
  from acquire_locks [OF R up acq] obtain b where b: "y = Inr b"
    and eff: "if b then ?v s ?k = None \<and> ?v s4 = (?v s)(?k \<mapsto> ''1'') else ?v s4 = ?v s" by blast
  show thesis
  proof (cases b)
    case True
    with q False acq b eff won show thesis by (simp add: coalesce_def)
  next
    assume nb: "\<not> b"
    with q False acq b obtain z where w: "wait_for_coalesced_result rnd ?C r (ca_tenant_id c) s4 = Some (z, s')"
      and x: "x = map_sum id (Pair False) z"
      by (auto simp: coalesce_def split: option.splits prod.splits sum.splits)
    from wait_keeps [OF K w] nb eff x other show thesis by (cases z) auto
  qed
qed


section \<open>A plain completion returns\<close>

text \<open>C4. A plain completion always returns, a response or an exception: with a clock that does not run backwards
  and a positive poll interval, a caller that lost the coalescing lock stops waiting, whatever the cache
  answers and however long the winner takes, and goes on by itself.\<close>

theorem completion_returns:
  assumes "clock_laws (cs_runtime (gw_cache_service G)) clk"
    and "0 < cs_poll_interval_seconds (gw_cache_service G)"
    and "\<forall>r t w x w'. cs_exact_get (gw_cache_service G) r t w = (x, w') \<longrightarrow> clk w \<le> clk w'"
  shows "\<exists>res s'. handle_chat_completion binary64 G c r s = Some (res, s')"
proof -
  have wait: "\<exists>res s'. wait_for_coalesced_result binary64 (gw_cache_service G) r t s = Some (res, s')" for r t s
    by (rule wait_for_coalesced_result_terminates [OF assms(1,2)]) (use assms(3) in blast)
  then have "\<exists>x s'. coalesce binary64 G c r st s = Some (x, s')" for r st s
    by (simp add: coalesce_def split: prod.split sum.split bool.split option.split) (metis option.distinct(1))
  then have co: "coalesce binary64 G c r st s \<noteq> None" for r st s by (metis option.distinct(1))
  show ?thesis
    unfolding handle_chat_completion_def
    by (auto simp: case_prod_beta co split: sum.split option.split)
qed

section \<open>What a response carries\<close>

definition is_hit :: "cache_status \<Rightarrow> bool" where
  "is_hit st \<longleftrightarrow> st = EXACT_HIT \<or> st = SEMANTIC_HIT"

lemma is_hit_simps [simp]: "is_hit EXACT_HIT" "is_hit SEMANTIC_HIT" "\<not> is_hit MISS" "\<not> is_hit BYPASSED"
  by (simp_all add: is_hit_def)

text \<open>The request as the adapter routes changed it.\<close>

definition routed_request :: "'s gateway \<Rightarrow> call \<Rightarrow> chat_request \<Rightarrow> 's \<Rightarrow> chat_request" where
  "routed_request G c r s = fst (apply_adapter_route G (ca_tenant_id c) r (snd (rt_monotonic (gw_runtime G) s)))"

definition stamped :: "call \<Rightarrow> chat_request \<Rightarrow> chat_response \<Rightarrow> bool" where
  "stamped c r p \<longleftrightarrow> rs_trace_id p = ca_trace_id c \<and> rs_adapter_id p = rq_adapter_id r
     \<and> rs_model_alias p = rq_model_alias r \<and> rs_adapter_stage p = rq_adapter_stage r"

lemma respond_stamped: "stamped c r (fst (respond rnd G c route t0 r p st ts))"
  by (cases ts) (simp add: respond_def case_prod_beta stamp_def Let_def stamped_def)

lemma respond_content:
  "rs_message (fst (respond rnd G c route t0 r p st ts)) = rs_message p"
  "rs_provider (fst (respond rnd G c route t0 r p st ts)) = rs_provider p"
  "rs_model (fst (respond rnd G c route t0 r p st ts)) = rs_model p"
  "rs_usage (fst (respond rnd G c route t0 r p st ts)) = rs_usage p"
  "rs_cost_usd (fst (respond rnd G c route t0 r p st ts)) = (if is_hit st then 0 else rs_cost_usd p)"
  by (cases ts; simp add: respond_def case_prod_beta stamp_def Let_def is_hit_def)+

lemma lookup_found_status: "lookup S r t s = (Inr (Some h, st), s') \<Longrightarrow> is_hit st \<and> \<not> rq_cache_bypass r"
  by (auto simp: lookup_def split: if_splits prod.splits sum.splits option.splits)

lemma lookup_none_status: "lookup S r t s = (Inr (None, st), s') \<Longrightarrow> st = (if rq_cache_bypass r then BYPASSED else MISS)"
  by (auto simp: lookup_def split: if_splits prod.splits sum.splits option.splits)

lemma traced_lookup_value:
  assumes "traced_lookup G c r s = (Inr (cached, st), ts)"
  shows "case cached of Some h \<Rightarrow> is_hit st \<and> \<not> rq_cache_bypass r | None \<Rightarrow> st = (if rq_cache_bypass r then BYPASSED else MISS)"
  using assms lookup_found_status [of "gw_cache_service G" r "ca_tenant_id c"]
    lookup_none_status [of "gw_cache_service G" r "ca_tenant_id c"]
  by (auto simp: traced_lookup_def with_span_def Let_def split: prod.splits sum.splits option.split)

lemma looked_up_value:
  assumes "looked_up G c r s t0 r' (Inr (cached, st)) ts"
  shows "r' = routed_request G c r s \<and> (case cached of Some h \<Rightarrow> is_hit st \<and> \<not> rq_cache_bypass r
    | None \<Rightarrow> st = (if rq_cache_bypass r then BYPASSED else MISS))"
proof -
  obtain s0 s1 where m: "rt_monotonic (gw_runtime G) s = (t0, s0)"
    and a: "apply_adapter_route G (ca_tenant_id c) r s0 = (r', s1)" and l: "traced_lookup G c r' s1 = (Inr (cached, st), ts)"
    using assms by (auto simp: looked_up_def)
  have "rq_cache_bypass r' = rq_cache_bypass r" using apply_route_bypass [of G "ca_tenant_id c" r s0] a by simp
  with traced_lookup_value [OF l] m a show ?thesis by (cases cached) (simp_all add: routed_request_def)
qed

text \<open>A fresh answer is what the provider said, at the price of that provider's model.\<close>

definition served_fresh :: "(real \<Rightarrow> real) \<Rightarrow> 's gateway \<Rightarrow> chat_request \<Rightarrow> chat_response \<Rightarrow> bool" where
  "served_fresh rnd G r p \<longleftrightarrow>
     (\<exists>s1 resp s2 s3 s4. route_complete (gw_registry G) r s1 = (Inr resp, s2)
        \<and> calculate_cost_usd rnd (gw_cost_service G) \<lparr>mi_provider = rs_provider resp, mi_model = rs_model resp\<rparr>
            (rs_usage resp) s3 = (Inr (rs_cost_usd p), s4)
        \<and> rs_message p = rs_message resp \<and> rs_provider p = rs_provider resp \<and> rs_model p = rs_model resp
        \<and> rs_usage p = rs_usage resp)"

lemma upstream_call_value:
  assumes "upstream_call G c r won ts = (Inr resp, ts1)"
  shows "\<exists>s1 s2. route_complete (gw_registry G) r s1 = (Inr resp, s2)"
proof -
  obtain x spans s1 where b: "with_span (gw_runtime G) (ca_trace_id c) ''upstream_call'' (upstream_body G r) ts = (x, (spans, s1))"
    by (metis surj_pair)
  with assms have "x = Inr resp"
    by (auto simp: upstream_call_def split: if_splits prod.splits sum.splits)
  with b show ?thesis
    by (auto simp: with_span_def upstream_body_def split: prod.splits sum.splits)
qed

lemma traced_cost_value:
  assumes "traced_cost rnd G c m u ts = (Inr cost, ts1)"
  shows "\<exists>s1 s2. calculate_cost_usd rnd (gw_cost_service G) m u s1 = (Inr cost, s2)"
  using assms by (auto simp: traced_cost_def with_span_def split: prod.splits sum.splits)

lemma answer_fresh_value:
  assumes a: "answer_fresh rnd G c t0 r st won ts = (Inr p, s')" and st: "\<not> is_hit st"
  shows "served_fresh rnd G r p \<and> stamped c r p \<and> rs_cache_status p = st"
proof -
  obtain x ts1 where u: "upstream_call G c r won ts = (x, ts1)" by (metis surj_pair)
  from a u obtain resp where x: "x = Inr resp"
    by (cases x) (auto simp: answer_fresh_def split: prod.splits)
  let ?m = "\<lparr>mi_provider = rs_provider resp, mi_model = rs_model resp\<rparr>"
  obtain y sp2 s2 where k: "traced_cost rnd G c ?m (rs_usage resp) ts1 = (y, (sp2, s2))" by (metis surj_pair)
  from a u x k obtain cost where y: "y = Inr cost"
    by (cases y) (auto simp: answer_fresh_def)
  obtain s3 where p: "p = fst (respond rnd G c ''chat_completions'' t0 r (resp\<lparr>rs_cost_usd := cost\<rparr>) st (sp2, s3))"
    using a u x k y by (auto simp: answer_fresh_def Let_def case_prod_beta split: if_splits)
  obtain s1 s1' where route: "route_complete (gw_registry G) r s1 = (Inr resp, s1')"
    using upstream_call_value u x by metis
  obtain s5 s6 where cost: "calculate_cost_usd rnd (gw_cost_service G) ?m (rs_usage resp) s5 = (Inr cost, s6)"
    using traced_cost_value k y by metis
  have "served_fresh rnd G r p"
    unfolding served_fresh_def p respond_content
    using route cost st by (intro exI [of _ s1] exI [of _ resp] exI [of _ s1'] exI [of _ s5] exI [of _ s6]) simp
  then show ?thesis using p respond_stamped respond_status by metis
qed


section \<open>The concrete gateway\<close>

definition openai_up :: "(string \<times> mem llm_provider) list" where
  "openai_up = [(''openai'', stub_provider ''openai'' [''gpt-4o''] True)]"

definition bypass_ping :: chat_request where
  "bypass_ping = ping_request\<lparr>rq_cache_bypass := True\<rparr>"

lemma pricing_key_not_lock: "lock_key L r t \<noteq> pricing_key m"
  by (simp add: lock_key_def pricing_key_def)

lemma locks_cong: "view s' = view s \<Longrightarrow> locks L view s' = locks L view s"
  by (simp add: locks_def cong: if_cong)

lemma no_provider_attempts: "rg_providers R = [] \<Longrightarrow> route_complete R r s = (x, s') \<Longrightarrow> s' = s"
proof -
  assume R: "rg_providers R = []" and rt: "route_complete R r s = (x, s')"
  have "collect_attempts R m ns = Inr []" for m ns
    using R by (induction ns) (simp_all add: registry_try_get_def)
  with R rt show ?thesis
    by (auto simp: route_complete_def resolve_attempts_def registry_get_def split: if_splits)
qed

lemma mem_cost_keeps: "keeps (locks L mem_cache) (calculate_cost_usd exact (mem_cost mem_database) m u)"
proof -
  have load: "mem_cache (snd (load_pricing exact (mem_cost mem_database) m s)) = mem_cache s" for s
    by (simp add: load_pricing_def session_def read_price_def mem_database_def mem_runtime_def split: option.split)
  have set: "locks L mem_cache (s\<lparr>mem_cache := (mem_cache s)(pricing_key m \<mapsto> x)\<rparr>) = locks L mem_cache s" for s x
    by (auto simp: locks_def fun_eq_iff pricing_key_not_lock [symmetric])
  show ?thesis
    by (simp add: keeps_def calculate_cost_usd_def get_pricing_def fetch_pricing_def mem_get_set case_prod_beta set
        locks_cong [of mem_cache, OF load] split: option.split)
qed

lemma mem_surroundings:
  "surroundings_keep exact (stub_gateway []) (locks (cs_codec mem_cache_service) mem_cache)"
proof -
  have route: "mem_cache (snd (route_complete \<lparr>rg_providers = [], rg_settings = S\<rparr> r s)) = mem_cache s" for S r s
    by (metis no_provider_attempts prod.collapse registry.select_convs(1))
  have cost: "locks L mem_cache (snd (calculate_cost_usd exact (mem_cost mem_database) m u s)) = locks L mem_cache s" for L m u s
    using mem_cost_keeps by (simp add: keeps_def)
  show ?thesis
    unfolding surroundings_keep_def keeps_def stub_gateway_sel
    by (intro conjI allI ballI cost locks_cong route)
      (simp_all add: mem_runtime_def mem_cache_service_def)
qed

lemma stub_attempts:
  assumes "rq_model r = ''gpt-4o''" "\<not> truthy (rq_provider_override r)"
  shows "resolve_attempts \<lparr>rg_providers = openai_up, rg_settings = default_settings\<rparr> r
    = Inr [(stub_provider ''openai'' [''gpt-4o''] True, ''gpt-4o'')]"
proof -
  let ?R = "\<lparr>rg_providers = openai_up, rg_settings = default_settings\<rparr>" and ?P = "stub_provider ''openai'' [''gpt-4o''] True"
  have sup: "find_supporting ?R ''gpt-4o'' = Some ?P"
    by (simp add: find_supporting_def openai_up_def stub_provider_def)
  have chain: "st_provider_fallback_chain default_settings = [''openai'', ''anthropic'']"
    by (simp add: default_settings_def)
  have "ordered_names ?R ''gpt-4o'' = [''openai'', ''anthropic'']"
    by (simp add: ordered_names_def sup chain) (simp add: stub_provider_def)
  moreover have "collect_attempts ?R ''gpt-4o'' [''openai'', ''anthropic''] = Inr [(?P, ''gpt-4o'')]"
    by (simp add: registry_try_get_def openai_up_def) (simp add: stub_provider_def)
  ultimately show ?thesis using assms by (simp add: resolve_attempts_def)
qed

lemma stub_route:
  assumes "rq_model r = ''gpt-4o''" "\<not> truthy (rq_provider_override r)"
  shows "route_complete \<lparr>rg_providers = openai_up, rg_settings = default_settings\<rparr> r s =
    (Inr ((pong_response 0)\<lparr>rs_provider := ''openai'', rs_model := ''gpt-4o''\<rparr>), s)"
  using assms by (simp add: route_complete_def attempt_request_def stub_attempts) (simp add: stub_provider_def)

lemma mem_cost_total: "\<exists>k. fst (calculate_cost_usd exact (mem_cost mem_database) m u s) = Inr k"
  by (simp add: calculate_cost_usd_def get_pricing_def fetch_pricing_def mem_get_set case_prod_beta split: option.split)

lemma stub_cost: "\<exists>k ts1. traced_cost exact (stub_gateway ps) c m u ts = (Inr k, ts1)"
proof -
  obtain k s' where "calculate_cost_usd exact (mem_cost mem_database) m u
      (snd (snd (span_open mem_runtime (ca_trace_id c) ''cost_calculation'' None ts))) = (Inr k, s')"
    by (metis mem_cost_total prod.collapse)
  then show ?thesis by (simp add: traced_cost_def with_span_def case_prod_beta)
qed

lemma stub_answer:
  "\<exists>p s'. handle_chat_completion exact (stub_gateway openai_up) c bypass_ping s = Some (Inr p, s')"
proof -
  let ?r = bypass_ping
  have r: "rq_model ?r = ''gpt-4o''" "\<not> truthy (rq_provider_override ?r)" "rq_adapter_id ?r = None"
      "rq_cache_bypass ?r"
    by (simp_all add: ping_request_def bypass_ping_def)
  have up: "\<exists>ts1. upstream_call (stub_gateway openai_up) c ?r False ts =
      (Inr ((pong_response 0)\<lparr>rs_provider := ''openai'', rs_model := ''gpt-4o''\<rparr>), ts1)" for ts
    by (simp add: upstream_call_def with_span_def upstream_body_def stub_route [OF r(1,2)] case_prod_beta)
  have fresh: "\<exists>p s'. answer_fresh exact (stub_gateway openai_up) c t0 ?r BYPASSED False ts = (Inr p, s')" for t0 ts
  proof -
    obtain ts1 where u: "upstream_call (stub_gateway openai_up) c ?r False ts =
      (Inr ((pong_response 0)\<lparr>rs_provider := ''openai'', rs_model := ''gpt-4o''\<rparr>), ts1)" using up by blast
    let ?p = "(pong_response 0)\<lparr>rs_provider := ''openai'', rs_model := ''gpt-4o''\<rparr>"
    obtain k sp s2 where "traced_cost exact (stub_gateway openai_up) c
        \<lparr>mi_provider = rs_provider ?p, mi_model = rs_model ?p\<rparr> (rs_usage ?p) ts1 = (Inr k, (sp, s2))"
      by (metis stub_cost surj_pair)
    with u show ?thesis by (simp add: answer_fresh_def case_prod_beta Let_def)
  qed
  obtain sp s2 where look: "traced_lookup (stub_gateway openai_up) c ?r (snd (rt_monotonic mem_runtime s))
      = (Inr (None, BYPASSED), (sp, s2))"
    using bypass_lookup(2) [OF r(4)] by (metis prod.collapse)
  show ?thesis
    using fresh look r by (simp add: handle_chat_completion_def apply_adapter_route_def coalesce_def case_prod_beta)
qed

definition hit_cache :: "mem cache_service" where
  "hit_cache = mem_cache_service\<lparr>cs_exact_get := \<lambda>r t w. (Inr (Some ((pong_response 0)\<lparr>rs_cache_status := EXACT_HIT\<rparr>)), w)\<rparr>"

theorem bypass_ignores_cache_witness:
  "\<exists>p s'. handle_chat_completion exact ((stub_gateway openai_up)\<lparr>gw_cache_service := hit_cache\<rparr>) ping_call bypass_ping seeded_mem
     = Some (Inr p, s')"
proof -
  have "rq_cache_bypass bypass_ping" by (simp add: bypass_ping_def)
  from bypass_ignores_cache [OF this, where rnd = exact and G = "stub_gateway openai_up" and C = hit_cache
      and c = ping_call and s = seeded_mem] stub_answer
  show ?thesis by simp
qed

lemma hit_answer:
  "\<exists>p s'. handle_chat_completion exact ((stub_gateway [])\<lparr>gw_cache_service := hit_cache\<rparr>) ping_call ping_request s
     = Some (Inr p, s') \<and> rs_cache_status p = EXACT_HIT"
proof -
  let ?G = "(stub_gateway [])\<lparr>gw_cache_service := hit_cache\<rparr>"
  have "fst (traced_lookup ?G ping_call ping_request s1) =
      Inr (Some ((pong_response 0)\<lparr>rs_cache_status := EXACT_HIT\<rparr>), EXACT_HIT)" for s1
    by (simp add: traced_lookup_def with_span_def lookup_def hit_cache_def case_prod_beta ping_request_def)
  then obtain ts where l: "traced_lookup ?G ping_call ping_request (snd (rt_monotonic mem_runtime s)) =
      (Inr (Some ((pong_response 0)\<lparr>rs_cache_status := EXACT_HIT\<rparr>), EXACT_HIT), ts)" by (metis prod.collapse)
  show ?thesis
    using l by (simp add: handle_chat_completion_def apply_adapter_route_def case_prod_beta ping_request_def respond_status)
qed

theorem hit_never_calls_upstream_witness:
  "\<exists>p s'. handle_chat_completion exact ((stub_gateway openai_up)\<lparr>gw_cache_service := hit_cache\<rparr>) ping_call ping_request seeded_mem
     = Some (Inr p, s') \<and> rs_cache_status p = EXACT_HIT"
proof -
  let ?G = "(stub_gateway [])\<lparr>gw_cache_service := hit_cache\<rparr>"
  obtain p s' where h: "handle_chat_completion exact ?G ping_call ping_request seeded_mem = Some (Inr p, s')"
    and st: "rs_cache_status p = EXACT_HIT" using hit_answer by blast
  have "?G\<lparr>gw_registry := gw_registry (stub_gateway openai_up), gw_cost_service := mem_cost mem_database\<rparr>
      = (stub_gateway openai_up)\<lparr>gw_cache_service := hit_cache\<rparr>"
    by (simp add: stub_gateway_def)
  with hit_never_calls_upstream [OF h disjI1 [OF st], where R = "gw_registry (stub_gateway openai_up)"
      and K = "mem_cost mem_database"] st
  show ?thesis by auto
qed


lemma no_provider_answer:
  "\<exists>res s'. handle_chat_completion exact (stub_gateway []) ping_call ping_request seeded_mem = Some (res, s')"
proof -
  have free: "mem_cache seeded_mem = Map.empty" by (simp add: seeded_mem_def)
  have "\<exists>sp s2. traced_lookup (stub_gateway []) ping_call ping_request s1 = (Inr (None, MISS), (sp, s2)) \<and> mem_cache s2 = mem_cache s1" for s1
    by (simp add: traced_lookup_def with_span_def span_open_def span_close_def lookup_def mem_cache_service_def mem_runtime_def
        ping_request_def Let_def)
  then obtain sp s2 where l: "traced_lookup (stub_gateway []) ping_call ping_request (snd (rt_monotonic mem_runtime seeded_mem))
      = (Inr (None, MISS), (sp, s2))" "mem_cache s2 = mem_cache (snd (rt_monotonic mem_runtime seeded_mem))" by blast
  then have "mem_cache s2 = Map.empty" using free by (simp add: mem_runtime_def)
  then have "\<exists>s3. acquire_coalescing_lock mem_cache_service ping_request (ca_tenant_id ping_call) s2 = (Inr True, s3)"
    by (simp add: acquire_coalescing_lock_def mem_cache_service_def mem_redis_def)
  with l show ?thesis
    by (auto simp: handle_chat_completion_def apply_adapter_route_def coalesce_def case_prod_beta ping_request_def)
qed


text \<open>A gateway whose state is the clock, with no provider and a lock that is always held by someone else.\<close>

definition busy_gateway :: "real gateway" where
  "busy_gateway = \<lparr>
     gw_cache_service = \<lparr>cs_exact_get = (\<lambda>r t w. (Inr None, w)), cs_exact_set = (\<lambda>r s t w. (Inr (), w)),
       cs_semantic_get = (\<lambda>r t w. (Inr None, w)), cs_semantic_set = (\<lambda>r s t w. (Inr (), w)),
       cs_redis = \<lparr>redis_get = (\<lambda>k w. (Inr None, w)), redis_set = (\<lambda>k v ex w. (Inr (), w)),
         redis_set_nx = (\<lambda>k v ex w. (Inr False, w)), redis_delete = (\<lambda>k w. (Inr (), w))\<rparr>,
       cs_runtime = clock_runtime, cs_codec = sample_codec (pong_response 3),
       cs_lock_ttl_seconds = 10, cs_wait_seconds = 2, cs_poll_interval_seconds = 1/20\<rparr>,
     gw_registry = \<lparr>rg_providers = [], rg_settings = default_settings\<rparr>,
     gw_cost_service = \<lparr>
       co_database = \<lparr>db_open = (\<lambda>w. (Inl (DatabaseError ''down''), w)), db_commit = (\<lambda>t w. (Inr (), w)),
                      db_runtime = clock_runtime\<rparr>,
       co_redis = \<lparr>redis_get = (\<lambda>k w. (Inr None, w)), redis_set = (\<lambda>k v ex w. (Inr (), w)),
         redis_set_nx = (\<lambda>k v ex w. (Inr False, w)), redis_delete = (\<lambda>k w. (Inr (), w))\<rparr>,
       co_pricing_cache_ttl_seconds = 300, co_repr_float = (\<lambda>x. []), co_parse_float = (\<lambda>s. None)\<rparr>,
     gw_database = None, gw_trace_exporters = [], gw_background_jobs = None, gw_runtime = clock_runtime,
     gw_wire = ping_wire, gw_metric = (\<lambda>u w. w)\<rparr>"

theorem completion_returns_witness:
  "\<exists>res s'. handle_chat_completion binary64 busy_gateway ping_call ping_request 1000 = Some (res, s')"
  by (rule completion_returns [where clk = "\<lambda>w. w"]) (simp_all add: busy_gateway_def clock_runtime_laws)

end
