(* ===== verification/GatewayStream.thy ===== *)
theory GatewayStream
  imports GatewaySafety
begin

text \<open>
  What the orchestrator guarantees for streamed completions, and two ways in which their accounting
  differs from that of plain ones: a stream that bypasses the cache is not accounted at all, and a stream
  that another provider took over is attributed and priced with the model the client asked for.
\<close>

section \<open>What the client receives\<close>

lemma stream_fresh_cases:
  assumes f: "stream_fresh rnd G c t0 r st ts = (items, res, s')"
  obtains (raised) cs where "items = map Chunk cs" "is_exn res"
  | (bypassed) cs where "items = map Chunk cs" "res = Inr ()" "st = BYPASSED"
  | (finished) cs p where "items = map Chunk cs @ [Metadata p]" "res = Inr ()" "st \<noteq> BYPASSED"
      "m_content (rs_message p) = concat cs" "stamped c r p" "rs_cache_status p = st" "rs_model p = rq_model r"
      "\<exists>s1 sels s2. route_stream (gw_registry G) r s1 = (cs, sels, Inr (), s2)
         \<and> rs_provider p = (if sels = [] then ''unknown'' else pv_name (fst (last sels)))"
      "\<exists>s1 s2. calculate_cost_usd rnd (gw_cost_service G) \<lparr>mi_provider = rs_provider p, mi_model = rq_model r\<rparr>
          (rs_usage p) s1 = (Inr (rs_cost_usd p), s2)"
proof -
  obtain cs sel x sp s1 where u: "stream_upstream G c r ts = ((cs, sel, x), (sp, s1))" by (metis surj_pair)
  show ?thesis
  proof (cases x)
    case (Inl e)
    with f u show ?thesis by (intro raised) (auto simp: stream_fresh_def)
  next
    case (Inr v)
    show ?thesis
    proof (cases "st = BYPASSED")
      case True
      with f u Inr show ?thesis by (intro bypassed) (auto simp: stream_fresh_def)
    next
      case nb: False
      obtain y s2 where us: "stream_usage sel (concat cs) s1 = (y, s2)" by fastforce
      show ?thesis
      proof (cases y)
        fix e assume "y = Inl e"
        with f u Inr nb us show ?thesis by (intro raised) (auto simp: stream_fresh_def)
      next
        fix up assume y: "y = Inr up"
        obtain usage name where up: "up = (usage, name)" by fastforce
        let ?m = "\<lparr>mi_provider = name, mi_model = rq_model r\<rparr>"
        obtain z sp3 s3 where k: "traced_cost rnd G c ?m usage (sp, s2) = (z, (sp3, s3))" by (metis surj_pair)
        show ?thesis
        proof (cases z)
          fix e assume "z = Inl e"
          with f u Inr nb us y up k show ?thesis by (intro raised) (auto simp: stream_fresh_def)
        next
          fix cost assume z: "z = Inr cost"
          obtain p s4 where p: "streamed_response rnd G c t0 r st name usage (concat cs) cost s3 = (p, s4)" by fastforce
          have fields: "m_content (rs_message p) = concat cs" "stamped c r p" "rs_cache_status p = st"
              "rs_model p = rq_model r" "rs_provider p = name" "rs_usage p = usage" "rs_cost_usd p = cost"
            using p by (auto simp: streamed_response_def stamped_def Let_def split: prod.splits)
          obtain sa sels sb where route_eq: "route_stream (gw_registry G) r sa = (cs, sels, Inr (), sb)"
            and sel: "sel = (if sels = [] then None else Some (last sels))"
          proof -
            obtain i sp0 sa where op: "span_open (gw_runtime G) (ca_trace_id c) ''upstream_call'' None ts = (i, (sp0, sa))"
              by (metis surj_pair)
            obtain cs' sels x' sb where ro: "route_stream (gw_registry G) r sa = (cs', sels, x', sb)" by (metis surj_pair)
            from u have "cs' = cs \<and> x' = x \<and> sel = (if sels = [] then None else Some (last sels))"
              by (simp add: stream_upstream_def op ro Let_def)
            with ro Inr that show thesis by simp
          qed
          have name: "name = (case sel of None \<Rightarrow> ''unknown'' | Some (q, a) \<Rightarrow> pv_name q)"
            using us y up by (auto simp: stream_usage_def split: option.splits prod.splits sum.splits)
          have route: "\<exists>s1 sels s2. route_stream (gw_registry G) r s1 = (cs, sels, Inr (), s2)
             \<and> rs_provider p = (if sels = [] then ''unknown'' else pv_name (fst (last sels)))"
            using route_eq name fields(5)
            by (intro exI [of _ sa] exI [of _ sels] exI [of _ sb]) (simp add: sel case_prod_beta)
          have cost: "\<exists>s1 s2. calculate_cost_usd rnd (gw_cost_service G) \<lparr>mi_provider = rs_provider p, mi_model = rq_model r\<rparr>
              (rs_usage p) s1 = (Inr (rs_cost_usd p), s2)"
            using traced_cost_value [OF k [unfolded z]] fields by simp
          have "fst (stream_fresh rnd G c t0 r st ts) = map Chunk cs @ [Metadata p]"
            "fst (snd (stream_fresh rnd G c t0 r st ts)) = Inr ()"
            by (simp_all add: stream_fresh_def u Inr nb us y up k z p)
          then have "items = map Chunk cs @ [Metadata p]" "res = Inr ()" using f by simp_all
          from finished [OF this nb fields(1-4) route cost] show ?thesis .
        qed
      qed
    qed
  qed
qed

lemma stream_items_shape_aux:
  "case handle_chat_completion_stream rnd G c r s of (items, res, s') \<Rightarrow>
     \<exists>cs. if is_exn res \<or> rq_cache_bypass r then items = map Chunk cs
          else \<exists>p. items = map Chunk cs @ [Metadata p] \<and> m_content (rs_message p) = concat cs
                 \<and> stamped c (routed_request G c r s) p
                 \<and> (if is_hit (rs_cache_status p) then length cs = 1 \<and> rs_cost_usd p = 0
                    else rs_cache_status p = MISS)"
proof -
  obtain t0 s0 where m: "rt_monotonic (gw_runtime G) s = (t0, s0)" by fastforce
  obtain r1 s1 where a: "apply_adapter_route G (ca_tenant_id c) r s0 = (r1, s1)" by fastforce
  have r1: "routed_request G c r s = r1" using m a by (simp add: routed_request_def)
  have b: "rq_cache_bypass r1 = rq_cache_bypass r" using apply_route_bypass [of G "ca_tenant_id c" r s0] a by simp
  obtain l sp s2 where l: "traced_lookup G c r1 s1 = (l, (sp, s2))" by (metis surj_pair)
  note start = handle_chat_completion_stream_def m a l
  show ?thesis
  proof (cases l)
    case (Inl e)
    then show ?thesis by (simp add: start)
  next
    case (Inr v)
    obtain cached st where v: "v = (cached, st)" by fastforce
    note look = traced_lookup_value [OF l [unfolded Inr v]]
    show ?thesis
    proof (cases cached)
      case (Some q)
      obtain p s3 where p: "respond rnd G c ''chat_completions_stream'' t0 r1 q st (sp, s2) = (p, s3)" by fastforce
      then have pf: "p = fst (respond rnd G c ''chat_completions_stream'' t0 r1 q st (sp, s2))" by simp
      have h: "handle_chat_completion_stream rnd G c r s =
          ([Chunk (m_content (rs_message q)), Metadata p], Inr (), s3)"
        by (simp add: start Inr v Some p)
      have "\<not> rq_cache_bypass r" "is_hit st" using look Some b by simp_all
      moreover have "stamped c r1 p" "rs_cache_status p = st" "rs_message p = rs_message q" "is_hit st \<longrightarrow> rs_cost_usd p = 0"
        unfolding pf by (simp_all add: respond_stamped respond_content respond_status)
      ultimately show ?thesis
        unfolding h r1 by (simp, intro exI [of _ "[m_content (rs_message q)]"] exI [of _ p]) simp
    next
      case None
      with look have st: "st = (if rq_cache_bypass r then BYPASSED else MISS)" by (simp add: b)
      obtain items res s' where f: "stream_fresh rnd G c t0 r1 st (sp, s2) = (items, res, s')" by (metis surj_pair)
      have h: "handle_chat_completion_stream rnd G c r s = (items, res, s')"
        using f by (simp add: start Inr v None)
      from f show ?thesis
      proof (cases rule: stream_fresh_cases)
        case (raised cs)
        then show ?thesis by (simp add: h) (intro exI [of _ cs], simp)
      next
        case (bypassed cs)
        with st show ?thesis by (simp add: h split: if_splits) (intro exI [of _ cs], simp)
      next
        case (finished cs p)
        then have "st = MISS" "\<not> rq_cache_bypass r" using st by (auto split: if_splits)
        with finished show ?thesis
          unfolding h r1 prod.case by (intro exI [of _ cs]) (simp add: exI [of _ p])
      qed
    qed
  qed
qed

text \<open>C21. What a streaming client receives: first text chunks, then at most one metadata event, which is last.
  The event comes exactly when the stream ended well and the cache was not bypassed; it carries the caller's
  trace id, the adapter fields of the routed request and, as message, the chunks joined together; a cache
  hit is a single chunk at no cost.  After an error nothing follows the chunks already sent.\<close>

theorem stream_items_shape:
  "case handle_chat_completion_stream rnd G c r s of (items, res, s') \<Rightarrow>
     \<exists>cs. if is_exn res \<or> rq_cache_bypass r then items = map Chunk cs
          else \<exists>p. items = map Chunk cs @ [Metadata p] \<and> m_content (rs_message p) = concat cs
                 \<and> stamped c (routed_request G c r s) p
                 \<and> (if is_hit (rs_cache_status p) then length cs = 1 \<and> rs_cost_usd p = 0
                    else rs_cache_status p = MISS)"
  by (rule stream_items_shape_aux)

section \<open>Accounting of streams\<close>

text \<open>The services that account for a request: pricing, metrics, the job queue, the exporters.\<close>

abbreviation swap_accounting ::
  "'s gateway \<Rightarrow> 's cost_service \<Rightarrow> (metric_update \<Rightarrow> 's \<Rightarrow> 's) \<Rightarrow> 's job_service option \<Rightarrow> 's exporter list \<Rightarrow> 's gateway" where
  "swap_accounting G K M J X \<equiv>
     G\<lparr>gw_cost_service := K, gw_metric := M, gw_background_jobs := J, gw_trace_exporters := X\<rparr>"

lemma swap_accounting_simps:
  "apply_adapter_route (swap_accounting G K M J X) = apply_adapter_route G"
  "traced_lookup (swap_accounting G K M J X) = traced_lookup G"
  "stream_upstream (swap_accounting G K M J X) = stream_upstream G"
  by (intro ext; simp add: apply_adapter_route_def traced_lookup_def stream_upstream_def cong: option.case_cong)+

lemma stream_fresh_bypassed:
  "stream_fresh rnd (swap_accounting G K M J X) c t0 r BYPASSED ts = stream_fresh rnd G c t0 r BYPASSED ts"
  "Metadata p \<notin> set (fst (stream_fresh rnd G c t0 r BYPASSED ts))"
  by (auto simp: stream_fresh_def swap_accounting_simps split: prod.split sum.split)

text \<open>A stream that bypasses the cache is not accounted: it is the same, for the client and for everything
  it leaves behind, under any cost service, metrics, job queue and exporters, so it is never priced, counted,
  traced or persisted, and the client gets no metadata event.\<close>

theorem bypassed_stream_unaccounted:
  assumes "rq_cache_bypass r"
  shows "handle_chat_completion_stream rnd
      (G\<lparr>gw_cost_service := K, gw_metric := M, gw_background_jobs := J, gw_trace_exporters := X\<rparr>) c r s
      = handle_chat_completion_stream rnd G c r s
    \<and> Metadata p \<notin> set (fst (handle_chat_completion_stream rnd G c r s))"
proof -
  obtain t0 s0 where m: "rt_monotonic (gw_runtime G) s = (t0, s0)" by fastforce
  obtain r1 s1 where a: "apply_adapter_route G (ca_tenant_id c) r s0 = (r1, s1)" by fastforce
  have b: "rq_cache_bypass r1" using apply_route_bypass [of G "ca_tenant_id c" r s0] a assms by simp
  obtain ts where l: "traced_lookup G c r1 s1 = (Inr (None, BYPASSED), ts)"
    using bypass_lookup(2) [OF b, of G c s1] by (metis prod.collapse)
  show ?thesis
    using m a l by (simp add: handle_chat_completion_stream_def swap_accounting_simps stream_fresh_bypassed)
qed

text \<open>C22. Whom a stream is attributed to: the metadata of a stream that reached a provider names the provider
  that served it but always the model of the routed request, and the price is looked up for that pair; the
  model that a fallback provider was really called with, the one of the last selection, plays no part.\<close>

theorem stream_attribution:
  assumes h: "handle_chat_completion_stream rnd G c r s = (items, res, s')"
    and p: "Metadata p \<in> set items" "\<not> is_hit (rs_cache_status p)"
  shows "rs_model p = rq_model (routed_request G c r s)
    \<and> (\<exists>cs s1 sels s2. route_stream (gw_registry G) (routed_request G c r s) s1 = (cs, sels, Inr (), s2)
         \<and> rs_provider p = (if sels = [] then ''unknown'' else pv_name (fst (last sels))))
    \<and> (\<exists>s3 s4. calculate_cost_usd rnd (gw_cost_service G)
         \<lparr>mi_provider = rs_provider p, mi_model = rq_model (routed_request G c r s)\<rparr> (rs_usage p) s3 = (Inr (rs_cost_usd p), s4))"
proof -
  obtain t0 s0 where m: "rt_monotonic (gw_runtime G) s = (t0, s0)" by fastforce
  obtain r1 s1 where a: "apply_adapter_route G (ca_tenant_id c) r s0 = (r1, s1)" by fastforce
  have r1: "routed_request G c r s = r1" using m a by (simp add: routed_request_def)
  obtain l sp s2 where l: "traced_lookup G c r1 s1 = (l, (sp, s2))" by (metis surj_pair)
  note start = handle_chat_completion_stream_def m a l
  show ?thesis
  proof (cases l)
    case (Inl e)
    with h p show ?thesis by (simp add: start)
  next
    case (Inr v)
    obtain cached st where v: "v = (cached, st)" by fastforce
    note look = traced_lookup_value [OF l [unfolded Inr v]]
    show ?thesis
    proof (cases cached)
      case (Some q)
      with h p(1) have "p = fst (respond rnd G c ''chat_completions_stream'' t0 r1 q st (sp, s2))"
        by (auto simp: start Inr v case_prod_beta)
      with look Some p(2) show ?thesis by (simp add: respond_status)
    next
      case None
      with h have f: "stream_fresh rnd G c t0 r1 st (sp, s2) = (items, res, s')" by (simp add: start Inr v)
      from f show ?thesis
      proof (cases rule: stream_fresh_cases)
        case (finished cs p')
        then have "p' = p" using p(1) by auto
        with finished show ?thesis unfolding r1 by blast
      qed (use p(1) in auto)
    qed
  qed
qed

subsection \<open>A fallback\<close>

theorem bypassed_stream_unaccounted_witness:
  "fst (snd (handle_chat_completion_stream exact ((stub_gateway openai_up)\<lparr>gw_cost_service := mem_cost down_database,
       gw_metric := \<lambda>u w. w, gw_background_jobs := None, gw_trace_exporters := []\<rparr>) ping_call bypass_ping seeded_mem))
   = fst (snd (handle_chat_completion_stream exact (stub_gateway openai_up) ping_call bypass_ping seeded_mem))"
proof -
  have "rq_cache_bypass bypass_ping" by (simp add: bypass_ping_def)
  from bypassed_stream_unaccounted [OF this, where G = "stub_gateway openai_up" and K = "mem_cost down_database"
      and M = "\<lambda>u w. w" and J = None and X = "[]" and rnd = exact and c = ping_call and s = seeded_mem]
  show ?thesis by simp
qed

text \<open>OpenAI is down, Anthropic serves the request with the model of the fallback map.\<close>

definition openai_down :: "(string \<times> mem llm_provider) list" where
  "openai_down = [(''openai'', stub_provider ''openai'' [''gpt-4o''] False),
     (''anthropic'', stub_provider ''anthropic'' [''claude-3-5-sonnet-20241022''] True)]"

lemma fallback_stream:
  "route_stream \<lparr>rg_providers = openai_down, rg_settings = default_settings\<rparr> ping_request s =
    ([''po'', ''ng''], [(stub_provider ''anthropic'' [''claude-3-5-sonnet-20241022''] True,
       ping_request\<lparr>rq_model := ''claude-3-5-sonnet-20241022''\<rparr>)], Inr (), s)"
proof -
  let ?R = "\<lparr>rg_providers = openai_down, rg_settings = default_settings\<rparr>"
  let ?O = "stub_provider ''openai'' [''gpt-4o''] False"
    and ?A = "stub_provider ''anthropic'' [''claude-3-5-sonnet-20241022''] True"
  have sup: "find_supporting ?R ''gpt-4o'' = Some ?O"
    by (simp add: find_supporting_def openai_down_def) (simp add: stub_provider_def)
  have names: "pv_name ?O = ''openai''" "pv_name ?A = ''anthropic''" by (simp_all add: stub_provider_def)
  have chain: "st_provider_fallback_chain default_settings = [''openai'', ''anthropic'']"
    and fmap: "st_provider_model_fallback_map default_settings = default_fallback_map"
    by (simp_all add: default_settings_def)
  have eq: "resolve_equivalent_model ?R ''gpt-4o'' ''anthropic'' = Inr (Some ''claude-3-5-sonnet-20241022'')"
  proof -
    have "map_of default_fallback_map (mi_str \<lparr>mi_provider = ''openai'', mi_model = ''gpt-4o''\<rparr>)
        = Some (mi_str \<lparr>mi_provider = ''anthropic'', mi_model = ''claude-3-5-sonnet-20241022''\<rparr>)"
      by (simp add: default_fallback_map_def mi_str_def)
    moreover have "mi_parse (mi_str \<lparr>mi_provider = ''anthropic'', mi_model = ''claude-3-5-sonnet-20241022''\<rparr>)
        = Inr \<lparr>mi_provider = ''anthropic'', mi_model = ''claude-3-5-sonnet-20241022''\<rparr>"
      by (rule mi_parse_str) simp_all
    ultimately show ?thesis by (simp add: resolve_equivalent_model_def sup names fmap)
  qed
  have "ordered_names ?R ''gpt-4o'' = [''openai'', ''anthropic'']"
    by (simp add: ordered_names_def sup chain names)
  moreover have "collect_attempts ?R ''gpt-4o'' [''openai'', ''anthropic'']
      = Inr [(?O, ''gpt-4o''), (?A, ''claude-3-5-sonnet-20241022'')]"
    by (simp add: registry_try_get_def openai_down_def eq [unfolded openai_down_def])
      (simp add: stub_provider_def)
  ultimately have "resolve_attempts ?R ping_request = Inr [(?O, ''gpt-4o''), (?A, ''claude-3-5-sonnet-20241022'')]"
    by (simp add: resolve_attempts_def ping_request_def)
  moreover have "pv_stream ?O r s = ([], Inl (Provider (ProviderTimeoutError ''timeout'')), s)"
      "pv_stream ?A r s = ([''po'', ''ng''], Inr (), s)" for r by (simp_all add: stub_provider_def)
  moreover have "rq_model ping_request = ''gpt-4o''" by (simp add: ping_request_def)
  ultimately show ?thesis
    by (simp add: route_stream_def attempt_request_def)
qed

lemma fallback_stream_ends:
  "\<exists>items p s'. handle_chat_completion_stream exact (stub_gateway openai_down) ping_call ping_request s = (items, Inr (), s')
    \<and> Metadata p \<in> set items \<and> \<not> is_hit (rs_cache_status p)"
proof -
  let ?G = "stub_gateway openai_down"
  have up: "\<exists>ts1. stream_upstream ?G ping_call ping_request ts = (([''po'', ''ng''],
      Some (stub_provider ''anthropic'' [''claude-3-5-sonnet-20241022''] True,
        ping_request\<lparr>rq_model := ''claude-3-5-sonnet-20241022''\<rparr>), Inr ()), ts1)" for ts
    by (simp add: stream_upstream_def fallback_stream case_prod_beta)
  have us: "stream_usage (Some (stub_provider ''anthropic'' [''claude-3-5-sonnet-20241022''] True, r)) t s1
      = (Inr (\<lparr>input_tokens = 1000, output_tokens = 1000\<rparr>, ''anthropic''), s1)" for r t s1
    by (simp add: stream_usage_def stub_provider_def)
  have fresh: "\<exists>items p s'. stream_fresh exact ?G ping_call t0 ping_request MISS ts = (items, Inr (), s')
      \<and> Metadata p \<in> set items \<and> rs_cache_status p = MISS" for t0 ts
  proof -
    obtain sp1 s1 where u: "stream_upstream ?G ping_call ping_request ts = (([''po'', ''ng''],
      Some (stub_provider ''anthropic'' [''claude-3-5-sonnet-20241022''] True,
        ping_request\<lparr>rq_model := ''claude-3-5-sonnet-20241022''\<rparr>), Inr ()), (sp1, s1))" using up by (metis surj_pair)
    obtain k sp2 s2 where k: "traced_cost exact ?G ping_call \<lparr>mi_provider = ''anthropic'', mi_model = rq_model ping_request\<rparr>
        \<lparr>input_tokens = 1000, output_tokens = 1000\<rparr> (sp1, s1) = (Inr k, (sp2, s2))"
      by (metis stub_cost surj_pair)
    show ?thesis
      by (simp add: stream_fresh_def u us k case_prod_beta) (simp add: streamed_response_def case_prod_beta Let_def)
  qed
  have "fst (traced_lookup ?G ping_call ping_request s1) = Inr (None, MISS)" for s1
    by (simp add: traced_lookup_def with_span_def lookup_def mem_cache_service_def case_prod_beta ping_request_def Let_def)
  then obtain ts where "traced_lookup ?G ping_call ping_request (snd (rt_monotonic mem_runtime s)) = (Inr (None, MISS), ts)"
    by (metis prod.collapse)
  moreover obtain items p s' where "stream_fresh exact ?G ping_call (fst (rt_monotonic mem_runtime s)) ping_request MISS ts
      = (items, Inr (), s')" "Metadata p \<in> set items" "rs_cache_status p = MISS" using fresh by blast
  ultimately show ?thesis
    by (intro exI [of _ items] exI [of _ p] exI [of _ s'])
      (simp add: handle_chat_completion_stream_def apply_adapter_route_def case_prod_beta ping_request_def)
qed

theorem stream_attribution_witness:
  "\<exists>items p s'. handle_chat_completion_stream exact (stub_gateway openai_down) ping_call ping_request priced_mem
      = (items, Inr (), s') \<and> Metadata p \<in> set items \<and> rs_model p = ''gpt-4o''"
proof -
  obtain items p s' where h: "handle_chat_completion_stream exact (stub_gateway openai_down) ping_call ping_request priced_mem
      = (items, Inr (), s')" and p: "Metadata p \<in> set items" "\<not> is_hit (rs_cache_status p)"
    using fallback_stream_ends by blast
  have "routed_request (stub_gateway openai_down) ping_call ping_request priced_mem = ping_request"
    by (simp add: routed_request_def apply_adapter_route_def)
  with stream_attribution [OF h p] h p(1) show ?thesis by (auto simp: ping_request_def)
qed

end
