(* ===== verification/Chat.thy ===== *)
theory Chat
  imports GatewayStream Pipeline
begin

text \<open>
  The endpoint for chat completions (\<open>api/v1/chat.py\<close>): what it takes from the request state, the headers of a plain
  answer and the server-sent events of a streamed one.  \<open>dumps\<close> is \<open>json.dumps\<close> and \<open>fmt\<close> the format \<open>.6f\<close> of a float.

  The events of a stream are computed with the answer; in the code they are computed while the client reads, after the
  middlewares have returned, which themselves do nothing to the environment any more at that point.
\<close>

section \<open>The endpoint\<close>

definition resolve_trace_id :: "request_state \<Rightarrow> string" where
  "resolve_trace_id st = str_or (qs_trace_id st) []"

definition resolve_tenant_id :: "request_state \<Rightarrow> string" where
  "resolve_tenant_id st = str_or (qs_tenant_id st) default_tenant_id"

definition resolve_api_key_id :: "request_state \<Rightarrow> string option" where
  "resolve_api_key_id st = qs_api_key_id st"

text \<open>A streamed answer is the list of the frames sent, and how the stream ended.\<close>

datatype chat_content = Completion chat_response | EventStream "string list" "exn + unit"

definition completion_headers :: "(real \<Rightarrow> string) \<Rightarrow> chat_response \<Rightarrow> 'b api_response \<Rightarrow> 'b api_response" where
  "completion_headers fmt result r0 =
     (let r1 = set_header ''X-Trace-Id'' (rs_trace_id result) r0;
          r2 = set_header ''X-Cache-Status'' (cache_status_value (rs_cache_status result)) r1;
          r3 = set_header ''X-Request-Cost'' (fmt (rs_cost_usd result)) r2;
          r4 = (if truthy (rs_adapter_id result) then set_header ''X-Adapter-Id'' (the (rs_adapter_id result)) r3 else r3);
          r5 = (if truthy (rs_model_alias result)
                then set_header ''X-Base-Model'' (rs_model result) (set_header ''X-Model-Alias'' (the (rs_model_alias result)) r4)
                else r4)
      in if truthy (rs_adapter_stage result) then set_header ''X-Adapter-Stage'' (the (rs_adapter_stage result)) r5 else r5)"

lemma completion_headers_cache_status:
  "map_of (hp_headers (completion_headers fmt p r)) ''X-Cache-Status'' = Some (cache_status_value (rs_cache_status p))"
  by (simp add: completion_headers_def Let_def set_header_other)

lemma completion_headers_cost:
  "map_of (hp_headers (completion_headers fmt p r)) ''X-Request-Cost'' = Some (fmt (rs_cost_usd p))"
  by (simp add: completion_headers_def Let_def set_header_other)

lemma completion_headers_sel [simp]: "hp_body (completion_headers fmt p r) = hp_body r" "hp_status (completion_headers fmt p r) = hp_status r"
  by (simp_all add: completion_headers_def set_header_def Let_def)

fun sse_event :: "stream_item \<Rightarrow> json" where
  "sse_event (Metadata r) = JObj [
     (''usage'', JObj [(''input_tokens'', JInt (input_tokens (rs_usage r))), (''output_tokens'', JInt (output_tokens (rs_usage r)))]),
     (''cost_usd'', JFloat (rs_cost_usd r)), (''cache_status'', JStr (cache_status_value (rs_cache_status r))),
     (''adapter_id'', option_json (rs_adapter_id r)), (''model_alias'', option_json (rs_model_alias r)),
     (''base_model'', JStr (rs_model r))]"
| "sse_event (Chunk item) = JObj [(''choices'', JArr [JObj [(''delta'', JObj [(''content'', JStr item)])]])]"

definition sse_frame :: "string \<Rightarrow> string" where
  "sse_frame payload = ''data: '' @ payload @ [NL, NL]"

definition sse_frames :: "(json \<Rightarrow> string) \<Rightarrow> stream_item list \<Rightarrow> exn + unit \<Rightarrow> string list" where
  "sse_frames dumps items result =
     map (\<lambda>item. sse_frame (dumps (sse_event item))) items
     @ (case result of Inl e \<Rightarrow> [] | Inr _ \<Rightarrow> [sse_frame ''[DONE]''])"

definition call_of :: "request_state \<Rightarrow> call" where
  "call_of st = \<lparr>ca_trace_id = resolve_trace_id st, ca_tenant_id = resolve_tenant_id st, ca_api_key_id = resolve_api_key_id st\<rparr>"

definition create_chat_completion ::
  "(real \<Rightarrow> real) \<Rightarrow> (real \<Rightarrow> string) \<Rightarrow> (json \<Rightarrow> string) \<Rightarrow> 's gateway \<Rightarrow> chat_request \<Rightarrow> request_state \<times> 's \<Rightarrow>
     ((exn + chat_content api_response) \<times> (request_state \<times> 's)) option" where
  "create_chat_completion rnd fmt dumps G payload = (\<lambda>(st, s).
     if \<not> rq_stream payload
     then (case handle_chat_completion rnd G (call_of st) payload s of
             None \<Rightarrow> None
           | Some (Inl e, s1) \<Rightarrow> Some (Inl e, (st, s1))
           | Some (Inr result, s1) \<Rightarrow>
               Some (Inr (completion_headers fmt result
                 \<lparr>hp_status = 200, hp_headers = [], hp_body = Content (Completion result)\<rparr>), (st, s1)))
     else (case handle_chat_completion_stream rnd G (call_of st) payload s of
             (items, result, s1) \<Rightarrow>
               Some (Inr \<lparr>hp_status = 200, hp_headers = [(''X-Trace-Id'', resolve_trace_id st)],
                          hp_body = Content (EventStream (sse_frames dumps items result) result)\<rparr>, (st, s1))))"

section \<open>Reading the events back\<close>

text \<open>The lines of a text, as an HTTP client iterates over them.\<close>

fun lines_from :: "string \<Rightarrow> string \<Rightarrow> string list" where
  "lines_from cur [] = (if cur = [] then [] else [cur])"
| "lines_from cur (c # cs) = (if c = NL then cur # lines_from [] cs else lines_from (cur @ [c]) cs)"

lemma lines_from_line: "NL \<notin> set l \<Longrightarrow> lines_from cur (l @ NL # rest) = (cur @ l) # lines_from [] rest"
  by (induction l arbitrary: cur) auto

lemma lines_sse_frame: "NL \<notin> set p \<Longrightarrow> lines_from [] (sse_frame p @ rest) = (''data: '' @ p) # [] # lines_from [] rest"
  using lines_from_line [of "''data: '' @ p" "[]" "NL # rest"] by (simp add: sse_frame_def)

definition line_codec :: "(json \<Rightarrow> string) \<Rightarrow> (string \<Rightarrow> json option) \<Rightarrow> json \<Rightarrow> bool" where
  "line_codec dumps loads j \<longleftrightarrow> json_codec dumps loads j \<and> NL \<notin> set (dumps j)"

lemma openai_lines_event:
  assumes "json_codec dumps loads j"
  shows "openai_lines loads ((''data: '' @ dumps j) # rest) err =
    (case openai_event_text j of Inl e \<Rightarrow> ([], Inl e) | Inr None \<Rightarrow> openai_lines loads rest err
     | Inr (Some content) \<Rightarrow> (let (chunks, result) = openai_lines loads rest err in (content # chunks, result)))"
proof -
  have "strip_ws (SP # dumps j) = dumps j" using assms by (intro strip_ws_id) (simp_all add: json_codec_def)
  then show ?thesis using assms by (simp add: startswith_def json_codec_def)
qed

lemma sse_event_text:
  "openai_event_text (sse_event (Metadata p)) = Inr None"
  "openai_event_text (sse_event (Chunk t)) = Inr (if t = [] then None else Some t)"
  by (simp_all add: openai_event_text_def json_or_def Let_def)

fun chunk_texts :: "stream_item list \<Rightarrow> string list" where
  "chunk_texts [] = []"
| "chunk_texts (Chunk t # items) = (if t = [] then chunk_texts items else t # chunk_texts items)"
| "chunk_texts (Metadata p # items) = chunk_texts items"

lemma concat_chunk_texts: "concat (chunk_texts (map Chunk cs @ [Metadata p])) = concat cs" "concat (chunk_texts (map Chunk cs)) = concat cs"
  by (induction cs) auto

lemma done_lines: "openai_lines loads (''data: [DONE]'' # rest) err = ([], Inr ())"
proof -
  have "strip_ws '' [DONE]'' = ''[DONE]''" using strip_ws_id [of "''[DONE]''"] by (simp add: is_space_def)
  then show ?thesis by (simp add: startswith_def)
qed

lemma openai_reads_events:
  assumes "\<forall>item\<in>set items. line_codec dumps loads (sse_event item)"
  shows "openai_lines loads (lines_from [] (concat (map (\<lambda>item. sse_frame (dumps (sse_event item))) items) @ rest)) err =
    (case openai_lines loads (lines_from [] rest) err of (texts, result) \<Rightarrow> (chunk_texts items @ texts, result))"
  using assms
proof (induction items)
  case Nil
  then show ?case by (simp split: prod.split)
next
  case (Cons item items)
  let ?rest = "concat (map (\<lambda>item. sse_frame (dumps (sse_event item))) items) @ rest"
  have c: "line_codec dumps loads (sse_event item)" using Cons.prems by simp
  have ln: "lines_from [] (concat (map (\<lambda>item. sse_frame (dumps (sse_event item))) (item # items)) @ rest)
      = (''data: '' @ dumps (sse_event item)) # [] # lines_from [] ?rest"
    using c lines_sse_frame [of "dumps (sse_event item)" ?rest] by (simp add: line_codec_def)
  have j: "json_codec dumps loads (sse_event item)" using c by (simp add: line_codec_def)
  have skip: "openai_lines loads ([] # lines_from [] ?rest) err = openai_lines loads (lines_from [] ?rest) err" by simp
  show ?case unfolding ln openai_lines_event [OF j] skip
    using Cons by (cases item) (auto simp: sse_event_text simp del: sse_event.simps split: prod.split)
qed

lemma done_frame: "openai_lines loads (lines_from [] (sse_frame ''[DONE]'')) err = ([], Inr ())"
  using lines_sse_frame [of "''[DONE]''" "[]"] by (simp add: done_lines del: openai_lines.simps)

text \<open>C19. A streamed answer can be read back: a client that speaks OpenAI's protocol, such as the gateway's own OpenAI
  adapter, reads from the frames of the endpoint exactly the text chunks that are not empty, passing over the metadata event,
  and ends normally, because of the end marker; joined together they are the message that the metadata reports.  When the
  stream failed the end marker is missing, so the client still has what was sent and sees the broken connection.\<close>

theorem streamed_answer_reads_back:
  assumes call: "handle_chat_completion_stream rnd G (call_of st) payload s = (items, result, s1)" and str: "rq_stream payload"
    and codec: "\<forall>item\<in>set items. line_codec dumps loads (sse_event item)"
  shows "\<exists>frames. create_chat_completion rnd fmt dumps G payload (st, s) = Some (Inr \<lparr>hp_status = 200,
        hp_headers = [(''X-Trace-Id'', resolve_trace_id st)], hp_body = Content (EventStream frames result)\<rparr>, (st, s1))
    \<and> openai_lines loads (lines_from [] (concat frames)) (Some broken) =
        (chunk_texts items, if is_val result then Inr () else Inl broken)
    \<and> (\<forall>p. Metadata p \<in> set items \<longrightarrow> concat (chunk_texts items) = m_content (rs_message p))"
proof (intro exI conjI)
  let ?frames = "sse_frames dumps items result"
  show "create_chat_completion rnd fmt dumps G payload (st, s) = Some (Inr \<lparr>hp_status = 200,
        hp_headers = [(''X-Trace-Id'', resolve_trace_id st)], hp_body = Content (EventStream ?frames result)\<rparr>, (st, s1))"
    using call str by (simp add: create_chat_completion_def)
  note r = openai_reads_events [OF codec, of "concat (case result of Inl e \<Rightarrow> [] | Inr _ \<Rightarrow> [sse_frame ''[DONE]''])" "Some broken"]
  show "openai_lines loads (lines_from [] (concat ?frames)) (Some broken) =
        (chunk_texts items, if is_val result then Inr () else Inl broken)"
    using r by (cases result) (simp_all add: sse_frames_def done_frame del: sse_event.simps)
  from stream_items_shape_aux [where rnd = rnd and G = G and c = "call_of st" and r = payload and s = s]
  show "\<forall>p. Metadata p \<in> set items \<longrightarrow> concat (chunk_texts items) = m_content (rs_message p)"
    by (auto simp: call concat_chunk_texts split: if_splits)
qed

text \<open>A stream past the cache, and a codec for its two events.\<close>

definition bypass_stream :: chat_request where
  "bypass_stream = bypass_ping\<lparr>rq_stream := True\<rparr>"

definition po_dumps :: "json \<Rightarrow> string" where
  "po_dumps j = (if j = sse_event (Chunk ''po'') then ''{po}'' else ''{ng}'')"

definition po_loads :: "string \<Rightarrow> json option" where
  "po_loads s = (if s = ''{po}'' then Some (sse_event (Chunk ''po'')) else if s = ''{ng}'' then Some (sse_event (Chunk ''ng'')) else None)"

lemma po_codec: "\<forall>item\<in>set [Chunk ''po'', Chunk ''ng'']. line_codec po_dumps po_loads (sse_event item)"
  by (simp add: line_codec_def json_codec_def po_dumps_def po_loads_def is_space_def)

lemma bypass_stream_items:
  "\<exists>s1. handle_chat_completion_stream exact (stub_gateway openai_up) c bypass_stream s = ([Chunk ''po'', Chunk ''ng''], Inr (), s1)"
proof -
  let ?G = "stub_gateway openai_up"
  have r: "rq_model bypass_stream = ''gpt-4o''" "\<not> truthy (rq_provider_override bypass_stream)" "rq_adapter_id bypass_stream = None"
      "rq_cache_bypass bypass_stream"
    by (simp_all add: bypass_stream_def bypass_ping_def ping_request_def)
  let ?P = "stub_provider ''openai'' [''gpt-4o''] True"
  have P: "pv_stream ?P r s = ([''po'', ''ng''], Inr (), s)" for r s by (simp add: stub_provider_def)
  have rs: "route_stream \<lparr>rg_providers = openai_up, rg_settings = default_settings\<rparr> bypass_stream s =
      ([''po'', ''ng''], [(?P, bypass_stream\<lparr>rq_model := ''gpt-4o''\<rparr>)], Inr (), s)" for s
    by (simp add: route_stream_def stub_attempts [OF r(1,2)] attempt_request_def P)
  have "fst (stream_upstream ?G c bypass_stream ts) = ([''po'', ''ng''], Some (?P, bypass_stream\<lparr>rq_model := ''gpt-4o''\<rparr>), Inr ())" for ts
    by (simp add: stream_upstream_def rs case_prod_beta Let_def)
  then have up: "stream_upstream ?G c bypass_stream ts = (([''po'', ''ng''],
      Some (stub_provider ''openai'' [''gpt-4o''] True, bypass_stream\<lparr>rq_model := ''gpt-4o''\<rparr>), Inr ()),
      snd (stream_upstream ?G c bypass_stream ts))" for ts
    by (simp only: prod_eq_iff fst_conv snd_conv)
  have fresh: "\<exists>s1. stream_fresh exact ?G c t0 bypass_stream BYPASSED ts = ([Chunk ''po'', Chunk ''ng''], Inr (), s1)" for t0 ts
    unfolding stream_fresh_def by (subst up) (simp add: case_prod_beta)
  obtain s0 where m: "rt_monotonic mem_runtime s = s0" by blast
  have "fst (traced_lookup ?G c bypass_stream w) = Inr (None, BYPASSED)" for w by (rule bypass_lookup(2) [OF r(4)])
  then obtain ts where l: "traced_lookup ?G c bypass_stream (snd s0) = (Inr (None, BYPASSED), ts)"
    by (metis prod.collapse)
  then show ?thesis using fresh [of "fst s0" ts]
    by (simp add: handle_chat_completion_stream_def apply_adapter_route_def case_prod_beta r m)
qed

theorem streamed_answer_reads_back_witness:
  "\<exists>frames q. create_chat_completion exact (\<lambda>x. []) po_dumps (stub_gateway openai_up) bypass_stream (fresh_state, seeded_mem)
      = Some (Inr \<lparr>hp_status = 200, hp_headers = [(''X-Trace-Id'', [])], hp_body = Content (EventStream frames (Inr ()))\<rparr>, q)
    \<and> openai_lines po_loads (lines_from [] (concat frames)) (Some TimeoutError) = ([''po'', ''ng''], Inr ())"
proof -
  obtain s1 where h: "handle_chat_completion_stream exact (stub_gateway openai_up) (call_of fresh_state) bypass_stream seeded_mem
      = ([Chunk ''po'', Chunk ''ng''], Inr (), s1)" using bypass_stream_items by blast
  have "rq_stream bypass_stream" by (simp add: bypass_stream_def)
  from streamed_answer_reads_back [where fmt = "\<lambda>x. []" and broken = TimeoutError, OF h this po_codec] show ?thesis
    by (auto simp: resolve_trace_id_def fresh_state_def str_or_def)
qed

end
