(* ===== verification/Health.thy ===== *)
theory Health
  imports Middleware
begin

text \<open>
  Liveness and readiness (\<open>services/health_service.py\<close>, \<open>api/v1/health.py\<close>): three probes with a time limit, whose
  failures become part of the report, and the status code of the readiness endpoint.

  \<open>asyncio.gather\<close> runs the probes concurrently and gives their results in the order of its arguments; here they
  run one after the other.  \<open>he_exn_text\<close> is \<open>str(exc)\<close>.
\<close>

section \<open>The service\<close>

record dependency_status =
  ds_name :: string
  ds_status :: string
  ds_detail :: "string option"

record readiness_report =
  rd_status :: string
  rd_dependencies :: "dependency_status list"

definition is_ready :: "readiness_report \<Rightarrow> bool" where
  "is_ready report = (rd_status report = ''ok'')"

record 's health_service =
  he_database :: "'s database"
  he_select_one :: "('s, unit) unit_of_work"
  he_redis_ping :: "'s \<Rightarrow> (exn + bool) \<times> 's"
  he_get_collections :: "'s \<Rightarrow> (exn + unit) \<times> 's"
  he_runtime :: "'s runtime"
  he_exn_text :: "exn \<Rightarrow> string"

definition probe_timeout_seconds :: real where
  "probe_timeout_seconds = 2"

definition probe_error :: "'s health_service \<Rightarrow> string \<Rightarrow> exn \<Rightarrow> dependency_status" where
  "probe_error H name e = \<lparr>ds_name = name, ds_status = ''error'', ds_detail = Some (he_exn_text H e)\<rparr>"

definition probe_ok :: "string \<Rightarrow> dependency_status" where
  "probe_ok name = \<lparr>ds_name = name, ds_status = ''ok'', ds_detail = None\<rparr>"

definition check_postgres :: "'s health_service \<Rightarrow> 's \<Rightarrow> (exn + dependency_status) \<times> 's" where
  "check_postgres H s =
     (case wait_for (he_runtime H) probe_timeout_seconds (session (he_database H) (he_select_one H)) s of
        (Inl e, s1) \<Rightarrow> (Inr (probe_error H ''postgres'' e), s1)
      | (Inr _, s1) \<Rightarrow> (Inr (probe_ok ''postgres''), s1))"

definition check_redis :: "'s health_service \<Rightarrow> 's \<Rightarrow> (exn + dependency_status) \<times> 's" where
  "check_redis H s =
     (case wait_for (he_runtime H) probe_timeout_seconds (he_redis_ping H) s of
        (Inl e, s1) \<Rightarrow> (Inr (probe_error H ''redis'' e), s1)
      | (Inr True, s1) \<Rightarrow> (Inr (probe_ok ''redis''), s1)
      | (Inr False, s1) \<Rightarrow>
          (Inr \<lparr>ds_name = ''redis'', ds_status = ''error'', ds_detail = Some ''PING returned falsy''\<rparr>, s1))"

definition check_qdrant :: "'s health_service \<Rightarrow> 's \<Rightarrow> (exn + dependency_status) \<times> 's" where
  "check_qdrant H s =
     (case wait_for (he_runtime H) probe_timeout_seconds (he_get_collections H) s of
        (Inl e, s1) \<Rightarrow> (Inr (probe_error H ''qdrant'' e), s1)
      | (Inr _, s1) \<Rightarrow> (Inr (probe_ok ''qdrant''), s1))"

definition dependency_of :: "'s health_service \<Rightarrow> exn + dependency_status \<Rightarrow> dependency_status" where
  "dependency_of H result = (case result of Inl e \<Rightarrow> probe_error H ''unknown'' e | Inr d \<Rightarrow> d)"

definition check_readiness :: "'s health_service \<Rightarrow> 's \<Rightarrow> readiness_report \<times> 's" where
  "check_readiness H s =
     (let (r1, s1) = check_postgres H s; (r2, s2) = check_redis H s1; (r3, s3) = check_qdrant H s2;
          dependencies = map (dependency_of H) [r1, r2, r3]
      in (\<lparr>rd_status = (if \<forall>d\<in>set dependencies. ds_status d = ''ok'' then ''ok'' else ''degraded''),
           rd_dependencies = dependencies\<rparr>, s3))"

section \<open>The endpoints\<close>

datatype health_content = Alive | Readiness string "dependency_status list"

definition health :: "('s, health_content) handler" where
  "health = (\<lambda>(st, s). (Inr \<lparr>hp_status = 200, hp_headers = [], hp_body = Content Alive\<rparr>, (st, s)))"

definition readiness :: "'s health_service \<Rightarrow> ('s, health_content) handler" where
  "readiness H = (\<lambda>(st, s). let (report, s1) = check_readiness H s in
     (Inr \<lparr>hp_status = (if is_ready report then 200 else 503), hp_headers = [],
           hp_body = Content (Readiness (rd_status report) (rd_dependencies report))\<rparr>, (st, s1)))"

section \<open>What a report says\<close>

text \<open>A probe in the state in which it runs: whether it answered in time and well.\<close>

definition answers_ok :: "'s health_service \<Rightarrow> ('s \<Rightarrow> (exn + 'a) \<times> 's) \<Rightarrow> ('a \<Rightarrow> bool) \<Rightarrow> 's \<Rightarrow> bool" where
  "answers_ok H call ok s = (case fst (wait_for (he_runtime H) 2 call s) of Inl e \<Rightarrow> False | Inr x \<Rightarrow> ok x)"

lemma check_postgres_report:
  "fst (check_postgres H s) = Inr d \<Longrightarrow> ds_name d = ''postgres'' \<and>
     (ds_status d = ''ok'') = answers_ok H (session (he_database H) (he_select_one H)) (\<lambda>x. True) s"
  by (auto simp: check_postgres_def answers_ok_def probe_timeout_seconds_def probe_ok_def probe_error_def
      split: prod.splits sum.splits)

lemma check_redis_report:
  "fst (check_redis H s) = Inr d \<Longrightarrow> ds_name d = ''redis'' \<and> (ds_status d = ''ok'') = answers_ok H (he_redis_ping H) (\<lambda>b. b) s"
  by (auto simp: check_redis_def answers_ok_def probe_timeout_seconds_def probe_ok_def probe_error_def
      split: prod.splits sum.splits bool.splits)

lemma check_qdrant_report:
  "fst (check_qdrant H s) = Inr d \<Longrightarrow> ds_name d = ''qdrant'' \<and> (ds_status d = ''ok'') = answers_ok H (he_get_collections H) (\<lambda>x. True) s"
  by (auto simp: check_qdrant_def answers_ok_def probe_timeout_seconds_def probe_ok_def probe_error_def
      split: prod.splits sum.splits)

lemma probes_return: "\<exists>d. fst (check_postgres H s) = Inr d" "\<exists>d. fst (check_redis H s) = Inr d" "\<exists>d. fst (check_qdrant H s) = Inr d"
  by (simp_all add: check_postgres_def check_redis_def check_qdrant_def split: prod.split sum.split bool.split)

text \<open>Readiness: whatever the dependencies do, the endpoint answers; the report names the three dependencies, each as ok exactly
  if its probe answered in time and well, and the answer is 200 exactly if all three are.\<close>

theorem readiness_reflects_probes:
  "\<exists>r st' s3 ds s1 s2. readiness H (st, s) = (Inr r, (st', s3))
    \<and> hp_body r = Content (Readiness (if hp_status r = 200 then ''ok'' else ''degraded'') ds)
    \<and> map ds_name ds = [''postgres'', ''redis'', ''qdrant'']
    \<and> map (\<lambda>d. ds_status d = ''ok'') ds =
        [answers_ok H (session (he_database H) (he_select_one H)) (\<lambda>x. True) s, answers_ok H (he_redis_ping H) (\<lambda>b. b) s1,
         answers_ok H (he_get_collections H) (\<lambda>x. True) s2]
    \<and> hp_status r = (if list_all (\<lambda>d. ds_status d = ''ok'') ds then 200 else 503)"
proof -
  obtain d1 s1 where 1: "check_postgres H s = (Inr d1, s1)" using probes_return(1) by (metis prod.collapse)
  obtain d2 s2 where 2: "check_redis H s1 = (Inr d2, s2)" using probes_return(2) by (metis prod.collapse)
  obtain d3 s3 where 3: "check_qdrant H s2 = (Inr d3, s3)" using probes_return(3) by (metis prod.collapse)
  note c = check_postgres_report [of H s d1] check_redis_report [of H s1 d2] check_qdrant_report [of H s2 d3]
  let ?ds = "[d1, d2, d3]"
  let ?ok = "ds_status d1 = ''ok'' \<and> ds_status d2 = ''ok'' \<and> ds_status d3 = ''ok''"
  have "readiness H (st, s) = (Inr \<lparr>hp_status = (if ?ok then 200 else 503), hp_headers = [],
      hp_body = Content (Readiness (if ?ok then ''ok'' else ''degraded'') ?ds)\<rparr>, (st, s3))"
    by (simp add: readiness_def check_readiness_def 1 2 3 dependency_of_def is_ready_def)
  moreover have "map ds_name ?ds = [''postgres'', ''redis'', ''qdrant'']" using c 1 2 3 by simp
  moreover have "map (\<lambda>d. ds_status d = ''ok'') ?ds =
        [answers_ok H (session (he_database H) (he_select_one H)) (\<lambda>x. True) s, answers_ok H (he_redis_ping H) (\<lambda>b. b) s1,
         answers_ok H (he_get_collections H) (\<lambda>x. True) s2]" using c 1 2 3 by simp
  ultimately show ?thesis
    by (intro exI [of _ s1] exI [of _ s2] exI [of _ ?ds] exI conjI) (assumption | simp)+
qed

end
