(* ===== verification/Embeddings.thy ===== *)
theory Embeddings
  imports Caching Settings
begin

text \<open>
  The embedding providers: the interface (\<open>domain/interfaces/embedding_provider.py\<close>), the time limit of the common base
  class (\<open>embeddings/base.py\<close>), the local and the API provider, and their selection (\<open>embeddings/factory.py\<close>).

  The local provider keeps its model and the dimension it reports; they are the first component of the state.  The library
  that loads the model and computes vectors (sentence-transformers, in a worker thread) is a parameter.  The lock around the
  loading matters only to coroutines that interleave and is left out.
\<close>

section \<open>Providers and their state\<close>

record embedding_provider =
  ep_kind :: embedding_provider_kind
  ep_model_name :: string
  ep_timeout_seconds :: real

record 'm model_state =
  ms_model :: "'m option"
  ms_dimension :: int

record ('m, 'w) embedding_library =
  el_load :: "string \<Rightarrow> 'w \<Rightarrow> (exn + 'm) \<times> 'w"
  el_dimension :: "'m \<Rightarrow> int"
  el_encode :: "'m \<Rightarrow> string \<Rightarrow> 'w \<Rightarrow> (exn + real list) \<times> 'w"
  el_encode_many :: "'m \<Rightarrow> string list \<Rightarrow> 'w \<Rightarrow> (exn + real list list) \<times> 'w"

definition default_embed_timeout_seconds :: real where
  "default_embed_timeout_seconds = 1/2"

definition known_model_dimensions :: "(string \<times> int) list" where
  "known_model_dimensions = [(''all-MiniLM-L6-v2'', 384), (''all-mpnet-base-v2'', 768),
     (''multi-qa-MiniLM-L6-cos-v1'', 384), (''paraphrase-MiniLM-L6-v2'', 384)]"

definition default_dimension_fallback :: int where
  "default_dimension_fallback = 384"

definition api_model_dimensions :: "(string \<times> int) list" where
  "api_model_dimensions = [(''text-embedding-3-small'', 1536), (''text-embedding-3-large'', 3072)]"

definition dict_get :: "(string \<times> 'a) list \<Rightarrow> string \<Rightarrow> 'a \<Rightarrow> 'a" where
  "dict_get d k v = (case map_of d k of None \<Rightarrow> v | Some x \<Rightarrow> x)"

text \<open>The constructors.\<close>

definition local_embedding_provider :: "string \<Rightarrow> embedding_provider" where
  "local_embedding_provider model_name =
     \<lparr>ep_kind = LocalEmbeddings, ep_model_name = model_name, ep_timeout_seconds = default_embed_timeout_seconds\<rparr>"

definition api_embedding_provider :: "string \<Rightarrow> embedding_provider" where
  "api_embedding_provider model_name =
     \<lparr>ep_kind = ApiEmbeddings, ep_model_name = model_name, ep_timeout_seconds = default_embed_timeout_seconds\<rparr>"

definition new_model_state :: "string \<Rightarrow> 'm model_state" where
  "new_model_state model_name =
     \<lparr>ms_model = None, ms_dimension = dict_get known_model_dimensions model_name default_dimension_fallback\<rparr>"

text \<open>The final \<open>raise\<close> of the factory is unreachable: the enumeration has two values.\<close>

definition build_embedding_provider :: "settings \<Rightarrow> embedding_provider" where
  "build_embedding_provider S = (case st_embedding_provider S of
     LocalEmbeddings \<Rightarrow> local_embedding_provider (st_embedding_local_model_name S)
   | ApiEmbeddings \<Rightarrow> api_embedding_provider (st_embedding_api_model_name S))"

definition ep_model_id :: "embedding_provider \<Rightarrow> string" where
  "ep_model_id P = (case ep_kind P of LocalEmbeddings \<Rightarrow> ''local-'' @ ep_model_name P | ApiEmbeddings \<Rightarrow> ''api-'' @ ep_model_name P)"

definition ep_dimension :: "embedding_provider \<Rightarrow> 'm model_state \<Rightarrow> int" where
  "ep_dimension P m = (case ep_kind P of
     LocalEmbeddings \<Rightarrow> ms_dimension m | ApiEmbeddings \<Rightarrow> dict_get api_model_dimensions (ep_model_name P) 1536)"

section \<open>Operations\<close>

definition ensure_model_loaded ::
  "('m, 'w) embedding_library \<Rightarrow> embedding_provider \<Rightarrow> 'm model_state \<times> 'w \<Rightarrow> (exn + unit) \<times> ('m model_state \<times> 'w)" where
  "ensure_model_loaded L P = (\<lambda>(m, w).
     if ms_model m \<noteq> None then (Inr (), (m, w))
     else case el_load L (ep_model_name P) w of
            (Inl e, w1) \<Rightarrow> (Inl e, (m, w1))
          | (Inr model, w1) \<Rightarrow> (Inr (), (\<lparr>ms_model = Some model, ms_dimension = el_dimension L model\<rparr>, w1)))"

text \<open>The API provider inherits the hook of the interface, which does nothing.\<close>

definition warm_up ::
  "('m, 'w) embedding_library \<Rightarrow> embedding_provider \<Rightarrow> 'm model_state \<times> 'w \<Rightarrow> (exn + unit) \<times> ('m model_state \<times> 'w)" where
  "warm_up L P s = (case ep_kind P of LocalEmbeddings \<Rightarrow> ensure_model_loaded L P s | ApiEmbeddings \<Rightarrow> (Inr (), s))"

definition with_model ::
  "('m, 'w) embedding_library \<Rightarrow> embedding_provider \<Rightarrow> ('m \<Rightarrow> 'w \<Rightarrow> (exn + 'a) \<times> 'w) \<Rightarrow> 'm model_state \<times> 'w \<Rightarrow>
     (exn + 'a) \<times> ('m model_state \<times> 'w)" where
  "with_model L P encode s = (case ep_kind P of
     ApiEmbeddings \<Rightarrow> (Inl NotImplementedError, s)
   | LocalEmbeddings \<Rightarrow>
       (case ensure_model_loaded L P s of
          (Inl e, s1) \<Rightarrow> (Inl e, s1)
        | (Inr _, s1) \<Rightarrow> (case ms_model (fst s1) of None \<Rightarrow> (Inl TypeError, s1) | Some model \<Rightarrow> on_env (encode model) s1)))"

definition embed_impl ::
  "('m, 'w) embedding_library \<Rightarrow> embedding_provider \<Rightarrow> string \<Rightarrow> 'm model_state \<times> 'w \<Rightarrow>
     (exn + real list) \<times> ('m model_state \<times> 'w)" where
  "embed_impl L P txt = with_model L P (\<lambda>model. el_encode L model txt)"

text \<open>\<open>EmbeddingTimeoutError\<close> with its message; \<open>show_float\<close> prints the limit.\<close>

definition embedding_timeout_error :: "(real \<Rightarrow> string) \<Rightarrow> embedding_provider \<Rightarrow> exn" where
  "embedding_timeout_error show_float P =
     OtherError (ep_model_id P @ '' embedding exceeded '' @ show_float (ep_timeout_seconds P) @ ''s budget'')"

text \<open>A call that is cancelled while the model loads leaves none, for the coroutine assigns it; after \<open>warm_up\<close> there is nothing to load.\<close>

definition embed ::
  "(real \<Rightarrow> string) \<Rightarrow> ('m, 'w) embedding_library \<Rightarrow> 'w runtime \<Rightarrow> embedding_provider \<Rightarrow> string \<Rightarrow> 'm model_state \<times> 'w \<Rightarrow>
     (exn + real list) \<times> ('m model_state \<times> 'w)" where
  "embed show_float L rt P txt s =
     (case wait_for (runtime_on_env rt) (ep_timeout_seconds P) (embed_impl L P txt) s of
        (Inl e, s1) \<Rightarrow> (Inl (if e = TimeoutError then embedding_timeout_error show_float P else e), s1)
      | (Inr v, s1) \<Rightarrow> (Inr v, s1))"

text \<open>Batches have no time limit.\<close>

definition embed_batch ::
  "('m, 'w) embedding_library \<Rightarrow> embedding_provider \<Rightarrow> string list \<Rightarrow> 'm model_state \<times> 'w \<Rightarrow>
     (exn + real list list) \<times> ('m model_state \<times> 'w)" where
  "embed_batch L P texts = with_model L P (\<lambda>model. el_encode_many L model texts)"

text \<open>The provider as the semantic cache sees it.\<close>

definition embedder_of ::
  "(real \<Rightarrow> string) \<Rightarrow> ('m, 'w) embedding_library \<Rightarrow> 'w runtime \<Rightarrow> embedding_provider \<Rightarrow> 'm model_state \<Rightarrow>
     ('m model_state \<times> 'w) embedder" where
  "embedder_of show_float L rt P m =
     \<lparr>em_model_id = ep_model_id P, em_dimension = ep_dimension P m, em_embed = embed show_float L rt P\<rparr>"

section \<open>The contract of the interface\<close>

text \<open>
  A provider that is \<open>warm\<close> stays warm, keeps its dimension and the model its vectors come from; every vector of a warm
  provider is one that its model \<open>produces\<close>; and a time-out never escapes as a plain \<open>TimeoutError\<close>.
\<close>

locale embedding_port =
  fixes embed :: "string \<Rightarrow> 's \<Rightarrow> (exn + real list) \<times> 's"
    and dimension :: "'s \<Rightarrow> int"
    and warm :: "'s \<Rightarrow> bool"
    and produces :: "'s \<Rightarrow> real list \<Rightarrow> bool"
  assumes warm_stays: "warm s \<Longrightarrow> embed t s = (r, s') \<Longrightarrow> warm s' \<and> dimension s' = dimension s \<and> produces s' = produces s"
    and no_plain_timeout: "embed t s \<noteq> (Inl TimeoutError, s')"
    and vector_produced: "warm s \<Longrightarrow> embed t s = (Inr v, s') \<Longrightarrow> produces s v"
begin

fun embed_all :: "string list \<Rightarrow> 's \<Rightarrow> (exn + real list) list \<times> 's" where
  "embed_all [] s = ([], s)"
| "embed_all (t # ts) s = (let (r, s1) = embed t s; (rs, s2) = embed_all ts s1 in (r # rs, s2))"

lemma embed_all_warm:
  "warm s \<Longrightarrow> embed_all ts s = (rs, s') \<Longrightarrow> warm s' \<and> dimension s' = dimension s \<and> produces s' = produces s"
proof (induction ts arbitrary: s rs s')
  case (Cons t ts)
  obtain r s1 where r: "embed t s = (r, s1)" by fastforce
  obtain rs1 s2 where rs: "embed_all ts s1 = (rs1, s2)" by fastforce
  from warm_stays [OF Cons.prems(1) r] Cons.IH [OF _ rs] Cons.prems(2) r rs show ?case by simp
qed simp

lemma embed_all_produced:
  "warm s \<Longrightarrow> embed_all ts s = (rs, s') \<Longrightarrow> Inr v \<in> set rs \<Longrightarrow> produces s v"
proof (induction ts arbitrary: s rs s')
  case (Cons t ts)
  obtain r s1 where r: "embed t s = (r, s1)" by fastforce
  obtain rs1 s2 where rs: "embed_all ts s1 = (rs1, s2)" by fastforce
  note w = warm_stays [OF Cons.prems(1) r]
  from Cons.prems(2,3) r rs consider "r = Inr v" | "Inr v \<in> set rs1" by auto
  then show ?case
  proof cases
    case 1
    with vector_produced [OF Cons.prems(1)] r show ?thesis by blast
  next
    case 2
    with Cons.IH [OF _ rs] w show ?thesis by simp
  qed
qed simp

end

text \<open>The model is loaded and the dimension is the one it reports; the API provider is always warm.\<close>

definition ep_warm :: "('m, 'w) embedding_library \<Rightarrow> embedding_provider \<Rightarrow> 'm model_state \<times> 'w \<Rightarrow> bool" where
  "ep_warm L P s = (case ep_kind P of ApiEmbeddings \<Rightarrow> True
     | LocalEmbeddings \<Rightarrow> (case ms_model (fst s) of None \<Rightarrow> False | Some model \<Rightarrow> ms_dimension (fst s) = el_dimension L model))"

definition ep_produces :: "('m, 'w) embedding_library \<Rightarrow> embedding_provider \<Rightarrow> 'm model_state \<times> 'w \<Rightarrow> real list \<Rightarrow> bool" where
  "ep_produces L P s v \<longleftrightarrow> ep_kind P = LocalEmbeddings
     \<and> (case ms_model (fst s) of None \<Rightarrow> False | Some model \<Rightarrow> \<exists>t w. fst (el_encode L model t w) = Inr v)"

lemma embed_impl_warm:
  assumes "ep_warm L P s" "embed_impl L P t s = (r, s')"
  shows "fst s' = fst s \<and> (\<forall>v. r = Inr v \<longrightarrow> ep_produces L P s v)"
proof (cases "ep_kind P")
  case ApiEmbeddings
  with assms(2) show ?thesis by (auto simp: embed_impl_def with_model_def)
next
  case LocalEmbeddings
  with assms(1) obtain model where m: "ms_model (fst s) = Some model" by (auto simp: ep_warm_def split: option.splits)
  with LocalEmbeddings assms(2) have "on_env (el_encode L model t) s = (r, s')"
    by (cases s) (simp add: embed_impl_def with_model_def ensure_model_loaded_def)
  then have e: "el_encode L model t (snd s) = (r, snd s')" and f: "fst s' = fst s" by (simp_all add: on_env_pair)
  have "ep_produces L P s v" if "r = Inr v" for v
  proof -
    have "fst (el_encode L model t (snd s)) = Inr v" using e that by simp
    then show ?thesis using LocalEmbeddings m unfolding ep_produces_def by auto
  qed
  with f show ?thesis by simp
qed

lemma embed_warm:
  assumes "ep_warm L P s" "embed sf L rt P t s = (r, s')"
  shows "fst s' = fst s \<and> (\<forall>v. r = Inr v \<longrightarrow> ep_produces L P s v)"
proof (cases "rt_expired rt (ep_timeout_seconds P) (snd s)")
  case None
  then have "wait_for (runtime_on_env rt) (ep_timeout_seconds P) (embed_impl L P t) s = embed_impl L P t s"
    by (cases s) (simp add: wait_for_def runtime_on_env_def)
  moreover obtain r1 s1 where i: "embed_impl L P t s = (r1, s1)" by (metis surj_pair)
  ultimately show ?thesis
    using assms(2) embed_impl_warm [OF assms(1) i] by (auto simp: embed_def split: sum.splits)
next
  case (Some w')
  with assms(2) show ?thesis by (cases s) (auto simp: embed_def wait_for_def runtime_on_env_def)
qed

interpretation provider: embedding_port "embed sf L rt P" "ep_dimension P \<circ> fst" "ep_warm L P" "ep_produces L P" for sf L rt P
proof
  fix s t r s' assume w: "ep_warm L P s" and e: "embed sf L rt P t s = (r, s')"
  have "fst s' = fst s" using embed_warm [OF w e] by simp
  then have "ep_warm L P s' = ep_warm L P s" "ep_produces L P s' = ep_produces L P s" "(ep_dimension P \<circ> fst) s' = (ep_dimension P \<circ> fst) s"
    by (simp_all only: ep_warm_def ep_produces_def fun_eq_iff comp_apply simp_thms)
  with w show "ep_warm L P s' \<and> (ep_dimension P \<circ> fst) s' = (ep_dimension P \<circ> fst) s \<and> ep_produces L P s' = ep_produces L P s"
    by simp
next
  fix t s s' show "embed sf L rt P t s \<noteq> (Inl TimeoutError, s')"
    by (auto simp: embed_def embedding_timeout_error_def split: prod.splits sum.splits if_splits)
next
  fix s t v s' assume "ep_warm L P s" "embed sf L rt P t s = (Inr v, s')"
  then show "ep_produces L P s v" using embed_warm [of L P s sf rt t "Inr v" s'] by simp
qed

section \<open>Warming up\<close>

text \<open>Documented behaviour of the library: a model's vectors have the dimension it reports.\<close>

definition encodes_dimension :: "('m, 'w) embedding_library \<Rightarrow> bool" where
  "encodes_dimension L \<longleftrightarrow> (\<forall>model t w v. fst (el_encode L model t w) = Inr v \<longrightarrow> int (length v) = el_dimension L model)"

lemma produced_fits:
  assumes "encodes_dimension L" "ep_warm L P s" "ep_produces L P s v"
  shows "int (length v) = ep_dimension P (fst s)"
  using assms by (auto simp: encodes_dimension_def ep_warm_def ep_produces_def ep_dimension_def
      split: option.splits)

lemma warm_up_warm:
  assumes "warm_up L P (new_model_state name, w) = (Inr (), s')"
  shows "ep_warm L P s'"
  using assms by (auto simp: warm_up_def ensure_model_loaded_def new_model_state_def ep_warm_def
      split: embedding_provider_kind.splits prod.splits sum.splits)

end
