(* ===== verification/Schema.thy ===== *)
theory Schema
  imports Persistence Uuid
begin

text \<open>
  The database schema: the tables that the ORM models declare (\<open>persistence/models\<close>) and the migrations that create them
  (\<open>migrations/versions\<close>).

  A migration is the list of the operations its \<open>upgrade\<close> or \<open>downgrade\<close> calls.  An operation acts on the schema and on the
  rows; Alembic runs all of them in one transaction (\<open>migrations/env.py\<close>), so a run that fails changes nothing.  A server
  default is the text of its SQL expression.
\<close>

section \<open>Schemas\<close>

datatype sql_type =
    SqlUuid | SqlString nat | SqlDateTime | SqlNumeric nat nat | SqlInteger | SqlFloat | SqlBoolean | SqlJson

record column =
  cl_name :: string
  cl_type :: sql_type
  cl_nullable :: bool
  cl_server_default :: "string option"

text \<open>A foreign key is a column with the table and the column it refers to.\<close>

record table_def =
  td_name :: string
  td_columns :: "column list"
  td_primary_key :: "string list"
  td_foreign_keys :: "(string \<times> string \<times> string) list"
  td_uniques :: "string list list"

record index_def =
  ix_name :: string
  ix_table :: string
  ix_columns :: "string list"
  ix_unique :: bool

record schema =
  sc_tables :: "table_def list"
  sc_indexes :: "index_def list"

definition empty_schema :: schema where
  "empty_schema = \<lparr>sc_tables = [], sc_indexes = []\<rparr>"

definition column :: "string \<Rightarrow> sql_type \<Rightarrow> column" where
  "column name ty = \<lparr>cl_name = name, cl_type = ty, cl_nullable = False, cl_server_default = None\<rparr>"

definition nullable_column :: "string \<Rightarrow> sql_type \<Rightarrow> column" where
  "nullable_column name ty = \<lparr>cl_name = name, cl_type = ty, cl_nullable = True, cl_server_default = None\<rparr>"

definition default_column :: "string \<Rightarrow> sql_type \<Rightarrow> string \<Rightarrow> column" where
  "default_column name ty d = \<lparr>cl_name = name, cl_type = ty, cl_nullable = False, cl_server_default = Some d\<rparr>"

definition index :: "string \<Rightarrow> string \<Rightarrow> string list \<Rightarrow> bool \<Rightarrow> index_def" where
  "index name tab cols uniq = \<lparr>ix_name = name, ix_table = tab, ix_columns = cols, ix_unique = uniq\<rparr>"

section \<open>The tables the models declare\<close>

definition id_column :: column where "id_column = column ''id'' SqlUuid"

definition created_at_column :: column where "created_at_column = default_column ''created_at'' SqlDateTime ''now()''"

text \<open>\<open>index=True\<close>, with \<open>unique=True\<close> or without, declares an index with this name.\<close>

definition column_index :: "string \<Rightarrow> string \<Rightarrow> bool \<Rightarrow> index_def" where
  "column_index tab col uniq = index (''ix_'' @ tab @ ''_'' @ col) tab [col] uniq"

definition tenant_model :: table_def where
  "tenant_model = \<lparr>td_name = ''tenants'',
     td_columns = [id_column, created_at_column, column ''name'' (SqlString 255), column ''slug'' (SqlString 255),
       nullable_column ''budget_monthly_usd'' (SqlNumeric 12 2), column ''status'' (SqlString 32)],
     td_primary_key = [''id''], td_foreign_keys = [], td_uniques = []\<rparr>"

definition model_pricing_model :: table_def where
  "model_pricing_model = \<lparr>td_name = ''model_pricing'',
     td_columns = [id_column, created_at_column, column ''provider'' (SqlString 64), column ''model_name'' (SqlString 128),
       column ''input_price_per_1k'' (SqlNumeric 12 6), column ''output_price_per_1k'' (SqlNumeric 12 6),
       column ''currency'' (SqlString 8), column ''effective_from'' SqlDateTime, nullable_column ''effective_to'' SqlDateTime],
     td_primary_key = [''id''], td_foreign_keys = [], td_uniques = []\<rparr>"

definition provider_health_model :: table_def where
  "provider_health_model = \<lparr>td_name = ''provider_health'',
     td_columns = [id_column, column ''provider'' (SqlString 64), column ''model'' (SqlString 128),
       column ''window_start'' SqlDateTime, column ''error_count'' SqlInteger, column ''success_count'' SqlInteger,
       nullable_column ''avg_latency_ms'' SqlFloat, column ''circuit_state'' (SqlString 16)],
     td_primary_key = [''id''], td_foreign_keys = [], td_uniques = []\<rparr>"

definition api_key_model :: table_def where
  "api_key_model = \<lparr>td_name = ''api_keys'',
     td_columns = [id_column, created_at_column, column ''tenant_id'' SqlUuid, column ''key_hash'' (SqlString 128),
       column ''name'' (SqlString 255), column ''scopes'' SqlJson, nullable_column ''revoked_at'' SqlDateTime,
       nullable_column ''last_used_at'' SqlDateTime],
     td_primary_key = [''id''], td_foreign_keys = [(''tenant_id'', ''tenants'', ''id'')], td_uniques = []\<rparr>"

definition request_log_model :: table_def where
  "request_log_model = \<lparr>td_name = ''requests'',
     td_columns = [id_column, column ''trace_id'' (SqlString 64), column ''tenant_id'' SqlUuid,
       nullable_column ''api_key_id'' SqlUuid, column ''provider'' (SqlString 64), column ''model_requested'' (SqlString 128),
       nullable_column ''model_used'' (SqlString 128), column ''status'' (SqlString 32), column ''cache_status'' (SqlString 32),
       column ''http_status'' SqlInteger, column ''is_stream'' SqlBoolean, nullable_column ''total_latency_ms'' SqlFloat,
       created_at_column, nullable_column ''completed_at'' SqlDateTime],
     td_primary_key = [''id''],
     td_foreign_keys = [(''tenant_id'', ''tenants'', ''id''), (''api_key_id'', ''api_keys'', ''id'')], td_uniques = []\<rparr>"

definition request_span_model :: table_def where
  "request_span_model = \<lparr>td_name = ''request_spans'',
     td_columns = [id_column, column ''request_id'' SqlUuid, column ''span_name'' (SqlString 128),
       nullable_column ''parent_span_id'' (SqlString 128), column ''started_at'' SqlDateTime,
       nullable_column ''ended_at'' SqlDateTime, nullable_column ''duration_ms'' SqlFloat, column ''span_metadata'' SqlJson],
     td_primary_key = [''id''], td_foreign_keys = [(''request_id'', ''requests'', ''id'')], td_uniques = []\<rparr>"

definition token_usage_model :: table_def where
  "token_usage_model = \<lparr>td_name = ''token_usage'',
     td_columns = [id_column, column ''request_id'' SqlUuid, column ''input_tokens'' SqlInteger,
       column ''output_tokens'' SqlInteger, column ''total_tokens'' SqlInteger, column ''cost_usd'' (SqlNumeric 12 6),
       nullable_column ''pricing_id'' SqlUuid],
     td_primary_key = [''id''],
     td_foreign_keys = [(''request_id'', ''requests'', ''id''), (''pricing_id'', ''model_pricing'', ''id'')], td_uniques = []\<rparr>"

definition cache_entry_meta_model :: table_def where
  "cache_entry_meta_model = \<lparr>td_name = ''cache_entries_meta'',
     td_columns = [id_column, created_at_column, column ''qdrant_point_id'' (SqlString 64), nullable_column ''request_id'' SqlUuid,
       column ''prompt_hash'' (SqlString 64), column ''embedding_model'' (SqlString 128), column ''hit_count'' SqlInteger,
       nullable_column ''last_hit_at'' SqlDateTime, nullable_column ''ttl_expires_at'' SqlDateTime],
     td_primary_key = [''id''], td_foreign_keys = [(''request_id'', ''requests'', ''id'')], td_uniques = []\<rparr>"

definition adapter_route_model :: table_def where
  "adapter_route_model = \<lparr>td_name = ''adapter_routes'',
     td_columns = [id_column, created_at_column, column ''tenant_id'' SqlUuid, column ''model_alias'' (SqlString 128),
       column ''base_model'' (SqlString 128), column ''adapter_id'' (SqlString 255), column ''stage'' (SqlString 32),
       column ''enabled'' SqlBoolean, column ''canary_percent'' SqlInteger],
     td_primary_key = [''id''], td_foreign_keys = [(''tenant_id'', ''tenants'', ''id'')],
     td_uniques = [[''tenant_id'', ''model_alias'', ''stage'']]\<rparr>"

text \<open>\<open>Base.metadata\<close>: the tables of all models with their indexes.\<close>

definition declared_schema :: schema where
  "declared_schema = \<lparr>
     sc_tables = [tenant_model, api_key_model, model_pricing_model, request_log_model, request_span_model, token_usage_model,
       provider_health_model, cache_entry_meta_model, adapter_route_model],
     sc_indexes = [
       column_index ''tenants'' ''slug'' True,
       column_index ''api_keys'' ''tenant_id'' False, column_index ''api_keys'' ''key_hash'' True,
       column_index ''model_pricing'' ''provider'' False, column_index ''model_pricing'' ''model_name'' False,
       column_index ''requests'' ''trace_id'' False, column_index ''requests'' ''tenant_id'' False,
       column_index ''requests'' ''created_at'' False,
       index ''ix_requests_tenant_created'' ''requests'' [''tenant_id'', ''created_at''] False,
       column_index ''request_spans'' ''request_id'' False, column_index ''token_usage'' ''request_id'' False,
       column_index ''provider_health'' ''provider'' False, column_index ''provider_health'' ''model'' False,
       column_index ''cache_entries_meta'' ''qdrant_point_id'' True, column_index ''cache_entries_meta'' ''prompt_hash'' False,
       column_index ''adapter_routes'' ''tenant_id'' False,
       index ''ix_adapter_routes_tenant_alias_enabled'' ''adapter_routes'' [''tenant_id'', ''model_alias'', ''enabled''] False]\<rparr>"

end
