(* ===== verification/Migrations.thy ===== *)
theory Migrations
  imports Schema
begin

text \<open>
  The migrations of \<open>migrations/versions\<close> and their run by Alembic as \<open>migrations/env.py\<close> configures it.

  A migration operation checks what Postgres checks: that a table it creates does not exist and that one it uses does, that
  the columns an index or a foreign key names exist, that no foreign key refers to a table that is dropped, and on rows the
  unique and foreign-key constraints.  The rows are those of \<^theory_text>\<open>Persistence\<close>; a table that no code of the gateway
  uses (\<open>provider_health\<close>, \<open>cache_entries_meta\<close>) has a schema and no rows.  While \<open>canary_percent\<close> is missing
  from the schema its field in a row is 0.  Alembic itself, which follows the \<open>down_revision\<close> links, is not under
  \<open>src/\<close>; it is used as documented.
\<close>

section \<open>Operations\<close>

datatype migration_op =
    CreateTable table_def
  | DropTable string
  | CreateIndex index_def
  | DropIndex string
  | AddColumn string column
  | DropColumn string string
  | InsertTenant string string string string
  | InsertPricing "(string \<times> string \<times> string \<times> real \<times> real \<times> string \<times> datetime) list"
  | InsertApiKey string string string string "string list"
  | DeletePricingOf "string list"
  | DeleteTenant string
  | DeleteApiKeyOfHash string

record pg_state =
  pg_version :: "string option"
  pg_schema :: schema
  pg_rows :: tables

subsection \<open>On the schema\<close>

definition lookup_table :: "schema \<Rightarrow> string \<Rightarrow> table_def option" where
  "lookup_table S n = find (\<lambda>t. td_name t = n) (sc_tables S)"

definition column_names :: "table_def \<Rightarrow> string list" where
  "column_names t = map cl_name (td_columns t)"

definition has_columns :: "schema \<Rightarrow> string \<Rightarrow> string list \<Rightarrow> bool" where
  "has_columns S n cs = (case lookup_table S n of None \<Rightarrow> False | Some t \<Rightarrow> list_all (\<lambda>c. c \<in> set (column_names t)) cs)"

definition create_table :: "table_def \<Rightarrow> schema \<Rightarrow> exn + schema" where
  "create_table t S =
     (if lookup_table S (td_name t) \<noteq> None then Inl (DatabaseError ''duplicate table'')
      else if \<not> list_all (\<lambda>(c, n, rc). has_columns S n [rc]) (td_foreign_keys t) then Inl (DatabaseError ''undefined table'')
      else Inr (S\<lparr>sc_tables := sc_tables S @ [t]\<rparr>))"

definition drop_table :: "string \<Rightarrow> schema \<Rightarrow> exn + schema" where
  "drop_table n S =
     (if lookup_table S n = None then Inl (DatabaseError ''undefined table'')
      else if list_ex (\<lambda>t. td_name t \<noteq> n \<and> list_ex (\<lambda>(c, m, rc). m = n) (td_foreign_keys t)) (sc_tables S)
        then Inl (DatabaseError ''dependent objects'')
      else Inr (S\<lparr>sc_tables := filter (\<lambda>t. td_name t \<noteq> n) (sc_tables S),
                  sc_indexes := filter (\<lambda>i. ix_table i \<noteq> n) (sc_indexes S)\<rparr>))"

definition create_index :: "index_def \<Rightarrow> schema \<Rightarrow> exn + schema" where
  "create_index i S =
     (if list_ex (\<lambda>j. ix_name j = ix_name i) (sc_indexes S) then Inl (DatabaseError ''duplicate index'')
      else if \<not> has_columns S (ix_table i) (ix_columns i) then Inl (DatabaseError ''undefined column'')
      else Inr (S\<lparr>sc_indexes := sc_indexes S @ [i]\<rparr>))"

definition drop_index :: "string \<Rightarrow> schema \<Rightarrow> exn + schema" where
  "drop_index n S =
     (if \<not> list_ex (\<lambda>i. ix_name i = n) (sc_indexes S) then Inl (DatabaseError ''undefined index'')
      else Inr (S\<lparr>sc_indexes := filter (\<lambda>i. ix_name i \<noteq> n) (sc_indexes S)\<rparr>))"

text \<open>A new column is nullable or has a default for the rows that exist.\<close>

definition add_column :: "string \<Rightarrow> column \<Rightarrow> schema \<Rightarrow> exn + schema" where
  "add_column n c S =
     (case lookup_table S n of
        None \<Rightarrow> Inl (DatabaseError ''undefined table'')
      | Some t \<Rightarrow>
          if cl_name c \<in> set (column_names t) then Inl (DatabaseError ''duplicate column'')
          else if \<not> cl_nullable c \<and> cl_server_default c = None then Inl (DatabaseError ''not null'')
          else Inr (S\<lparr>sc_tables := map (\<lambda>t. if td_name t = n then t\<lparr>td_columns := td_columns t @ [c]\<rparr> else t)
                                     (sc_tables S)\<rparr>))"

text \<open>Indexes and constraints of the table that use the column go with it.\<close>

definition drop_column :: "string \<Rightarrow> string \<Rightarrow> schema \<Rightarrow> exn + schema" where
  "drop_column n c S =
     (if \<not> has_columns S n [c] then Inl (DatabaseError ''undefined column'')
      else if list_ex (\<lambda>t. td_name t \<noteq> n \<and> list_ex (\<lambda>(d, m, rc). m = n \<and> rc = c) (td_foreign_keys t)) (sc_tables S)
        then Inl (DatabaseError ''dependent objects'')
      else Inr (S\<lparr>sc_tables := map (\<lambda>t. if td_name t = n
                    then t\<lparr>td_columns := filter (\<lambda>d. cl_name d \<noteq> c) (td_columns t),
                           td_primary_key := (if c \<in> set (td_primary_key t) then [] else td_primary_key t),
                           td_foreign_keys := filter (\<lambda>(d, m, rc). d \<noteq> c) (td_foreign_keys t),
                           td_uniques := filter (\<lambda>u. c \<notin> set u) (td_uniques t)\<rparr>
                    else t) (sc_tables S),
                  sc_indexes := filter (\<lambda>i. \<not> (ix_table i = n \<and> c \<in> set (ix_columns i))) (sc_indexes S)\<rparr>))"

fun apply_schema :: "migration_op \<Rightarrow> schema \<Rightarrow> exn + schema" where
  "apply_schema (CreateTable t) S = create_table t S"
| "apply_schema (DropTable n) S = drop_table n S"
| "apply_schema (CreateIndex i) S = create_index i S"
| "apply_schema (DropIndex n) S = drop_index n S"
| "apply_schema (AddColumn n c) S = add_column n c S"
| "apply_schema (DropColumn n c) S = drop_column n c S"
| "apply_schema (InsertTenant _ _ _ _) S =
     (if lookup_table S ''tenants'' = None then Inl (DatabaseError ''undefined table'') else Inr S)"
| "apply_schema (InsertPricing _) S =
     (if lookup_table S ''model_pricing'' = None then Inl (DatabaseError ''undefined table'') else Inr S)"
| "apply_schema (InsertApiKey _ _ _ _ _) S =
     (if lookup_table S ''api_keys'' = None then Inl (DatabaseError ''undefined table'') else Inr S)"
| "apply_schema (DeletePricingOf _) S =
     (if lookup_table S ''model_pricing'' = None then Inl (DatabaseError ''undefined table'') else Inr S)"
| "apply_schema (DeleteTenant _) S =
     (if lookup_table S ''tenants'' = None then Inl (DatabaseError ''undefined table'') else Inr S)"
| "apply_schema (DeleteApiKeyOfHash _) S =
     (if lookup_table S ''api_keys'' = None then Inl (DatabaseError ''undefined table'') else Inr S)"

subsection \<open>On the rows\<close>

definition empty_tables :: tables where
  "empty_tables = \<lparr>tb_tenants = [], tb_api_keys = [], tb_pricing = [], tb_adapter_routes = [], tb_requests = [],
     tb_spans = [], tb_usage = []\<rparr>"

definition clear_rows :: "string \<Rightarrow> tables \<Rightarrow> tables" where
  "clear_rows n t =
     (if n = ''tenants'' then t\<lparr>tb_tenants := []\<rparr> else if n = ''api_keys'' then t\<lparr>tb_api_keys := []\<rparr>
      else if n = ''model_pricing'' then t\<lparr>tb_pricing := []\<rparr> else if n = ''adapter_routes'' then t\<lparr>tb_adapter_routes := []\<rparr>
      else if n = ''requests'' then t\<lparr>tb_requests := []\<rparr> else if n = ''request_spans'' then t\<lparr>tb_spans := []\<rparr>
      else if n = ''token_usage'' then t\<lparr>tb_usage := []\<rparr> else t)"

definition reset_canary :: "string \<Rightarrow> string \<Rightarrow> tables \<Rightarrow> tables" where
  "reset_canary n c t = (if n = ''adapter_routes'' \<and> c = ''canary_percent''
     then t\<lparr>tb_adapter_routes := map (\<lambda>r. r\<lparr>ar_canary_percent := 0\<rparr>) (tb_adapter_routes t)\<rparr> else t)"

definition insert_tenant :: "datetime \<Rightarrow> string \<Rightarrow> string \<Rightarrow> string \<Rightarrow> string \<Rightarrow> tables \<Rightarrow> exn + tables" where
  "insert_tenant now i name slug status t =
     (if list_ex (\<lambda>r. tn_id r = i \<or> tn_slug r = slug) (tb_tenants t) then Inl (DatabaseError ''unique'')
      else Inr (t\<lparr>tb_tenants := tb_tenants t @ [\<lparr>tn_id = i, tn_name = name, tn_slug = slug, tn_budget_monthly_usd = None,
                    tn_status = status, tn_created_at = now\<rparr>]\<rparr>))"

fun insert_pricing ::
  "datetime \<Rightarrow> (string \<times> string \<times> string \<times> real \<times> real \<times> string \<times> datetime) list \<Rightarrow> tables \<Rightarrow> exn + tables" where
  "insert_pricing now [] t = Inr t"
| "insert_pricing now ((i, provider, model_name, input_price, output_price, currency, effective_from) # vs) t =
     (if list_ex (\<lambda>r. mp_id r = i) (tb_pricing t) then Inl (DatabaseError ''unique'')
      else insert_pricing now vs
        (t\<lparr>tb_pricing := tb_pricing t @ [\<lparr>mp_id = i, mp_provider = provider, mp_model_name = model_name,
             mp_input_price_per_1k = input_price, mp_output_price_per_1k = output_price, mp_currency = currency,
             mp_effective_from = effective_from, mp_effective_to = None, mp_created_at = now\<rparr>]\<rparr>))"

definition insert_api_key ::
  "datetime \<Rightarrow> string \<Rightarrow> string \<Rightarrow> string \<Rightarrow> string \<Rightarrow> string list \<Rightarrow> tables \<Rightarrow> exn + tables" where
  "insert_api_key now i tenant_id key_hash name scopes t =
     (if list_ex (\<lambda>k. ak_id k = i \<or> ak_key_hash k = key_hash) (tb_api_keys t) then Inl (DatabaseError ''unique'')
      else if \<not> list_ex (\<lambda>n. tn_id n = tenant_id) (tb_tenants t) then Inl (DatabaseError ''foreign key'')
      else Inr (t\<lparr>tb_api_keys := tb_api_keys t @ [\<lparr>ak_id = i, ak_tenant_id = tenant_id, ak_key_hash = key_hash,
                    ak_name = name, ak_scopes = scopes, ak_revoked_at = None, ak_last_used_at = None,
                    ak_created_at = now\<rparr>]\<rparr>))"

definition delete_pricing_of :: "string list \<Rightarrow> tables \<Rightarrow> exn + tables" where
  "delete_pricing_of providers t =
     (if list_ex (\<lambda>u. list_ex (\<lambda>r. mp_provider r \<in> set providers \<and> ur_pricing_id u = Some (mp_id r)) (tb_pricing t)) (tb_usage t)
      then Inl (DatabaseError ''foreign key'')
      else Inr (t\<lparr>tb_pricing := filter (\<lambda>r. mp_provider r \<notin> set providers) (tb_pricing t)\<rparr>))"

definition delete_tenant :: "string \<Rightarrow> tables \<Rightarrow> exn + tables" where
  "delete_tenant i t =
     (if list_ex (\<lambda>n. tn_id n = i) (tb_tenants t) \<and>
         (list_ex (\<lambda>k. ak_tenant_id k = i) (tb_api_keys t) \<or> list_ex (\<lambda>r. rr_tenant_id r = i) (tb_requests t)
          \<or> list_ex (\<lambda>r. ar_tenant_id r = i) (tb_adapter_routes t))
      then Inl (DatabaseError ''foreign key'')
      else Inr (t\<lparr>tb_tenants := filter (\<lambda>n. tn_id n \<noteq> i) (tb_tenants t)\<rparr>))"

definition delete_api_key_of_hash :: "string \<Rightarrow> tables \<Rightarrow> exn + tables" where
  "delete_api_key_of_hash h t =
     (if list_ex (\<lambda>r. list_ex (\<lambda>k. ak_key_hash k = h \<and> rr_api_key_id r = Some (ak_id k)) (tb_api_keys t)) (tb_requests t)
      then Inl (DatabaseError ''foreign key'')
      else Inr (t\<lparr>tb_api_keys := filter (\<lambda>k. ak_key_hash k \<noteq> h) (tb_api_keys t)\<rparr>))"

fun apply_rows :: "datetime \<Rightarrow> migration_op \<Rightarrow> tables \<Rightarrow> exn + tables" where
  "apply_rows now (CreateTable t) T = Inr T"
| "apply_rows now (DropTable n) T = Inr (clear_rows n T)"
| "apply_rows now (CreateIndex i) T = Inr T"
| "apply_rows now (DropIndex n) T = Inr T"
| "apply_rows now (AddColumn n c) T = Inr (reset_canary n (cl_name c) T)"
| "apply_rows now (DropColumn n c) T = Inr (reset_canary n c T)"
| "apply_rows now (InsertTenant i name slug status) T = insert_tenant now i name slug status T"
| "apply_rows now (InsertPricing vs) T = insert_pricing now vs T"
| "apply_rows now (InsertApiKey i tenant_id key_hash name scopes) T = insert_api_key now i tenant_id key_hash name scopes T"
| "apply_rows now (DeletePricingOf ps) T = delete_pricing_of ps T"
| "apply_rows now (DeleteTenant i) T = delete_tenant i T"
| "apply_rows now (DeleteApiKeyOfHash h) T = delete_api_key_of_hash h T"

definition apply_op :: "datetime \<Rightarrow> migration_op \<Rightarrow> schema \<times> tables \<Rightarrow> exn + schema \<times> tables" where
  "apply_op now q = (\<lambda>(S, T).
     case apply_schema q S of
       Inl e \<Rightarrow> Inl e
     | Inr S' \<Rightarrow> (case apply_rows now q T of Inl e \<Rightarrow> Inl e | Inr T' \<Rightarrow> Inr (S', T')))"

fun apply_ops :: "datetime \<Rightarrow> migration_op list \<Rightarrow> schema \<times> tables \<Rightarrow> exn + schema \<times> tables" where
  "apply_ops now [] s = Inr s"
| "apply_ops now (q # qs) s = (case apply_op now q s of Inl e \<Rightarrow> Inl e | Inr s' \<Rightarrow> apply_ops now qs s')"

lemma apply_ops_append:
  "apply_ops now (qs @ rs) s = (case apply_ops now qs s of Inl e \<Rightarrow> Inl e | Inr s' \<Rightarrow> apply_ops now rs s')"
  by (induction qs arbitrary: s) (auto split: sum.splits)

section \<open>The revisions\<close>

definition plain_index :: "string \<Rightarrow> string \<Rightarrow> string list \<Rightarrow> migration_op" where
  "plain_index name tab cols = CreateIndex (index name tab cols False)"

definition unique_index :: "string \<Rightarrow> string \<Rightarrow> string list \<Rightarrow> migration_op" where
  "unique_index name tab cols = CreateIndex (index name tab cols True)"

text \<open>\<open>sa.PrimaryKeyConstraint("id")\<close> and the foreign keys of a table.\<close>

definition table_with :: "string \<Rightarrow> column list \<Rightarrow> (string \<times> string \<times> string) list \<Rightarrow> table_def" where
  "table_with name cols fks = \<lparr>td_name = name, td_columns = cols, td_primary_key = [''id''], td_foreign_keys = fks,
     td_uniques = []\<rparr>"

subsection \<open>\<open>0001_initial_schema\<close>\<close>

definition upgrade_0001 :: "migration_op list" where
  "upgrade_0001 = [
    CreateTable (table_with ''tenants'' [
      column ''id'' SqlUuid,
      default_column ''created_at'' SqlDateTime ''now()'',
      column ''name'' (SqlString 255),
      column ''slug'' (SqlString 255),
      nullable_column ''budget_monthly_usd'' (SqlNumeric 12 2),
      default_column ''status'' (SqlString 32) ''active''] []),
    unique_index ''ix_tenants_slug'' ''tenants'' [''slug''],
    CreateTable (table_with ''model_pricing'' [
      column ''id'' SqlUuid,
      default_column ''created_at'' SqlDateTime ''now()'',
      column ''provider'' (SqlString 64),
      column ''model_name'' (SqlString 128),
      column ''input_price_per_1k'' (SqlNumeric 12 6),
      column ''output_price_per_1k'' (SqlNumeric 12 6),
      default_column ''currency'' (SqlString 8) ''USD'',
      column ''effective_from'' SqlDateTime,
      nullable_column ''effective_to'' SqlDateTime] []),
    plain_index ''ix_model_pricing_provider'' ''model_pricing'' [''provider''],
    plain_index ''ix_model_pricing_model_name'' ''model_pricing'' [''model_name''],
    CreateTable (table_with ''provider_health'' [
      column ''id'' SqlUuid,
      column ''provider'' (SqlString 64),
      column ''model'' (SqlString 128),
      column ''window_start'' SqlDateTime,
      default_column ''error_count'' SqlInteger ''0'',
      default_column ''success_count'' SqlInteger ''0'',
      nullable_column ''avg_latency_ms'' SqlFloat,
      default_column ''circuit_state'' (SqlString 16) ''closed''] []),
    plain_index ''ix_provider_health_provider'' ''provider_health'' [''provider''],
    plain_index ''ix_provider_health_model'' ''provider_health'' [''model''],
    CreateTable (table_with ''api_keys'' [
      column ''id'' SqlUuid,
      default_column ''created_at'' SqlDateTime ''now()'',
      column ''tenant_id'' SqlUuid,
      column ''key_hash'' (SqlString 128),
      column ''name'' (SqlString 255),
      default_column ''scopes'' SqlJson ''[]'',
      nullable_column ''revoked_at'' SqlDateTime,
      nullable_column ''last_used_at'' SqlDateTime]
      [(''tenant_id'', ''tenants'', ''id'')]),
    plain_index ''ix_api_keys_tenant_id'' ''api_keys'' [''tenant_id''],
    unique_index ''ix_api_keys_key_hash'' ''api_keys'' [''key_hash''],
    CreateTable (table_with ''requests'' [
      column ''id'' SqlUuid,
      column ''trace_id'' (SqlString 64),
      column ''tenant_id'' SqlUuid,
      nullable_column ''api_key_id'' SqlUuid,
      column ''provider'' (SqlString 64),
      column ''model_requested'' (SqlString 128),
      nullable_column ''model_used'' (SqlString 128),
      column ''status'' (SqlString 32),
      default_column ''cache_status'' (SqlString 32) ''MISS'',
      column ''http_status'' SqlInteger,
      default_column ''is_stream'' SqlBoolean ''false'',
      nullable_column ''total_latency_ms'' SqlFloat,
      default_column ''created_at'' SqlDateTime ''now()'',
      nullable_column ''completed_at'' SqlDateTime]
      [(''tenant_id'', ''tenants'', ''id''), (''api_key_id'', ''api_keys'', ''id'')]),
    plain_index ''ix_requests_trace_id'' ''requests'' [''trace_id''],
    plain_index ''ix_requests_tenant_id'' ''requests'' [''tenant_id''],
    plain_index ''ix_requests_created_at'' ''requests'' [''created_at''],
    plain_index ''ix_requests_tenant_created'' ''requests'' [''tenant_id'', ''created_at''],
    CreateTable (table_with ''request_spans'' [
      column ''id'' SqlUuid,
      column ''request_id'' SqlUuid,
      column ''span_name'' (SqlString 128),
      nullable_column ''parent_span_id'' (SqlString 128),
      column ''started_at'' SqlDateTime,
      nullable_column ''ended_at'' SqlDateTime,
      nullable_column ''duration_ms'' SqlFloat,
      default_column ''span_metadata'' SqlJson ''{}'']
      [(''request_id'', ''requests'', ''id'')]),
    plain_index ''ix_request_spans_request_id'' ''request_spans'' [''request_id''],
    CreateTable (table_with ''token_usage'' [
      column ''id'' SqlUuid,
      column ''request_id'' SqlUuid,
      column ''input_tokens'' SqlInteger,
      column ''output_tokens'' SqlInteger,
      column ''total_tokens'' SqlInteger,
      column ''cost_usd'' (SqlNumeric 12 6),
      nullable_column ''pricing_id'' SqlUuid]
      [(''request_id'', ''requests'', ''id''), (''pricing_id'', ''model_pricing'', ''id'')]),
    plain_index ''ix_token_usage_request_id'' ''token_usage'' [''request_id''],
    CreateTable (table_with ''cache_entries_meta'' [
      column ''id'' SqlUuid,
      default_column ''created_at'' SqlDateTime ''now()'',
      column ''qdrant_point_id'' (SqlString 64),
      nullable_column ''request_id'' SqlUuid,
      column ''prompt_hash'' (SqlString 64),
      column ''embedding_model'' (SqlString 128),
      default_column ''hit_count'' SqlInteger ''0'',
      nullable_column ''last_hit_at'' SqlDateTime,
      nullable_column ''ttl_expires_at'' SqlDateTime]
      [(''request_id'', ''requests'', ''id'')]),
    unique_index ''ix_cache_entries_meta_qdrant_point_id'' ''cache_entries_meta'' [''qdrant_point_id''],
    plain_index ''ix_cache_entries_meta_prompt_hash'' ''cache_entries_meta'' [''prompt_hash'']]"

definition downgrade_0001 :: "migration_op list" where
  "downgrade_0001 = [DropTable ''cache_entries_meta'', DropTable ''token_usage'', DropTable ''request_spans'',
     DropTable ''requests'', DropTable ''api_keys'', DropTable ''provider_health'', DropTable ''model_pricing'',
     DropTable ''tenants'']"

subsection \<open>\<open>0002_seed_defaults\<close>\<close>

definition seed_tenant_id :: string where
  "seed_tenant_id = ''00000000-0000-0000-0000-000000000001''"

text \<open>\<open>datetime(2024, 1, 1, tzinfo=UTC)\<close> in microseconds.\<close>

definition seed_effective_from :: datetime where
  "seed_effective_from = 1704067200 * 1000000"

text \<open>The prices are strings in the code; the column reads them as decimals.\<close>

definition seed_pricing :: "(string \<times> string \<times> real \<times> real) list" where
  "seed_pricing = [
    (''openai'', ''gpt-4o'', 0.0025, 0.01),
    (''openai'', ''gpt-4o-mini'', 0.00015, 0.0006),
    (''anthropic'', ''claude-3-5-sonnet-20241022'', 0.003, 0.015),
    (''anthropic'', ''claude-3-5-haiku-20241022'', 0.0008, 0.004)]"

fun seed_pricing_values ::
  "'w runtime \<Rightarrow> (string \<times> string \<times> real \<times> real) list \<Rightarrow> 'w \<Rightarrow>
     (string \<times> string \<times> string \<times> real \<times> real \<times> string \<times> datetime) list \<times> 'w" where
  "seed_pricing_values rt [] w = ([], w)"
| "seed_pricing_values rt ((provider, model_name, input_price, output_price) # ps) w =
     (let (i, w1) = rt_uuid4 rt w; (vs, w2) = seed_pricing_values rt ps w1
      in ((i, provider, model_name, input_price, output_price, ''USD'', seed_effective_from) # vs, w2))"

definition upgrade_0002 :: "'w runtime \<Rightarrow> 'w \<Rightarrow> migration_op list \<times> 'w" where
  "upgrade_0002 rt w =
     (let (vs, w1) = seed_pricing_values rt seed_pricing w
      in ([InsertTenant seed_tenant_id ''Default Tenant'' ''default'' ''active'', InsertPricing vs], w1))"

definition downgrade_0002 :: "migration_op list" where
  "downgrade_0002 = [DeletePricingOf [''openai'', ''anthropic''], DeleteTenant seed_tenant_id]"

subsection \<open>\<open>0003_seed_dev_api_key\<close>\<close>

definition dev_key_hash :: string where
  "dev_key_hash = ''827cce41dfd3ad5b8042748ea51ae2dc2b5d2f7577eaf1fa912cac65c3d50a61''"

definition upgrade_0003 :: "'w runtime \<Rightarrow> 'w \<Rightarrow> migration_op list \<times> 'w" where
  "upgrade_0003 rt w =
     (let (i, w1) = rt_uuid4 rt w
      in ([InsertApiKey i seed_tenant_id dev_key_hash ''Development default key'' [''*'']], w1))"

definition downgrade_0003 :: "migration_op list" where
  "downgrade_0003 = [DeleteApiKeyOfHash dev_key_hash]"

subsection \<open>\<open>0004_adapter_routes\<close>\<close>

definition upgrade_0004 :: "migration_op list" where
  "upgrade_0004 = [
    CreateTable \<lparr>td_name = ''adapter_routes'',
      td_columns = [
        column ''id'' SqlUuid,
        default_column ''created_at'' SqlDateTime ''now()'',
        column ''tenant_id'' SqlUuid,
        column ''model_alias'' (SqlString 128),
        column ''base_model'' (SqlString 128),
        column ''adapter_id'' (SqlString 255),
        column ''stage'' (SqlString 32),
        default_column ''enabled'' SqlBoolean ''true''],
      td_primary_key = [''id''],
      td_foreign_keys = [(''tenant_id'', ''tenants'', ''id'')],
      td_uniques = [[''tenant_id'', ''model_alias'', ''stage'']]\<rparr>,
    plain_index ''ix_adapter_routes_tenant_id'' ''adapter_routes'' [''tenant_id''],
    plain_index ''ix_adapter_routes_tenant_alias_enabled'' ''adapter_routes'' [''tenant_id'', ''model_alias'', ''enabled'']]"

definition downgrade_0004 :: "migration_op list" where
  "downgrade_0004 = [DropIndex ''ix_adapter_routes_tenant_alias_enabled'', DropIndex ''ix_adapter_routes_tenant_id'',
     DropTable ''adapter_routes'']"

subsection \<open>\<open>0005_adapter_canary_percent\<close>\<close>

definition upgrade_0005 :: "migration_op list" where
  "upgrade_0005 = [AddColumn ''adapter_routes'' (default_column ''canary_percent'' SqlInteger ''0'')]"

definition downgrade_0005 :: "migration_op list" where
  "downgrade_0005 = [DropColumn ''adapter_routes'' ''canary_percent'']"

subsection \<open>The version history\<close>

text \<open>\<open>revision\<close>, \<open>down_revision\<close>, \<open>upgrade\<close> and \<open>downgrade\<close> of each file.\<close>

record 'w revision =
  rv_revision :: string
  rv_down_revision :: "string option"
  rv_upgrade :: "'w \<Rightarrow> migration_op list \<times> 'w"
  rv_downgrade :: "migration_op list"

definition revision_0001 :: "'w revision" where
  "revision_0001 = \<lparr>rv_revision = ''0001_initial_schema'', rv_down_revision = None,
     rv_upgrade = (\<lambda>w. (upgrade_0001, w)), rv_downgrade = downgrade_0001\<rparr>"

definition revision_0002 :: "'w runtime \<Rightarrow> 'w revision" where
  "revision_0002 rt = \<lparr>rv_revision = ''0002_seed_defaults'', rv_down_revision = Some ''0001_initial_schema'',
     rv_upgrade = upgrade_0002 rt, rv_downgrade = downgrade_0002\<rparr>"

definition revision_0003 :: "'w runtime \<Rightarrow> 'w revision" where
  "revision_0003 rt = \<lparr>rv_revision = ''0003_seed_dev_api_key'', rv_down_revision = Some ''0002_seed_defaults'',
     rv_upgrade = upgrade_0003 rt, rv_downgrade = downgrade_0003\<rparr>"

definition revision_0004 :: "'w revision" where
  "revision_0004 = \<lparr>rv_revision = ''0004_adapter_routes'', rv_down_revision = Some ''0003_seed_dev_api_key'',
     rv_upgrade = (\<lambda>w. (upgrade_0004, w)), rv_downgrade = downgrade_0004\<rparr>"

definition revision_0005 :: "'w revision" where
  "revision_0005 = \<lparr>rv_revision = ''0005_adapter_canary_percent'', rv_down_revision = Some ''0004_adapter_routes'',
     rv_upgrade = (\<lambda>w. (upgrade_0005, w)), rv_downgrade = downgrade_0005\<rparr>"

definition revisions :: "'w runtime \<Rightarrow> 'w revision list" where
  "revisions rt = [revision_0001, revision_0002 rt, revision_0003 rt, revision_0004, revision_0005]"

section \<open>Running the migrations (\<open>migrations/env.py\<close>)\<close>

text \<open>\<open>alembic upgrade head\<close> applies the revision whose \<open>down_revision\<close> is the version of the database, and so on until
  there is none; \<open>alembic downgrade base\<close> undoes the revision of the version, and so on down to no version.  The fuel is the
  number of revisions, since no run applies one twice.\<close>

fun upgrade_steps :: "nat \<Rightarrow> 'w revision list \<Rightarrow> datetime \<Rightarrow> pg_state \<Rightarrow> 'w \<Rightarrow> (exn + pg_state) \<times> 'w" where
  "upgrade_steps 0 revs now s w = (Inr s, w)"
| "upgrade_steps (Suc n) revs now s w =
     (case find (\<lambda>r. rv_down_revision r = pg_version s) revs of
        None \<Rightarrow> (Inr s, w)
      | Some r \<Rightarrow>
          (case rv_upgrade r w of (qs, w1) \<Rightarrow>
             (case apply_ops now qs (pg_schema s, pg_rows s) of
                Inl e \<Rightarrow> (Inl e, w1)
              | Inr (S, T) \<Rightarrow>
                  upgrade_steps n revs now \<lparr>pg_version = Some (rv_revision r), pg_schema = S, pg_rows = T\<rparr> w1)))"

fun downgrade_steps :: "nat \<Rightarrow> 'w revision list \<Rightarrow> datetime \<Rightarrow> pg_state \<Rightarrow> exn + pg_state" where
  "downgrade_steps 0 revs now s = Inr s"
| "downgrade_steps (Suc n) revs now s =
     (case pg_version s of
        None \<Rightarrow> Inr s
      | Some v \<Rightarrow>
          (case find (\<lambda>r. rv_revision r = v) revs of
             None \<Rightarrow> Inl (OtherError ''unknown revision'')
           | Some r \<Rightarrow>
               (case apply_ops now (rv_downgrade r) (pg_schema s, pg_rows s) of
                  Inl e \<Rightarrow> Inl e
                | Inr (S, T) \<Rightarrow>
                    downgrade_steps n revs now \<lparr>pg_version = rv_down_revision r, pg_schema = S, pg_rows = T\<rparr>)))"

text \<open>\<open>do_run_migrations\<close>: all steps in one transaction, so that a run that fails leaves the database as it was.\<close>

definition run_migrations :: "exn + pg_state \<Rightarrow> pg_state \<Rightarrow> (exn + unit) \<times> pg_state" where
  "run_migrations result s = (case result of Inl e \<Rightarrow> (Inl e, s) | Inr s' \<Rightarrow> (Inr (), s'))"

definition upgrade_head :: "'w runtime \<Rightarrow> datetime \<Rightarrow> pg_state \<Rightarrow> 'w \<Rightarrow> ((exn + unit) \<times> pg_state) \<times> 'w" where
  "upgrade_head rt now s w =
     (case upgrade_steps (length (revisions rt)) (revisions rt) now s w of (r, w') \<Rightarrow> (run_migrations r s, w'))"

definition downgrade_by :: "nat \<Rightarrow> 'w runtime \<Rightarrow> datetime \<Rightarrow> pg_state \<Rightarrow> (exn + unit) \<times> pg_state" where
  "downgrade_by n rt now s = run_migrations (downgrade_steps n (revisions rt) now s) s"

section \<open>What the migrations do\<close>

subsection \<open>To the schema\<close>

text \<open>A list of operations acts on the schema and on the rows independently.\<close>

fun schema_ops :: "migration_op list \<Rightarrow> schema \<Rightarrow> exn + schema" where
  "schema_ops [] S = Inr S"
| "schema_ops (q # qs) S = (case apply_schema q S of Inl e \<Rightarrow> Inl e | Inr S' \<Rightarrow> schema_ops qs S')"

fun row_ops :: "datetime \<Rightarrow> migration_op list \<Rightarrow> tables \<Rightarrow> exn + tables" where
  "row_ops now [] T = Inr T"
| "row_ops now (q # qs) T = (case apply_rows now q T of Inl e \<Rightarrow> Inl e | Inr T' \<Rightarrow> row_ops now qs T')"

lemma apply_ops_parts:
  "apply_ops now qs (S, T) = Inr (S', T') \<longleftrightarrow> schema_ops qs S = Inr S' \<and> row_ops now qs T = Inr T'"
  by (induction qs arbitrary: S T) (auto simp: apply_op_def split: sum.splits)

text \<open>The schemas of the versions.\<close>

definition created_tables :: "migration_op list \<Rightarrow> table_def list" where
  "created_tables qs = concat (map (\<lambda>q. case q of CreateTable t \<Rightarrow> [t] | _ \<Rightarrow> []) qs)"

definition created_indexes :: "migration_op list \<Rightarrow> index_def list" where
  "created_indexes qs = concat (map (\<lambda>q. case q of CreateIndex i \<Rightarrow> [i] | _ \<Rightarrow> []) qs)"

definition extended :: "schema \<Rightarrow> migration_op list \<Rightarrow> schema" where
  "extended S qs = \<lparr>sc_tables = sc_tables S @ created_tables qs, sc_indexes = sc_indexes S @ created_indexes qs\<rparr>"

definition schema_0001 :: schema where "schema_0001 = extended empty_schema upgrade_0001"

definition schema_0004 :: schema where "schema_0004 = extended schema_0001 upgrade_0004"

definition schema_0005 :: schema where
  "schema_0005 = schema_0004\<lparr>sc_tables := map (\<lambda>t. if td_name t = ''adapter_routes''
     then t\<lparr>td_columns := td_columns t @ [default_column ''canary_percent'' SqlInteger ''0'']\<rparr> else t) (sc_tables schema_0004)\<rparr>"

lemma upgrade_0001_schema: "schema_ops upgrade_0001 empty_schema = Inr schema_0001" by code_simp
lemma downgrade_0001_schema: "schema_ops downgrade_0001 schema_0001 = Inr empty_schema" by code_simp
lemma upgrade_0004_schema: "schema_ops upgrade_0004 schema_0001 = Inr schema_0004" by code_simp
lemma downgrade_0004_schema: "schema_ops downgrade_0004 schema_0004 = Inr schema_0001" by code_simp
lemma upgrade_0005_schema: "schema_ops upgrade_0005 schema_0004 = Inr schema_0005" by code_simp
lemma downgrade_0005_schema: "schema_ops downgrade_0005 schema_0005 = Inr schema_0004" by code_simp

lemmas revision_schemas = upgrade_0001_schema downgrade_0001_schema upgrade_0004_schema downgrade_0004_schema
  upgrade_0005_schema downgrade_0005_schema

text \<open>A schema up to the order of its parts and the server defaults.\<close>

definition no_default :: "column \<Rightarrow> column" where "no_default c = c\<lparr>cl_server_default := None\<rparr>"

definition table_shape ::
  "table_def \<Rightarrow> string \<times> column set \<times> string list \<times> (string \<times> string \<times> string) set \<times> string list set" where
  "table_shape t = (td_name t, set (map no_default (td_columns t)), td_primary_key t, set (td_foreign_keys t), set (td_uniques t))"

definition schema_shape ::
  "schema \<Rightarrow> (string \<times> column set \<times> string list \<times> (string \<times> string \<times> string) set \<times> string list set) set \<times> index_def set" where
  "schema_shape S = (set (map table_shape (sc_tables S)), set (sc_indexes S))"

lemma shape_0005: "schema_shape schema_0005 = schema_shape declared_schema" by code_simp

subsection \<open>To the rows\<close>

text \<open>A table that is not in the schema has no rows; the foreign keys of the rows hold.\<close>

definition rows_fit :: "schema \<Rightarrow> tables \<Rightarrow> bool" where
  "rows_fit S T \<longleftrightarrow>
     (lookup_table S ''tenants'' = None \<longrightarrow> tb_tenants T = []) \<and> (lookup_table S ''api_keys'' = None \<longrightarrow> tb_api_keys T = [])
   \<and> (lookup_table S ''model_pricing'' = None \<longrightarrow> tb_pricing T = [])
   \<and> (lookup_table S ''adapter_routes'' = None \<longrightarrow> tb_adapter_routes T = [])
   \<and> (lookup_table S ''requests'' = None \<longrightarrow> tb_requests T = [])
   \<and> (lookup_table S ''request_spans'' = None \<longrightarrow> tb_spans T = [])
   \<and> (lookup_table S ''token_usage'' = None \<longrightarrow> tb_usage T = [])
   \<and> (\<not> has_columns S ''adapter_routes'' [''canary_percent''] \<longrightarrow> list_all (\<lambda>r. ar_canary_percent r = 0) (tb_adapter_routes T))"

definition foreign_keys_ok :: "tables \<Rightarrow> bool" where
  "foreign_keys_ok T \<longleftrightarrow>
     list_all (\<lambda>k. ak_tenant_id k \<in> tn_id ` set (tb_tenants T)) (tb_api_keys T)
   \<and> list_all (\<lambda>r. ar_tenant_id r \<in> tn_id ` set (tb_tenants T)) (tb_adapter_routes T)
   \<and> list_all (\<lambda>r. rr_tenant_id r \<in> tn_id ` set (tb_tenants T)) (tb_requests T)
   \<and> list_all (\<lambda>r. case rr_api_key_id r of None \<Rightarrow> True | Some k \<Rightarrow> k \<in> ak_id ` set (tb_api_keys T)) (tb_requests T)
   \<and> list_all (\<lambda>u. case ur_pricing_id u of None \<Rightarrow> True | Some p \<Rightarrow> p \<in> mp_id ` set (tb_pricing T)) (tb_usage T)"

text \<open>The versions with their schemas.\<close>

definition versions :: "(string option \<times> schema) list" where
  "versions = [(None, empty_schema), (Some ''0001_initial_schema'', schema_0001), (Some ''0002_seed_defaults'', schema_0001),
     (Some ''0003_seed_dev_api_key'', schema_0001), (Some ''0004_adapter_routes'', schema_0004),
     (Some ''0005_adapter_canary_percent'', schema_0005)]"

definition at_version :: "nat \<Rightarrow> pg_state \<Rightarrow> bool" where
  "at_version k s \<longleftrightarrow> k < length versions \<and> (pg_version s, pg_schema s) = versions ! k
     \<and> rows_fit (pg_schema s) (pg_rows s) \<and> foreign_keys_ok (pg_rows s)"

text \<open>The prices that the downgrade of \<open>0002_seed_defaults\<close> keeps.\<close>

definition without_seeded_providers :: "tables \<Rightarrow> tables" where
  "without_seeded_providers T = T\<lparr>tb_pricing := filter (\<lambda>r. mp_provider r \<notin> {''openai'', ''anthropic''}) (tb_pricing T)\<rparr>"

definition no_seeded_price_used :: "tables \<Rightarrow> bool" where
  "no_seeded_price_used T \<longleftrightarrow> list_all (\<lambda>u. list_all (\<lambda>r. mp_provider r \<in> {''openai'', ''anthropic''} \<longrightarrow>
     ur_pricing_id u \<noteq> Some (mp_id r)) (tb_pricing T)) (tb_usage T)"

lemma lookups_0001 [simp]:
  "lookup_table schema_0001 ''tenants'' \<noteq> None" "lookup_table schema_0001 ''api_keys'' \<noteq> None"
  "lookup_table schema_0001 ''model_pricing'' \<noteq> None" "lookup_table schema_0001 ''adapter_routes'' = None"
  by code_simp+

lemma lookups_empty [simp]: "lookup_table empty_schema n = None" by (simp add: lookup_table_def empty_schema_def)

lemma canary_0004 [simp]: "\<not> has_columns schema_0004 ''adapter_routes'' [''canary_percent'']" by code_simp

lemma clear_all: "tb_adapter_routes T = [] \<Longrightarrow> row_ops now downgrade_0001 T = Inr empty_tables"
  by (cases T) (simp add: downgrade_0001_def clear_rows_def empty_tables_def)

lemma rows_created [simp]: "row_ops now upgrade_0001 T = Inr T" "row_ops now upgrade_0004 T = Inr T"
  by (simp_all add: upgrade_0001_def upgrade_0004_def plain_index_def unique_index_def)

lemma seed_schema:
  "schema_ops (fst (upgrade_0002 rt w)) schema_0001 = Inr schema_0001" "schema_ops downgrade_0002 schema_0001 = Inr schema_0001"
  "schema_ops (fst (upgrade_0003 rt w)) schema_0001 = Inr schema_0001" "schema_ops downgrade_0003 schema_0001 = Inr schema_0001"
  by (simp_all add: upgrade_0002_def upgrade_0003_def downgrade_0002_def downgrade_0003_def split: prod.splits)

definition price_rows :: "datetime \<Rightarrow> (string \<times> string \<times> string \<times> real \<times> real \<times> string \<times> datetime) list \<Rightarrow> pricing_row list" where
  "price_rows now vs = map (\<lambda>(i, provider, model_name, input_price, output_price, currency, effective_from).
     \<lparr>mp_id = i, mp_provider = provider, mp_model_name = model_name, mp_input_price_per_1k = input_price,
      mp_output_price_per_1k = output_price, mp_currency = currency, mp_effective_from = effective_from,
      mp_effective_to = None, mp_created_at = now\<rparr>) vs"

lemma insert_pricing_ok:
  "insert_pricing now vs T = Inr T' \<longleftrightarrow>
     distinct (map fst vs) \<and> set (map fst vs) \<inter> mp_id ` set (tb_pricing T) = {}
   \<and> T' = T\<lparr>tb_pricing := tb_pricing T @ price_rows now vs\<rparr>"
proof (induction vs arbitrary: T)
  case Nil
  then show ?case by (auto simp: price_rows_def)
next
  case (Cons v vs)
  show ?case
    by (cases v) (auto simp: Cons.IH price_rows_def list_ex_iff)
qed

lemma seed_values_providers:
  "seed_pricing_values rt ps w = (vs, w') \<Longrightarrow> map (fst \<circ> snd) vs = map fst ps"
  by (induction ps arbitrary: w vs w') (auto simp: Let_def split: prod.splits)

lemma seeded_providers:
  assumes "seed_pricing_values rt seed_pricing w = (vs, w')"
  shows "list_all (\<lambda>r. mp_provider r \<in> {''openai'', ''anthropic''}) (price_rows now vs)"
proof -
  have "map mp_provider (price_rows now vs) = map fst seed_pricing"
    using seed_values_providers [OF assms] by (simp add: price_rows_def comp_def case_prod_unfold)
  then have "set (map mp_provider (price_rows now vs)) \<subseteq> {''openai'', ''anthropic''}"
    by (simp add: seed_pricing_def)
  then show ?thesis by (auto simp: list_all_iff)
qed

lemma below_5: "k < (5::nat) \<Longrightarrow> k = 0 \<or> k = 1 \<or> k = 2 \<or> k = 3 \<or> k = 4" by arith

lemmas revision_defs = revision_0001_def revision_0002_def revision_0003_def revision_0004_def revision_0005_def

lemma revision_of_version:
  assumes "k < 5"
  shows "find (\<lambda>r. rv_down_revision r = fst (versions ! k)) (revisions rt) = Some (revisions rt ! k)"
    and "find (\<lambda>r. rv_revision r = the (fst (versions ! Suc k))) (revisions rt) = Some (revisions rt ! k)"
    and "Some (rv_revision (revisions rt ! k)) = fst (versions ! Suc k)"
    and "rv_down_revision (revisions rt ! k) = fst (versions ! k)"
    and "fst (versions ! Suc k) \<noteq> None"
  using below_5 [OF assms] by (auto simp: revisions_def versions_def revision_defs)

lemma revision_schema:
  assumes "k < 5"
  shows "schema_ops (fst (rv_upgrade (revisions rt ! k) w)) (snd (versions ! k)) = Inr (snd (versions ! Suc k))"
    and "schema_ops (rv_downgrade (revisions rt ! k)) (snd (versions ! Suc k)) = Inr (snd (versions ! k))"
  using below_5 [OF assms] by (auto simp: revisions_def versions_def revision_defs seed_schema revision_schemas)

lemma apply_ops_schema:
  assumes "schema_ops qs S = Inr S'"
  shows "apply_ops now qs (S, T) = (case row_ops now qs T of Inl e \<Rightarrow> apply_ops now qs (S, T) | Inr T' \<Rightarrow> Inr (S', T'))"
  using assms apply_ops_parts [of now qs S T S'] by (auto split: sum.splits)

lemma upgrade_one:
  assumes "k < 5" "row_ops now qs T = Inr T'" "rv_upgrade (revisions rt ! k) w = (qs, w')"
  shows "upgrade_steps (Suc n) (revisions rt) now \<lparr>pg_version = fst (versions ! k), pg_schema = snd (versions ! k), pg_rows = T\<rparr> w
    = upgrade_steps n (revisions rt) now
        \<lparr>pg_version = fst (versions ! Suc k), pg_schema = snd (versions ! Suc k), pg_rows = T'\<rparr> w'"
proof -
  have "apply_ops now qs (snd (versions ! k), T) = Inr (snd (versions ! Suc k), T')"
    using revision_schema(1) [OF assms(1), of rt w] assms by (simp add: apply_ops_parts)
  then show ?thesis using revision_of_version(1,3) [OF assms(1), of rt] assms(3) by simp
qed

lemma downgrade_one:
  assumes "k < 5" "row_ops now (rv_downgrade (revisions rt ! k)) T = Inr T'"
  shows "downgrade_steps (Suc n) (revisions rt) now
      \<lparr>pg_version = fst (versions ! Suc k), pg_schema = snd (versions ! Suc k), pg_rows = T\<rparr>
    = downgrade_steps n (revisions rt) now \<lparr>pg_version = fst (versions ! k), pg_schema = snd (versions ! k), pg_rows = T'\<rparr>"
proof -
  have "apply_ops now (rv_downgrade (revisions rt ! k)) (snd (versions ! Suc k), T) = Inr (snd (versions ! k), T')"
    using revision_schema(2) [OF assms(1), of rt] assms by (simp add: apply_ops_parts)
  moreover obtain v where "fst (versions ! Suc k) = Some v" using revision_of_version(5) [OF assms(1)] by auto
  ultimately show ?thesis using revision_of_version(2,4) [OF assms(1), of rt] by simp
qed

lemma upgrade_one_rows:
  assumes "k < 5" "upgrade_steps 1 (revisions rt) now \<lparr>pg_version = fst (versions ! k), pg_schema = snd (versions ! k), pg_rows = T\<rparr> w
      = (Inr s', w')"
  obtains T' where "row_ops now (fst (rv_upgrade (revisions rt ! k) w)) T = Inr T'"
    "s' = \<lparr>pg_version = fst (versions ! Suc k), pg_schema = snd (versions ! Suc k), pg_rows = T'\<rparr>"
proof -
  obtain qs w1 where q: "rv_upgrade (revisions rt ! k) w = (qs, w1)" by fastforce
  have "upgrade_steps 1 (revisions rt) now \<lparr>pg_version = fst (versions ! k), pg_schema = snd (versions ! k), pg_rows = T\<rparr> w
      = (case apply_ops now qs (snd (versions ! k), T) of Inl e \<Rightarrow> (Inl e, w1)
         | Inr (S, T) \<Rightarrow> (Inr \<lparr>pg_version = fst (versions ! Suc k), pg_schema = S, pg_rows = T\<rparr>, w1))"
    using revision_of_version(1,3) [OF assms(1), of rt] q by (simp cong: sum.case_cong prod.case_cong)
  with assms(2) obtain S' T' where a: "apply_ops now qs (snd (versions ! k), T) = Inr (S', T')"
    and s': "s' = \<lparr>pg_version = fst (versions ! Suc k), pg_schema = S', pg_rows = T'\<rparr>"
    by (auto split: sum.splits)
  from a [unfolded apply_ops_parts] revision_schema(1) [OF assms(1), of rt w] q have "S' = snd (versions ! Suc k)" "row_ops now qs T = Inr T'"
    by auto
  with that q s' show ?thesis by simp
qed

lemma rows_fit_routes: "rows_fit schema_0001 T \<Longrightarrow> tb_adapter_routes T = []"
  by (simp add: rows_fit_def)

lemma rows_fit_empty: "rows_fit empty_schema T \<Longrightarrow> T = empty_tables"
  by (cases T) (simp add: rows_fit_def empty_tables_def)

lemma rows_fit_canary: "rows_fit schema_0004 T \<Longrightarrow> map (\<lambda>r. r\<lparr>ar_canary_percent := 0\<rparr>) (tb_adapter_routes T) = tb_adapter_routes T"
  by (auto simp: rows_fit_def list_all_iff intro!: map_idI)

lemma insert_tenant_ok:
  "insert_tenant now i name slug status T = Inr T' \<longleftrightarrow> i \<notin> tn_id ` set (tb_tenants T) \<and> slug \<notin> tn_slug ` set (tb_tenants T)
   \<and> T' = T\<lparr>tb_tenants := tb_tenants T @ [\<lparr>tn_id = i, tn_name = name, tn_slug = slug, tn_budget_monthly_usd = None,
                    tn_status = status, tn_created_at = now\<rparr>]\<rparr>"
  by (auto simp: insert_tenant_def list_ex_iff)

lemma insert_api_key_ok:
  "insert_api_key now i tenant_id h name scopes T = Inr T' \<longleftrightarrow> i \<notin> ak_id ` set (tb_api_keys T) \<and> h \<notin> ak_key_hash ` set (tb_api_keys T)
   \<and> tenant_id \<in> tn_id ` set (tb_tenants T)
   \<and> T' = T\<lparr>tb_api_keys := tb_api_keys T @ [\<lparr>ak_id = i, ak_tenant_id = tenant_id, ak_key_hash = h, ak_name = name,
        ak_scopes = scopes, ak_revoked_at = None, ak_last_used_at = None, ak_created_at = now\<rparr>]\<rparr>"
  by (auto simp: insert_api_key_def list_ex_iff)

lemma undo_seed_key:
  assumes "row_ops now (fst (upgrade_0003 rt w)) T = Inr T'" "foreign_keys_ok T"
  shows "row_ops now' downgrade_0003 T' = Inr T"
proof -
  obtain i w' where i: "rt_uuid4 rt w = (i, w')" by fastforce
  with assms(1) have "insert_api_key now i seed_tenant_id dev_key_hash ''Development default key'' [''*''] T = Inr T'"
    by (simp add: upgrade_0003_def split: sum.splits)
  note ins = this [unfolded insert_api_key_ok]
  have unused: "\<forall>r\<in>set (tb_requests T). rr_api_key_id r \<noteq> Some i"
    using assms(2) ins by (auto simp: foreign_keys_ok_def list_all_iff split: option.splits)
  have keep: "filter (\<lambda>k. ak_key_hash k \<noteq> dev_key_hash) (tb_api_keys T) = tb_api_keys T"
    using ins by (auto simp: filter_id_conv image_iff)
  have "\<not> list_ex (\<lambda>r. list_ex (\<lambda>k. ak_key_hash k = dev_key_hash \<and> rr_api_key_id r = Some (ak_id k)) (tb_api_keys T')) (tb_requests T')"
    using ins unused by (auto simp: list_ex_iff image_iff)
  then show ?thesis using ins keep by (simp add: downgrade_0003_def delete_api_key_of_hash_def)
qed

lemma undo_seed_defaults:
  assumes "row_ops now (fst (upgrade_0002 rt w)) T = Inr T'" "foreign_keys_ok T" "no_seeded_price_used T"
  shows "row_ops now' downgrade_0002 T' = Inr (without_seeded_providers T)"
proof -
  obtain vs w' where v: "seed_pricing_values rt seed_pricing w = (vs, w')" by fastforce
  with assms(1) obtain T1 where
    t: "insert_tenant now seed_tenant_id ''Default Tenant'' ''default'' ''active'' T = Inr T1" and p: "insert_pricing now vs T1 = Inr T'"
    by (auto simp: upgrade_0002_def split: sum.splits)
  note t = t [unfolded insert_tenant_ok] and p = p [unfolded insert_pricing_ok]
  let ?seeded = "{''openai'', ''anthropic''}" and ?i = seed_tenant_id
  have new: "list_all (\<lambda>r. mp_provider r \<in> ?seeded) (price_rows now vs)" by (rule seeded_providers [OF v])
  have prices: "filter (\<lambda>r. mp_provider r \<notin> ?seeded) (tb_pricing T') = filter (\<lambda>r. mp_provider r \<notin> ?seeded) (tb_pricing T)"
    using t p new by (auto simp: list_all_iff filter_empty_conv)
  have ids: "mp_id ` set (price_rows now vs) = set (map fst vs)" by (force simp: price_rows_def)
  have usage: "ur_pricing_id u \<noteq> Some (mp_id r)" if u: "u \<in> set (tb_usage T)" and r: "r \<in> set (price_rows now vs)" for u r
  proof
    assume "ur_pricing_id u = Some (mp_id r)"
    with u assms(2) have "mp_id r \<in> mp_id ` set (tb_pricing T)" by (auto simp: foreign_keys_ok_def list_all_iff)
    moreover have "mp_id r \<in> set (map fst vs)" using r ids by blast
    ultimately show False using t p by auto
  qed
  have "\<not> list_ex (\<lambda>u. list_ex (\<lambda>r. mp_provider r \<in> ?seeded \<and> ur_pricing_id u = Some (mp_id r)) (tb_pricing T')) (tb_usage T')"
    using t p usage assms(3) by (auto simp: list_ex_iff no_seeded_price_used_def list_all_iff)
  then have d: "delete_pricing_of [''openai'', ''anthropic''] T' = Inr (T'\<lparr>tb_pricing := filter (\<lambda>r. mp_provider r \<notin> ?seeded) (tb_pricing T)\<rparr>)"
    using prices by (simp add: delete_pricing_of_def)
  have free: "?i \<notin> ak_tenant_id ` set (tb_api_keys T)" "?i \<notin> rr_tenant_id ` set (tb_requests T)"
      "?i \<notin> ar_tenant_id ` set (tb_adapter_routes T)"
    using t assms(2) by (auto simp: foreign_keys_ok_def list_all_iff)
  have keep: "filter (\<lambda>n. tn_id n \<noteq> ?i) (tb_tenants T) = tb_tenants T" using t by (auto simp: filter_id_conv image_iff)
  let ?T = "T'\<lparr>tb_pricing := filter (\<lambda>r. mp_provider r \<notin> ?seeded) (tb_pricing T)\<rparr>"
  have "delete_tenant ?i ?T = Inr (?T\<lparr>tb_tenants := tb_tenants T\<rparr>)"
    using t p free keep by (auto simp: delete_tenant_def list_ex_iff image_iff)
  with d t p show ?thesis by (simp add: downgrade_0002_def without_seeded_providers_def)
qed

lemma undo_rows:
  assumes "k < 5" and up: "row_ops now (fst (rv_upgrade (revisions rt ! k) w)) T = Inr T'"
    and T: "rows_fit (snd (versions ! k)) T" "foreign_keys_ok T" "no_seeded_price_used T"
  shows "row_ops now' (rv_downgrade (revisions rt ! k)) T' = Inr (if k = 1 then without_seeded_providers T else T)"
  using below_5 [OF assms(1)]
proof (elim disjE)
  assume k: "k = 0"
  with up T(1) have "T' = empty_tables" "T = empty_tables"
    by (simp_all add: revisions_def revision_0001_def versions_def rows_fit_empty)
  with k show ?thesis by (simp add: revisions_def revision_0001_def clear_all empty_tables_def)
next
  assume "k = 1"
  with up T(2,3) show ?thesis by (simp add: revisions_def revision_0002_def undo_seed_defaults)
next
  assume "k = 2"
  with up T(2) show ?thesis by (simp add: revisions_def revision_0003_def undo_seed_key)
next
  assume k: "k = 3"
  with T(1) have "tb_adapter_routes T = []" by (simp add: versions_def rows_fit_routes)
  with k up show ?thesis by (cases T) (simp add: revisions_def revision_0004_def downgrade_0004_def clear_rows_def)
next
  assume k: "k = 4"
  with T(1) have "map (\<lambda>r. r\<lparr>ar_canary_percent := 0\<rparr>) (tb_adapter_routes T) = tb_adapter_routes T"
    by (simp add: versions_def rows_fit_canary)
  with k up show ?thesis
    by (auto simp: revisions_def revision_0005_def upgrade_0005_def downgrade_0005_def reset_canary_def default_column_def)
qed

lemma downgrade_undoes_upgrade_aux:
  assumes "k < 5" and s: "at_version k s" "no_seeded_price_used (pg_rows s)"
    and up: "upgrade_steps 1 (revisions rt) now s w = (Inr s', w')"
  shows "downgrade_by 1 rt now' s' = (Inr (), if k = 1 then s\<lparr>pg_rows := without_seeded_providers (pg_rows s)\<rparr> else s)"
proof -
  have eq: "s = \<lparr>pg_version = fst (versions ! k), pg_schema = snd (versions ! k), pg_rows = pg_rows s\<rparr>"
    using s(1) by (cases s) (auto simp: at_version_def dest: sym)
  have fit: "rows_fit (snd (versions ! k)) (pg_rows s)" "foreign_keys_ok (pg_rows s)"
    using s(1) by (simp_all add: at_version_def) (metis snd_conv)
  obtain T' where T': "row_ops now (fst (rv_upgrade (revisions rt ! k) w)) (pg_rows s) = Inr T'"
    and s': "s' = \<lparr>pg_version = fst (versions ! Suc k), pg_schema = snd (versions ! Suc k), pg_rows = T'\<rparr>"
    using upgrade_one_rows [OF assms(1)] up eq by metis
  note d = downgrade_one [OF assms(1) undo_rows [OF assms(1) T' fit s(2), of now'], where n = 0]
  show ?thesis
    unfolding downgrade_by_def run_migrations_def One_nat_def s' d
    by (subst (2 3) eq) simp
qed

section \<open>A fresh installation\<close>

definition pristine :: pg_state where
  "pristine = \<lparr>pg_version = None, pg_schema = empty_schema, pg_rows = empty_tables\<rparr>"

definition seed_prices :: "datetime \<Rightarrow> string list \<Rightarrow> pricing_row list" where
  "seed_prices now uids = map2 (\<lambda>i (provider, model_name, input_price, output_price).
     \<lparr>mp_id = i, mp_provider = provider, mp_model_name = model_name, mp_input_price_per_1k = input_price,
      mp_output_price_per_1k = output_price, mp_currency = ''USD'', mp_effective_from = seed_effective_from,
      mp_effective_to = None, mp_created_at = now\<rparr>) uids seed_pricing"

definition seeded_tables :: "datetime \<Rightarrow> string list \<Rightarrow> string \<Rightarrow> tables" where
  "seeded_tables now price_ids key_id = empty_tables\<lparr>
     tb_tenants := [\<lparr>tn_id = seed_tenant_id, tn_name = ''Default Tenant'', tn_slug = ''default'', tn_budget_monthly_usd = None,
       tn_status = ''active'', tn_created_at = now\<rparr>],
     tb_pricing := seed_prices now price_ids,
     tb_api_keys := [\<lparr>ak_id = key_id, ak_tenant_id = seed_tenant_id, ak_key_hash = dev_key_hash,
       ak_name = ''Development default key'', ak_scopes = [''*''], ak_revoked_at = None, ak_last_used_at = None,
       ak_created_at = now\<rparr>]\<rparr>"

lemma seed_pricing_values_eq:
  assumes "rt_uuid4 rt w = (i1, w1)" "rt_uuid4 rt w1 = (i2, w2)" "rt_uuid4 rt w2 = (i3, w3)" "rt_uuid4 rt w3 = (i4, w4)"
  shows "seed_pricing_values rt seed_pricing w = (map2 (\<lambda>i (provider, model_name, input_price, output_price).
     (i, provider, model_name, input_price, output_price, ''USD'', seed_effective_from)) [i1, i2, i3, i4] seed_pricing, w4)"
  using assms by (simp add: seed_pricing_def)

lemma seed_values:
  assumes "rt_uuid4 rt w = (i1, w1)" "rt_uuid4 rt w1 = (i2, w2)" "rt_uuid4 rt w2 = (i3, w3)" "rt_uuid4 rt w3 = (i4, w4)"
  obtains vs where "seed_pricing_values rt seed_pricing w = (vs, w4)" "map fst vs = [i1, i2, i3, i4]"
    "price_rows now vs = seed_prices now [i1, i2, i3, i4]"
  by (rule that [OF seed_pricing_values_eq [OF assms]]) (simp_all add: seed_pricing_def seed_prices_def price_rows_def)

lemma migrated_rows:
  assumes "rt_uuid4 rt w = (i1, w1)" "rt_uuid4 rt w1 = (i2, w2)" "rt_uuid4 rt w2 = (i3, w3)" "rt_uuid4 rt w3 = (i4, w4)"
    "rt_uuid4 rt w4 = (i5, w5)" "distinct [i1, i2, i3, i4]"
  shows "upgrade_head rt now pristine w
    = ((Inr (), \<lparr>pg_version = Some ''0005_adapter_canary_percent'', pg_schema = schema_0005,
                 pg_rows = seeded_tables now [i1, i2, i3, i4] i5\<rparr>), w5)"
proof -
  obtain vs where vs: "seed_pricing_values rt seed_pricing w = (vs, w4)" "map fst vs = [i1, i2, i3, i4]"
    "price_rows now vs = seed_prices now [i1, i2, i3, i4]" by (rule seed_values [OF assms(1-4)])
  let ?T = "seeded_tables now [i1, i2, i3, i4] i5"
  let ?T1 = "?T\<lparr>tb_api_keys := []\<rparr>"
  have r2: "rv_upgrade (revisions rt ! 1) w = (fst (upgrade_0002 rt w), w4)"
    by (simp add: revisions_def revision_0002_def upgrade_0002_def vs)
  have r3: "rv_upgrade (revisions rt ! 2) w4 = (fst (upgrade_0003 rt w4), w5)"
    by (simp add: revisions_def revision_0003_def upgrade_0003_def assms(5))
  have "insert_tenant now seed_tenant_id ''Default Tenant'' ''default'' ''active'' empty_tables
      = Inr (?T\<lparr>tb_pricing := [], tb_api_keys := []\<rparr>)"
    unfolding insert_tenant_ok by (simp add: empty_tables_def seeded_tables_def)
  moreover have "insert_pricing now vs (?T\<lparr>tb_pricing := [], tb_api_keys := []\<rparr>) = Inr ?T1"
    unfolding insert_pricing_ok using vs assms(6) by (simp add: seeded_tables_def)
  ultimately have o2: "row_ops now (fst (upgrade_0002 rt w)) empty_tables = Inr ?T1"
    by (simp add: upgrade_0002_def vs)
  have "insert_api_key now i5 seed_tenant_id dev_key_hash ''Development default key'' [''*''] ?T1 = Inr ?T"
    unfolding insert_api_key_ok by (simp add: seeded_tables_def empty_tables_def)
  then have o3: "row_ops now (fst (upgrade_0003 rt w4)) ?T1 = Inr ?T" by (simp add: upgrade_0003_def assms(5))
  have o5: "row_ops now upgrade_0005 ?T = Inr ?T"
    by (simp add: upgrade_0005_def reset_canary_def seeded_tables_def empty_tables_def)
  let ?s = "\<lambda>k T. \<lparr>pg_version = fst (versions ! k), pg_schema = snd (versions ! k), pg_rows = T\<rparr>"
  let ?up = "\<lambda>n. upgrade_steps n (revisions rt) now"
  have a: "?up (Suc n) (?s 0 empty_tables) w = ?up n (?s (Suc 0) empty_tables) w" for n
    by (rule upgrade_one [of 0 now upgrade_0001]) (simp_all add: revisions_def revision_0001_def)
  have b: "?up (Suc n) (?s (Suc 0) empty_tables) w = ?up n (?s (Suc (Suc 0)) ?T1) w4" for n
    by (rule upgrade_one [OF _ o2 r2 [unfolded One_nat_def]]) simp
  have c: "?up (Suc n) (?s (Suc (Suc 0)) ?T1) w4 = ?up n (?s (Suc (Suc (Suc 0))) ?T) w5" for n
    by (rule upgrade_one [OF _ o3 r3 [unfolded numeral_2_eq_2]]) simp
  have d: "?up (Suc n) (?s (Suc (Suc (Suc 0))) ?T) w5 = ?up n (?s (Suc (Suc (Suc (Suc 0)))) ?T) w5" for n
    by (rule upgrade_one [of _ now upgrade_0004]) (simp_all add: revisions_def revision_0004_def)
  have e: "?up (Suc n) (?s (Suc (Suc (Suc (Suc 0)))) ?T) w5 = ?up n (?s (Suc (Suc (Suc (Suc (Suc 0))))) ?T) w5" for n
    by (rule upgrade_one [of _ now upgrade_0005]) (simp_all add: revisions_def revision_0005_def o5)
  have "?up (length (revisions rt)) (?s 0 empty_tables) w = ?up (Suc (Suc (Suc (Suc (Suc 0))))) (?s 0 empty_tables) w"
    by (simp only: revisions_def list.size) simp
  also have "\<dots> = (Inr (?s (Suc (Suc (Suc (Suc (Suc 0))))) ?T), w5)"
    by (simp only: a b c d e upgrade_steps.simps(1))
  finally have "?up (length (revisions rt)) (?s 0 empty_tables) w = (Inr (?s (Suc (Suc (Suc (Suc (Suc 0))))) ?T), w5)" .
  then show ?thesis
    by (simp only: upgrade_head_def pristine_def versions_def run_migrations_def nth_Cons_0 nth_Cons_Suc fst_conv snd_conv
        prod.case sum.case)
qed


definition install_mem :: mem where
  "install_mem = \<lparr>mem_tables = empty_tables, mem_clock = 7, mem_cache = Map.empty, mem_tasks = []\<rparr>"

lemma mem_draw: "rt_uuid4 mem_runtime (w\<lparr>mem_clock := n\<rparr>) = (show_int n, w\<lparr>mem_clock := n + 1\<rparr>)"
  by (simp add: mem_runtime_def)

lemma install_ids: "distinct [show_int 7, show_int (7 + 1), show_int (7 + 1 + 1), show_int (7 + 1 + 1 + 1)]"
  by code_simp



definition operator_price :: pricing_row where
  "operator_price = \<lparr>mp_id = ''p'', mp_provider = ''openai'', mp_model_name = ''gpt-4.1'', mp_input_price_per_1k = 2,
     mp_output_price_per_1k = 8, mp_currency = ''USD'', mp_effective_from = 0, mp_effective_to = None, mp_created_at = 0\<rparr>"

definition priced_install :: pg_state where
  "priced_install = \<lparr>pg_version = Some ''0001_initial_schema'', pg_schema = schema_0001,
     pg_rows = empty_tables\<lparr>tb_pricing := [operator_price]\<rparr>\<rparr>"

lemma priced_install_at: "at_version 1 priced_install" "no_seeded_price_used (pg_rows priced_install)"
  by (simp_all add: at_version_def priced_install_def versions_def rows_fit_def foreign_keys_ok_def empty_tables_def no_seeded_price_used_def)

lemma priced_install_upgrades:
  "\<exists>s' w'. upgrade_steps 1 (revisions mem_runtime) 7 priced_install (install_mem\<lparr>mem_clock := 7\<rparr>) = (Inr s', w')"
proof -
  let ?w = "install_mem\<lparr>mem_clock := 7\<rparr>" and ?T = "pg_rows priced_install"
  obtain vs where vs: "seed_pricing_values mem_runtime seed_pricing ?w = (vs, install_mem\<lparr>mem_clock := 7 + 1 + 1 + 1 + 1\<rparr>)"
      "map fst vs = [show_int 7, show_int (7 + 1), show_int (7 + 1 + 1), show_int (7 + 1 + 1 + 1)]"
    by (rule seed_values [OF mem_draw mem_draw mem_draw mem_draw])
  have new: "''p'' \<notin> set [show_int 7, show_int (7 + 1), show_int (7 + 1 + 1), show_int (7 + 1 + 1 + 1)]" by code_simp
  obtain T1 where T1: "insert_tenant 7 seed_tenant_id ''Default Tenant'' ''default'' ''active'' ?T = Inr T1" "tb_pricing T1 = [operator_price]"
    by (simp add: insert_tenant_def priced_install_def empty_tables_def)
  have "insert_pricing 7 vs T1 = Inr (T1\<lparr>tb_pricing := tb_pricing T1 @ price_rows 7 vs\<rparr>)"
    unfolding insert_pricing_ok vs(2) T1(2) using new install_ids by (simp add: operator_price_def)
  with T1 vs have rows: "row_ops 7 (fst (upgrade_0002 mem_runtime ?w)) ?T = Inr (T1\<lparr>tb_pricing := tb_pricing T1 @ price_rows 7 vs\<rparr>)"
    by (simp add: upgrade_0002_def)
  obtain w' where "rv_upgrade (revisions mem_runtime ! 1) ?w = (fst (upgrade_0002 mem_runtime ?w), w')"
    by (simp add: revisions_def revision_0002_def upgrade_0002_def vs(1))
  from upgrade_one [OF _ rows this, where n = 0]
  have "upgrade_steps (Suc 0) (revisions mem_runtime) 7 \<lparr>pg_version = fst (versions ! 1), pg_schema = snd (versions ! 1), pg_rows = ?T\<rparr> ?w
      = (Inr \<lparr>pg_version = fst (versions ! Suc 1), pg_schema = snd (versions ! Suc 1),
              pg_rows = T1\<lparr>tb_pricing := tb_pricing T1 @ price_rows 7 vs\<rparr>\<rparr>, w')"
    by simp
  moreover have "\<lparr>pg_version = fst (versions ! 1), pg_schema = snd (versions ! 1), pg_rows = ?T\<rparr> = priced_install"
    by (simp add: versions_def priced_install_def)
  ultimately show ?thesis unfolding One_nat_def by metis
qed


end
