(* ===== verification/Telemetry.thy ===== *)
theory Telemetry
  imports Exceptions Settings
begin

text \<open>
  What the process sets up before its clients: logging (\<open>config/logging.py\<close>) and OpenTelemetry
  (\<open>observability/otel_setup.py\<close>).  structlog's processors and renderers are names, their order is the configuration;
  the SDK of OpenTelemetry is the record \<open>otel_sdk\<close>, a tracer provider is a handle that it gives out.
\<close>

section \<open>Logging\<close>

datatype log_renderer = JSONRenderer | ConsoleRenderer

datatype processor =
    MergeContextvars
  | AddLogLevel
  | AddLoggerName
  | TimeStamperIso
  | StackInfoRenderer
  | FormatExcInfo
  | WrapForFormatter
  | RemoveProcessorsMeta
  | Renderer log_renderer

record logging_config =
  lc_processors :: "processor list"
  lc_foreign_pre_chain :: "processor list"
  lc_formatter :: "processor list"
  lc_root_level :: int
  lc_levels :: "(string \<times> int) list"

text \<open>\<open>logging._checkLevel\<close> on names.\<close>

definition level_names :: "(string \<times> int) list" where
  "level_names = [(''CRITICAL'', 50), (''FATAL'', 50), (''ERROR'', 40), (''WARN'', 30), (''WARNING'', 30), (''INFO'', 20),
     (''DEBUG'', 10), (''NOTSET'', 0)]"

definition check_level :: "string \<Rightarrow> exn + int" where
  "check_level name = (case map_of level_names name of
     None \<Rightarrow> Inl (ValueError (''Unknown level: '' @ name)) | Some n \<Rightarrow> Inr n)"

definition shared_processors :: "processor list" where
  "shared_processors = [MergeContextvars, AddLogLevel, AddLoggerName, TimeStamperIso, StackInfoRenderer, FormatExcInfo]"

definition configure_logging :: "settings \<Rightarrow> exn + logging_config" where
  "configure_logging S =
     (let renderer = (if st_log_json S then JSONRenderer else ConsoleRenderer)
      in case check_level (upper (st_log_level S)) of
           Inl e \<Rightarrow> Inl e
         | Inr level \<Rightarrow> Inr \<lparr>lc_processors = shared_processors @ [WrapForFormatter], lc_foreign_pre_chain = shared_processors,
             lc_formatter = [RemoveProcessorsMeta, Renderer renderer], lc_root_level = level,
             lc_levels = [(''uvicorn.access'', 30), (''httpx'', 30), (''httpcore'', 30)]\<rparr>)"

text \<open>What a line runs through: structlog hands the wrapped event to the formatter, a foreign record enters at the pre-chain.\<close>

definition own_line :: "logging_config \<Rightarrow> processor list" where
  "own_line C = butlast (lc_processors C) @ lc_formatter C"

definition foreign_line :: "logging_config \<Rightarrow> processor list" where
  "foreign_line C = lc_foreign_pre_chain C @ lc_formatter C"

text \<open>Both kinds of lines are processed alike: the context variables of the request are merged first, and exactly one
  renderer runs, at the end.\<close>

lemma lines_alike:
  assumes "configure_logging S = Inr C"
  shows "own_line C = foreign_line C" "hd (own_line C) = MergeContextvars"
    "filter (\<lambda>p. \<exists>r. p = Renderer r) (own_line C) = [last (own_line C)]"
  using assms by (auto simp: configure_logging_def own_line_def foreign_line_def shared_processors_def Let_def split: sum.splits)

lemma configure_logging_level:
  "is_val (configure_logging S) \<longleftrightarrow> upper (st_log_level S) \<in> fst ` set level_names"
proof (cases "map_of level_names (upper (st_log_level S))")
  case None
  then have "upper (st_log_level S) \<notin> fst ` set level_names" by (simp add: map_of_eq_None_iff)
  with None show ?thesis by (simp add: configure_logging_def check_level_def Let_def)
next
  case (Some n)
  then have "upper (st_log_level S) \<in> fst ` set level_names" by (metis map_of_eq_None_iff option.distinct(1))
  with Some show ?thesis by (simp add: configure_logging_def check_level_def Let_def)
qed

lemma default_logging: "is_val (configure_logging default_settings)"
proof -
  have "upper ''INFO'' = ''INFO''" by code_simp
  then show ?thesis by (simp add: configure_logging_level default_settings_def level_names_def)
qed

section \<open>OpenTelemetry\<close>

text \<open>The module variable \<open>_tracer_provider\<close> is the first component of the state.\<close>

record 'v otel_sdk =
  os_tracer_provider :: "string \<Rightarrow> string \<Rightarrow> 'v \<Rightarrow> (exn + nat) \<times> 'v"
  os_set_global :: "nat \<Rightarrow> 'v \<Rightarrow> 'v"
  os_instrument_app :: "'v \<Rightarrow> 'v"
  os_shutdown :: "nat \<Rightarrow> 'v \<Rightarrow> (exn + unit) \<times> 'v"

type_synonym 'v telemetry = "nat option \<times> 'v"

definition configure_otel :: "'v otel_sdk \<Rightarrow> settings \<Rightarrow> 'v telemetry \<Rightarrow> (exn + nat option) \<times> 'v telemetry" where
  "configure_otel K S = (\<lambda>(g, v).
     if \<not> st_tracing_enabled S then (Inr None, (g, v))
     else case os_tracer_provider K (st_otel_service_name S) (st_otel_exporter_otlp_endpoint S) v of
            (Inl e, v1) \<Rightarrow> (Inl e, (g, v1))
          | (Inr p, v1) \<Rightarrow> (Inr (Some p), (Some p, os_set_global K p v1)))"

definition shutdown_otel :: "'v otel_sdk \<Rightarrow> 'v telemetry \<Rightarrow> (exn + unit) \<times> 'v telemetry" where
  "shutdown_otel K = (\<lambda>(g, v). case g of
       None \<Rightarrow> (Inr (), (None, v))
     | Some p \<Rightarrow> (case os_shutdown K p v of
          (Inl e, v1) \<Rightarrow> (Inl e, (Some p, v1))
        | (Inr _, v1) \<Rightarrow> (Inr (), (None, v1))))"

text \<open>Shutting down twice is shutting down once; configuring twice is not configuring once: the first provider is forgotten
  and never shut down.\<close>

lemma shutdown_otel_idempotent: "shutdown_otel K t = (Inr (), t1) \<Longrightarrow> shutdown_otel K t1 = (Inr (), t1)"
  by (cases t) (auto simp: shutdown_otel_def split: option.splits prod.splits sum.splits)

lemma reconfigured_provider_forgotten:
  assumes "configure_otel K S t = (Inr (Some p), t1)" "configure_otel K S t1 = (Inr (Some q), t2)"
  shows "shutdown_otel K t2 = (case os_shutdown K q (snd t2) of
      (Inl e, v1) \<Rightarrow> (Inl e, (Some q, v1)) | (Inr _, v1) \<Rightarrow> (Inr (), (None, v1)))"
  using assms by (cases t; cases t1) (auto simp: configure_otel_def shutdown_otel_def split: if_splits prod.splits sum.splits)

text \<open>The part of the start-up in \<open>main.py\<close> that both concern; inbound requests are instrumented when tracing is on.\<close>

definition start_telemetry :: "'v otel_sdk \<Rightarrow> settings \<Rightarrow> 'v telemetry \<Rightarrow> (exn + logging_config) \<times> 'v telemetry" where
  "start_telemetry K S t =
     (case configure_logging S of
        Inl e \<Rightarrow> (Inl e, t)
      | Inr C \<Rightarrow>
          (case configure_otel K S t of
             (Inl e, t1) \<Rightarrow> (Inl e, t1)
           | (Inr p, (g, v)) \<Rightarrow> (Inr C, (g, if st_tracing_enabled S then os_instrument_app K v else v))))"

end
