(* ===== verification/Startup.thy ===== *)
theory Startup
  imports AdminSafety Chat Health Embeddings Migrations Telemetry
begin

text \<open>
  How the gateway comes up and goes down: the client factories (\<open>clients\<close>), the wiring of all services in the lifespan of
  the application (\<open>main.py\<close>), and the start-up of the worker process (\<open>workers/worker_app.py\<close>).

  The state of the application is made of the objects' own variables, the two circuit breakers, the flag of the semantic
  cache and the embedding model, and of the environment \<open>'v\<close> that the clients act on.  The libraries behind the clients are
  the record \<open>libraries\<close>; a constructor that rejects its arguments (a malformed URL) raises.  The lines written to the log
  are left out.
\<close>

section \<open>Clients of the environment in the state of the application\<close>

type_synonym ('m, 'v) world = "breaker \<times> (breaker \<times> (bool \<times> ('m model_state \<times> 'v)))"

definition in_world :: "('v \<Rightarrow> 'a \<times> 'v) \<Rightarrow> ('m, 'v) world \<Rightarrow> 'a \<times> ('m, 'v) world" where
  "in_world f = on_env (on_env (on_env (on_env f)))"

definition world_env :: "('m, 'v) world \<Rightarrow> 'v" where
  "world_env s = snd (snd (snd (snd s)))"

definition with_env :: "('v \<Rightarrow> 'v) \<Rightarrow> ('m, 'v) world \<Rightarrow> ('m, 'v) world" where
  "with_env f = (\<lambda>(b, (c, (k, (m, v)))). (b, (c, (k, (m, f v)))))"

definition world_redis :: "'v redis \<Rightarrow> ('m, 'v) world redis" where
  "world_redis R = redis_on_env (redis_on_env (redis_on_env (redis_on_env R)))"

definition world_runtime :: "'v runtime \<Rightarrow> ('m, 'v) world runtime" where
  "world_runtime rt = runtime_on_env (runtime_on_env (runtime_on_env (runtime_on_env rt)))"

definition world_database :: "'v database \<Rightarrow> ('m, 'v) world database" where
  "world_database D = \<lparr>db_open = in_world (db_open D), db_commit = (\<lambda>t. in_world (db_commit D t)),
     db_runtime = world_runtime (db_runtime D)\<rparr>"

definition world_buckets :: "'v bucket_store \<Rightarrow> ('m, 'v) world bucket_store" where
  "world_buckets B = \<lparr>bs_watch = (\<lambda>k. in_world (bs_watch B k)), bs_hmget = (\<lambda>k. in_world (bs_hmget B k)),
     bs_unwatch = in_world (bs_unwatch B), bs_execute = (\<lambda>k x t ttl. in_world (bs_execute B k x t ttl)),
     bs_hset = (\<lambda>k x t. in_world (bs_hset B k x t)), bs_pexpire = (\<lambda>k ttl. in_world (bs_pexpire B k ttl))\<rparr>"

definition qdrant_on_env :: "'w qdrant \<Rightarrow> ('o \<times> 'w) qdrant" where
  "qdrant_on_env Q = \<lparr>q_collection_exists = (\<lambda>c. on_env (q_collection_exists Q c)),
     q_create_collection = (\<lambda>c d. on_env (q_create_collection Q c d)),
     q_create_payload_index = (\<lambda>c f. on_env (q_create_payload_index Q c f)),
     q_query_points = (\<lambda>c v f n x. on_env (q_query_points Q c v f n x)),
     q_upsert = (\<lambda>c i v p. on_env (q_upsert Q c i v p)), q_set_payload = (\<lambda>c p i. on_env (q_set_payload Q c p i))\<rparr>"

definition cache_on_env :: "'w cache_service \<Rightarrow> ('o \<times> 'w) cache_service" where
  "cache_on_env C = \<lparr>cs_exact_get = (\<lambda>r t. on_env (cs_exact_get C r t)), cs_exact_set = (\<lambda>r x t. on_env (cs_exact_set C r x t)),
     cs_semantic_get = (\<lambda>r t. on_env (cs_semantic_get C r t)), cs_semantic_set = (\<lambda>r x t. on_env (cs_semantic_set C r x t)),
     cs_redis = redis_on_env (cs_redis C), cs_runtime = runtime_on_env (cs_runtime C), cs_codec = cs_codec C,
     cs_lock_ttl_seconds = cs_lock_ttl_seconds C, cs_wait_seconds = cs_wait_seconds C,
     cs_poll_interval_seconds = cs_poll_interval_seconds C\<rparr>"

lemma in_world_env: "in_world f s = (x, s') \<Longrightarrow> f (world_env s) = (x, world_env s')"
  by (simp add: in_world_def world_env_def on_env_pair)

section \<open>Clients (\<open>clients\<close>)\<close>

record http_client_config =
  hc_base_url :: string
  hc_timeout_seconds :: real
  hc_headers :: "(string \<times> string) list"
  hc_max_connections :: int
  hc_max_keepalive_connections :: int

definition create_http_client :: "string \<Rightarrow> real \<Rightarrow> (string \<times> string) list \<Rightarrow> http_client_config" where
  "create_http_client base_url timeout_seconds headers =
     \<lparr>hc_base_url = base_url, hc_timeout_seconds = timeout_seconds, hc_headers = headers,
      hc_max_connections = 200, hc_max_keepalive_connections = 50\<rparr>"

text \<open>The constructors of the adapters; an absent key is the empty string here, and no adapter is built then.\<close>

definition openai_client :: "settings \<Rightarrow> http_client_config" where
  "openai_client S = create_http_client ''https://api.openai.com/v1'' (st_provider_request_timeout_seconds S)
     [(''Authorization'', ''Bearer '' @ str_or (st_openai_api_key S) [])]"

definition anthropic_client :: "settings \<Rightarrow> http_client_config" where
  "anthropic_client S = create_http_client ''https://api.anthropic.com/v1'' (st_provider_request_timeout_seconds S)
     [(''x-api-key'', str_or (st_anthropic_api_key S) []), (''anthropic-version'', ''2023-06-01''),
      (''content-type'', ''application/json'')]"

record 'v redis_client =
  rc_strings :: "'v redis"
  rc_buckets :: "'v bucket_store"
  rc_ping :: "'v \<Rightarrow> (exn + bool) \<times> 'v"
  rc_aclose :: "'v \<Rightarrow> (exn + unit) \<times> 'v"

record 'v qdrant_client =
  qd_points :: "'v qdrant"
  qd_get_collections :: "'v \<Rightarrow> (exn + unit) \<times> 'v"
  qd_close :: "'v \<Rightarrow> (exn + unit) \<times> 'v"

record ('m, 'c, 'v) libraries =
  lb_create_engine :: "string \<Rightarrow> int \<Rightarrow> int \<Rightarrow> exn + 'v database"
  lb_engine_dispose :: "'v \<Rightarrow> (exn + unit) \<times> 'v"
  lb_select_one :: "('v, unit) unit_of_work"
  lb_redis_from_url :: "string \<Rightarrow> int \<Rightarrow> exn + 'v redis_client"
  lb_qdrant :: "string \<Rightarrow> string option \<Rightarrow> exn + 'v qdrant_client"
  lb_embedding :: "('m, 'v) embedding_library"
  lb_openai_http :: "http_client_config \<Rightarrow> (breaker \<times> (bool \<times> ('m model_state \<times> 'v))) adapter"
  lb_anthropic_http :: "http_client_config \<Rightarrow> (bool \<times> ('m model_state \<times> 'v)) adapter"
  lb_aclose_provider :: "string \<Rightarrow> 'v \<Rightarrow> (exn + unit) \<times> 'v"
  lb_create_pool :: "string \<Rightarrow> 'v \<Rightarrow> (exn + 'v queue) \<times> 'v"
  lb_close_pool :: "'v \<Rightarrow> (exn + unit) \<times> 'v"
  lb_tracer :: "nat option \<Rightarrow> string \<Rightarrow> ('c, ('m, 'v) world) tracer"
  lb_langfuse :: "string \<Rightarrow> string \<Rightarrow> string \<Rightarrow> ('m, 'v) world langfuse"
  lb_otel :: "'v otel_sdk"
  lb_runtime :: "'v runtime"
  lb_codec :: codec
  lb_isoformat :: "datetime \<Rightarrow> string"
  lb_dump_json :: "json \<Rightarrow> string"
  lb_wire :: wire
  lb_dump_principal :: "principal \<Rightarrow> string"
  lb_load_principal :: "string \<Rightarrow> principal option"
  lb_parse_float :: "string \<Rightarrow> real option"
  lb_token_urlsafe :: "'v \<Rightarrow> string \<times> 'v"
  lb_metric :: "metric_update \<Rightarrow> 'v \<Rightarrow> 'v"
  lb_exn_text :: "exn \<Rightarrow> string"

definition create_database :: "('m, 'c, 'v) libraries \<Rightarrow> settings \<Rightarrow> exn + 'v database" where
  "create_database L S = lb_create_engine L (st_database_url S) (st_database_pool_size S) (st_database_max_overflow S)"

definition create_redis_client :: "('m, 'c, 'v) libraries \<Rightarrow> settings \<Rightarrow> exn + 'v redis_client" where
  "create_redis_client L S = lb_redis_from_url L (st_redis_url S) (st_redis_max_connections S)"

definition create_qdrant_client :: "('m, 'c, 'v) libraries \<Rightarrow> settings \<Rightarrow> exn + 'v qdrant_client" where
  "create_qdrant_client L S = lb_qdrant L (st_qdrant_url S) (st_qdrant_api_key S)"

section \<open>The services from the settings\<close>

text \<open>\<open>search_timeout_ms / 1000\<close> is a float division; the other limits are the defaults of the constructors.\<close>

definition exact_cache_of ::
  "('m, 'c, 'v) libraries \<Rightarrow> 'v redis_client \<Rightarrow> settings \<Rightarrow> ('m model_state \<times> 'v) exact_cache" where
  "exact_cache_of L redis S = \<lparr>xc_redis = redis_on_env (rc_strings redis), xc_runtime = runtime_on_env (lb_runtime L),
     xc_codec = lb_codec L, xc_ttl_seconds = st_redis_exact_cache_ttl_seconds S, xc_get_timeout_seconds = 5/100,
     xc_set_timeout_seconds = 2/10\<rparr>"

definition semantic_cache_of ::
  "(real \<Rightarrow> real) \<Rightarrow> ('m, 'c, 'v) libraries \<Rightarrow> 'v qdrant_client \<Rightarrow> embedding_provider \<Rightarrow> 'm model_state \<Rightarrow> settings \<Rightarrow>
     ('m model_state \<times> 'v) semantic_cache" where
  "semantic_cache_of rnd L qdrant P m S = \<lparr>qc_qdrant = qdrant_on_env (qd_points qdrant),
     qc_embeddings = embedder_of (repr_float (lb_codec L)) (lb_embedding L) (lb_runtime L) P m,
     qc_runtime = runtime_on_env (lb_runtime L), qc_codec = lb_codec L, qc_isoformat = lb_isoformat L,
     qc_similarity_threshold = st_semantic_cache_similarity_threshold S,
     qc_search_timeout_seconds = rnd (of_int (st_qdrant_search_timeout_ms S) / 1000), qc_write_timeout_seconds = 2\<rparr>"

definition cache_service_of ::
  "('m model_state \<times> 'v) exact_cache \<Rightarrow> ('m model_state \<times> 'v) semantic_cache \<Rightarrow> settings \<Rightarrow> ('m, 'v) world cache_service" where
  "cache_service_of X Q S = cache_on_env (cache_on_env (layered_cache X Q (st_cache_coalescing_lock_ttl_seconds S)
     (st_cache_coalescing_wait_seconds S) (st_cache_coalescing_poll_interval_seconds S)))"

text \<open>\<open>get_tracer\<close> asks the tracer provider of the process, if there is one.\<close>

definition trace_exporters_of ::
  "(real \<Rightarrow> real) \<Rightarrow> ('m, 'c, 'v) libraries \<Rightarrow> nat option \<Rightarrow> settings \<Rightarrow> ('m, 'v) world exporter list" where
  "trace_exporters_of rnd L provider S = build_trace_exporters rnd (lb_tracer L provider (st_otel_service_name S))
     (lb_langfuse L (str_or (st_langfuse_public_key S) []) (str_or (st_langfuse_secret_key S) []) (rstrip_slash (st_langfuse_host S))) S"

definition registry_of :: "(real \<Rightarrow> real) \<Rightarrow> ('m, 'c, 'v) libraries \<Rightarrow> settings \<Rightarrow> ('m, 'v) world registry" where
  "registry_of rnd L S = gateway_registry rnd (lb_dump_json L) S (lb_openai_http L (openai_client S)) (lb_anthropic_http L (anthropic_client S))"

definition cost_service_of :: "('m, 'c, 'v) libraries \<Rightarrow> 'v database \<Rightarrow> 'v redis_client \<Rightarrow> settings \<Rightarrow> ('m, 'v) world cost_service" where
  "cost_service_of L db redis S = \<lparr>co_database = world_database db, co_redis = world_redis (rc_strings redis),
     co_pricing_cache_ttl_seconds = st_cost_pricing_cache_ttl_seconds S, co_repr_float = repr_float (lb_codec L),
     co_parse_float = lb_parse_float L\<rparr>"

definition auth_service_of :: "('m, 'c, 'v) libraries \<Rightarrow> 'v database \<Rightarrow> 'v redis_client \<Rightarrow> settings \<Rightarrow> ('m, 'v) world auth_service" where
  "auth_service_of L db redis S = \<lparr>au_database = world_database db, au_redis = world_redis (rc_strings redis),
     au_runtime = world_runtime (lb_runtime L), au_dumps = lb_dump_principal L, au_loads = lb_load_principal L,
     au_pepper = st_auth_api_key_pepper S, au_cache_ttl_seconds = st_auth_cache_ttl_seconds S\<rparr>"

definition rate_limit_service_of :: "('m, 'c, 'v) libraries \<Rightarrow> 'v redis_client \<Rightarrow> settings \<Rightarrow> ('m, 'v) world rate_limit_service" where
  "rate_limit_service_of L redis S = \<lparr>rl_store = world_buckets (rc_buckets redis), rl_runtime = world_runtime (lb_runtime L),
     rl_default_limit_per_minute = st_default_rate_limit_per_minute S, rl_enabled = st_rate_limit_enabled S,
     rl_fail_open = st_rate_limit_fail_open S\<rparr>"

definition world_unit_of_work :: "('v, 'a) unit_of_work \<Rightarrow> (('m, 'v) world, 'a) unit_of_work" where
  "world_unit_of_work f = (\<lambda>(t, s). case f (t, world_env s) of (r, (t', v)) \<Rightarrow> (r, (t', with_env (\<lambda>_. v) s)))"

definition health_service_of ::
  "('m, 'c, 'v) libraries \<Rightarrow> 'v database \<Rightarrow> 'v redis_client \<Rightarrow> 'v qdrant_client \<Rightarrow> ('m, 'v) world health_service" where
  "health_service_of L db redis qdrant = \<lparr>he_database = world_database db, he_select_one = world_unit_of_work (lb_select_one L),
     he_redis_ping = in_world (rc_ping redis), he_get_collections = in_world (qd_get_collections qdrant),
     he_runtime = world_runtime (lb_runtime L), he_exn_text = lb_exn_text L\<rparr>"

text \<open>\<open>create_pool\<close> of arq, whose pool enqueues into the environment.\<close>

definition world_create_pool ::
  "('m, 'c, 'v) libraries \<Rightarrow> string \<Rightarrow> ('m, 'v) world \<Rightarrow> (exn + ('m, 'v) world queue) \<times> ('m, 'v) world" where
  "world_create_pool L url s = (case in_world (lb_create_pool L url) s of
     (Inl e, s1) \<Rightarrow> (Inl e, s1) | (Inr enqueue, s1) \<Rightarrow> (Inr (\<lambda>job. in_world (enqueue job)), s1))"

section \<open>The lifespan of the application (\<open>main.py\<close>)\<close>

text \<open>What start-up leaves: the configuration of the logs, the module variable of \<open>otel_setup.py\<close>, and \<open>app.state\<close>.\<close>

record 's app_state =
  as_settings :: settings
  as_logging :: logging_config
  as_tracer_provider :: "nat option"
  as_database :: "'s database"
  as_provider_registry :: "'s registry"
  as_embedding_provider :: embedding_provider
  as_auth_service :: "'s auth_service"
  as_rate_limit_service :: "'s rate_limit_service"
  as_health_service :: "'s health_service"
  as_background_jobs :: "'s job_service"
  as_gateway_service :: "'s gateway"

text \<open>The objects before start-up: closed breakers, no collection checked, no model loaded.\<close>

definition new_world :: "settings \<Rightarrow> 'v \<Rightarrow> ('m, 'v) world" where
  "new_world S v = (new_breaker, (new_breaker, (False, (new_model_state (ep_model_name (build_embedding_provider S)), v))))"

definition on_model ::
  "('m model_state \<times> 'v \<Rightarrow> 'a \<times> ('m model_state \<times> 'v)) \<Rightarrow> ('m, 'v) world \<Rightarrow> 'a \<times> ('m, 'v) world" where
  "on_model f = on_env (on_env (on_env f))"

definition on_semantic_cache ::
  "(bool \<times> ('m model_state \<times> 'v) \<Rightarrow> 'a \<times> (bool \<times> ('m model_state \<times> 'v))) \<Rightarrow> ('m, 'v) world \<Rightarrow> 'a \<times> ('m, 'v) world" where
  "on_semantic_cache f = on_env (on_env f)"

definition model_of :: "('m, 'v) world \<Rightarrow> 'm model_state" where
  "model_of s = fst (snd (snd (snd s)))"

text \<open>Both processes warm the model up before they check the collection, and hand both layers to the cache service.\<close>

definition build_cache_service ::
  "(real \<Rightarrow> real) \<Rightarrow> ('m, 'c, 'v) libraries \<Rightarrow> 'v redis_client \<Rightarrow> 'v qdrant_client \<Rightarrow> settings \<Rightarrow> ('m, 'v) world \<Rightarrow>
     (exn + ('m, 'v) world cache_service) \<times> ('m, 'v) world" where
  "build_cache_service rnd L redis qdrant S s =
     (let P = build_embedding_provider S
      in case on_model (warm_up (lb_embedding L) P) s of
           (Inl e, s1) \<Rightarrow> (Inl e, s1)
         | (Inr _, s1) \<Rightarrow>
             (let exact_cache = exact_cache_of L redis S; semantic_cache = semantic_cache_of rnd L qdrant P (model_of s1) S
              in case on_semantic_cache (ensure_collection semantic_cache) s1 of
                   (Inl e, s2) \<Rightarrow> (Inl e, s2)
                 | (Inr _, s2) \<Rightarrow> (Inr (cache_service_of exact_cache semantic_cache S), s2)))"

text \<open>A fresh process has no tracer provider.\<close>

definition telemetry_startup ::
  "('m, 'c, 'v) libraries \<Rightarrow> settings \<Rightarrow> 'v \<Rightarrow> (exn + logging_config \<times> nat option) \<times> 'v" where
  "telemetry_startup L S v = (case start_telemetry (lb_otel L) S (None, v) of
     (Inl e, (g, v1)) \<Rightarrow> (Inl e, v1) | (Inr C, (g, v1)) \<Rightarrow> (Inr (C, g), v1))"

definition lifespan_startup ::
  "(real \<Rightarrow> real) \<Rightarrow> ('m, 'c, 'v) libraries \<Rightarrow> settings \<Rightarrow> ('m, 'v) world \<Rightarrow> (exn + ('m, 'v) world app_state) \<times> ('m, 'v) world" where
  "lifespan_startup rnd L S s =
     (case validate_settings S of Inl e \<Rightarrow> (Inl e, s) | Inr _ \<Rightarrow>
      case in_world (telemetry_startup L S) s of (Inl e, s0) \<Rightarrow> (Inl e, s0) | (Inr (logging, tracer_provider), s0) \<Rightarrow>
      case create_database L S of Inl e \<Rightarrow> (Inl e, s0) | Inr db \<Rightarrow>
      case create_redis_client L S of Inl e \<Rightarrow> (Inl e, s0) | Inr redis \<Rightarrow>
      case create_qdrant_client L S of Inl e \<Rightarrow> (Inl e, s0) | Inr qdrant \<Rightarrow>
      case build_cache_service rnd L redis qdrant S s0 of (Inl e, s1) \<Rightarrow> (Inl e, s1) | (Inr cache_service, s1) \<Rightarrow>
      case jobs_connect (world_create_pool L) \<lparr>bj_settings = S, bj_pool = None\<rparr> s1 of (Inl e, s2) \<Rightarrow> (Inl e, s2)
      | (Inr background_jobs, s2) \<Rightarrow>
        let registry = registry_of rnd L S; cost_service = cost_service_of L db redis S
        in (Inr \<lparr>as_settings = S, as_logging = logging, as_tracer_provider = tracer_provider, as_database = world_database db, as_provider_registry = registry,
                 as_embedding_provider = build_embedding_provider S, as_auth_service = auth_service_of L db redis S,
                 as_rate_limit_service = rate_limit_service_of L redis S,
                 as_health_service = health_service_of L db redis qdrant, as_background_jobs = background_jobs,
                 as_gateway_service = \<lparr>gw_cache_service = cache_service, gw_registry = registry,
                   gw_cost_service = cost_service, gw_database = Some (world_database db),
                   gw_trace_exporters = trace_exporters_of rnd L tracer_provider S, gw_background_jobs = Some background_jobs,
                   gw_runtime = world_runtime (lb_runtime L), gw_wire = lb_wire L,
                   gw_metric = (\<lambda>u. with_env (lb_metric L u))\<rparr>\<rparr>, s2))"

text \<open>The \<open>finally\<close> block: one object is closed after the other, and what one raises keeps the rest from being closed.\<close>

fun close_all :: "('v \<Rightarrow> (exn + unit) \<times> 'v) list \<Rightarrow> 'v \<Rightarrow> (exn + unit) \<times> 'v" where
  "close_all [] v = (Inr (), v)"
| "close_all (c # cs) v = (case c v of (Inl e, v1) \<Rightarrow> (Inl e, v1) | (Inr _, v1) \<Rightarrow> close_all cs v1)"

definition aclose_all :: "('m, 'c, 'v) libraries \<Rightarrow> 's registry \<Rightarrow> 'v \<Rightarrow> (exn + unit) \<times> 'v" where
  "aclose_all L R = close_all (map (lb_aclose_provider L \<circ> fst) (rg_providers R))"

definition jobs_close :: "('m, 'c, 'v) libraries \<Rightarrow> 's job_service \<Rightarrow> 'v \<Rightarrow> (exn + unit) \<times> 'v" where
  "jobs_close L J v = (case bj_pool J of None \<Rightarrow> (Inr (), v) | Some _ \<Rightarrow> lb_close_pool L v)"

definition lifespan_shutdown ::
  "('m, 'c, 'v) libraries \<Rightarrow> 'v redis_client \<Rightarrow> 'v qdrant_client \<Rightarrow> 's app_state \<Rightarrow> 'v \<Rightarrow> (exn + unit) \<times> 'v" where
  "lifespan_shutdown L redis qdrant A = close_all [aclose_all L (as_provider_registry A), jobs_close L (as_background_jobs A),
     lb_engine_dispose L, rc_aclose redis, qd_close qdrant,
     (\<lambda>v. case shutdown_otel (lb_otel L) (as_tracer_provider A, v) of (r, (g, v1)) \<Rightarrow> (r, v1))]"

lemma close_all_append:
  "close_all (cs @ ds) v = (case close_all cs v of (Inl e, v1) \<Rightarrow> (Inl e, v1) | (Inr _, v1) \<Rightarrow> close_all ds v1)"
  by (induction cs arbitrary: v) (auto split: prod.splits sum.splits)

text \<open>A provider that fails to close keeps every other client open, and OpenTelemetry is not flushed.\<close>

lemma shutdown_stops_at_failure:
  "aclose_all L (as_provider_registry A) v = (Inl e, v1) \<Longrightarrow> lifespan_shutdown L redis qdrant A v = (Inl e, v1)"
  by (simp add: lifespan_shutdown_def)

text \<open>When the other objects close, the tracer provider that start-up made is shut down, which flushes its spans.\<close>

lemma shutdown_flushes_spans:
  assumes "close_all [aclose_all L (as_provider_registry A), jobs_close L (as_background_jobs A), lb_engine_dispose L,
      rc_aclose redis, qd_close qdrant] v = (Inr u, v1)"
    and "as_tracer_provider A = Some p"
  shows "lifespan_shutdown L redis qdrant A v = os_shutdown (lb_otel L) p v1"
proof -
  let ?last = "\<lambda>v. case shutdown_otel (lb_otel L) (as_tracer_provider A, v) of (r, (g, v1)) \<Rightarrow> (r, v1)"
  have "lifespan_shutdown L redis qdrant A v = close_all [?last] v1"
    using close_all_append [of "[aclose_all L (as_provider_registry A), jobs_close L (as_background_jobs A), lb_engine_dispose L,
      rc_aclose redis, qd_close qdrant]" "[?last]" v] assms(1) by (simp add: lifespan_shutdown_def)
  then show ?thesis using assms(2) by (simp add: shutdown_otel_def split: prod.splits sum.splits)
qed

section \<open>The worker process (\<open>workers/worker_app.py\<close>)\<close>

text \<open>The worker configures neither logging nor OpenTelemetry: its process has no tracer provider.\<close>

definition worker_startup ::
  "(real \<Rightarrow> real) \<Rightarrow> ('m, 'c, 'v) libraries \<Rightarrow> settings \<Rightarrow> ('m, 'v) world \<Rightarrow> (exn + ('m, 'v) world worker) \<times> ('m, 'v) world" where
  "worker_startup rnd L S s =
     (case create_database L S of Inl e \<Rightarrow> (Inl e, s) | Inr db \<Rightarrow>
      case create_redis_client L S of Inl e \<Rightarrow> (Inl e, s) | Inr redis \<Rightarrow>
      case create_qdrant_client L S of Inl e \<Rightarrow> (Inl e, s) | Inr qdrant \<Rightarrow>
      case build_cache_service rnd L redis qdrant S s of (Inl e, s1) \<Rightarrow> (Inl e, s1) | (Inr cache_service, s1) \<Rightarrow>
      (Inr \<lparr>wk_database = world_database db, wk_cache_service = cache_service,
            wk_trace_exporters = trace_exporters_of rnd L None S, wk_wire = lb_wire L\<rparr>, s1))"

definition worker_shutdown ::
  "('m, 'c, 'v) libraries \<Rightarrow> 'v redis_client \<Rightarrow> 'v qdrant_client \<Rightarrow> 'v \<Rightarrow> (exn + unit) \<times> 'v" where
  "worker_shutdown L redis qdrant = close_all [lb_engine_dispose L, rc_aclose redis, qd_close qdrant]"

section \<open>What the endpoints read from \<open>app.state\<close>\<close>

definition app_of :: "('m, 'c, 'v) libraries \<Rightarrow> (string set \<Rightarrow> string) \<Rightarrow> ('m, 'v) world app_state \<Rightarrow> ('m, 'v) world app" where
  "app_of L pick A = \<lparr>ap_settings = as_settings A, ap_auth_service = as_auth_service A,
     ap_rate_limit_service = as_rate_limit_service A, ap_runtime = world_runtime (lb_runtime L), ap_first = pick\<rparr>"

definition admin_of :: "('m, 'c, 'v) libraries \<Rightarrow> ('m, 'v) world app_state \<Rightarrow> ('m, 'v) world admin" where
  "admin_of L A = \<lparr>am_database = as_database A, am_auth_service = as_auth_service A,
     am_pepper = st_auth_api_key_pepper (as_settings A), am_token = in_world (lb_token_urlsafe L)\<rparr>"

section \<open>What start-up guarantees\<close>

lemma startup_ok:
  assumes "lifespan_startup rnd L S s = (Inr A, s')"
  obtains db redis qdrant cs s0 s1 J where "validate_settings S = Inr ()"
    "in_world (telemetry_startup L S) s = (Inr (as_logging A, as_tracer_provider A), s0)" "create_database L S = Inr db" "create_redis_client L S = Inr redis"
    "create_qdrant_client L S = Inr qdrant" "build_cache_service rnd L redis qdrant S s0 = (Inr cs, s1)"
    "jobs_connect (world_create_pool L) \<lparr>bj_settings = S, bj_pool = None\<rparr> s1 = (Inr J, s')"
    "as_settings A = S" "as_database A = world_database db" "as_auth_service A = auth_service_of L db redis S"
    "as_embedding_provider A = build_embedding_provider S"
    "as_gateway_service A = \<lparr>gw_cache_service = cs, gw_registry = registry_of rnd L S,
                   gw_cost_service = cost_service_of L db redis S, gw_database = Some (world_database db),
                   gw_trace_exporters = trace_exporters_of rnd L (as_tracer_provider A) S, gw_background_jobs = Some J,
                   gw_runtime = world_runtime (lb_runtime L), gw_wire = lb_wire L,
                   gw_metric = (\<lambda>u. with_env (lb_metric L u))\<rparr>"
  using assms that
  by (auto simp: lifespan_startup_def Let_def split: sum.splits prod.splits)

text \<open>A log level that \<open>logging\<close> does not know stops the start-up before anything is connected.\<close>

lemma unknown_level_stops_startup:
  assumes "upper (st_log_level S) \<notin> fst ` set level_names" "validate_settings S = Inr ()"
  shows "\<exists>e. lifespan_startup rnd L S s = (Inl e, s)"
proof -
  obtain e where "configure_logging S = Inl e"
    using assms(1) configure_logging_level [of S] by (cases "configure_logging S") simp_all
  then have "in_world (telemetry_startup L S) s = (Inl e, s)"
    by (simp add: telemetry_startup_def start_telemetry_def in_world_def on_env_def split: prod.split)
  then show ?thesis by (simp add: lifespan_startup_def assms(2))
qed

lemma in_world_simps [simp]: "fst (in_world f s) = fst (f (world_env s))" "world_env (snd (in_world f s)) = snd (f (world_env s))"
  by (cases s; simp add: in_world_def world_env_def on_env_def split: prod.splits)+

lemma world_redis_sel [simp]:
  "redis_get (world_redis R) k = in_world (redis_get R k)" "redis_set (world_redis R) k v ex = in_world (redis_set R k v ex)"
  "redis_set_nx (world_redis R) k v ex = in_world (redis_set_nx R k v ex)" "redis_delete (world_redis R) k = in_world (redis_delete R k)"
  by (simp_all add: world_redis_def redis_on_env_def in_world_def)

lemma world_database_sel [simp]:
  "db_open (world_database D) = in_world (db_open D)" "db_commit (world_database D) t = in_world (db_commit D t)"
  by (simp_all add: world_database_def)

lemma world_redis_store: "redis_store R view \<Longrightarrow> redis_store (world_redis R) (view \<circ> world_env)"
  by (simp add: redis_store_def)

lemma world_database_store: "database_store D view \<Longrightarrow> database_store (world_database D) (view \<circ> world_env)"
  by (simp add: database_store_def)

lemma world_runtime_sel:
  "rt_uuid4 (world_runtime rt) = in_world (rt_uuid4 rt)" "rt_utcnow (world_runtime rt) = in_world (rt_utcnow rt)"
  by (simp_all add: world_runtime_def runtime_on_env_def in_world_def)

text \<open>The admin interface of a started application meets the contract that the theorems on admin requests rest on.\<close>

lemma started_admin_store:
  assumes "lifespan_startup rnd L S s = (Inr A, s')" and D: "create_database L S = Inr D" "database_store D view" "quiet_runtime (db_runtime D) view"
    and R: "create_redis_client L S = Inr R" "\<And>k v. view (snd (redis_delete (rc_strings R) k v)) = view v"
    and token: "\<And>v. view (snd (lb_token_urlsafe L v)) = view v"
  shows "admin_store (admin_of L A) (view \<circ> world_env) \<and> am_auth_service (admin_of L A) = as_auth_service A
    \<and> au_pepper (as_auth_service A) = am_pepper (admin_of L A)"
proof -
  have A: "as_settings A = S" "as_database A = world_database D" "as_auth_service A = auth_service_of L D R S"
    by (rule startup_ok [OF assms(1)], use D R in simp)+
  have "quiet_runtime (db_runtime (world_database D)) (view \<circ> world_env)"
    using D(3) by (simp add: quiet_runtime_def world_database_def world_runtime_sel)
  then show ?thesis
    using world_database_store [OF D(2)] R(2) token by (simp add: admin_store_def admin_of_def A auth_service_of_def)
qed

lemma worker_ok:
  assumes "worker_startup rnd L S s = (Inr K, s')"
  obtains db where "create_database L S = Inr db" "wk_database K = world_database db" "wk_trace_exporters K = trace_exporters_of rnd L None S"
    "wk_wire K = lb_wire L"
  using assms that by (auto simp: worker_startup_def split: sum.splits prod.splits)

lemma trace_args_eta: "\<lparr>ta_trace_id = ta_trace_id a, ta_tenant_id = ta_tenant_id a, ta_api_key_id = ta_api_key_id a,
    ta_http_status = ta_http_status a, ta_request = ta_request a, ta_response = ta_response a, ta_spans = ta_spans a\<rparr> = a"
  by (cases a) simp

text \<open>Documented behaviour of OpenTelemetry: without a provider nothing is recorded.\<close>

definition records_nothing :: "('c, 's) tracer \<Rightarrow> bool" where
  "records_nothing start \<longleftrightarrow> (\<forall>sp s. snd (start sp s) = s)"

lemma otel_export_silent:
  assumes "records_nothing start"
  shows "otel_export rnd start spans s = (Inr (), s)"
proof -
  have "otel_export_from rnd start contexts spans s = s" for contexts
    using assms by (induction spans arbitrary: contexts) (simp_all add: records_nothing_def case_prod_beta Let_def)
  then show ?thesis by (simp add: otel_export_def)
qed

lemma silent_exporters:
  assumes "records_nothing (lb_tracer L None (st_otel_service_name S))"
  shows "export_all (trace_exporters_of rnd L None S) spans s
    = export_all (trace_exporters_of rnd L provider (S\<lparr>st_tracing_enabled := False\<rparr>)) spans s"
  by (simp add: trace_exporters_of_def build_trace_exporters_def otel_export_silent [OF assms])

text \<open>C10. What the worker does of the gateway's work: when the application and the worker have started with the same settings,
  the two jobs that the gateway enqueues for a request, run by the worker one after the other, have the effect of the flush
  that a gateway started without tracing would have done in process.  With tracing switched off this is the gateway itself;
  with tracing switched on the spans for OpenTelemetry are lost, because only \<open>main.py\<close> configures a tracer provider.\<close>

theorem worker_serves_gateway_jobs:
  assumes "lifespan_startup rnd L S s0 = (Inr A, s1)" and "worker_startup rnd L S s2 = (Inr K, s3)"
    and "wire_ok (lb_wire L) a" and "records_nothing (lb_tracer L None (st_otel_service_name S))"
  shows "snd (run_job rnd tn K (JobExportOtelSpans (build_trace_job_payload (gw_wire (as_gateway_service A)) a))
            (snd (run_job rnd tn K (JobPersistTrace (build_trace_job_payload (gw_wire (as_gateway_service A)) a)) s)))
    = run_task rnd tn other ((as_gateway_service A)\<lparr>gw_trace_exporters :=
          trace_exporters_of rnd L (as_tracer_provider A) (S\<lparr>st_tracing_enabled := False\<rparr>)\<rparr>)
        (FlushTrace (ta_request a) (ta_response a) (ta_tenant_id a) (ta_http_status a) (ta_api_key_id a) (ta_trace_id a) (ta_spans a)) s
    \<and> (st_tracing_enabled S \<or>
        gw_trace_exporters (as_gateway_service A) = trace_exporters_of rnd L (as_tracer_provider A) (S\<lparr>st_tracing_enabled := False\<rparr>))"
proof -
  obtain db where db: "create_database L S = Inr db" "gw_database (as_gateway_service A) = Some (world_database db)"
    "gw_trace_exporters (as_gateway_service A) = trace_exporters_of rnd L (as_tracer_provider A) S"
    "gw_wire (as_gateway_service A) = lb_wire L"
    using startup_ok [OF assms(1)] by (metis gateway.select_convs(4,5,8))
  obtain db' where k: "create_database L S = Inr db'" "wk_database K = world_database db'" "wk_trace_exporters K = trace_exporters_of rnd L None S"
    "wk_wire K = lb_wire L" using worker_ok [OF assms(2)] .
  have "wire_ok (wk_wire K) a" using assms(3) k(4) by simp
  from worker_equals_in_process [OF this, of rnd tn s, THEN conjunct1] db k
    silent_exporters [OF assms(4), of rnd "ta_spans a" _ "as_tracer_provider A"]
  have "snd (run_job rnd tn K (JobExportOtelSpans (build_trace_job_payload (gw_wire (as_gateway_service A)) a))
            (snd (run_job rnd tn K (JobPersistTrace (build_trace_job_payload (gw_wire (as_gateway_service A)) a)) s)))
    = run_task rnd tn other ((as_gateway_service A)\<lparr>gw_trace_exporters :=
          trace_exporters_of rnd L (as_tracer_provider A) (S\<lparr>st_tracing_enabled := False\<rparr>)\<rparr>)
        (FlushTrace (ta_request a) (ta_response a) (ta_tenant_id a) (ta_http_status a) (ta_api_key_id a) (ta_trace_id a) (ta_spans a)) s"
    by (simp add: run_task_def trace_args_eta flush_def split: prod.split)
  moreover have "st_tracing_enabled S \<or>
        gw_trace_exporters (as_gateway_service A) = trace_exporters_of rnd L (as_tracer_provider A) (S\<lparr>st_tracing_enabled := False\<rparr>)"
    by (cases "st_tracing_enabled S") (simp_all add: db(3) trace_exporters_of_def build_trace_exporters_def)
  ultimately show ?thesis ..
qed

subsection \<open>The collection of the semantic cache\<close>

text \<open>Qdrant as a store of collections: \<open>sizes v\<close> maps each one to the size of its vectors.\<close>

definition qdrant_sizes :: "'v qdrant \<Rightarrow> ('v \<Rightarrow> string \<Rightarrow> int option) \<Rightarrow> bool" where
  "qdrant_sizes Q sizes \<longleftrightarrow>
     (\<forall>c v. sizes (snd (q_collection_exists Q c v)) = sizes v
        \<and> (\<forall>b. fst (q_collection_exists Q c v) = Inr b \<longrightarrow> b = (sizes v c \<noteq> None)))
   \<and> (\<forall>c d v. sizes (snd (q_create_collection Q c d v))
        = (if is_val (fst (q_create_collection Q c d v)) then (sizes v)(c \<mapsto> d) else sizes v))
   \<and> (\<forall>c f v. sizes (snd (q_create_payload_index Q c f v)) = sizes v)"

lemma qdrant_sizesD:
  assumes "qdrant_sizes Q sizes"
  shows "q_collection_exists Q c v = (Inr b, v') \<Longrightarrow> sizes v' = sizes v \<and> b = (sizes v c \<noteq> None)"
    and "q_create_collection Q c d v = (Inr u, v') \<Longrightarrow> sizes v' = (sizes v)(c \<mapsto> d)"
    and "q_create_payload_index Q c f v = (r, v') \<Longrightarrow> sizes v' = sizes v"
  using assms unfolding qdrant_sizes_def by (metis fst_conv snd_conv is_val_def sum.simps(6))+

lemma create_indexes_sizes:
  assumes "qdrant_sizes Q sizes" "qc_qdrant C = qdrant_on_env Q" "create_indexes C fs (m, v) = (r, (m', v'))"
  shows "sizes v' = sizes v \<and> m' = m"
  using assms(3)
proof (induction fs arbitrary: v)
  case (Cons f fs)
  obtain x v1 where x: "q_create_payload_index Q (qc_collection C) f v = (x, v1)" by fastforce
  from qdrant_sizesD(3) [OF assms(1) x] Cons x show ?case
    by (cases x) (auto simp: assms(2) qdrant_on_env_def)
qed simp

lemma ensure_collection_sizes:
  assumes "qdrant_sizes Q sizes" "qc_qdrant C = qdrant_on_env Q" "ensure_collection C (False, (m, v)) = (Inr (), (b, (m', v')))"
  shows "b \<and> m' = m \<and> sizes v' = (if sizes v (qc_collection C) = None
      then (sizes v)(qc_collection C \<mapsto> em_dimension (qc_embeddings C)) else sizes v)"
proof -
  obtain e v1 where e: "q_collection_exists Q (qc_collection C) v = (Inr e, v1)"
    using assms(3) by (cases "q_collection_exists Q (qc_collection C) v")
      (auto simp: ensure_collection_def assms(2) qdrant_on_env_def split: sum.splits)
  note ex = qdrant_sizesD(1) [OF assms(1) e]
  show ?thesis
  proof (cases e)
    case True
    with assms(3) e ex show ?thesis by (auto simp: ensure_collection_def assms(2) qdrant_on_env_def)
  next
    case False
    obtain c v2 where c: "q_create_collection Q (qc_collection C) (em_dimension (qc_embeddings C)) v1 = (c, v2)" by fastforce
    with assms(3) e False obtain u where u: "c = Inr u" by (cases c) (auto simp: ensure_collection_def assms(2) qdrant_on_env_def)
    obtain i m3 v3 where i: "create_indexes C filtered_payload_fields (m, v2) = (i, (m3, v3))" by (metis surj_pair)
    have "b \<and> m' = m3 \<and> v' = v3" using assms(3) e False c u i
      by (cases i) (auto simp: ensure_collection_def assms(2) qdrant_on_env_def)
    with qdrant_sizesD(2) [OF assms(1) c [unfolded u]] create_indexes_sizes [OF assms(1,2) i] ex False show ?thesis by simp
  qed
qed

lemma build_cache_service_ok:
  assumes "build_cache_service rnd L redis qdrant S (b1, (b2, (k, (m, v)))) = (Inr cs, s')"
  obtains m1 v1 k' v2 where "warm_up (lb_embedding L) (build_embedding_provider S) (m, v) = (Inr (), (m1, v1))"
    "ensure_collection (semantic_cache_of rnd L qdrant (build_embedding_provider S) m1 S) (k, (m1, v1)) = (Inr (), (k', v2))"
    "s' = (b1, (b2, (k', v2)))"
    "cs = cache_service_of (exact_cache_of L redis S) (semantic_cache_of rnd L qdrant (build_embedding_provider S) m1 S) S"
proof -
  obtain x m1 v1 where w: "warm_up (lb_embedding L) (build_embedding_provider S) (m, v) = (x, (m1, v1))" by (metis surj_pair)
  obtain y k' v2 where e: "ensure_collection (semantic_cache_of rnd L qdrant (build_embedding_provider S) m1 S) (k, (m1, v1)) = (y, (k', v2))"
    by (metis surj_pair)
  show ?thesis
    using assms that w e
    by (cases x; cases y) (auto simp: build_cache_service_def Let_def on_model_def on_semantic_cache_def model_of_def)
qed

lemma warm_up_env:
  assumes "\<And>n v. sizes (snd (el_load E n v)) = sizes v" "warm_up E P (m, v) = (r, (m', v'))"
  shows "sizes v' = sizes v"
  using assms(2) assms(1) [of "ep_model_name P" v]
  by (auto simp: warm_up_def ensure_model_loaded_def split: embedding_provider_kind.splits if_splits prod.splits sum.splits)

lemma jobs_connect_env:
  assumes "\<And>url v. sizes (snd (lb_create_pool L url v)) = sizes v" "jobs_connect (world_create_pool L) J s = (r, s')"
  shows "model_of s' = model_of s \<and> sizes (world_env s') = sizes (world_env s)"
proof -
  obtain b1 b2 k m v where s: "s = (b1, (b2, (k, (m, v))))" by (metis surj_pair)
  show ?thesis using assms(2) assms(1) [of "resolved_arq_redis_url (bj_settings J)" v]
    by (auto simp: s jobs_connect_def world_create_pool_def in_world_def model_of_def world_env_def
        split: if_splits prod.splits sum.splits)
qed

text \<open>C11. The collection fits the model: after the first start-up with an embedding model the collection of the semantic cache
  exists, and every vector that the provider computes from then on has the size that the collection was created with, be the
  model known to the provider or not.  The order of the start-up matters: the dimension is read after the model has been
  loaded.\<close>

theorem collection_fits_vectors:
  assumes start: "lifespan_startup rnd L S (new_world S v) = (Inr A, s)"
    and lib: "encodes_dimension (lb_embedding L)"
    and Q: "create_qdrant_client L S = Inr qdrant" "qdrant_sizes (qd_points qdrant) sizes"
    and quiet: "\<And>n v. sizes (snd (el_load (lb_embedding L) n v)) = sizes v" "\<And>url v. sizes (snd (lb_create_pool L url v)) = sizes v"
      "\<And>v. sizes (snd (telemetry_startup L S v)) = sizes v"
    and new: "sizes v (collection_name (ep_model_id (as_embedding_provider A))) = None"
    and run: "provider.embed_all sf (lb_embedding L) rt (as_embedding_provider A) texts (model_of s, u) = (rs, s')" "Inr vec \<in> set rs"
  shows "sizes (world_env s) (collection_name (ep_model_id (as_embedding_provider A))) = Some (int (length vec))"
proof -
  let ?P = "build_embedding_provider S" and ?m0 = "new_model_state (ep_model_name (build_embedding_provider S))"
  obtain redis cs s0 s1 J C g where P: "as_embedding_provider A = ?P"
    and t: "in_world (telemetry_startup L S) (new_world S v) = (Inr (C, g), s0)"
    and b: "build_cache_service rnd L redis qdrant S s0 = (Inr cs, s1)"
    and j: "jobs_connect (world_create_pool L) \<lparr>bj_settings = S, bj_pool = None\<rparr> s1 = (Inr J, s)"
    by (rule startup_ok [OF start]) (use Q(1) in simp)
  obtain v0 where t': "telemetry_startup L S v = (Inr (C, g), v0)" and s0: "s0 = (new_breaker, (new_breaker, (False, (?m0, v0))))"
    using t by (cases "telemetry_startup L S v") (simp add: in_world_def new_world_def)
  have new0: "sizes v0 = sizes v" using quiet(3) [of v] t' by simp
  obtain m1 v1 k v2 where w: "warm_up (lb_embedding L) ?P (?m0, v0) = (Inr (), (m1, v1))"
    and e: "ensure_collection (semantic_cache_of rnd L qdrant ?P m1 S) (False, (m1, v1)) = (Inr (), (k, v2))"
    and s1: "s1 = (new_breaker, (new_breaker, (k, v2)))"
    by (rule build_cache_service_ok [OF b [unfolded s0]])
  obtain m2 v3 where v2: "v2 = (m2, v3)" by fastforce
  have "qc_qdrant (semantic_cache_of rnd L qdrant ?P m1 S) = qdrant_on_env (qd_points qdrant)"
      and C: "qc_collection (semantic_cache_of rnd L qdrant ?P m1 S) = collection_name (ep_model_id ?P)"
      "em_dimension (qc_embeddings (semantic_cache_of rnd L qdrant ?P m1 S)) = ep_dimension ?P m1"
    by (simp_all add: semantic_cache_of_def embedder_of_def qc_collection_def)
  from ensure_collection_sizes [OF Q(2) this(1) e [unfolded v2]] warm_up_env [OF quiet(1) w] new new0
  have m2: "m2 = m1" and sz: "sizes v3 (collection_name (ep_model_id ?P)) = Some (ep_dimension ?P m1)" by (simp_all add: P C)
  have m: "model_of s = m1" "sizes (world_env s) = sizes v3"
    using jobs_connect_env [OF quiet(2) j] by (simp_all add: s1 v2 m2 model_of_def world_env_def)
  have warm: "ep_warm (lb_embedding L) ?P (m1, u)" using warm_up_warm [OF w] by (simp only: ep_warm_def fst_conv)
  from provider.embed_all_produced [OF warm run [unfolded P m]]
  have "ep_produces (lb_embedding L) ?P (m1, u) vec" .
  from produced_fits [OF lib warm this] sz show ?thesis by (simp add: P m)
qed

text \<open>C14. A bootstrap that is interrupted is never completed: when the collection has been created and the creation of an index has
  failed, the next attempt succeeds without creating one, whatever the creation of indexes would do, and marks the collection as
  ready.  A restart does the same, so that the filtered searches run without their indexes for good.\<close>

theorem interrupted_bootstrap_lacks_indexes:
  assumes Q: "qdrant_sizes Q sizes" "qc_qdrant C = qdrant_on_env Q"
    and failed: "ensure_collection C (False, (m, v)) = (Inl e, (b, (m', v')))"
    and created: "sizes v' (qc_collection C) \<noteq> None"
    and reachable: "q_collection_exists Q (qc_collection C) v' = (Inr x, v'')"
  shows "\<not> b \<and> ensure_collection (C\<lparr>qc_qdrant := (qc_qdrant C)\<lparr>q_create_payload_index := no_index\<rparr>\<rparr>) (b, (m', v'))
    = (Inr (), (True, (m', v'')))"
proof -
  have "\<not> b" using failed by (auto simp: ensure_collection_def split: prod.splits sum.splits bool.splits if_splits)
  moreover have "x" using qdrant_sizesD(1) [OF Q(1) reachable] created by simp
  moreover have "qc_collection (C\<lparr>qc_qdrant := R\<rparr>) = qc_collection C" for R by (simp add: qc_collection_def)
  ultimately show ?thesis using reachable by (simp add: ensure_collection_def Q(2) qdrant_on_env_def)
qed

section \<open>A start-up in memory\<close>

text \<open>A collection of size n is a cache entry of length n, with a sign before it when the size is negative.\<close>

definition mem_sizes :: "mem \<Rightarrow> string \<Rightarrow> int option" where
  "mem_sizes m c = map_option (\<lambda>x. if x = [] then 0 else if hd x = CHR ''-'' then - int (length (tl x)) else int (length x))
     (mem_cache m (''collection:'' @ c))"

definition mem_qdrant :: "mem qdrant" where
  "mem_qdrant = \<lparr>q_collection_exists = (\<lambda>c m. (Inr (mem_sizes m c \<noteq> None), m)),
     q_create_collection = (\<lambda>c d m. (Inr (), m\<lparr>mem_cache := (mem_cache m)(''collection:'' @ c \<mapsto>
        (if d < 0 then CHR ''-'' # replicate (nat (- d)) CHR ''x'' else replicate (nat d) CHR ''x''))\<rparr>)),
     q_create_payload_index = (\<lambda>c f m. (Inr (), m)), q_query_points = (\<lambda>c v f n x m. (Inr [], m)),
     q_upsert = (\<lambda>c i v p m. (Inr (), m)), q_set_payload = (\<lambda>c p i m. (Inr (), m))\<rparr>"

lemma mem_qdrant_sizes: "qdrant_sizes mem_qdrant mem_sizes"
  by (auto simp: qdrant_sizes_def mem_qdrant_def mem_sizes_def fun_eq_iff hd_replicate)

definition mem_embedding :: "(unit, mem) embedding_library" where
  "mem_embedding = \<lparr>el_load = (\<lambda>n m. (Inr (), m)), el_dimension = (\<lambda>_. 2), el_encode = (\<lambda>_ t m. (Inr [0, 1], m)),
     el_encode_many = (\<lambda>_ ts m. (Inr (map (\<lambda>t. [0, 1]) ts), m))\<rparr>"

definition mem_redis_client :: "mem redis_client" where
  "mem_redis_client = \<lparr>rc_strings = mem_redis, rc_buckets = down_store, rc_ping = (\<lambda>m. (Inr True, m)), rc_aclose = (\<lambda>m. (Inr (), m))\<rparr>"

definition mem_otel :: "mem otel_sdk" where
  "mem_otel = \<lparr>os_tracer_provider = (\<lambda>service endpoint m. (Inr 0, m)), os_set_global = (\<lambda>p m. m), os_instrument_app = (\<lambda>m. m),
     os_shutdown = (\<lambda>p m. (Inr (), m))\<rparr>"

definition mem_libraries :: "(unit, unit, mem) libraries" where
  "mem_libraries = \<lparr>lb_create_engine = (\<lambda>url pool overflow. Inr mem_database), lb_engine_dispose = (\<lambda>m. (Inr (), m)),
     lb_select_one = (\<lambda>s. (Inr (), s)), lb_redis_from_url = (\<lambda>url n. Inr mem_redis_client),
     lb_qdrant = (\<lambda>url key. Inr \<lparr>qd_points = mem_qdrant, qd_get_collections = (\<lambda>m. (Inr (), m)), qd_close = (\<lambda>m. (Inr (), m))\<rparr>),
     lb_embedding = mem_embedding, lb_openai_http = (\<lambda>c. hi_adapter), lb_anthropic_http = (\<lambda>c. hi_adapter),
     lb_aclose_provider = (\<lambda>n m. (Inr (), m)), lb_create_pool = (\<lambda>url m. (Inr (\<lambda>job m. (Inr (), m)), m)),
     lb_close_pool = (\<lambda>m. (Inr (), m)), lb_tracer = (\<lambda>provider name span s. ((), s)),
     lb_langfuse = (\<lambda>public secret host. \<lparr>lf_host = host, lf_runtime = world_runtime mem_runtime, lf_wire = ping_wire,
        lf_post = (\<lambda>p j s. (Inr 200, s))\<rparr>),
     lb_otel = mem_otel, lb_runtime = mem_runtime, lb_codec = sample_codec (pong_response 0), lb_isoformat = (\<lambda>d. []),
     lb_dump_json = (\<lambda>j. []), lb_wire = ping_wire, lb_dump_principal = (\<lambda>p. ''{}''), lb_load_principal = (\<lambda>x. None),
     lb_parse_float = (\<lambda>x. None), lb_token_urlsafe = (\<lambda>m. (''token'', m)), lb_metric = (\<lambda>u m. m), lb_exn_text = (\<lambda>e. [])\<rparr>"

lemma mem_libraries_sel [simp]:
  "lb_embedding mem_libraries = mem_embedding" "lb_runtime mem_libraries = mem_runtime" "lb_wire mem_libraries = ping_wire"
  "lb_create_pool mem_libraries = (\<lambda>url m. (Inr (\<lambda>job m. (Inr (), m)), m))"
  "create_database mem_libraries S = Inr mem_database" "create_redis_client mem_libraries S = Inr mem_redis_client"
  "create_qdrant_client mem_libraries S =
     Inr \<lparr>qd_points = mem_qdrant, qd_get_collections = (\<lambda>m. (Inr (), m)), qd_close = (\<lambda>m. (Inr (), m))\<rparr>"
  "rc_strings mem_redis_client = mem_redis"
  by (simp_all add: mem_libraries_def create_database_def create_redis_client_def create_qdrant_client_def mem_redis_client_def)

lemma mem_telemetry: "\<exists>C. telemetry_startup mem_libraries default_settings m = (Inr (C, Some 0), m)"
proof -
  obtain C where "configure_logging default_settings = Inr C" using default_logging by (rule is_valE)
  then show ?thesis
    by (simp add: telemetry_startup_def start_telemetry_def configure_otel_def mem_libraries_def mem_otel_def default_settings_def)
qed

lemma mem_ensure_collection:
  assumes "qc_qdrant C = qdrant_on_env mem_qdrant"
  shows "\<exists>m'. ensure_collection C (False, (st, m)) = (Inr (), (True, (st, m'))) \<and> mem_tables m' = mem_tables m"
proof -
  have ops: "q_collection_exists (qc_qdrant C) c (st, m) = (Inr (mem_sizes m c \<noteq> None), (st, m))"
    "\<exists>m'. q_create_collection (qc_qdrant C) c d (st, m) = (Inr (), (st, m')) \<and> mem_tables m' = mem_tables m"
    "q_create_payload_index (qc_qdrant C) c f (st, m) = (Inr (), (st, m))" for c d f m
    by (simp_all add: assms qdrant_on_env_def mem_qdrant_def)
  have indexes: "create_indexes C fs (st, m) = (Inr (), (st, m))" for fs m
    by (induction fs) (simp_all add: ops)
  show ?thesis
  proof (cases "mem_sizes m (qc_collection C)")
    case None
    obtain m' where "q_create_collection (qc_qdrant C) (qc_collection C) (em_dimension (qc_embeddings C)) (st, m) = (Inr (), (st, m'))"
      "mem_tables m' = mem_tables m" using ops(2) by blast
    with None show ?thesis by (simp add: ensure_collection_def ops indexes)
  qed (simp add: ensure_collection_def ops)
qed

lemma mem_ensure: "\<exists>m'. ensure_collection (semantic_cache_of rnd mem_libraries
      \<lparr>qd_points = mem_qdrant, qd_get_collections = g, qd_close = c\<rparr> P st S) (False, (st', m)) = (Inr (), (True, (st', m')))
    \<and> mem_tables m' = mem_tables m"
  by (rule mem_ensure_collection) (simp add: semantic_cache_of_def)

lemma mem_builds:
  "\<exists>cs m'. build_cache_service rnd mem_libraries mem_redis_client
      \<lparr>qd_points = mem_qdrant, qd_get_collections = (\<lambda>m. (Inr (), m)), qd_close = (\<lambda>m. (Inr (), m))\<rparr> default_settings
      (new_world default_settings m)
    = (Inr cs, (new_breaker, (new_breaker, (True, (\<lparr>ms_model = Some (), ms_dimension = 2\<rparr>, m'))))) \<and> mem_tables m' = mem_tables m"
proof -
  let ?P = "build_embedding_provider default_settings" and ?st = "\<lparr>ms_model = Some (), ms_dimension = 2\<rparr>"
  let ?Q = "\<lparr>qd_points = mem_qdrant, qd_get_collections = (\<lambda>m. (Inr (), m)), qd_close = (\<lambda>m. (Inr (), m))\<rparr>"
  have "warm_up mem_embedding ?P (new_model_state n, m) = (Inr (), (?st, m))" for n
    by (simp add: warm_up_def ensure_model_loaded_def mem_embedding_def new_model_state_def build_embedding_provider_def
        default_settings_def local_embedding_provider_def)
  moreover obtain m' where "ensure_collection (semantic_cache_of rnd mem_libraries ?Q ?P ?st default_settings) (False, (?st, m))
      = (Inr (), (True, (?st, m')))" "mem_tables m' = mem_tables m" using mem_ensure by blast
  ultimately show ?thesis
    by (simp add: build_cache_service_def Let_def new_world_def on_model_def on_semantic_cache_def model_of_def)
qed

lemma mem_starts:
  "\<exists>A s. lifespan_startup rnd mem_libraries default_settings (new_world default_settings m) = (Inr A, s)
    \<and> mem_tables (world_env s) = mem_tables m \<and> as_embedding_provider A = build_embedding_provider default_settings
    \<and> fst (snd (snd s)) \<and> model_of s = \<lparr>ms_model = Some (), ms_dimension = 2\<rparr>"
proof -
  obtain C where "telemetry_startup mem_libraries default_settings m = (Inr (C, Some 0), m)" using mem_telemetry by blast
  then have telemetry: "in_world (telemetry_startup mem_libraries default_settings) (new_world default_settings m :: (unit, mem) world)
      = (Inr (C, Some 0), new_world default_settings m)" by (simp add: in_world_def new_world_def)
  have connects: "\<exists>J. jobs_connect (world_create_pool mem_libraries) \<lparr>bj_settings = default_settings, bj_pool = None\<rparr> w = (Inr J, w)"
    for w :: "(unit, mem) world"
    by (cases w) (simp add: jobs_connect_def world_create_pool_def in_world_def split_paired_all)
  note telemetry
  moreover have "validate_settings default_settings = Inr ()" by (simp add: validate_settings_def default_settings_def)
  moreover obtain cs m' where "build_cache_service rnd mem_libraries mem_redis_client
      \<lparr>qd_points = mem_qdrant, qd_get_collections = (\<lambda>m. (Inr (), m)), qd_close = (\<lambda>m. (Inr (), m))\<rparr> default_settings
      (new_world default_settings m)
    = (Inr cs, (new_breaker, (new_breaker, (True, (\<lparr>ms_model = Some (), ms_dimension = 2\<rparr>, m')))))" "mem_tables m' = mem_tables m"
    using mem_builds by blast
  moreover obtain J where "jobs_connect (world_create_pool mem_libraries) \<lparr>bj_settings = default_settings, bj_pool = None\<rparr>
      (new_breaker, (new_breaker, (True, (\<lparr>ms_model = Some (), ms_dimension = 2\<rparr>, m'))))
    = (Inr J, (new_breaker, (new_breaker, (True, (\<lparr>ms_model = Some (), ms_dimension = 2\<rparr>, m')))))"
    using connects by blast
  ultimately show ?thesis by (simp add: lifespan_startup_def Let_def world_env_def model_of_def)
qed

lemma mem_worker_starts:
  "\<exists>K s. worker_startup rnd mem_libraries default_settings (new_world default_settings m) = (Inr K, s)"
  using mem_builds [of rnd m] by (auto simp: worker_startup_def)

theorem worker_serves_gateway_jobs_witness:
  "\<exists>A K s1 s3. lifespan_startup exact mem_libraries default_settings (new_world default_settings install_mem) = (Inr A, s1)
    \<and> worker_startup exact mem_libraries default_settings (new_world default_settings install_mem) = (Inr K, s3)
    \<and> snd (run_job exact exact K (JobExportOtelSpans (build_trace_job_payload (gw_wire (as_gateway_service A)) (ping_trace 3)))
            (snd (run_job exact exact K (JobPersistTrace (build_trace_job_payload (gw_wire (as_gateway_service A)) (ping_trace 3))) s1)))
      = run_task exact exact (\<lambda>t s. s) ((as_gateway_service A)\<lparr>gw_trace_exporters := trace_exporters_of exact mem_libraries
            (as_tracer_provider A) (default_settings\<lparr>st_tracing_enabled := False\<rparr>)\<rparr>)
          (FlushTrace (ta_request (ping_trace 3)) (ta_response (ping_trace 3))
          (ta_tenant_id (ping_trace 3)) (ta_http_status (ping_trace 3)) (ta_api_key_id (ping_trace 3)) (ta_trace_id (ping_trace 3))
          (ta_spans (ping_trace 3))) s1"
proof -
  let ?w = "new_world default_settings install_mem"
  obtain A s1 where a: "lifespan_startup exact mem_libraries default_settings ?w = (Inr A, s1)" using mem_starts by blast
  obtain K s3 where k: "worker_startup exact mem_libraries default_settings ?w = (Inr K, s3)" using mem_worker_starts by blast
  have "wire_ok (lb_wire mem_libraries) (ping_trace 3)" by (simp add: ping_wire_ok)
  moreover have "records_nothing (lb_tracer mem_libraries None (st_otel_service_name default_settings))"
    by (simp add: records_nothing_def mem_libraries_def)
  ultimately show ?thesis
    using worker_serves_gateway_jobs [OF a k, where a = "ping_trace 3" and tn = exact and other = "\<lambda>t s. s" and s = s1, THEN conjunct1] a k
    by blast
qed

theorem collection_fits_vectors_witness:
  "\<exists>A s. lifespan_startup exact mem_libraries default_settings (new_world default_settings install_mem) = (Inr A, s)
    \<and> mem_sizes (world_env s) (collection_name ''local-all-MiniLM-L6-v2'') = Some 2"
proof -
  obtain A s where a: "lifespan_startup exact mem_libraries default_settings (new_world default_settings install_mem) = (Inr A, s)"
    and P: "as_embedding_provider A = build_embedding_provider default_settings" and m: "model_of s = \<lparr>ms_model = Some (), ms_dimension = 2\<rparr>"
    using mem_starts by blast
  have lib: "encodes_dimension (lb_embedding mem_libraries)" by (simp add: encodes_dimension_def mem_embedding_def)
  have quiet: "mem_sizes (snd (el_load (lb_embedding mem_libraries) n v)) = mem_sizes v"
    "mem_sizes (snd (lb_create_pool mem_libraries url v)) = mem_sizes v"
    "mem_sizes (snd (telemetry_startup mem_libraries default_settings v)) = mem_sizes v" for n url v
    using mem_telemetry [of v] by (auto simp: mem_embedding_def)
  have new: "mem_sizes install_mem (collection_name (ep_model_id (as_embedding_provider A))) = None"
    by (simp add: mem_sizes_def install_mem_def)
  have "embed (\<lambda>x. []) (lb_embedding mem_libraries) mem_runtime (as_embedding_provider A) ''hi'' (model_of s, install_mem)
      = (Inr [0, 1], (model_of s, install_mem))"
    by (simp add: P m embed_def wait_for_def runtime_on_env_def mem_runtime_def embed_impl_def with_model_def ensure_model_loaded_def
        build_embedding_provider_def default_settings_def local_embedding_provider_def mem_embedding_def)
  then have "provider.embed_all (\<lambda>x. []) (lb_embedding mem_libraries) mem_runtime (as_embedding_provider A) [''hi''] (model_of s, install_mem)
      = ([Inr [0, 1]], (model_of s, install_mem))" by simp
  from collection_fits_vectors [OF a lib _ _ quiet new this, of "\<lparr>qd_points = mem_qdrant, qd_get_collections = (\<lambda>m. (Inr (), m)), qd_close = (\<lambda>m. (Inr (), m))\<rparr>" "[0, 1]"]
  have "mem_sizes (world_env s) (collection_name (ep_model_id (as_embedding_provider A))) = Some 2"
    by (simp add: mem_qdrant_sizes)
  moreover have "ep_model_id (as_embedding_provider A) = ''local-all-MiniLM-L6-v2''"
    by (simp add: P ep_model_id_def build_embedding_provider_def default_settings_def local_embedding_provider_def)
  ultimately show ?thesis using a by auto
qed

definition flaky_qdrant :: "mem qdrant" where
  "flaky_qdrant = mem_qdrant\<lparr>q_create_payload_index := \<lambda>c f m. (Inl TimeoutError, m)\<rparr>"

definition flaky_cache :: "(unit model_state \<times> mem) semantic_cache" where
  "flaky_cache = semantic_cache_of exact mem_libraries \<lparr>qd_points = flaky_qdrant, qd_get_collections = (\<lambda>m. (Inr (), m)),
     qd_close = (\<lambda>m. (Inr (), m))\<rparr> (api_embedding_provider ''m'') \<lparr>ms_model = None, ms_dimension = 2\<rparr> default_settings"

lemma flaky_sizes: "qdrant_sizes flaky_qdrant mem_sizes"
  using mem_qdrant_sizes by (simp add: qdrant_sizes_def flaky_qdrant_def)

theorem interrupted_bootstrap_lacks_indexes_witness:
  "\<exists>st m m'. ensure_collection flaky_cache (False, (st, install_mem)) = (Inl TimeoutError, (False, (st, m)))
    \<and> ensure_collection (flaky_cache\<lparr>qc_qdrant := (qc_qdrant flaky_cache)\<lparr>q_create_payload_index := \<lambda>c f w. (Inl WatchError, w)\<rparr>\<rparr>)
        (False, (st, m)) = (Inr (), (True, (st, m')))"
proof -
  fix st
  have Q: "qc_qdrant flaky_cache = qdrant_on_env flaky_qdrant" by (simp add: flaky_cache_def semantic_cache_of_def)
  have ops: "q_collection_exists (qc_qdrant flaky_cache) c (st, m) = (Inr (mem_sizes m c \<noteq> None), (st, m))"
    "\<exists>m'. q_create_collection (qc_qdrant flaky_cache) c 1536 (st, m) = (Inr (), (st, m')) \<and> mem_sizes m' c \<noteq> None"
    "q_create_payload_index (qc_qdrant flaky_cache) c f (st, m) = (Inl TimeoutError, (st, m))" for c f m
    by (auto simp: Q qdrant_on_env_def flaky_qdrant_def mem_qdrant_def mem_sizes_def)
  have dim: "em_dimension (qc_embeddings flaky_cache) = 1536"
    by (simp add: flaky_cache_def semantic_cache_of_def embedder_of_def ep_dimension_def api_embedding_provider_def dict_get_def api_model_dimensions_def)
  have none: "mem_sizes install_mem c = None" for c by (simp add: mem_sizes_def install_mem_def)
  obtain m where m: "q_create_collection (qc_qdrant flaky_cache) (qc_collection flaky_cache) 1536 (st, install_mem) = (Inr (), (st, m))"
    "mem_sizes m (qc_collection flaky_cache) \<noteq> None" using ops(2) by blast
  have first: "ensure_collection flaky_cache (False, (st, install_mem)) = (Inl TimeoutError, (False, (st, m)))"
    by (simp add: ensure_collection_def ops(1,3) none dim m(1) filtered_payload_fields_def)
  have "q_collection_exists flaky_qdrant (qc_collection flaky_cache) m = (Inr (mem_sizes m (qc_collection flaky_cache) \<noteq> None), m)"
    by (simp add: flaky_qdrant_def mem_qdrant_def)
  from interrupted_bootstrap_lacks_indexes [OF flaky_sizes Q first m(2) this, of "\<lambda>c f w. (Inl WatchError, w)"] first
  show ?thesis by (intro exI) auto
qed

end
