(* ===== verification/DevKey.thy ===== *)
theory DevKey
  imports Auth Migrations
begin

text \<open>
  The key that the documentation of \<open>0003_seed_dev_api_key\<close> publishes, and its hash under the default pepper.  The 64 rounds
  of SHA-256 are evaluated in four parts, with the states and message windows between them written out.
\<close>

definition published_dev_key :: string where
  "published_dev_key = ''llmops_dev_default_key''"

lemma published_dev_key_valid: "is_valid_api_key_format published_dev_key"
  by (simp add: is_valid_api_key_format_def published_dev_key_def api_key_prefix_def startswith_def)

lemma hash_rounds_append:
  "hash_rounds (ks @ ks') w st = hash_rounds ks' ((window_next ^^ length ks) w) (hash_rounds ks w st)"
  by (induction ks arbitrary: w st) (simp_all add: funpow_swap1)

text \<open>The message window and the state after 0, 16, 32, 48 and 64 rounds.\<close>

definition dev_key_window0 :: "u32 list" where
  "dev_key_window0 =
    [1684370989, 1768846181, 1668641381, 762340720, 1885696557, 1667785070, 1734684013, 1701604461, 1869640543,
     1684371039, 1684366945, 1970041951, 1801812352, 0, 0, 408]"

definition dev_key_window1 :: "u32 list" where
  "dev_key_window1 =
    [603010397, 1761867323, 2442696647, 654160132, 2459243324, 1871495273, 1623112047, 828854306, 1405786814, 3488830602,
     1456452567, 482593159, 175582267, 4273149562, 3580217872, 822523101]"

definition dev_key_window2 :: "u32 list" where
  "dev_key_window2 =
    [3605026494, 95350993, 820817924, 128013313, 1317775723, 1107380314, 3382150087, 1710219906, 1684423532, 1449772782,
     1207167130, 56866748, 92129249, 3203808000, 2816033189, 3810225462]"

definition dev_key_window3 :: "u32 list" where
  "dev_key_window3 =
    [3567546755, 1260750843, 1125141338, 3041252182, 690703742, 3021444247, 1822705486, 3089603427, 45882632, 2663694455,
     535108414, 3623785712, 2163709547, 3561751604, 1153584706, 1776198118]"

definition dev_key_state1 :: hash_state where
  "dev_key_state1 = HS 3643947534 2449599528 3450470134 3416619218 255057771 2210205842 951228559 3036644574"

definition dev_key_state2 :: hash_state where
  "dev_key_state2 = HS 1006821254 846049296 1182246362 4235429378 3232094097 1633467695 2154630331 2826390557"

definition dev_key_state3 :: hash_state where
  "dev_key_state3 = HS 683844007 1191003930 4063382921 3013244330 4109327011 3158956626 247344881 1595255893"

definition dev_key_state4 :: hash_state where
  "dev_key_state4 = HS 410183642 611057366 1137934620 4291489186 3662601462 3706030446 1906889402 1744059720"

lemma dev_key_rounds0: "hash_rounds (take 16 (drop 0 round_constants)) dev_key_window0 initial_state = dev_key_state1"
  by code_simp

lemma dev_key_rounds1: "hash_rounds (take 16 (drop 16 round_constants)) dev_key_window1 dev_key_state1 = dev_key_state2"
  by code_simp

lemma dev_key_rounds2: "hash_rounds (take 16 (drop 32 round_constants)) dev_key_window2 dev_key_state2 = dev_key_state3"
  by code_simp

lemma dev_key_rounds3: "hash_rounds (take 16 (drop 48 round_constants)) dev_key_window3 dev_key_state3 = dev_key_state4"
  by code_simp

lemma dev_key_windows0: "(window_next ^^ 16) dev_key_window0 = dev_key_window1"
  by code_simp

lemma dev_key_windows1: "(window_next ^^ 16) dev_key_window1 = dev_key_window2"
  by code_simp

lemma dev_key_windows2: "(window_next ^^ 16) dev_key_window2 = dev_key_window3"
  by code_simp

lemma dev_key_blocks: "blocks (words_of_bytes (pad (utf8 (default_insecure_pepper @ published_dev_key)))) = [dev_key_window0]"
  by code_simp

lemma dev_key_hex: "hex_state (state_add initial_state dev_key_state4) = dev_key_hash"
  by code_simp

lemma dev_key_all_rounds: "hash_rounds round_constants dev_key_window0 initial_state = dev_key_state4"
proof -
  let ?k = "\<lambda>n. take 16 (drop n round_constants)"
  have parts: "?k 0 @ ?k 16 @ ?k 32 @ ?k 48 = round_constants"
    and lengths: "length (?k 0) = 16" "length (?k 16) = 16" "length (?k 32) = 16"
    by (simp_all add: round_constants_def)
  have "hash_rounds (?k 0 @ ?k 16 @ ?k 32 @ ?k 48) dev_key_window0 initial_state = dev_key_state4"
    by (simp only: hash_rounds_append lengths dev_key_rounds0 dev_key_rounds1 dev_key_rounds2 dev_key_rounds3
        dev_key_windows0 dev_key_windows1 dev_key_windows2)
  then show ?thesis by (simp only: parts)
qed

lemma hash_of_published_dev_key: "hash_api_key default_insecure_pepper published_dev_key = dev_key_hash"
  by (simp only: hash_api_key_def sha256_hex_def digest_words_def dev_key_blocks foldl.simps compress_def dev_key_all_rounds
      dev_key_hex)

end
