(* ===== verification/Installation.thy ===== *)
theory Installation
  imports Startup DevKey
begin

text \<open>
  A fresh installation: the database as the migrations leave it and the application as it starts from the settings.
\<close>

lemma seeded_key_active:
  "get_active_by_key_hash (seeded_tables now ids i) dev_key_hash = Some \<lparr>kr_id = i, kr_tenant_id = seed_tenant_id,
     kr_scopes = [''*''], kr_tenant_status = ''active'', kr_revoked_at = None\<rparr>"
  by (simp add: get_active_by_key_hash_def seeded_tables_def)

lemma seed_tenant: "seed_tenant_id = default_tenant_id"
  by (simp add: seed_tenant_id_def default_tenant_id_def)

text \<open>C8. The published key opens every installation that keeps the default pepper: the migrations insert its hash with the scope
  "*", the start-up check refuses the default pepper in production only, and so in any other environment whoever reads the
  repository is authenticated as the default tenant with every scope.\<close>

theorem published_key_opens_default_installation:
  assumes start: "lifespan_startup rnd L S s0 = (Inr A, s1)" and pepper: "st_auth_api_key_pepper S = default_insecure_pepper"
    and D: "create_database L S = Inr D" "database_store D tbl" and R: "create_redis_client L S = Inr R" "redis_store (rc_strings R) cache"
    and up: "\<And>v. is_val (fst (db_open D v))" "\<And>t v. is_val (fst (db_commit D t v))"
    and indep: "\<And>k v. tbl (snd (redis_get (rc_strings R) k v)) = tbl v"
    and tables: "tbl (world_env s) = seeded_tables now ids i" and miss: "cache (world_env s) (auth_cache_key dev_key_hash) = None"
  shows "st_environment S \<noteq> Production
    \<and> (\<exists>p s'. authenticate (as_auth_service A) published_dev_key s = (Inr (Some p), s') \<and> p_scopes p = {''*''}
         \<and> p_tenant_id p = default_tenant_id \<and> p_tenant_status p = ''active'' \<and> p_api_key_id p = i)"
proof -
  have V: "validate_settings S = Inr ()" and A: "as_auth_service A = auth_service_of L D R S"
    by (rule startup_ok [OF start], use D R in simp)+
  let ?S = "auth_service_of L D R S"
  have h: "hash_api_key (au_pepper ?S) published_dev_key = dev_key_hash"
    by (simp add: auth_service_of_def pepper hash_of_published_dev_key)
  let ?r = "\<lparr>kr_id = i, kr_tenant_id = seed_tenant_id, kr_scopes = [''*''], kr_tenant_status = ''active'', kr_revoked_at = None\<rparr>"
  have "\<exists>s'. authenticate ?S published_dev_key s = (Inr (Some (principal_of ?r)), s')"
  proof (rule authenticate_from_database [where tbl = "tbl \<circ> world_env" and cache = "cache \<circ> world_env"])
    show "database_store (au_database ?S) (tbl \<circ> world_env)" "redis_store (au_redis ?S) (cache \<circ> world_env)"
      using world_database_store [OF D(2)] world_redis_store [OF R(2)] by (simp_all add: auth_service_of_def)
    show "is_val (fst (db_open (au_database ?S) s))" "is_val (fst (db_commit (au_database ?S) t s))"
        "(tbl \<circ> world_env) (snd (redis_get (au_redis ?S) k s)) = (tbl \<circ> world_env) s" for t k and s :: "('a, 'b) world"
      using up indep by (simp_all add: auth_service_of_def)
    show "is_valid_api_key_format published_dev_key" by (rule published_dev_key_valid)
  qed (use h tables miss seeded_key_active in simp_all)
  with V A pepper show ?thesis by (auto simp: validate_settings_def principal_of_def seed_tenant split: if_splits)
qed

section \<open>An installation in memory\<close>

definition installed_mem :: mem where
  "installed_mem = \<lparr>mem_tables = seeded_tables 7 [''7'', ''8'', ''9'', ''10''] ''11'', mem_clock = 12, mem_cache = Map.empty,
     mem_tasks = []\<rparr>"

theorem published_key_opens_default_installation_witness:
  "\<exists>A s1 p s'. lifespan_startup exact mem_libraries default_settings (new_world default_settings installed_mem) = (Inr A, s1)
    \<and> authenticate (as_auth_service A) published_dev_key (new_world default_settings installed_mem :: (unit, mem) world)
        = (Inr (Some p), s') \<and> p_scopes p = {''*''} \<and> p_api_key_id p = ''11''"
proof -
  let ?s = "new_world default_settings installed_mem :: (unit, mem) world"
  obtain A s1 where a: "lifespan_startup exact mem_libraries default_settings ?s = (Inr A, s1)" using mem_starts by blast
  have pepper: "st_auth_api_key_pepper default_settings = default_insecure_pepper"
    by (simp add: default_settings_def default_insecure_pepper_def)
  have redis: "redis_store (rc_strings mem_redis_client) mem_cache" by (simp add: mem_redis_store)
  have up: "is_val (fst (db_open mem_database v))" "is_val (fst (db_commit mem_database t v))"
    "mem_tables (snd (redis_get (rc_strings mem_redis_client) k v)) = mem_tables v" for t k v
    by (simp_all add: mem_database_def is_val_def)
  have env: "world_env ?s = installed_mem" by (simp add: new_world_def world_env_def)
  have tables: "mem_tables (world_env ?s) = seeded_tables 7 [''7'', ''8'', ''9'', ''10''] ''11''"
    and miss: "mem_cache (world_env ?s) (auth_cache_key dev_key_hash) = None"
    unfolding env by (simp_all add: installed_mem_def)
  note opened = published_key_opens_default_installation [OF a pepper mem_libraries_sel(5) mem_database_store mem_libraries_sel(6)
      redis up tables miss, THEN conjunct2]
  obtain p s' where "authenticate (as_auth_service A) published_dev_key ?s = (Inr (Some p), s')" "p_scopes p = {''*''}"
    "p_api_key_id p = ''11''" using opened by (elim exE conjE)
  with a show ?thesis by (intro exI conjI)
qed

end
