(* ===== verification/Configuration.thy ===== *)
theory Configuration
  imports Startup
begin

text \<open>
  From the environment of a process to the running gateway: \<open>create_app\<close> and the lifespan of \<open>main.py\<close> with the settings that
  \<open>get_settings\<close> reads; and \<open>migrations/env.py\<close>, which takes the address of the database from the same settings.
\<close>

text \<open>\<open>create_app\<close> reads the settings when the module is loaded, before the server calls the lifespan; \<open>get_settings\<close> is
  cached, so both see the same object.\<close>

definition start_process ::
  "(real \<Rightarrow> real) \<Rightarrow> pydantic \<Rightarrow> ('m, 'c, 'v) libraries \<Rightarrow> (string \<Rightarrow> string option) \<Rightarrow> ('m, 'v) world \<Rightarrow>
     (exn + ('m, 'v) world app_state) \<times> ('m, 'v) world" where
  "start_process rnd X L env s =
     (case get_settings X env of Inl e \<Rightarrow> (Inl e, s) | Inr S \<Rightarrow> lifespan_startup rnd L S s)"

lemma gateway_registry_names:
  "fst ` set (rg_providers (gateway_registry rnd sj S AO AA)) =
     (if truthy (st_openai_api_key S) then {''openai''} else {}) \<union> (if truthy (st_anthropic_api_key S) then {''anthropic''} else {})"
  by (simp add: gateway_registry_def)

lemma truthy_normalized: "truthy (normalize_optional_api_key v) \<longleftrightarrow> normalize_optional_api_key v \<noteq> None"
  by (simp add: truthy_def normalize_optional_api_key_def Let_def split: option.split)

lemma startup_registry:
  assumes "lifespan_startup rnd L S s = (Inr A, s')"
  shows "as_provider_registry A = registry_of rnd L S"
  using assms by (auto simp: lifespan_startup_def Let_def split: sum.splits prod.splits)


text \<open>A deployment that says production and nothing else, with a pydantic that accepts no text at all.\<close>

definition strict_pydantic :: pydantic where
  "strict_pydantic = \<lparr>px_int = (\<lambda>s. None), px_float = (\<lambda>s. None), px_bool = (\<lambda>s. None), px_str_list = (\<lambda>s. None),
     px_str_dict = (\<lambda>s. None)\<rparr>"


section \<open>The address of the database for the migrations\<close>

text \<open>
  \<open>migrations/env.py\<close> hands \<open>database_url\<close> to Alembic with \<open>config.set_main_option\<close> and reads it back with
  \<open>config.get_section\<close>.  Alembic keeps options in a \<open>ConfigParser\<close>, whose values are subject to interpolation: a percent
  sign is written \<open>%%\<close>, and \<open>%(name)s\<close> stands for another option of the section (the parameter \<open>options\<close>, by name).
\<close>

text \<open>\<open>value.replace('%%', '')\<close>\<close>

fun strip_escapes :: "string \<Rightarrow> string" where
  "strip_escapes (c # d # cs) = (if c = CHR ''%'' \<and> d = CHR ''%'' then strip_escapes cs else c # strip_escapes (d # cs))"
| "strip_escapes s = s"

text \<open>The match of \<open>%\(([^)]+)\)s\<close> at the start of a text: the name and what follows.\<close>

definition reference :: "string \<Rightarrow> (string \<times> string) option" where
  "reference s = (let name = takeWhile (\<lambda>c. c \<noteq> CHR '')'') (drop 2 s); rest = dropWhile (\<lambda>c. c \<noteq> CHR '')'') (drop 2 s)
     in if take 2 s = ''%('' \<and> name \<noteq> [] \<and> take 2 rest = '')s'' then Some (name, drop 2 rest) else None)"

lemma reference_shorter: "reference s = Some (name, rest) \<Longrightarrow> length rest < length s"
proof -
  assume r: "reference s = Some (name, rest)"
  then have "take 2 s = ''%(''" and rest: "rest = drop 2 (dropWhile (\<lambda>c. c \<noteq> CHR '')'') (drop 2 s))"
    by (auto simp: reference_def Let_def split: if_splits)
  then have "2 \<le> length s" by (metis length_Cons length_take list.size(3) min.absorb_iff2 min.commute numeral_2_eq_2 nat_le_linear)
  moreover have "length rest \<le> length (drop 2 s)"
    using length_dropWhile_le [of "\<lambda>c. c \<noteq> CHR '')''" "drop 2 s"] by (simp add: rest)
  ultimately show ?thesis by simp
qed

function strip_references :: "string \<Rightarrow> string" where
  "strip_references [] = []"
| "strip_references (c # cs) = (case reference (c # cs) of
     Some (name, rest) \<Rightarrow> strip_references rest | None \<Rightarrow> c # strip_references cs)"
  by pat_completeness auto
termination strip_references
  by (relation "measure length") (auto dest: reference_shorter)

function interpolate :: "(string \<Rightarrow> string option) \<Rightarrow> string \<Rightarrow> exn + string" where
  "interpolate options [] = Inr []"
| "interpolate options (c # cs) =
     (if c \<noteq> CHR ''%'' then map_sum id ((#) c) (interpolate options cs)
      else if take 1 cs = ''%'' then map_sum id ((#) c) (interpolate options (drop 1 cs))
      else case reference (c # cs) of
        None \<Rightarrow> Inl (ValueError ''InterpolationSyntaxError'')
      | Some (name, rest) \<Rightarrow>
          (case options name of
             None \<Rightarrow> Inl (ValueError ''InterpolationMissingOptionError'')
           | Some v \<Rightarrow> map_sum id ((@) v) (interpolate options rest)))"
  by pat_completeness auto
termination interpolate
  by (relation "measure (length \<circ> snd)") (auto dest: reference_shorter)

declare strip_references.simps(2) [simp del] interpolate.simps(2) [simp del]

definition migrations_url :: "(string \<Rightarrow> string option) \<Rightarrow> settings \<Rightarrow> exn + string" where
  "migrations_url options S =
     (if CHR ''%'' \<in> set (strip_references (strip_escapes (st_database_url S)))
      then Inl (ValueError ''invalid interpolation syntax'')
      else interpolate options (st_database_url S))"

lemma strip_escapes_prefix:
  "CHR ''%'' \<notin> set pre \<Longrightarrow> strip_escapes (pre @ s) = pre @ strip_escapes s"
proof (induction pre)
  case (Cons c pre)
  then show ?case by (cases "pre @ s") (auto)
qed simp

lemma reference_percent: "c \<noteq> CHR ''%'' \<Longrightarrow> reference (c # cs) = None"
  by (simp add: reference_def Let_def)

lemma strip_references_prefix:
  "CHR ''%'' \<notin> set pre \<Longrightarrow> strip_references (pre @ s) = pre @ strip_references s"
  by (induction pre) (auto simp: strip_references.simps(2) reference_percent)

lemma interpolate_plain: "CHR ''%'' \<notin> set s \<Longrightarrow> interpolate options s = Inr s"
  by (induction s) (auto simp: interpolate.simps(2))

lemma plain_url: "CHR ''%'' \<notin> set (st_database_url S) \<Longrightarrow> migrations_url options S = Inr (st_database_url S)"
  using strip_escapes_prefix [of "st_database_url S" "[]"] strip_references_prefix [of "st_database_url S" "[]"]
  by (simp add: migrations_url_def interpolate_plain)

lemma percent_url:
  assumes "st_database_url S = pre @ CHR ''%'' # c # rest" "CHR ''%'' \<notin> set pre" "c \<noteq> CHR ''%''" "c \<noteq> CHR ''(''"
  shows "migrations_url options S = Inl (ValueError ''invalid interpolation syntax'')"
proof -
  have "\<exists>t. strip_escapes (c # rest) = c # t" using assms(3) by (cases rest) auto
  then obtain t where t: "strip_escapes (c # rest) = c # t" ..
  have "reference (CHR ''%'' # c # t) = None" using assms(4) by (simp add: reference_def Let_def)
  then have "CHR ''%'' \<in> set (strip_references (CHR ''%'' # c # t))" by (simp add: strip_references.simps(2))
  then show ?thesis
    using assms by (simp add: migrations_url_def strip_escapes_prefix strip_references_prefix t)
qed

text \<open>
  \<open>run_migrations_online\<close> of a process with the environment \<open>env\<close>.  \<open>connect\<close> makes the engine for an address and opens the
  connection to the database, whose state is \<open>s\<close>.
\<close>

definition run_migrations_online ::
  "pydantic \<Rightarrow> (string \<Rightarrow> string option) \<Rightarrow> (string \<Rightarrow> string option) \<Rightarrow> (string \<Rightarrow> exn + unit) \<Rightarrow> 'w runtime \<Rightarrow> datetime \<Rightarrow>
     pg_state \<Rightarrow> 'w \<Rightarrow> ((exn + unit) \<times> pg_state) \<times> 'w" where
  "run_migrations_online X env options connect rt now s w =
     (case get_settings X env of Inl e \<Rightarrow> ((Inl e, s), w) | Inr S \<Rightarrow>
      case migrations_url options S of Inl e \<Rightarrow> ((Inl e, s), w) | Inr url \<Rightarrow>
      case connect url of Inl e \<Rightarrow> ((Inl e, s), w) | Inr _ \<Rightarrow> upgrade_head rt now s w)"

lemma get_settings_database_url:
  assumes "get_settings X env = Inr S" "env ''database_url'' = Some url"
  shows "st_database_url S = url"
proof -
  have "case env ''database_url'' of None \<Rightarrow> st_database_url S = st_database_url default_settings
    | Some v \<Rightarrow> Some v = Some (st_database_url S)"
    by (rule read_fields_field [OF assms(1) [unfolded get_settings_def], where read = "parsed Some st_database_url_update"])
      (auto simp: settings_readers_def keeps_parsed parsed_def)
  with assms(2) show ?thesis by simp
qed

text \<open>The address reaches the database as it is when it has no percent sign.  One with a percent-encoded character, as a password
  with \<open>@\<close> or \<open>/\<close> needs it (\<open>p%40ss\<close>), makes every migration fail before a connection is attempted, although the
  application itself passes such an address on unchanged.\<close>

theorem percent_in_dsn_stops_migrations:
  assumes "get_settings X env = Inr S" "env ''database_url'' = Some url"
  shows "(CHR ''%'' \<notin> set url \<longrightarrow> run_migrations_online X env options connect rt now s w =
      (case connect url of Inl e \<Rightarrow> ((Inl e, s), w) | Inr _ \<Rightarrow> upgrade_head rt now s w))
    \<and> (url = pre @ CHR ''%'' # c # rest \<and> CHR ''%'' \<notin> set pre \<and> c \<noteq> CHR ''%'' \<and> c \<noteq> CHR ''('' \<longrightarrow>
      run_migrations_online X env options connect rt now s w = ((Inl (ValueError ''invalid interpolation syntax''), s), w))"
  using get_settings_database_url [OF assms]
  by (auto simp: run_migrations_online_def assms(1) plain_url percent_url)

theorem percent_in_dsn_stops_migrations_witness:
  "run_migrations_online strict_pydantic [''database_url'' \<mapsto> ''postgresql+asyncpg://u:p%40ss@db/x''] options connect rt now s w
    = ((Inl (ValueError ''invalid interpolation syntax''), s), w)"
proof -
  let ?env = "[''database_url'' \<mapsto> ''postgresql+asyncpg://u:p%40ss@db/x'']"
  have "\<not> is_exn (get_settings strict_pydantic ?env)"
    unfolding get_settings_result [THEN conjunct2, THEN conjunct2]
    by (simp add: settings_readers_def) (simp add: parsed_def)
  then obtain S where S: "get_settings strict_pydantic ?env = Inr S"
    by (cases "get_settings strict_pydantic ?env") (auto simp: is_exn_def)
  have url: "?env ''database_url'' = Some ''postgresql+asyncpg://u:p%40ss@db/x''" by simp
  show ?thesis
    by (rule percent_in_dsn_stops_migrations [where pre = "''postgresql+asyncpg://u:p''" and c = "CHR ''4''"
        and rest = "''0ss@db/x''", OF S url, THEN conjunct2, THEN mp]) simp
qed

end
