(* ===== verification/Disconnect.thy ===== *)
theory Disconnect
  imports Chat
begin

text \<open>
  A client that leaves in the middle of a streamed completion.  The server notices it at the item it cannot send: the
  generator of the endpoint is closed where it is suspended, \<open>GeneratorExit\<close> passes through the generators it
  has open (\<open>GatewayService\<close>, \<open>RoutingService\<close>, the provider) and, being no \<open>Exception\<close>, is caught by none of them.
  Each operation here is the streaming operation of the same name cut off at the yield of item \<open>wanted\<close>, counted from one.
\<close>

section \<open>Generators that are closed early\<close>

text \<open>What was yielded, how it ended (\<open>None\<close> when it was closed at a yield), and the state afterwards.\<close>

type_synonym ('a, 's) torn = "'a list \<times> (exn + unit) option \<times> 's"

text \<open>
  The innermost generator, the adapter's.  \<open>leave wanted s\<close> is the state once the generator has run from \<open>s\<close> to
  item \<open>wanted\<close> and its HTTP response was closed there.
\<close>

definition pull :: "(nat \<Rightarrow> 's \<Rightarrow> 's) \<Rightarrow> nat \<Rightarrow> ('s \<Rightarrow> 's streaming) \<Rightarrow> 's \<Rightarrow> (string, 's) torn" where
  "pull leave wanted f s = (case f s of (full, res, s1) \<Rightarrow>
     if length full < wanted then (full, Some res, s1) else (take wanted full, None, leave wanted s))"

text \<open>What it means to cut a generator off: one that ends before is not affected.\<close>

definition cut_of :: "nat \<Rightarrow> ('a, 's) torn \<Rightarrow> 'a list \<times> (exn + unit) \<times> 's \<Rightarrow> bool" where
  "cut_of wanted = (\<lambda>(items, out, s') (full, res, sf).
     if length full < wanted then items = full \<and> out = Some res \<and> s' = sf
     else items = take wanted full \<and> out = None)"

section \<open>The provider\<close>

function stream_loop_upto ::
  "(real \<Rightarrow> real) \<Rightarrow> 'w base_provider \<Rightarrow> (chat_request \<Rightarrow> nat \<Rightarrow> breaker \<times> 'w \<Rightarrow> breaker \<times> 'w) \<Rightarrow> nat \<Rightarrow> nat \<Rightarrow>
     chat_request \<Rightarrow> breaker \<times> 'w \<Rightarrow> (string, breaker \<times> 'w) torn" where
  "stream_loop_upto rnd P leave wanted attempt request s =
     (case pull (leave request) wanted (bp_stream_impl P request) s of
        (chunks, None, s1) \<Rightarrow> (chunks, None, s1)
      | (chunks, Some (Inr _), s1) \<Rightarrow> (chunks, Some (Inr ()), record_success s1)
      | (chunks, Some (Inl (Provider exc)), s1) \<Rightarrow>
          (let s2 = record_failure rnd (bp_runtime P) (bp_breaker P) s1
           in if chunks \<noteq> [] \<or> \<not> retryable exc \<or> int attempt \<ge> bp_max_retries P
              then (chunks, Some (Inl (Provider exc)), s2)
              else stream_loop_upto rnd P leave wanted (attempt + 1) request (back_off rnd P attempt exc s2))
      | (chunks, Some (Inl e), s1) \<Rightarrow> (chunks, Some (Inl e), s1))"
  by pat_completeness auto
termination stream_loop_upto
  by (relation "measure (\<lambda>(rnd, P, leave, wanted, attempt, request, s). nat (bp_max_retries P - int attempt))") auto

declare stream_loop_upto.simps [simp del]

definition base_stream_upto ::
  "(real \<Rightarrow> real) \<Rightarrow> 'w base_provider \<Rightarrow> (chat_request \<Rightarrow> nat \<Rightarrow> breaker \<times> 'w \<Rightarrow> breaker \<times> 'w) \<Rightarrow> nat \<Rightarrow>
     chat_request \<Rightarrow> breaker \<times> 'w \<Rightarrow> (string, breaker \<times> 'w) torn" where
  "base_stream_upto rnd P leave wanted request s =
     (let (admitted, s1) = allow_request rnd (bp_runtime P) (bp_breaker P) s
      in if \<not> admitted then ([], Some (Inl (Provider (ProviderUnavailableError (bp_name P)))), s1)
         else stream_loop_upto rnd P leave wanted 0 request s1)"

lemma pull_cut: "cut_of n (pull leave n f s) (f s)"
  by (simp add: pull_def cut_of_def split: prod.split)

lemma stream_loop_upto_cut:
  assumes "0 < n"
  shows "cut_of n (stream_loop_upto rnd P leave n k r s) (stream_loop rnd P k r s)"
proof (induction "nat (bp_max_retries P - int k)" arbitrary: k s rule: less_induct)
  case less
  note up = stream_loop_upto.simps [of rnd P leave n k r s]
  show ?case
  proof (cases rule: stream_loop_step [of P r s rnd k])
    case (finished chunks s1)
    then show ?thesis by (simp add: up pull_def cut_of_def)
  next
    case (gave_up chunks exc s1)
    then show ?thesis by (auto simp: up pull_def cut_of_def Let_def)
  next
    case (retried exc s1)
    from retried(2,3) assms
    have "stream_loop_upto rnd P leave n k r s = stream_loop_upto rnd P leave n (k + 1) r
         (back_off rnd P k exc (record_failure rnd (bp_runtime P) (bp_breaker P) s1))"
      by (simp add: up pull_def retried(1))
    moreover have "nat (bp_max_retries P - int (k + 1)) < nat (bp_max_retries P - int k)" using retried(3) by simp
    ultimately show ?thesis using less retried(4) by simp
  next
    case (other chunks e s1)
    then show ?thesis by (cases e) (simp_all add: up pull_def cut_of_def)
  qed
qed

lemma base_stream_upto_cut: "0 < n \<Longrightarrow> cut_of n (base_stream_upto rnd P leave n r s) (base_stream rnd P r s)"
  using stream_loop_upto_cut [of n rnd P leave 0 r "snd (allow_request rnd (bp_runtime P) (bp_breaker P) s)"]
  by (cases "allow_request rnd (bp_runtime P) (bp_breaker P) s")
    (simp add: base_stream_upto_def base_stream_def, simp add: cut_of_def)

text \<open>A stream that is given up is neither a success nor a failure for the breaker: nothing happens after the adapter's
  generator was closed.\<close>

lemma stream_loop_upto_closed:
  "stream_loop_upto rnd P leave n k r s = (chunks, None, s') \<Longrightarrow>
    \<exists>s1. s' = leave r n s1 \<and> n \<le> length (fst (bp_stream_impl P r s1))"
proof (induction "nat (bp_max_retries P - int k)" arbitrary: k s rule: less_induct)
  case less
  note up = stream_loop_upto.simps [of rnd P leave n k r s]
  show ?case
  proof (cases "n \<le> length (fst (bp_stream_impl P r s))")
    case True
    with less.prems show ?thesis by (intro exI [of _ s]) (auto simp: up pull_def split: prod.splits)
  next
    case False
    show ?thesis
    proof (cases rule: stream_loop_step [of P r s rnd k])
      case (retried exc s1)
      then have "stream_loop_upto rnd P leave n (k + 1) r
         (back_off rnd P k exc (record_failure rnd (bp_runtime P) (bp_breaker P) s1)) = (chunks, None, s')"
        using less.prems False by (simp add: up pull_def)
      then show ?thesis using less.hyps [of "k + 1"] retried(3) by simp
    next
      case (other chunks' e s1)
      with less.prems False show ?thesis by (cases e) (simp_all add: up pull_def)
    qed (use less.prems False in \<open>auto simp: up pull_def Let_def\<close>)
  qed
qed

section \<open>The providers of the gateway\<close>

definition openai_base :: "'w adapter \<Rightarrow> 'w base_provider" where
  "openai_base A = (ad_provider A)\<lparr>bp_name := ''openai'', bp_complete_impl := openai_complete_impl A,
     bp_stream_impl := openai_stream_impl A\<rparr>"

definition anthropic_base :: "(json \<Rightarrow> string) \<Rightarrow> 'w adapter \<Rightarrow> 'w base_provider" where
  "anthropic_base show_json A = (ad_provider A)\<lparr>bp_name := ''anthropic'', bp_complete_impl := anthropic_complete_impl A,
     bp_stream_impl := anthropic_stream_impl show_json A\<rparr>"

lemma provider_streams:
  "pv_stream (openai_provider rnd A) = base_stream rnd (openai_base A)"
  "pv_stream (lift_provider (anthropic_provider rnd sj B)) = (\<lambda>r. stream_on_env (base_stream rnd (anthropic_base sj B) r))"
  by (simp_all add: openai_provider_def openai_base_def lift_provider_def anthropic_provider_def anthropic_base_def Let_def)

text \<open>What an abandoned HTTP response leaves behind is a parameter for each of the two adapters.\<close>

record 'w abandoned =
  ab_openai :: "chat_request \<Rightarrow> nat \<Rightarrow> breaker \<times> breaker \<times> 'w \<Rightarrow> breaker \<times> breaker \<times> 'w"
  ab_anthropic :: "chat_request \<Rightarrow> nat \<Rightarrow> breaker \<times> 'w \<Rightarrow> breaker \<times> 'w"

definition provider_stream_upto ::
  "(real \<Rightarrow> real) \<Rightarrow> (json \<Rightarrow> string) \<Rightarrow> settings \<Rightarrow> (breaker \<times> 'w) adapter \<Rightarrow> 'w adapter \<Rightarrow> 'w abandoned \<Rightarrow>
     (breaker \<times> breaker \<times> 'w) llm_provider \<Rightarrow> nat \<Rightarrow> chat_request \<Rightarrow> breaker \<times> breaker \<times> 'w \<Rightarrow>
     (string, breaker \<times> breaker \<times> 'w) torn" where
  "provider_stream_upto rnd show_json S openai_http anthropic_http Z provider wanted request =
     (if pv_name provider = ''openai''
      then base_stream_upto rnd (openai_base (configured S openai_http)) (ab_openai Z) wanted request
      else stream_on_env (base_stream_upto rnd (anthropic_base show_json (configured S anthropic_http)) (ab_anthropic Z) wanted request))"

section \<open>Routing\<close>

fun stream_attempts_upto ::
  "('s llm_provider \<Rightarrow> nat \<Rightarrow> chat_request \<Rightarrow> 's \<Rightarrow> (string, 's) torn) \<Rightarrow> nat \<Rightarrow> chat_request \<Rightarrow> 's attempt list \<Rightarrow>
     (string \<times> provider_error) list \<Rightarrow> 's \<Rightarrow> (string, 's selection list \<times> 's) torn" where
  "stream_attempts_upto T wanted request [] errors s = ([], Some (Inl (AllProvidersExhaustedError errors)), ([], s))"
| "stream_attempts_upto T wanted request ((provider, model) # rest) errors s =
     (let req = attempt_request request model;
          (chunks, out, s1) = T provider wanted req s;
          selected = (if chunks = [] then [] else [(provider, req)])
      in case out of
           None \<Rightarrow> (chunks, None, (selected, s1))
         | Some (Inr _) \<Rightarrow> (chunks, Some (Inr ()), (selected, s1))
         | Some (Inl (Provider exc)) \<Rightarrow>
             if chunks \<noteq> [] then (chunks, Some (Inl (Provider exc)), (selected, s1))
             else stream_attempts_upto T wanted request rest (errors @ [(pv_name provider, exc)]) s1
         | Some (Inl e) \<Rightarrow> (chunks, Some (Inl e), (selected, s1)))"

definition route_stream_upto ::
  "('s llm_provider \<Rightarrow> nat \<Rightarrow> chat_request \<Rightarrow> 's \<Rightarrow> (string, 's) torn) \<Rightarrow> 's registry \<Rightarrow> nat \<Rightarrow> chat_request \<Rightarrow> 's \<Rightarrow>
     (string, 's selection list \<times> 's) torn" where
  "route_stream_upto T R wanted request s =
     (case resolve_attempts R request of
        Inl e \<Rightarrow> ([], Some (Inl e), ([], s))
      | Inr attempts \<Rightarrow> stream_attempts_upto T wanted request attempts [] s)"

section \<open>The service\<close>

text \<open>The span of the upstream call is closed in every case, by its \<open>finally\<close>.\<close>

definition stream_upstream_upto ::
  "('s llm_provider \<Rightarrow> nat \<Rightarrow> chat_request \<Rightarrow> 's \<Rightarrow> (string, 's) torn) \<Rightarrow> 's gateway \<Rightarrow> nat \<Rightarrow> call \<Rightarrow> chat_request \<Rightarrow>
     's traced \<Rightarrow> (string list \<times> 's selection option \<times> (exn + unit) option) \<times> 's traced" where
  "stream_upstream_upto T G wanted c request ts =
     (let (i, (spans, s)) = span_open (gw_runtime G) (ca_trace_id c) ''upstream_call'' None ts;
          (chunks, out, (selections, s1)) = route_stream_upto T (gw_registry G) wanted request s;
          selection = (if selections = [] then None else Some (last selections));
          spans1 = (case out of
                      Some (Inr _) \<Rightarrow> span_set i ''provider'' (MStr (case selection of None \<Rightarrow> ''unknown'' | Some (p, _) \<Rightarrow> pv_name p)) spans
                    | _ \<Rightarrow> spans)
      in ((chunks, selection, out), span_close (gw_runtime G) i (spans1, s1)))"

definition stream_fresh_upto ::
  "(real \<Rightarrow> real) \<Rightarrow> ('s llm_provider \<Rightarrow> nat \<Rightarrow> chat_request \<Rightarrow> 's \<Rightarrow> (string, 's) torn) \<Rightarrow> 's gateway \<Rightarrow> nat \<Rightarrow> call \<Rightarrow>
     real \<Rightarrow> chat_request \<Rightarrow> cache_status \<Rightarrow> 's traced \<Rightarrow> (stream_item, 's) torn" where
  "stream_fresh_upto rnd T G wanted c started_at request status ts =
     (case stream_upstream_upto T G wanted c request ts of
        ((chunks, selection, None), (spans, s1)) \<Rightarrow> (map Chunk chunks, None, s1)
      | ((chunks, selection, Some (Inl e)), (spans, s1)) \<Rightarrow> (map Chunk chunks, Some (Inl e), s1)
      | ((chunks, selection, Some (Inr _)), (spans, s1)) \<Rightarrow>
          if status = BYPASSED then (map Chunk chunks, Some (Inr ()), s1)
          else (case stream_usage selection (concat chunks) s1 of
                  (Inl e, s2) \<Rightarrow> (map Chunk chunks, Some (Inl e), s2)
                | (Inr (usage, provider_name), s2) \<Rightarrow>
                    (case traced_cost rnd G c \<lparr>mi_provider = provider_name, mi_model = rq_model request\<rparr> usage (spans, s2) of
                       (Inl e, (spans1, s3)) \<Rightarrow> (map Chunk chunks, Some (Inl e), s3)
                     | (Inr cost_usd, (spans1, s3)) \<Rightarrow>
                         (let (response, s4) = streamed_response rnd G c started_at request status provider_name usage
                                (concat chunks) cost_usd s3;
                              s5 = schedule G c request response s4;
                              items = map Chunk chunks @ [Metadata response]
                          in if length items < wanted
                             then (items, Some (Inr ()), finalize rnd G c ''chat_completions_stream'' request response spans1 s5)
                             else (items, None, s5)))))"

text \<open>On a cache hit the first item is sent before the response is stamped, the second before it is accounted.\<close>

definition handle_chat_completion_stream_upto ::
  "(real \<Rightarrow> real) \<Rightarrow> ('s llm_provider \<Rightarrow> nat \<Rightarrow> chat_request \<Rightarrow> 's \<Rightarrow> (string, 's) torn) \<Rightarrow> 's gateway \<Rightarrow> nat \<Rightarrow> call \<Rightarrow>
     chat_request \<Rightarrow> 's \<Rightarrow> (stream_item, 's) torn" where
  "handle_chat_completion_stream_upto rnd T G wanted c original s =
     (let (started_at, s0) = rt_monotonic (gw_runtime G) s;
          (request, s1) = apply_adapter_route G (ca_tenant_id c) original s0
      in case traced_lookup G c request s1 of
           (Inl e, (spans, s2)) \<Rightarrow> ([], Some (Inl e), s2)
         | (Inr (Some cached, status), (spans, s2)) \<Rightarrow>
             if wanted \<le> 1 then ([Chunk (m_content (rs_message cached))], None, s2)
             else (let (result, s3) = stamp rnd (gw_runtime G) cached (ca_trace_id c) status started_at (Some request) s2;
                       items = [Chunk (m_content (rs_message cached)), Metadata result]
                   in if wanted = 2 then (items, None, s3)
                      else (items, Some (Inr ()), finalize rnd G c ''chat_completions_stream'' request result spans s3))
         | (Inr (None, status), ts) \<Rightarrow> stream_fresh_upto rnd T G wanted c started_at request status ts)"

section \<open>The endpoint\<close>

definition sse_upto ::
  "(real \<Rightarrow> real) \<Rightarrow> (json \<Rightarrow> string) \<Rightarrow> ('s llm_provider \<Rightarrow> nat \<Rightarrow> chat_request \<Rightarrow> 's \<Rightarrow> (string, 's) torn) \<Rightarrow> 's gateway \<Rightarrow>
     nat \<Rightarrow> chat_request \<Rightarrow> request_state \<times> 's \<Rightarrow> string list \<times> 's" where
  "sse_upto rnd dumps T G wanted payload = (\<lambda>(st, s).
     case handle_chat_completion_stream_upto rnd T G wanted (call_of st) payload s of
       (items, None, s1) \<Rightarrow> (map (\<lambda>item. sse_frame (dumps (sse_event item))) items, s1)
     | (items, Some result, s1) \<Rightarrow> (sse_frames dumps items result, s1))"

section \<open>A stream is cut off, not changed\<close>

lemma cut_of_cases:
  assumes "cut_of n (items, out, s') (full, res, sf)"
  obtains (ended) "length full < n" "items = full" "out = Some res" "s' = sf"
  | (closed) "n \<le> length full" "items = take n full" "out = None"
  using assms by (cases "length full < n") (auto simp: cut_of_def)

locale interruptible_pool = provider_pool R for R :: "'s registry" +
  fixes T :: "'s llm_provider \<Rightarrow> nat \<Rightarrow> chat_request \<Rightarrow> 's \<Rightarrow> (string, 's) torn"
  assumes torn: "p \<in> snd ` set (rg_providers R) \<Longrightarrow> 0 < n \<Longrightarrow> cut_of n (T p n r s) (pv_stream p r s)"
begin

lemma attempts_cut:
  assumes "0 < n" "\<forall>a\<in>set as. fst a \<in> snd ` set (rg_providers R)"
  shows "case stream_attempts r as errs s of (full, sels, res, sf) \<Rightarrow>
    cut_of n (stream_attempts_upto T n r as errs s) (full, res, (sels, sf))"
  using assms(2)
proof (induction as arbitrary: errs s)
  case (Cons a as)
  obtain p m where a: "a = (p, m)" by (rule prod.exhaust)
  let ?r = "attempt_request r m"
  obtain full res sf where f: "pv_stream p ?r s = (full, res, sf)" by (metis surj_pair)
  obtain chunks out s1 where t: "T p n ?r s = (chunks, out, s1)" by (metis surj_pair)
  from torn [of p n ?r s] Cons.prems assms(1) have "cut_of n (chunks, out, s1) (full, res, sf)" by (simp add: a f t)
  then show ?case
  proof (cases rule: cut_of_cases)
    case ended
    show ?thesis
    proof (cases "\<exists>exc. res = Inl (Provider exc) \<and> full = []")
      case True
      then obtain exc where exc: "res = Inl (Provider exc)" "full = []" by blast
      from Cons.IH [of "errs @ [(pv_name p, exc)]" sf] Cons.prems show ?thesis
        unfolding a by (simp add: f t ended exc)
    next
      case False
      with ended show ?thesis
        by (simp add: a f t Let_def) (auto simp: cut_of_def split: sum.splits exn.splits)
    qed
  next
    case closed
    with assms(1) have "full \<noteq> []" by auto
    with closed show ?thesis
      by (simp add: a f t Let_def) (auto simp: cut_of_def split: sum.splits exn.splits)
  qed
qed (use assms(1) in \<open>simp add: cut_of_def\<close>)

lemma route_cut:
  assumes "0 < n"
  shows "case route_stream R r s of (full, sels, res, sf) \<Rightarrow> cut_of n (route_stream_upto T R n r s) (full, res, (sels, sf))"
proof (cases "resolve_attempts R r")
  case (Inr as)
  then have "\<forall>a\<in>set as. fst a \<in> snd ` set (rg_providers R)" using attempts_registered by auto
  with attempts_cut [OF assms] Inr show ?thesis by (simp add: route_stream_def route_stream_upto_def)
qed (use assms in \<open>simp add: route_stream_def route_stream_upto_def cut_of_def\<close>)

lemma upstream_cut:
  assumes "0 < n" "gw_registry G = R"
  shows "case stream_upstream G c r ts of ((full, sel, res), ts1) \<Rightarrow>
    if length full < n then stream_upstream_upto T G n c r ts = ((full, sel, Some res), ts1)
    else \<exists>sel' ts'. stream_upstream_upto T G n c r ts = ((take n full, sel', None), ts')"
proof -
  obtain i sp s0 where op: "span_open (gw_runtime G) (ca_trace_id c) ''upstream_call'' None ts = (i, (sp, s0))" by (metis surj_pair)
  obtain full sels res sf where f: "route_stream R r s0 = (full, sels, res, sf)" by (metis surj_pair)
  obtain chunks out sels' s1 where u: "route_stream_upto T R n r s0 = (chunks, out, (sels', s1))" by (metis surj_pair)
  from route_cut [OF assms(1), of r s0] have "cut_of n (chunks, out, (sels', s1)) (full, res, (sels, sf))" by (simp add: f u)
  then show ?thesis
    by (cases rule: cut_of_cases; cases res) (simp_all add: stream_upstream_def stream_upstream_upto_def op assms(2) f u)
qed

lemma fresh_cut:
  assumes "0 < n" "gw_registry G = R"
  shows "cut_of n (stream_fresh_upto rnd T G n c t0 r st ts) (stream_fresh rnd G c t0 r st ts)"
proof -
  obtain full sel res sp s1 where u: "stream_upstream G c r ts = ((full, sel, res), (sp, s1))" by (metis surj_pair)
  note up = upstream_cut [OF assms, of c r ts, unfolded u prod.case]
  show ?thesis
  proof (cases "length full < n")
    case True
    with up have "stream_upstream_upto T G n c r ts = ((full, sel, Some res), (sp, s1))" by simp
    with u True show ?thesis
      by (simp add: stream_fresh_def stream_fresh_upto_def Let_def split: sum.split prod.split) (auto simp: cut_of_def)
  next
    case False
    with up obtain sel' ts' where "stream_upstream_upto T G n c r ts = ((take n full, sel', None), ts')" by auto
    with u False show ?thesis
      by (simp add: stream_fresh_def stream_fresh_upto_def Let_def split: sum.split prod.split)
        (auto simp: cut_of_def take_map)
  qed
qed

lemma handler_cut:
  assumes "0 < n" "gw_registry G = R"
  shows "cut_of n (handle_chat_completion_stream_upto rnd T G n c r s) (handle_chat_completion_stream rnd G c r s)"
proof -
  obtain t0 s0 where m: "rt_monotonic (gw_runtime G) s = (t0, s0)" by (rule prod.exhaust)
  obtain r1 s1 where a: "apply_adapter_route G (ca_tenant_id c) r s0 = (r1, s1)" by (rule prod.exhaust)
  obtain l sp s2 where l: "traced_lookup G c r1 s1 = (l, (sp, s2))" by (metis surj_pair)
  note start = handle_chat_completion_stream_def handle_chat_completion_stream_upto_def m a l
  show ?thesis
  proof (cases l)
    case (Inl e)
    with assms(1) show ?thesis by (simp add: start cut_of_def)
  next
    case (Inr v)
    obtain cached st where v: "v = (cached, st)" by (rule prod.exhaust)
    show ?thesis
    proof (cases cached)
      case None
      with fresh_cut [OF assms] show ?thesis by (simp add: start Inr v)
    next
      case (Some q)
      consider "n = 1" | "n = 2" | "2 < n" using assms(1) by linarith
      then show ?thesis
        by cases (simp_all add: start Inr v Some respond_def cut_of_def split: prod.split)
    qed
  qed
qed

end

interpretation gateway_interruptible: interruptible_pool "gateway_registry rnd sj S AO AA" "provider_stream_upto rnd sj S AO AA Z"
  for rnd sj S AO and AA :: "'w adapter" and Z
proof (rule interruptible_pool.intro [OF gateway_pool.provider_pool_axioms], unfold_locales)
  fix p and n :: nat and r and s :: "breaker \<times> breaker \<times> 'w"
  assume p: "p \<in> snd ` set (rg_providers (gateway_registry rnd sj S AO AA))" and n: "0 < n"
  from p have "p = openai_provider rnd (configured S AO) \<or> p = lift_provider (anthropic_provider rnd sj (configured S AA))"
    by (auto simp: gateway_registry_def split: if_splits)
  then show "cut_of n (provider_stream_upto rnd sj S AO AA Z p n r s) (pv_stream p r s)"
  proof
    assume "p = openai_provider rnd (configured S AO)"
    with base_stream_upto_cut [OF n] show ?thesis by (simp add: provider_stream_upto_def provider_streams)
  next
    assume "p = lift_provider (anthropic_provider rnd sj (configured S AA))"
    with base_stream_upto_cut [OF n, of rnd "anthropic_base sj (configured S AA)" "ab_anthropic Z" r "snd s"] show ?thesis
      by (cases s) (auto simp: provider_stream_upto_def provider_streams cut_of_def split: prod.splits if_splits)
  qed
qed

section \<open>What is left behind\<close>

lemma swap_accounting_upto:
  "stream_upstream_upto T (swap_accounting G K M J X) = stream_upstream_upto T G"
  by (intro ext; simp add: stream_upstream_upto_def cong: option.case_cong)

lemma traced_cost_swap:
  "traced_cost rnd (G\<lparr>gw_metric := M, gw_background_jobs := J, gw_trace_exporters := X\<rparr>) = traced_cost rnd G"
  by (intro ext; simp add: traced_cost_def cong: option.case_cong)

lemma streamed_response_swap:
  "streamed_response rnd (G\<lparr>gw_metric := M, gw_background_jobs := J, gw_trace_exporters := X\<rparr>) = streamed_response rnd G"
  "schedule (G\<lparr>gw_metric := M, gw_background_jobs := J, gw_trace_exporters := X\<rparr>) = schedule G"
  by (intro ext; simp add: streamed_response_def schedule_def)+

lemma fresh_upto_closed:
  assumes "stream_fresh_upto rnd T G n c t0 r st ts = (items, None, s')"
  shows "stream_fresh_upto rnd T (G\<lparr>gw_metric := M, gw_background_jobs := J, gw_trace_exporters := X\<rparr>) n c t0 r st ts = (items, None, s')"
    and "Metadata p \<in> set items \<Longrightarrow> \<exists>s5. s' = schedule G c r p s5"
proof -
  have u: "stream_upstream_upto T (G\<lparr>gw_metric := M, gw_background_jobs := J, gw_trace_exporters := X\<rparr>) = stream_upstream_upto T G"
    using swap_accounting_upto [where T = T and G = G and K = "gw_cost_service G" and M = M and J = J and X = X] by simp
  show "stream_fresh_upto rnd T (G\<lparr>gw_metric := M, gw_background_jobs := J, gw_trace_exporters := X\<rparr>) n c t0 r st ts = (items, None, s')"
    using assms unfolding stream_fresh_upto_def u traced_cost_swap streamed_response_swap
    by (auto simp: Let_def split: prod.splits sum.splits option.splits if_splits)
  show "\<exists>s5. s' = schedule G c r p s5" if "Metadata p \<in> set items"
    using assms that unfolding stream_fresh_upto_def
    by (auto simp: Let_def split: prod.splits sum.splits option.splits if_splits)
qed


text \<open>The frames sent to such a client are the first \<open>wanted\<close> frames of the whole answer.\<close>

theorem interrupted_frames:
  assumes "gw_registry G = gateway_registry rnd sj S AO AA" and "0 < wanted"
    and "handle_chat_completion_stream rnd G (call_of st) r s = (full, res, sf)"
  shows "fst (sse_upto rnd dumps (provider_stream_upto rnd sj S AO AA Z) G wanted r (st, s)) = take wanted (sse_frames dumps full res)"
proof -
  obtain items out s' where u: "handle_chat_completion_stream_upto rnd (provider_stream_upto rnd sj S AO AA Z) G wanted (call_of st) r s
      = (items, out, s')" by (metis surj_pair)
  from gateway_interruptible.handler_cut [OF assms(2,1), of rnd Z "call_of st" r s]
  have "cut_of wanted (items, out, s') (full, res, sf)" by (simp add: u assms(3))
  then show ?thesis
    by (cases rule: cut_of_cases)
      (auto simp: sse_upto_def u sse_frames_def take_map split: sum.split)
qed

text \<open>C24. What an interrupted stream leaves behind: it was not counted in the metrics, nor traced, exported or persisted, for its course is the same
  whatever the metrics, the job queue and the exporters are.  If it was closed at the metadata event, after all the text, the last
  thing done was to hand the answer to the cache, where other requests find it.\<close>

theorem interrupted_stream_unaccounted:
  assumes "handle_chat_completion_stream_upto rnd T G wanted c r s = (items, None, s')"
  shows "handle_chat_completion_stream_upto rnd T (G\<lparr>gw_metric := M, gw_background_jobs := J, gw_trace_exporters := X\<rparr>)
       wanted c r s = (items, None, s')
    \<and> (\<forall>p. Metadata p \<in> set items \<and> \<not> is_hit (rs_cache_status p) \<longrightarrow>
         (\<exists>s5. s' = schedule G c (routed_request G c r s) p s5))"
proof -
  let ?G = "G\<lparr>gw_metric := M, gw_background_jobs := J, gw_trace_exporters := X\<rparr>"
  obtain t0 s0 where m: "rt_monotonic (gw_runtime G) s = (t0, s0)" by (rule prod.exhaust)
  obtain r1 s1 where a: "apply_adapter_route G (ca_tenant_id c) r s0 = (r1, s1)" by (rule prod.exhaust)
  have r1: "routed_request G c r s = r1" using m a by (simp add: routed_request_def)
  obtain l sp s2 where l: "traced_lookup G c r1 s1 = (l, (sp, s2))" by (metis surj_pair)
  have same: "apply_adapter_route ?G = apply_adapter_route G" "traced_lookup ?G = traced_lookup G"
    using swap_accounting_simps(1,2) [where G = G and K = "gw_cost_service G" and M = M and J = J and X = X] by simp_all
  note start = handle_chat_completion_stream_upto_def m a l same
  show ?thesis
  proof (cases l)
    case (Inl e)
    with assms show ?thesis by (simp add: start)
  next
    case (Inr v)
    obtain cached st where v: "v = (cached, st)" by (rule prod.exhaust)
    note look = traced_lookup_value [OF l [unfolded Inr v]]
    show ?thesis
    proof (cases cached)
      case (Some q)
      with look have "is_hit st" by simp
      then have "is_hit (rs_cache_status (fst (stamp rnd (gw_runtime G) q (ca_trace_id c) st t0 (Some r1) s2)))"
        by (simp add: stamp_status)
      with assms show ?thesis
        by (auto simp: start Inr v Some Let_def split: prod.splits if_splits)
    next
      case None
      with assms have f: "stream_fresh_upto rnd T G wanted c t0 r1 st (sp, s2) = (items, None, s')" by (simp add: start Inr v)
      show ?thesis
        using fresh_upto_closed [OF f] by (simp add: start Inr v None r1)
    qed
  qed
qed

section \<open>A client that leaves after the first chunk\<close>

text \<open>Both providers are configured, the cache is empty, and OpenAI answers in two chunks.\<close>

definition po_adapter :: "'w adapter" where
  "po_adapter = hi_adapter\<lparr>ad_stream := (\<lambda>p j s. (Inr \<lparr>hs_response = hi_answer,
       hs_lines = [''data: a'', ''data: b'', ''data: [DONE]''], hs_error = None\<rparr>, s)),
     ad_json_loads := (\<lambda>d. Some (openai_event (if d = ''a'' then ''po'' else ''ng'')))\<rparr>"

definition quiet_redis :: "'w redis" where
  "quiet_redis = \<lparr>redis_get = (\<lambda>k w. (Inr None, w)), redis_set = (\<lambda>k v ex w. (Inr (), w)),
     redis_set_nx = (\<lambda>k v ex w. (Inr True, w)), redis_delete = (\<lambda>k w. (Inr (), w))\<rparr>"

definition quiet_gateway :: "'w registry \<Rightarrow> 'w gateway" where
  "quiet_gateway R = \<lparr>gw_cache_service = \<lparr>cs_exact_get = (\<lambda>r t w. (Inr None, w)), cs_exact_set = (\<lambda>r p t w. (Inr (), w)),
       cs_semantic_get = (\<lambda>r t w. (Inr None, w)), cs_semantic_set = (\<lambda>r p t w. (Inr (), w)),
       cs_redis = quiet_redis, cs_runtime = idle_runtime, cs_codec = sample_codec (pong_response 3),
       cs_lock_ttl_seconds = 10, cs_wait_seconds = 2, cs_poll_interval_seconds = 1\<rparr>,
     gw_registry = R,
     gw_cost_service = \<lparr>co_database = \<lparr>db_open = (\<lambda>w. (Inl (DatabaseError []), w)), db_commit = (\<lambda>t w. (Inr (), w)), db_runtime = idle_runtime\<rparr>,
       co_redis = quiet_redis, co_pricing_cache_ttl_seconds = 300, co_repr_float = (\<lambda>x. []), co_parse_float = (\<lambda>t. None)\<rparr>,
     gw_database = None, gw_trace_exporters = [], gw_background_jobs = None, gw_runtime = idle_runtime, gw_wire = ping_wire,
     gw_metric = (\<lambda>u w. w)\<rparr>"

definition both_registry :: "(breaker \<times> breaker \<times> unit) registry" where
  "both_registry = gateway_registry exact (\<lambda>j. []) both_keys po_adapter hi_adapter"

abbreviation both_upto where
  "both_upto \<equiv> provider_stream_upto exact (\<lambda>j. []) both_keys po_adapter hi_adapter
     (\<lparr>ab_openai = (\<lambda>r n s. s), ab_anthropic = (\<lambda>r n s. s)\<rparr> :: unit abandoned)"

lemma po_stream: "openai_stream_impl (configured both_keys po_adapter) hello_request s = ([''po'', ''ng''], Inr (), s)"
proof -
  have "strip_ws (drop 5 ''data: a'') = ''a''" "strip_ws (drop 5 ''data: b'') = ''b''" "strip_ws (drop 5 ''data: [DONE]'') = ''[DONE]''"
    "startswith ''data: a'' ''data:''" "startswith ''data: b'' ''data:''" "startswith ''data: [DONE]'' ''data:''" by code_simp+
  moreover have "openai_event_text (openai_event t) = Inr (Some t)" if "t \<noteq> []" for t
    using that by (simp add: openai_event_text_def openai_event_def json_or_def bind_def)
  ultimately show ?thesis
    by (simp add: openai_stream_impl_def configured_def po_adapter_def hi_adapter_def hi_answer_def)
qed

lemma po_first:
  "both_upto (openai_provider exact (configured both_keys po_adapter)) 1 hello_request (new_breaker, new_breaker, u)
    = ([''po''], None, (new_breaker, new_breaker, u))"
  by (simp add: provider_stream_upto_def base_stream_upto_def stream_loop_upto.simps pull_def openai_base_def po_stream)

lemma first_chunk:
  "handle_chat_completion_stream_upto exact both_upto (quiet_gateway both_registry) 1 ping_call hello_request
     (new_breaker, new_breaker, ()) = ([Chunk ''po''], None, (new_breaker, new_breaker, ()))"
proof -
  let ?G = "quiet_gateway both_registry" and ?s = "(new_breaker, new_breaker, ())"
  have r: "attempt_request hello_request ''gpt-4o'' = hello_request" by (simp add: attempt_request_def hello_request_def)
  have plain: "\<not> rq_cache_bypass hello_request" by (simp add: hello_request_def)
  have route: "route_stream_upto both_upto both_registry 1 hello_request ?s =
      ([''po''], None, ([(openai_provider exact (configured both_keys po_adapter), hello_request)], ?s))"
    by (simp add: route_stream_upto_def both_registry_def hello_attempts r po_first [unfolded One_nat_def])
  have look: "\<exists>sp. traced_lookup ?G ping_call hello_request ?s = (Inr (None, MISS), (sp, ?s))"
    by (simp add: traced_lookup_def with_span_def lookup_def quiet_gateway_def plain span_open_def span_close_def idle_runtime_def Let_def)
  then obtain sp where look: "traced_lookup ?G ping_call hello_request ?s = (Inr (None, MISS), (sp, ?s))" by blast
  have "fst (stream_upstream_upto both_upto ?G 1 ping_call hello_request (sp, ?s)) =
      ([''po''], Some (openai_provider exact (configured both_keys po_adapter), hello_request), None)"
    "snd (snd (stream_upstream_upto both_upto ?G 1 ping_call hello_request (sp, ?s))) = ?s"
    using route by (simp_all add: stream_upstream_upto_def quiet_gateway_def span_open_def span_close_def idle_runtime_def)
  then obtain sp1 where "stream_upstream_upto both_upto ?G 1 ping_call hello_request (sp, ?s) =
      (([''po''], Some (openai_provider exact (configured both_keys po_adapter), hello_request), None), (sp1, ?s))"
    by (metis prod.collapse)
  then have "stream_fresh_upto exact both_upto ?G 1 ping_call 0 hello_request MISS (sp, ?s) = ([Chunk ''po''], None, ?s)"
    by (simp add: stream_fresh_upto_def)
  moreover have "rt_monotonic (gw_runtime ?G) ?s = (0, ?s)" "gw_database ?G = None"
    by (simp_all add: quiet_gateway_def idle_runtime_def)
  ultimately show ?thesis
    using look by (simp add: handle_chat_completion_stream_upto_def apply_adapter_route_def)
qed


theorem interrupted_stream_unaccounted_witness:
  "fst (snd (handle_chat_completion_stream_upto exact both_upto ((quiet_gateway both_registry)\<lparr>gw_metric := \<lambda>u s. (new_breaker\<lparr>cb_consecutive_failures := 1\<rparr>, snd s),
      gw_background_jobs := None, gw_trace_exporters := []\<rparr>) 1 ping_call hello_request (new_breaker, new_breaker, ()))) = None"
  using interrupted_stream_unaccounted [OF first_chunk, where M = "\<lambda>u s. (new_breaker\<lparr>cb_consecutive_failures := 1\<rparr>, snd s)" and J = None and X = "[]"]
  by simp

end
