(* ===== verification/Routes.thy ===== *)
theory Routes
  imports AdminSafety Chat
begin

text \<open>
  The routes of the API (\<open>api/v1/router.py\<close> and the decorators of the endpoints) against the scopes that the middleware
  demands for them, and what reaches a client through the whole pipeline.
\<close>

section \<open>The routes\<close>

text \<open>Method and path of every route; a path parameter is in braces.\<close>

definition api_routes :: "(string \<times> string) list" where
  "api_routes = [(''GET'', ''/health''), (''GET'', ''/health/ready''), (''POST'', ''/v1/chat/completions''), (''POST'', ''/v1/embeddings''),
     (''POST'', ''/v1/admin/api-keys''), (''GET'', ''/v1/admin/api-keys''), (''DELETE'', ''/v1/admin/api-keys/{api_key_id}''),
     (''GET'', ''/v1/admin/tenants''), (''POST'', ''/v1/admin/tenants''), (''GET'', ''/v1/admin/pricing''), (''POST'', ''/v1/admin/pricing''),
     (''GET'', ''/v1/admin/adapter-routes''), (''PUT'', ''/v1/admin/adapter-routes''), (''DELETE'', ''/v1/admin/adapter-routes/{model_alias}'')]"

text \<open>The route of an admin request with its path parameter filled in.\<close>

fun admin_route :: "admin_request \<Rightarrow> string \<times> string" where
  "admin_route (CreateApiKey name scopes) = (''POST'', ''/v1/admin/api-keys'')"
| "admin_route ListApiKeys = (''GET'', ''/v1/admin/api-keys'')"
| "admin_route (RevokeApiKey i) = (''DELETE'', ''/v1/admin/api-keys/'' @ i)"
| "admin_route ListTenants = (''GET'', ''/v1/admin/tenants'')"
| "admin_route (CreateTenant name slug) = (''POST'', ''/v1/admin/tenants'')"
| "admin_route ListPricing = (''GET'', ''/v1/admin/pricing'')"
| "admin_route (CreatePricing provider model ip op cur from) = (''POST'', ''/v1/admin/pricing'')"
| "admin_route ListAdapterRoutes = (''GET'', ''/v1/admin/adapter-routes'')"
| "admin_route (UpsertAdapterRoute payload) = (''PUT'', ''/v1/admin/adapter-routes'')"
| "admin_route (DisableAdapterRoute model_alias stage) = (''DELETE'', ''/v1/admin/adapter-routes/'' @ model_alias)"

text \<open>The endpoint for embeddings (\<open>api/v1/embeddings.py\<close>) is not implemented.\<close>

definition create_embedding :: "('s, unit) handler" where
  "create_embedding = (\<lambda>q. (Inl NotImplementedError, q))"

section \<open>From the HTTP request to the answer\<close>

lemma set_header_body [simp]: "hp_body (set_header n v r) = hp_body r" "hp_status (set_header n v r) = hp_status r"
  by (simp_all add: set_header_def)

lemma error_bodies:
  "hp_body (error_response st code error message headers extra) \<noteq> Content x"
  "hp_body (unhandled_response st) \<noteq> Content x"
  "to_error_response st e = Some r \<Longrightarrow> hp_body r \<noteq> Content x"
  by (simp_all add: error_response_def unhandled_response_def)
    (cases e; auto simp: error_response_def Let_def)

lemma refusal_body: "(\<And>r. x = Some r \<Longrightarrow> hp_body r \<noteq> Content y) \<Longrightarrow> hp_body (refusal tid st x) \<noteq> Content y"
  by (cases x) (simp_all add: refusal_def error_bodies)

lemma translated_body: "translated caught st e = Some r \<Longrightarrow> hp_body r \<noteq> Content y"
  by (auto simp: translated_def error_bodies split: if_splits)

lemma exception_handlers_body: "exception_handlers st e = Some r \<Longrightarrow> hp_body r \<noteq> Content y"
  by (cases e) (auto simp: error_response_def Let_def)

text \<open>A content that a client receives was made by the endpoint, after all checks had passed.\<close>

lemma content_from_endpoint:
  assumes "app_call rnd A E rq s = (resp, s')" "hp_body resp = Content x"
  obtains tid s0 st1 s1 s2 r st3 where "choose_trace_id A rq s = (tid, s0)"
    "auth_check A rq (fresh_state\<lparr>qs_trace_id := Some tid\<rparr>) s0 = (Inr st1, s1)" "rate_check rnd A rq st1 s1 = (Inr (), s2)"
    "E (st1, s2) = (Inr r, (st3, s'))" "resp = set_header trace_id_header tid r"
proof -
  obtain tid s0 where t: "choose_trace_id A rq s = (tid, s0)" by fastforce
  let ?st0 = "fresh_state\<lparr>qs_trace_id := Some tid\<rparr>"
  obtain a s1 where a: "auth_check A rq ?st0 s0 = (a, s1)" by fastforce
  have c: "checked_call rnd A E rq s = (resp, s')" using assms(1) by (simp add: app_call_checked_aux)
  have no: "hp_body (refusal tid st (translated f st e)) \<noteq> Content x" "hp_body (refusal tid st (exception_handlers st e)) \<noteq> Content x"
    for st f e using refusal_body translated_body exception_handlers_body by metis+
  obtain st1 where st1: "a = Inr st1"
    using c no assms(2) by (cases a) (auto simp: checked_call_def t a Let_def)
  obtain b s2 where b: "rate_check rnd A rq st1 s1 = (b, s2)" by fastforce
  have b': "b = Inr ()" using c no assms(2) by (cases b) (auto simp: checked_call_def t a st1 b Let_def)
  obtain y st3 s3 where e: "E (st1, s2) = (y, (st3, s3))" by (metis surj_pair)
  obtain r where "y = Inr r" using c no assms(2) by (cases y) (auto simp: checked_call_def t a st1 b b' e Let_def)
  with c e that [OF t] show ?thesis by (auto simp: checked_call_def t a st1 b b' Let_def)
qed

section \<open>Admin routes and their scopes\<close>

definition reads_only :: "admin_request \<Rightarrow> bool" where
  "reads_only r \<longleftrightarrow> fst (admin_route r) = ''GET''"

text \<open>No route is open: each is exempt from authentication or has scopes of its own.\<close>

lemma routes_guarded: "list_all (\<lambda>(method, path). is_exempt_path path \<or> required_scopes_for_request path method \<noteq> None) api_routes"
  by code_simp

lemma admin_path: "\<exists>rest. snd (admin_route r) = ''/v1/admin'' @ ''/'' @ rest"
  by (cases r) auto

lemma admin_not_exempt: "\<not> is_exempt_path (''/v1/admin'' @ ''/'' @ rest)"
  by (simp add: is_exempt_path_def exempt_paths_def startswith_def)

lemma admin_scopes:
  "required_scopes_for_request (snd (admin_route r)) (fst (admin_route r))
     = Some (if reads_only r then {''admin:read'', ''admin:write''} else {''admin:write''})"
proof -
  have p: "route_matches (''/v1/admin'' @ ''/'' @ rest) m (pre, rm, R) \<longleftrightarrow> m = rm \<and> pre = ''/v1/admin''"
    if "(pre, rm, R) \<in> set route_scopes" for rest m pre rm R
    using that by (auto simp: route_scopes_def route_matches_def startswith_def)
  have u: "upper ''POST'' = ''POST''" "upper ''GET'' = ''GET''" "upper ''PUT'' = ''PUT''" "upper ''DELETE'' = ''DELETE''" by code_simp+
  show ?thesis
    by (cases r) (simp_all add: required_scopes_for_request_def route_scopes_def route_matches_def startswith_def u reads_only_def)
qed

text \<open>C9. Who gets an answer from the admin API: with API keys required, a content that a client receives from an admin route was
  made by the endpoint for the key in the request, which \<open>authenticate\<close> accepted, of an active tenant, and which holds the
  scope "*" or \<open>admin:write\<close>, or \<open>admin:read\<close> where the route only reads; and the payload was valid.\<close>

theorem admin_answer_needs_scope:
  assumes rq: "(hq_method rq, hq_path rq) = admin_route request" and req: "st_auth_require_api_key (ap_settings A)"
    and call: "app_call rnd A (admin_handler M request) rq s = (resp, s')" and ok: "hp_body resp = Content x"
  shows "\<exists>raw q s0 s1 s2. hq_header rq (st_api_key_header_name (ap_settings A)) = Some raw
    \<and> authenticate (ap_auth_service A) raw s0 = (Inr (Some q), s1) \<and> p_tenant_status q = ''active''
    \<and> (''*'' \<in> p_scopes q \<or> ''admin:write'' \<in> p_scopes q \<or> (reads_only request \<and> ''admin:read'' \<in> p_scopes q))
    \<and> valid_request request
    \<and> admin_endpoint M (if takes_principal request then q else anonymous_principal) request s2 = (Inr x, s')
    \<and> hp_status resp = success_status request"
proof -
  have path: "hq_path rq = snd (admin_route request)" "hq_method rq = fst (admin_route request)" using rq by (metis fst_conv snd_conv)+
  have guarded: "\<not> is_exempt_path (hq_path rq)" using admin_path [of request] admin_not_exempt unfolding path by metis
  from content_from_endpoint [OF call ok] obtain tid s0 st1 s1 s2 r st3 where
    a: "auth_check A rq (fresh_state\<lparr>qs_trace_id := Some tid\<rparr>) s0 = (Inr st1, s1)"
    and e: "admin_handler M request (st1, s2) = (Inr r, (st3, s'))" and resp: "resp = set_header trace_id_header tid r" by metis
  from auth_check_admits [OF a guarded req] obtain raw q where
    q: "hq_header rq (st_api_key_header_name (ap_settings A)) = Some raw" "authenticate (ap_auth_service A) raw s0 = (Inr (Some q), s1)"
      "p_tenant_status q = ''active''" "''*'' \<in> p_scopes q \<or> ''admin:write'' \<in> p_scopes q \<or> (reads_only request \<and> ''admin:read'' \<in> p_scopes q)"
    and st1: "st1 = attach_principal q (fresh_state\<lparr>qs_trace_id := Some tid\<rparr>)"
    by (auto simp: path admin_scopes split: if_splits)
  have p: "get_authenticated_principal st1 = Inr q" by (simp add: st1 get_authenticated_principal_def attach_principal_def)
  from e p ok resp have "valid_request request
    \<and> admin_endpoint M (if takes_principal request then q else anonymous_principal) request s2 = (Inr x, s')
    \<and> hp_status resp = success_status request"
    by (auto simp: admin_handler_def split: if_splits sum.splits prod.splits)
  with q show ?thesis by blast
qed

text \<open>An application whose Redis knows one admin.\<close>

definition admin_app :: "mem app" where
  "admin_app = mem_app\<lparr>ap_auth_service := mem_auth\<lparr>au_loads := \<lambda>x. Some default_admin\<rparr>\<rparr>"

definition list_tenants_request :: http_request where
  "list_tenants_request = \<lparr>hq_method = ''GET'', hq_path = ''/v1/admin/tenants'',
     hq_header = [st_api_key_header_name default_settings \<mapsto> sample_key, trace_id_header \<mapsto> ''trace'']\<rparr>"

definition cached_admin :: mem where
  "cached_admin = default_mem\<lparr>mem_cache := \<lambda>k. Some ''{}''\<rparr>"

lemma list_tenants_answer:
  "\<exists>resp s' ts. app_call exact admin_app (admin_handler mem_admin ListTenants) list_tenants_request cached_admin = (resp, s')
    \<and> hp_body resp = Content (TenantSummaries ts)"
proof -
  have tid: "choose_trace_id admin_app list_tenants_request cached_admin = (''trace'', cached_admin)"
    by (simp add: choose_trace_id_def list_tenants_request_def trace_id_header_def default_settings_def)
  have auth: "authenticate (ap_auth_service admin_app) sample_key cached_admin = (Inr (Some default_admin), cached_admin)"
    by (simp add: authenticate_def sample_key_valid admin_app_def mem_app_def auth_get_cached_def mem_auth_def mem_redis_def cached_admin_def Let_def)
  have key: "hq_header list_tenants_request (st_api_key_header_name (ap_settings admin_app)) = Some sample_key"
    by (simp add: list_tenants_request_def admin_app_def trace_id_header_def default_settings_def)
  have path: "hq_path list_tenants_request = snd (admin_route ListTenants)" "hq_method list_tenants_request = fst (admin_route ListTenants)"
    by (simp_all add: list_tenants_request_def)
  have guarded: "\<not> is_exempt_path (hq_path list_tenants_request)" using admin_not_exempt [of "''tenants''"] by (simp add: path)
  have req: "st_auth_require_api_key (ap_settings admin_app)" by (simp add: admin_app_def default_settings_def)
  have "truthy (Some sample_key)" by (simp add: sample_key_def)
  then have a: "auth_check admin_app list_tenants_request st cached_admin = (Inr (attach_principal default_admin st), cached_admin)" for st
    unfolding auth_check_def Let_def key using guarded req auth
    by (simp add: path(1,2) admin_scopes [of ListTenants, simplified] principal_has_any_scope_def default_admin_def)
  obtain s2 where r: "check_and_increment exact (ap_rate_limit_service mem_app) default_tenant_id None 1 cached_admin = (Inr (), s2)"
    using mem_app_rate by blast
  have b: "rate_check exact admin_app list_tenants_request (attach_principal default_admin st) cached_admin = (Inr (), s2)" for st
    unfolding rate_check_def using guarded r by (simp add: attach_principal_def default_admin_def str_or_def default_tenant_id_def admin_app_def)
  obtain ts s3 where e: "list_tenants_endpoint mem_admin s2 = (Inr (TenantSummaries ts), s3)"
    by (simp add: list_tenants_endpoint_def session_def reading_def mem_database_def)
  then have "admin_handler mem_admin ListTenants (st, s2) = (Inr \<lparr>hp_status = 200, hp_headers = [], hp_body = Content (TenantSummaries ts)\<rparr>, (st, s3))" for st
    by (simp add: admin_handler_def)
  with a b tid show ?thesis by (simp add: app_call_checked_aux checked_call_def)
qed

theorem admin_answer_needs_scope_witness:
  "\<exists>ts q s0 s1 s2 s'. authenticate (ap_auth_service admin_app) sample_key s0 = (Inr (Some q), s1)
    \<and> (''*'' \<in> p_scopes q \<or> ''admin:write'' \<in> p_scopes q \<or> ''admin:read'' \<in> p_scopes q)
    \<and> list_tenants_endpoint mem_admin s2 = (Inr (TenantSummaries ts), s')"
proof -
  obtain resp s' ts where call: "app_call exact admin_app (admin_handler mem_admin ListTenants) list_tenants_request cached_admin = (resp, s')"
    "hp_body resp = Content (TenantSummaries ts)" using list_tenants_answer by blast
  have "(hq_method list_tenants_request, hq_path list_tenants_request) = admin_route ListTenants"
    "st_auth_require_api_key (ap_settings admin_app)"
    "hq_header list_tenants_request (st_api_key_header_name (ap_settings admin_app)) = Some sample_key"
    by (simp_all add: list_tenants_request_def admin_app_def default_settings_def trace_id_header_def)
  from admin_answer_needs_scope [OF this(1,2) call] this(3) show ?thesis by auto
qed

end
