(* ===== verification/Benchmark.thy ===== *)
theory Benchmark
  imports Chat
begin

text \<open>
  The benchmark script (\<open>scripts/benchmark_gateway.py\<close>): identical requests to a running gateway, with the hits, latencies
  and costs it reads from the answers' headers.  The HTTP client, the clock and the reading of a decimal number are the
  record \<open>bench\<close>; \<open>HTTPError\<close> stands for the exceptions of httpx that the script catches, \<open>Raised\<close> for all others.  What
  it prints is the record \<open>bench_report\<close>, without its layout and the lines of progress.
\<close>

section \<open>The script\<close>

record bench_response =
  br_status :: int
  br_headers :: "(string \<times> string) list"

datatype post_failure = HTTPError string | Raised exn

record 'w bench =
  bc_post :: "string \<Rightarrow> string \<Rightarrow> json \<Rightarrow> (string \<times> string) list \<Rightarrow> 'w \<Rightarrow> (post_failure + bench_response) \<times> 'w"
  bc_perf_counter :: "'w \<Rightarrow> real \<times> 'w"
  bc_float :: "string \<Rightarrow> real option"

record bench_log =
  bl_latencies_ms :: "real list"
  bl_cache_statuses :: "string list"
  bl_costs :: "real list"
  bl_errors :: nat

record bench_report =
  rp_requests :: int
  rp_ok :: nat
  rp_errors :: nat
  rp_hits :: nat
  rp_hit_ratio :: real
  rp_latency_p50 :: real
  rp_latency_p95 :: real
  rp_total_cost :: real
  rp_environment :: string

definition DEFAULT_PAYLOAD :: json where
  "DEFAULT_PAYLOAD = JObj [(''model'', JStr ''gpt-4o-mini''),
     (''messages'', JArr [JObj [(''role'', JStr ''user''),
        (''content'', JStr ''Benchmark prompt: explain caching in one sentence.'')]])]"

text \<open>\<open>response.headers.get(name, default)\<close>.\<close>

definition header_or :: "string \<Rightarrow> string \<Rightarrow> bench_response \<Rightarrow> string" where
  "header_or name d r = (case map_of (br_headers r) name of None \<Rightarrow> d | Some v \<Rightarrow> v)"

text \<open>One round of the loop, and the loop over \<open>range(requests)\<close>.\<close>

definition bench_round ::
  "(real \<Rightarrow> real) \<Rightarrow> 'w bench \<Rightarrow> string \<Rightarrow> string \<Rightarrow> json \<Rightarrow> bench_log \<Rightarrow> 'w \<Rightarrow> (exn + bench_log) \<times> 'w" where
  "bench_round rnd C base_url api_key payload l w =
     (case bc_perf_counter C w of (started, w1) \<Rightarrow>
      case bc_post C base_url ''/v1/chat/completions'' payload [(''X-API-Key'', api_key)] w1 of
        (Inl (Raised e), w2) \<Rightarrow> (Inl e, w2)
      | (Inl (HTTPError m), w2) \<Rightarrow> (Inr (l\<lparr>bl_errors := bl_errors l + 1\<rparr>), w2)
      | (Inr r, w2) \<Rightarrow>
          (case bc_perf_counter C w2 of (now, w3) \<Rightarrow>
             let elapsed_ms = rnd (rnd (now - started) * 1000);
                 l1 = l\<lparr>bl_latencies_ms := bl_latencies_ms l @ [elapsed_ms]\<rparr>
             in if br_status r \<ge> 400 then (Inr (l1\<lparr>bl_errors := bl_errors l1 + 1\<rparr>), w3)
                else case bc_float C (header_or ''X-Request-Cost'' ''0'' r) of
                       None \<Rightarrow> (Inl (ValueError ''could not convert string to float''), w3)
                     | Some cost \<Rightarrow>
                         (Inr (l1\<lparr>bl_cache_statuses := bl_cache_statuses l1 @ [header_or ''X-Cache-Status'' ''UNKNOWN'' r],
                                  bl_costs := bl_costs l1 @ [cost]\<rparr>), w3)))"

fun bench_rounds ::
  "(real \<Rightarrow> real) \<Rightarrow> 'w bench \<Rightarrow> string \<Rightarrow> string \<Rightarrow> json \<Rightarrow> nat \<Rightarrow> bench_log \<Rightarrow> 'w \<Rightarrow> (exn + bench_log) \<times> 'w" where
  "bench_rounds rnd C base_url api_key payload 0 l w = (Inr l, w)"
| "bench_rounds rnd C base_url api_key payload (Suc n) l w =
     (case bench_round rnd C base_url api_key payload l w of
        (Inl e, w1) \<Rightarrow> (Inl e, w1)
      | (Inr l1, w1) \<Rightarrow> bench_rounds rnd C base_url api_key payload n l1 w1)"

text \<open>\<open>statistics.median\<close>, \<open>sum\<close>, and the index that the script takes for the 95th percentile.\<close>

definition py_median :: "(real \<Rightarrow> real) \<Rightarrow> real list \<Rightarrow> real" where
  "py_median rnd xs = (let data = sort xs; n = length data
     in if odd n then data ! (n div 2) else rnd (rnd (data ! (n div 2 - 1) + data ! (n div 2)) / 2))"

definition py_sum :: "(real \<Rightarrow> real) \<Rightarrow> real list \<Rightarrow> real" where
  "py_sum rnd xs = foldl (\<lambda>total x. rnd (total + x)) 0 xs"

definition p95_index :: "(real \<Rightarrow> real) \<Rightarrow> nat \<Rightarrow> nat" where
  "p95_index rnd n = nat (max 0 (py_int (rnd (real n * rnd (95 / 100))) - 1))"

definition run_benchmark ::
  "(real \<Rightarrow> real) \<Rightarrow> 'w bench \<Rightarrow> string \<Rightarrow> string \<Rightarrow> int \<Rightarrow> json \<Rightarrow> 'w \<Rightarrow> (exn + int \<times> bench_report option) \<times> 'w" where
  "run_benchmark rnd C base_url api_key requests payload w =
     (case bench_rounds rnd C base_url api_key payload (nat requests)
             \<lparr>bl_latencies_ms = [], bl_cache_statuses = [], bl_costs = [], bl_errors = 0\<rparr> w of
        (Inl e, w1) \<Rightarrow> (Inl e, w1)
      | (Inr l, w1) \<Rightarrow>
          if bl_latencies_ms l = [] then (Inr (1, None), w1)
          else let hits = length (filter (\<lambda>s. s \<in> {''EXACT_HIT'', ''SEMANTIC_HIT''}) (bl_cache_statuses l));
                   ok = length (bl_cache_statuses l)
               in (Inr (0, Some \<lparr>rp_requests = requests, rp_ok = ok, rp_errors = bl_errors l, rp_hits = hits,
                     rp_hit_ratio = (if ok \<noteq> 0 then rnd (real hits / real ok) else 0),
                     rp_latency_p50 = py_median rnd (bl_latencies_ms l),
                     rp_latency_p95 = sort (bl_latencies_ms l) ! p95_index rnd (length (bl_latencies_ms l)),
                     rp_total_cost = py_sum rnd (bl_costs l), rp_environment = ''local Docker / '' @ base_url\<rparr>), w1))"

text \<open>\<open>main\<close> with the parsed arguments and their defaults.\<close>

record bench_args =
  ba_url :: string
  ba_api_key :: string
  ba_requests :: int

definition default_bench_args :: bench_args where
  "default_bench_args = \<lparr>ba_url = ''http://localhost:8000'', ba_api_key = ''llmops_dev_default_key'', ba_requests = 10\<rparr>"

definition bench_main :: "(real \<Rightarrow> real) \<Rightarrow> 'w bench \<Rightarrow> bench_args \<Rightarrow> 'w \<Rightarrow> (exn + int \<times> bench_report option) \<times> 'w" where
  "bench_main rnd C args = run_benchmark rnd C (rstrip_slash (ba_url args))
     (ba_api_key args) (ba_requests args) DEFAULT_PAYLOAD"

section \<open>Medians and percentiles\<close>

lemma binary64_double: "binary64 (2 * binary64 x) = 2 * binary64 x"
proof -
  obtain m e where "binary64 x = of_int m * 2 powr of_int e" "\<bar>m\<bar> \<le> 2 ^ 53" "- 1074 \<le> e"
    using binary64_is_float by blast
  then have "2 * binary64 x = of_int m * 2 powr of_int (e + 1)" "\<bar>m\<bar> \<le> 2 ^ 53" "- 1074 \<le> e + 1"
    by (simp_all add: powr_add)
  then show ?thesis using binary64_fixed [of m "e + 1"] by simp
qed

lemma midpoint_le:
  assumes "a \<le> b" "binary64 b = b"
  shows "binary64 (binary64 (a + b) / 2) \<le> b"
proof -
  have "binary64 (a + b) \<le> binary64 (2 * b)" by (rule binary64_mono) (use assms in simp)
  also have "\<dots> = 2 * b" using binary64_double [of b] assms(2) by simp
  finally have "binary64 (binary64 (a + b) / 2) \<le> binary64 b" by (intro binary64_mono) simp
  then show ?thesis by (simp add: assms(2))
qed

lemma rounded_95: "3 / 4 \<le> binary64 (95 / 100)" "binary64 (95 / 100) \<le> 1"
proof -
  have "binary64 (of_int 3 * 2 powr of_int (- 2)) = of_int 3 * 2 powr of_int (- 2)" by (rule binary64_fixed) simp_all
  then have "binary64 (3 / 4) = 3 / 4" by (simp add: powr_minus powr_numeral field_simps)
  then show "3 / 4 \<le> binary64 (95 / 100)" using binary64_mono [of "3 / 4" "95 / 100"] by simp
  show "binary64 (95 / 100) \<le> 1" using binary64_mono [of "95 / 100" 1] by simp
qed

lemma p95_index_bounds:
  assumes "int n \<le> 2 ^ 53" "0 < n"
  shows "p95_index binary64 n < n" "3 \<le> n \<Longrightarrow> n div 2 \<le> p95_index binary64 n"
proof -
  let ?x = "binary64 (real n * binary64 (95 / 100))"
  have nn: "binary64 (real m) = real m" if "m \<le> n" for m
    using binary64_of_int [of "int m"] assms(1) that by simp
  have "?x \<le> binary64 (real n)"
    by (rule binary64_mono) (use rounded_95 in \<open>simp add: mult_left_le\<close>)
  then have hi: "?x \<le> real n" by (simp add: nn)
  have "real (3 * n div 4) \<le> real n * (3 / 4)" by linarith
  also have "\<dots> \<le> real n * binary64 (95 / 100)" by (rule mult_left_mono [OF rounded_95(1)]) simp
  finally have "binary64 (real (3 * n div 4)) \<le> ?x" by (rule binary64_mono)
  then have lo: "real (3 * n div 4) \<le> ?x" by (simp add: nn)
  then have "py_int ?x = \<lfloor>?x\<rfloor>" by (simp add: py_int_def)
  then have p: "p95_index binary64 n = nat (max 0 (\<lfloor>?x\<rfloor> - 1))" by (simp only: p95_index_def)
  have "\<lfloor>?x\<rfloor> \<le> int n" using hi by linarith
  then show "p95_index binary64 n < n" unfolding p using assms(2) by linarith
  have "int (3 * n div 4) \<le> \<lfloor>?x\<rfloor>" using lo by linarith
  then show "n div 2 \<le> p95_index binary64 n" if "3 \<le> n"
  proof -
    have "n div 2 + 1 \<le> 3 * n div 4" using that by presburger
    with \<open>int (3 * n div 4) \<le> \<lfloor>?x\<rfloor>\<close> show ?thesis unfolding p by linarith
  qed
qed

lemma median_le_p95:
  assumes n: "3 \<le> length xs" "int (length xs) \<le> 2 ^ 53" and floats: "\<forall>x\<in>set xs. binary64 x = x"
  shows "py_median binary64 xs \<le> sort xs ! p95_index binary64 (length xs)"
proof -
  let ?n = "length xs" and ?d = "sort xs"
  have i: "p95_index binary64 ?n < ?n" "?n div 2 \<le> p95_index binary64 ?n" using p95_index_bounds [OF n(2)] n(1) by linarith+
  have up: "?d ! (?n div 2) \<le> ?d ! p95_index binary64 ?n" by (rule sorted_nth_mono) (use i in simp_all)
  show ?thesis
  proof (cases "odd ?n")
    case True
    with up show ?thesis by (simp add: py_median_def Let_def)
  next
    case False
    have "?d ! (?n div 2) \<in> set ?d" by (rule nth_mem) (use n(1) in simp)
    then have "binary64 (?d ! (?n div 2)) = ?d ! (?n div 2)" using floats by simp
    moreover have "?d ! (?n div 2 - 1) \<le> ?d ! (?n div 2)" by (rule sorted_nth_mono) (use n(1) in simp_all)
    ultimately have "py_median binary64 xs \<le> ?d ! (?n div 2)" using False midpoint_le by (simp add: py_median_def Let_def)
    with up show ?thesis by simp
  qed
qed

text \<open>Of two measurements the script reports the smaller one as the 95th percentile, which is below their median.\<close>

lemma p95_of_two: "a < b \<Longrightarrow> sort [a, b] ! p95_index exact 2 < py_median exact [a, b]"
  by (simp add: p95_index_def py_median_def py_int_def)

section \<open>What the report says\<close>

text \<open>The client reaches the gateway: an answer below 400 carries the headers that the chat endpoint sets for a completion.
  \<open>served\<close> is the history of the completions received; only such an answer adds one.\<close>

definition reports_gateway :: "'w bench \<Rightarrow> (real \<Rightarrow> string) \<Rightarrow> ('w \<Rightarrow> chat_response list) \<Rightarrow> bool" where
  "reports_gateway C fmt served \<longleftrightarrow>
     (\<forall>w. served (snd (bc_perf_counter C w)) = served w)
   \<and> (\<forall>url path payload hs w. case bc_post C url path payload hs w of
        (Inl _, w1) \<Rightarrow> served w1 = served w
      | (Inr r, w1) \<Rightarrow>
          if br_status r < 400
          then \<exists>p. served w1 = served w @ [p] \<and> br_headers r = hp_headers (completion_headers fmt p
                 \<lparr>hp_status = 200, hp_headers = [], hp_body = Content (Completion p)\<rparr>)
          else served w1 = served w)"

lemma reports_gatewayD:
  assumes "reports_gateway C fmt served"
  shows "bc_perf_counter C w = (t, w1) \<Longrightarrow> served w1 = served w"
    and "bc_post C url path payload hs w = (Inl f, w1) \<Longrightarrow> served w1 = served w"
    and "bc_post C url path payload hs w = (Inr r, w1) \<Longrightarrow> 400 \<le> br_status r \<Longrightarrow> served w1 = served w"
    and "bc_post C url path payload hs w = (Inr r, w1) \<Longrightarrow> br_status r < 400 \<Longrightarrow>
      \<exists>p. served w1 = served w @ [p] \<and> br_headers r = hp_headers (completion_headers fmt p
        \<lparr>hp_status = 200, hp_headers = [], hp_body = Content (Completion p)\<rparr>)"
proof -
  note post = assms [unfolded reports_gateway_def, THEN conjunct2, rule_format, of w url path payload hs]
  show "bc_perf_counter C w = (t, w1) \<Longrightarrow> served w1 = served w"
    using assms [unfolded reports_gateway_def, THEN conjunct1, rule_format, of w] by simp
  show "bc_post C url path payload hs w = (Inl f, w1) \<Longrightarrow> served w1 = served w"
    and "bc_post C url path payload hs w = (Inr r, w1) \<Longrightarrow> 400 \<le> br_status r \<Longrightarrow> served w1 = served w"
    and "bc_post C url path payload hs w = (Inr r, w1) \<Longrightarrow> br_status r < 400 \<Longrightarrow>
      \<exists>p. served w1 = served w @ [p] \<and> br_headers r = hp_headers (completion_headers fmt p
        \<lparr>hp_status = 200, hp_headers = [], hp_body = Content (Completion p)\<rparr>)"
    using post by simp_all
qed

text \<open>What one round adds to the log: an error, or the status and the cost of one more completion.\<close>

definition log_of :: "(real \<Rightarrow> real) \<Rightarrow> chat_response list \<Rightarrow> bench_log \<Rightarrow> bool" where
  "log_of shown ps l \<longleftrightarrow> bl_cache_statuses l = map (\<lambda>p. cache_status_value (rs_cache_status p)) ps
     \<and> bl_costs l = map (\<lambda>p. shown (rs_cost_usd p)) ps \<and> length ps \<le> length (bl_latencies_ms l)
     \<and> length (bl_latencies_ms l) \<le> length ps + bl_errors l \<and> (\<forall>x\<in>set (bl_latencies_ms l). binary64 x = x)"

lemma bench_round_log:
  assumes G: "reports_gateway C fmt served" and fmt: "\<And>x. bc_float C (fmt x) = Some (shown x)"
    and log: "log_of shown ps l" and r: "bench_round binary64 C url key payload l w = (Inr l1, w1)"
  shows "\<exists>qs. served w1 = served w @ qs \<and> log_of shown (ps @ qs) l1 \<and> length qs + bl_errors l1 = bl_errors l + 1"
proof -
  obtain t0 wa where t0: "bc_perf_counter C w = (t0, wa)" by fastforce
  obtain x wb where x: "bc_post C url ''/v1/chat/completions'' payload [(''X-API-Key'', key)] wa = (x, wb)" by fastforce
  obtain t1 wc where t1: "bc_perf_counter C wb = (t1, wc)" by fastforce
  note view = reports_gatewayD [OF G]
  have wa: "served wa = served w" and wc: "served wc = served wb" using view(1) t0 t1 by simp_all
  consider (lost) m where "x = Inl (HTTPError m)" | (refused) b where "x = Inr b" "400 \<le> br_status b"
    | (answered) b where "x = Inr b" "br_status b < 400"
    using r t0 x by (cases x; cases "projl x") (auto simp: bench_round_def linorder_not_le [symmetric])
  then show ?thesis
  proof cases
    case lost
    with r t0 x view(2) wa log show ?thesis by (intro exI [of _ "[]"]) (auto simp: bench_round_def log_of_def)
  next
    case refused
    with r t0 x t1 view(3) wa wc log show ?thesis
      by (intro exI [of _ "[]"]) (auto simp: bench_round_def log_of_def Let_def binary64_idem)
  next
    case answered
    with view(4) x obtain p where p: "served wb = served wa @ [p]" "br_headers b = hp_headers (completion_headers fmt p
        \<lparr>hp_status = 200, hp_headers = [], hp_body = Content (Completion p)\<rparr>)" by blast
    have "header_or ''X-Cache-Status'' d b = cache_status_value (rs_cache_status p)"
         "header_or ''X-Request-Cost'' d b = fmt (rs_cost_usd p)" for d
      by (simp_all add: header_or_def p(2) completion_headers_cache_status completion_headers_cost)
    with answered r t0 x t1 p(1) wa wc log show ?thesis
      by (intro exI [of _ "[p]"]) (auto simp: bench_round_def log_of_def Let_def binary64_idem fmt)
  qed
qed

lemma bench_rounds_log:
  assumes G: "reports_gateway C fmt served" and fmt: "\<And>x. bc_float C (fmt x) = Some (shown x)"
  shows "log_of shown ps l \<Longrightarrow> bench_rounds binary64 C url key payload n l w = (Inr l1, w1) \<Longrightarrow>
    \<exists>qs. served w1 = served w @ qs \<and> log_of shown (ps @ qs) l1 \<and> length qs + bl_errors l1 = bl_errors l + n"
proof (induction n arbitrary: ps l w)
  case 0
  then show ?case by auto
next
  case (Suc n)
  from Suc.prems(2) obtain l2 w2 where r: "bench_round binary64 C url key payload l w = (Inr l2, w2)"
    and rs: "bench_rounds binary64 C url key payload n l2 w2 = (Inr l1, w1)" by (auto split: prod.splits sum.splits)
  obtain qs where qs: "served w2 = served w @ qs" "log_of shown (ps @ qs) l2" "length qs + bl_errors l2 = bl_errors l + 1"
    using bench_round_log [OF G fmt Suc.prems(1) r] by blast
  obtain qs' where "served w1 = served w2 @ qs'" "log_of shown ((ps @ qs) @ qs') l1" "length qs' + bl_errors l1 = bl_errors l2 + n"
    using Suc.IH [OF qs(2) rs] by blast
  with qs show ?case by (intro exI [of _ "qs @ qs'"]) auto
qed

lemma hit_values:
  "cache_status_value s \<in> {''EXACT_HIT'', ''SEMANTIC_HIT''} \<longleftrightarrow> is_hit s"
  by (cases s) (simp_all add: is_hit_def)

text \<open>C40. The report against a gateway: the requests are the completions received and the errors; the hits are the completions
  that the gateway marked as cache hits, their share lies between 0 and 1; the total is the sum of the completions' costs as
  the header shows them; and with three completions or more the 95th percentile is not below the median.\<close>

theorem benchmark_reports_gateway:
  assumes G: "reports_gateway C fmt served" and fmt: "\<And>x. bc_float C (fmt x) = Some (shown x)" and n: "0 \<le> n" "n \<le> 2 ^ 53"
    and run: "run_benchmark binary64 C url key n payload w = (Inr (code, Some r), w1)"
  shows "\<exists>ps. served w1 = served w @ ps \<and> code = 0 \<and> rp_ok r = length ps \<and> int (rp_ok r + rp_errors r) = n
    \<and> rp_hits r = length (filter (\<lambda>p. is_hit (rs_cache_status p)) ps) \<and> 0 \<le> rp_hit_ratio r \<and> rp_hit_ratio r \<le> 1
    \<and> rp_total_cost r = py_sum binary64 (map (\<lambda>p. shown (rs_cost_usd p)) ps) \<and> (rp_ok r < 3 \<or> rp_latency_p50 r \<le> rp_latency_p95 r)"
proof -
  let ?l0 = "\<lparr>bl_latencies_ms = [], bl_cache_statuses = [], bl_costs = [], bl_errors = 0\<rparr>"
  obtain l where l: "bench_rounds binary64 C url key payload (nat n) ?l0 w = (Inr l, w1)" and c: "code = 0"
    and r: "rp_ok r = length (bl_cache_statuses l)" "rp_errors r = bl_errors l"
      "rp_hits r = length (filter (\<lambda>s. s \<in> {''EXACT_HIT'', ''SEMANTIC_HIT''}) (bl_cache_statuses l))"
      "rp_hit_ratio r = (if rp_ok r \<noteq> 0 then binary64 (real (rp_hits r) / real (rp_ok r)) else 0)"
      "rp_latency_p50 r = py_median binary64 (bl_latencies_ms l)" "rp_total_cost r = py_sum binary64 (bl_costs l)"
      "rp_latency_p95 r = sort (bl_latencies_ms l) ! p95_index binary64 (length (bl_latencies_ms l))"
    using run unfolding run_benchmark_def
    by (auto simp: Let_def simp del: insert_iff split: prod.splits sum.splits if_splits)
  have "log_of shown [] ?l0" by (simp add: log_of_def)
  from bench_rounds_log [OF G fmt this l] obtain ps where ps: "served w1 = served w @ ps" "log_of shown ps l"
      "length ps + bl_errors l = nat n" by auto
  have hits: "rp_hits r = length (filter (\<lambda>p. is_hit (rs_cache_status p)) ps)"
    using ps(2) by (simp add: r(3) log_of_def filter_map o_def hit_values del: insert_iff)
  have ok: "rp_ok r = length ps" using ps(2) by (simp add: r(1) log_of_def)
  have "real (rp_hits r) / real (rp_ok r) \<le> 1" by (simp add: hits ok divide_le_eq_1)
  then have ratio: "0 \<le> rp_hit_ratio r" "rp_hit_ratio r \<le> 1"
    using binary64_mono [of "real (rp_hits r) / real (rp_ok r)" 1] by (simp_all add: r(4) binary64_nonneg)
  have m: "length ps \<le> length (bl_latencies_ms l)" "int (length (bl_latencies_ms l)) \<le> 2 ^ 53"
      "\<forall>x\<in>set (bl_latencies_ms l). binary64 x = x" using ps(2,3) n by (auto simp: log_of_def)
  have p: "rp_ok r < 3 \<or> rp_latency_p50 r \<le> rp_latency_p95 r"
    using median_le_p95 [OF _ m(2,3)] m(1) unfolding r(5,7) ok by linarith
  show ?thesis using ps hits ok ratio p c r(2,6) n by (intro exI [of _ ps]) (simp add: log_of_def)
qed

text \<open>A gateway that refuses every request, for instance for a wrong key: the script prints its table and exits with 0.\<close>

lemma refused_rounds:
  assumes "\<And>w. \<exists>r w1. bc_post C url ''/v1/chat/completions'' payload [(''X-API-Key'', key)] w = (Inr r, w1) \<and> 400 \<le> br_status r"
  shows "\<exists>l1 w1. bench_rounds rnd C url key payload n l w = (Inr l1, w1) \<and> bl_cache_statuses l1 = bl_cache_statuses l
    \<and> length (bl_latencies_ms l1) = length (bl_latencies_ms l) + n"
proof (induction n arbitrary: l w)
  case 0
  then show ?case by simp
next
  case (Suc n)
  obtain t0 wa where t0: "bc_perf_counter C w = (t0, wa)" by fastforce
  obtain r wb where r: "bc_post C url ''/v1/chat/completions'' payload [(''X-API-Key'', key)] wa = (Inr r, wb)" "400 \<le> br_status r"
    using assms by blast
  obtain t1 wc where t1: "bc_perf_counter C wb = (t1, wc)" by fastforce
  have "\<exists>l2. bench_round rnd C url key payload l w = (Inr l2, wc) \<and> bl_cache_statuses l2 = bl_cache_statuses l
      \<and> length (bl_latencies_ms l2) = length (bl_latencies_ms l) + 1"
    using t0 r t1 by (simp add: bench_round_def Let_def)
  with Suc.IH show ?case by fastforce
qed

lemma refused_benchmark_exits_zero:
  assumes "\<And>w. \<exists>r w1. bc_post C url ''/v1/chat/completions'' payload [(''X-API-Key'', key)] w = (Inr r, w1) \<and> 400 \<le> br_status r"
    and "0 < n"
  shows "\<exists>r w1. run_benchmark rnd C url key n payload w = (Inr (0, Some r), w1) \<and> rp_ok r = 0"
proof -
  from refused_rounds [OF assms(1)] obtain l w1 where
    "bench_rounds rnd C url key payload (nat n) \<lparr>bl_latencies_ms = [], bl_cache_statuses = [], bl_costs = [], bl_errors = 0\<rparr> w
       = (Inr l, w1)" "bl_cache_statuses l = []" "length (bl_latencies_ms l) = nat n" by fastforce
  moreover from this(3) \<open>0 < n\<close> have "bl_latencies_ms l \<noteq> []" by auto
  ultimately show ?thesis by (simp add: run_benchmark_def Let_def)
qed

text \<open>The script against the gateway with one provider, a clock that stands still, and costs shown as \<open>0\<close>.\<close>

definition stub_bench :: "(mem \<times> chat_response list) bench" where
  "stub_bench = \<lparr>bc_post = (\<lambda>url path payload hs (m, ps).
       case create_chat_completion exact (\<lambda>x. ''0'') po_dumps (stub_gateway openai_up) bypass_ping (fresh_state, m) of
         Some (Inr r, (st, m1)) \<Rightarrow>
           (case hp_body r of
              Content (Completion p) \<Rightarrow> (Inr \<lparr>br_status = hp_status r, br_headers = hp_headers r\<rparr>, (m1, ps @ [p]))
            | _ \<Rightarrow> (Inl (HTTPError ''no completion''), (m1, ps)))
       | _ \<Rightarrow> (Inl (HTTPError ''no answer''), (m, ps))),
     bc_perf_counter = (\<lambda>s. (0, s)), bc_float = (\<lambda>x. Some 0)\<rparr>"

lemma stub_post:
  "\<exists>p m1. bc_post stub_bench url path payload hs (m, ps) = (Inr \<lparr>br_status = 200, br_headers = hp_headers (completion_headers
     (\<lambda>x. ''0'') p \<lparr>hp_status = 200, hp_headers = [], hp_body = Content (Completion p)\<rparr>)\<rparr>, (m1, ps @ [p]))"
proof -
  have "\<not> rq_stream bypass_ping" by (simp add: bypass_ping_def ping_request_def)
  moreover obtain p m1 where "handle_chat_completion exact (stub_gateway openai_up) (call_of fresh_state) bypass_ping m = Some (Inr p, m1)"
    using stub_answer by blast
  ultimately have "bc_post stub_bench url path payload hs (m, ps) = (Inr \<lparr>br_status = 200, br_headers = hp_headers (completion_headers
     (\<lambda>x. ''0'') p \<lparr>hp_status = 200, hp_headers = [], hp_body = Content (Completion p)\<rparr>)\<rparr>, (m1, ps @ [p]))"
    by (simp add: stub_bench_def create_chat_completion_def)
  then show ?thesis by blast
qed

lemma stub_reports: "reports_gateway stub_bench (\<lambda>x. ''0'') snd"
  unfolding reports_gateway_def
proof (intro conjI allI)
  fix w show "snd (snd (bc_perf_counter stub_bench w)) = snd w" by (simp add: stub_bench_def)
next
  fix url path payload hs and w :: "mem \<times> chat_response list"
  obtain m ps where w: "w = (m, ps)" by fastforce
  from stub_post [of url path payload hs m ps] obtain p m1 where "bc_post stub_bench url path payload hs w =
      (Inr \<lparr>br_status = 200, br_headers = hp_headers (completion_headers
       (\<lambda>x. ''0'') p \<lparr>hp_status = 200, hp_headers = [], hp_body = Content (Completion p)\<rparr>)\<rparr>, (m1, ps @ [p]))" unfolding w by blast
  then show "case bc_post stub_bench url path payload hs w of
        (Inl _, w1) \<Rightarrow> snd w1 = snd w
      | (Inr r, w1) \<Rightarrow>
          if br_status r < 400
          then \<exists>p. snd w1 = snd w @ [p] \<and> br_headers r = hp_headers (completion_headers (\<lambda>x. ''0'') p
                 \<lparr>hp_status = 200, hp_headers = [], hp_body = Content (Completion p)\<rparr>)
          else snd w1 = snd w"
    by (auto simp: w)
qed

lemma stub_run: "\<exists>r w1. run_benchmark binary64 stub_bench url key 1 payload w = (Inr (0, Some r), w1) \<and> rp_ok r = 1"
proof -
  obtain m ps where w: "w = (m, ps)" by fastforce
  from stub_post [of url "''/v1/chat/completions''" payload "[(''X-API-Key'', key)]" m ps] obtain p m1 where
    "bc_post stub_bench url ''/v1/chat/completions'' payload [(''X-API-Key'', key)] w =
      (Inr \<lparr>br_status = 200, br_headers = hp_headers (completion_headers
       (\<lambda>x. ''0'') p \<lparr>hp_status = 200, hp_headers = [], hp_body = Content (Completion p)\<rparr>)\<rparr>, (m1, ps @ [p]))" unfolding w by blast
  moreover have "bc_perf_counter stub_bench s = (0, s)" "bc_float stub_bench x = Some 0" for s x by (simp_all add: stub_bench_def)
  ultimately show ?thesis by (simp add: run_benchmark_def bench_round_def Let_def)
qed

theorem benchmark_reports_gateway_witness:
  "\<exists>r m1 p. run_benchmark binary64 stub_bench ''http://localhost:8000'' ''key'' 1 DEFAULT_PAYLOAD (priced_mem, []) =
       (Inr (0, Some r), (m1, [p]))
     \<and> rp_errors r = 0 \<and> rp_hits r = (if is_hit (rs_cache_status p) then 1 else 0)"
proof -
  obtain r w1 where run: "run_benchmark binary64 stub_bench ''http://localhost:8000'' ''key'' 1 DEFAULT_PAYLOAD (priced_mem, []) =
      (Inr (0, Some r), w1)" "rp_ok r = 1" using stub_run by blast
  have "bc_float stub_bench x = Some 0" for x by (simp add: stub_bench_def)
  from benchmark_reports_gateway [OF stub_reports this _ _ run(1)] obtain ps where
    ps: "snd w1 = ps" "rp_ok r = length ps" "int (rp_ok r + rp_errors r) = 1"
      "rp_hits r = length (filter (\<lambda>p. is_hit (rs_cache_status p)) ps)" by auto
  from ps(2) run(2) have "length ps = 1" by simp
  with ps(1) obtain m1 p where "w1 = (m1, [p])" by (cases w1) (auto simp: length_Suc_conv)
  with run ps show ?thesis by (intro exI conjI) auto
qed

end
