(* ===== verification/Spec2Isabelle.thy ===== *)
theory Spec2Isabelle
  imports Installation Configuration Disconnect Routes Health Benchmark
begin

text \<open>
  A verification library for the LLMOps gateway (\<open>src/llmops_gateway\<close>): an asynchronous HTTP gateway to several LLM
  providers with a two-layer response cache, per-tenant rate limits and API keys, cost accounting, tracing,
  and adapter routing.

  \<^bold>\<open>The program.\<close>  A request passes the middlewares (\<open>middleware/\<close>: trace id, authentication, rate limit) and
  reaches an endpoint (\<open>api/v1/\<close>).  The chat endpoint hands it to \<open>GatewayService\<close> (\<open>services/gateway_service.py\<close>),
  which applies the tenant's adapter routes, looks into the cache (Redis by key, then Qdrant by embedding), takes
  part in coalescing, calls the providers through the routing service, prices the answer, stamps it, and leaves
  tracing, logging and cache write-back to background tasks or to the worker (\<open>workers/\<close>).

  \<^bold>\<open>How it is modelled.\<close>  Every operation is a function from the state of its environment to a result and a new state.  The
  environment is a type variable: Redis, Postgres, Qdrant, the HTTP client, the clock, pydantic's and the JSON
  codecs are records of functions (\<open>redis\<close>, \<open>database\<close>, \<open>runtime\<close>, \<open>adapter\<close>, \<open>wire\<close>, ...), and what a theorem needs
  of them is a named hypothesis stating their documented behaviour (\<open>redis_store\<close>, \<open>database_store\<close>, \<open>quiet_store\<close>,
  \<open>clock_laws\<close>, ...), which the memory instances (\<open>mem_redis\<close>, \<open>mem_database\<close>, ...) of the witnesses satisfy.  A call
  that may raise returns \<open>exn + 'a\<close>; every \<open>raise\<close>, \<open>except\<close> and early return of the code is a branch.  Objects with
  own state (breaker, HTTP adapter) keep it as the first component of the state (\<open>on_env\<close>).  Python's floats are reals
  with an explicit rounding function \<open>rnd\<close>: \<open>binary64\<close> is round-to-nearest, \<open>exact\<close> the identity; a theorem about
  \<open>rnd\<close> holds for both.  Generators are the list of what they yield with how they end.  \<open>await\<close>
  is sequential; where interleaving matters it is written as a sequence of steps.

  \<^bold>\<open>Theories and sources.\<close>
  \<^item> Prelude, PyFloat, Sha256, Uuid: strings, binary64 rounding, \<open>hashlib.sha256\<close>, \<open>uuid.UUID\<close>, shared lemmas.
  \<^item> Exceptions, Domain, Services, Settings: \<open>domain/\<close>, the exception classes, the environment's interfaces,
    \<open>config/settings.py\<close>, \<open>config/validation.py\<close>.
  \<^item> CircuitBreaker, Resilience: \<open>providers/base.py\<close>; the breaker as a state machine with its invariant, the retry
    loops and the back-off.
  \<^item> Adapters, Routing: \<open>providers/openai_provider.py\<close>, \<open>anthropic_provider.py\<close>, \<open>registry.py\<close>,
    \<open>services/routing_service.py\<close>; payloads, decoding, stream parsers, attempts and fallback.
  \<^item> Caching, CacheService: \<open>caching/\<close>, \<open>services/cache_service.py\<close>; keys, both layers, the coalescing lock and the bounded wait.
  \<^item> RateLimit: \<open>services/rate_limit_service.py\<close>; the optimistic transaction refines a pure token bucket.
  \<^item> Persistence, AdapterRoutes, Cost, Tracing: the tables, repositories and units of work of \<open>persistence/\<close>,
    \<open>services/cost_service.py\<close>, \<open>tracing_service.py\<close>, \<open>trace_persistence_service.py\<close>.
  \<^item> Jobs: \<open>workers/\<close>, \<open>services/background_job_service.py\<close> and the exporters of \<open>observability/\<close>.
  \<^item> Gateway, GatewaySafety, GatewayStream: \<open>services/gateway_service.py\<close> and the properties of its two handlers.
  \<^item> Auth, Middleware, Pipeline: \<open>security/\<close>, \<open>services/auth_service.py\<close>, \<open>middleware/\<close> and the order of the layers
    in \<open>main.py\<close>; the nest of middlewares is equivalent to a sequence of checks.
  \<^item> Admin, AdminSafety, Chat, Health, Routes: \<open>api/v1/\<close>, \<open>api/deps.py\<close>, \<open>services/health_service.py\<close> and the table of
    routes; admin requests refine steps of an abstract relation on the tables, from which invariants follow by induction
    over the run.
  \<^item> Schema, Migrations: \<open>persistence/models/\<close> as tables with columns and constraints, and the revisions of
    \<open>migrations/versions/\<close> as operations on a schema with its rows; upgrading from nothing gives the models' tables, and
    downgrading undoes it.
  \<^item> Embeddings: \<open>embeddings/\<close>; its providers behind one locale of what the semantic cache relies on.
  \<^item> Disconnect: the stream handler, the routing service and the providers again for a client that leaves at some item; such a stream
    is the whole one cut off there, and leaves no accounting.
  \<^item> Telemetry, Startup, Configuration, DevKey, Installation: \<open>config/logging.py\<close>, \<open>observability/otel_setup.py\<close>, \<open>main.py\<close>,
    \<open>clients/\<close> and \<open>workers/worker_app.py\<close>, which build the records that the
    other theories take as parameters; a process from its environment on, and the address that \<open>migrations/env.py\<close> gives the migrations; an installation from the migrations on, with the published development key.
  \<^item> Benchmark: \<open>scripts/benchmark_gateway.py\<close>; what its report says of the gateway it measures.
  \<^item> This theory: properties from the HTTP request to the answer.

  \<^bold>\<open>Bounds.\<close>  \<open>consume_attempts\<close> recurses over the five attempts that the code makes; the retry loops recurse with the number
  of attempts left; the wait for another caller's result is a \<open>partial_function\<close>, proved to return under the clock laws;
  the walk over Alembic's revisions takes as many steps as there are revisions.

  \<^bold>\<open>Not modelled.\<close>  The lines written to the log and what structlog makes of them; the insides of the SDKs of OpenTelemetry and Prometheus;
  Alembic's offline mode; pydantic's parsing of JSON bodies and of the texts of environment variables; a cancellation that arrives while
  a stream awaits something, rather than at an item it yields; concurrency inside the database; the layout of the benchmark's table; shell scripts and documents.
\<close>

section \<open>From the HTTP request to the answer\<close>

text \<open>C5. From the wire to the handler: with API keys required, a completion that a client receives over HTTP was made by the
  gateway's handler for the tenant and the key that \<open>authenticate\<close> found for the key in the request, which may write
  chats; it carries, in the response header and in its body, the trace id of the request, and in the header
  \<open>X-Cache-Status\<close> the cache status it has.\<close>

theorem completion_for_key_owner:
  assumes endpoint: "\<And>q. create_chat_completion rnd fmt dumps G payload q = Some (E q)"
    and rq: "hq_path rq = ''/v1/chat/completions''" "hq_method rq = ''POST''" and req: "st_auth_require_api_key (ap_settings A)"
    and call: "app_call rnd A E rq s = (resp, s')" and ok: "hp_body resp = Content (Completion p)"
  shows "\<exists>raw q s0 s1 s2 c. hq_header rq (st_api_key_header_name (ap_settings A)) = Some raw
    \<and> authenticate (ap_auth_service A) raw s0 = (Inr (Some q), s1) \<and> p_tenant_status q = ''active''
    \<and> (''*'' \<in> p_scopes q \<or> ''chat:write'' \<in> p_scopes q)
    \<and> handle_chat_completion rnd G c payload s2 = Some (Inr p, s')
    \<and> ca_tenant_id c = str_or (Some (p_tenant_id q)) default_tenant_id \<and> ca_api_key_id c = Some (p_api_key_id q)
    \<and> ca_trace_id c = fst (choose_trace_id A rq s)
    \<and> map_of (hp_headers resp) ''X-Trace-Id'' = Some (fst (choose_trace_id A rq s))
    \<and> map_of (hp_headers resp) ''X-Cache-Status'' = Some (cache_status_value (rs_cache_status p))"
proof -
  from content_from_endpoint [OF call ok] obtain tid s0 st1 s1 s2 r st3 where t: "choose_trace_id A rq s = (tid, s0)"
    and a: "auth_check A rq (fresh_state\<lparr>qs_trace_id := Some tid\<rparr>) s0 = (Inr st1, s1)"
    and e: "E (st1, s2) = (Inr r, (st3, s'))" and resp: "resp = set_header trace_id_header tid r" by metis
  have "\<not> is_exempt_path (hq_path rq)" by (simp add: rq chat_not_exempt)
  from auth_check_admits [OF a this req] obtain raw q where
    q: "hq_header rq (st_api_key_header_name (ap_settings A)) = Some raw" "authenticate (ap_auth_service A) raw s0 = (Inr (Some q), s1)"
      "p_tenant_status q = ''active''" "''*'' \<in> p_scopes q \<or> ''chat:write'' \<in> p_scopes q"
    and st1: "st1 = attach_principal q (fresh_state\<lparr>qs_trace_id := Some tid\<rparr>)"
    by (auto simp: rq chat_scope)
  from endpoint [of "(st1, s2)"] e have c: "create_chat_completion rnd fmt dumps G payload (st1, s2) = Some (Inr r, (st3, s'))" by simp
  have body: "hp_body r = Content (Completion p)" using ok by (simp add: resp)
  from c body have h: "handle_chat_completion rnd G (call_of st1) payload s2 = Some (Inr p, s')"
    "r = completion_headers fmt p \<lparr>hp_status = 200, hp_headers = [], hp_body = Content (Completion p)\<rparr>"
    by (auto simp: create_chat_completion_def split: if_splits option.splits sum.splits prod.splits)
  have "map_of (hp_headers resp) ''X-Cache-Status'' = Some (cache_status_value (rs_cache_status p))"
    by (simp add: resp set_header_other trace_id_header_def h(2) completion_headers_cache_status)
  moreover have "map_of (hp_headers resp) ''X-Trace-Id'' = Some tid"
    using set_header_map_of [of trace_id_header tid r] by (simp add: resp trace_id_header_def)
  moreover have "ca_tenant_id (call_of st1) = str_or (Some (p_tenant_id q)) default_tenant_id"
      "ca_api_key_id (call_of st1) = Some (p_api_key_id q)" "ca_trace_id (call_of st1) = tid"
    by (simp_all add: call_of_def st1 attach_principal_def resolve_tenant_id_def resolve_api_key_id_def resolve_trace_id_def str_or_def)
  ultimately show ?thesis using q h(1) t by (intro exI conjI) auto
qed

definition bypass_endpoint :: "(mem, chat_content) handler" where
  "bypass_endpoint q = the (create_chat_completion exact (\<lambda>x. ''0'') po_dumps (stub_gateway openai_up) bypass_ping q)"

lemma bypass_endpoint_answers:
  "\<exists>p q1. create_chat_completion exact (\<lambda>x. ''0'') po_dumps (stub_gateway openai_up) bypass_ping (st, w)
     = Some (Inr (completion_headers (\<lambda>x. ''0'') p \<lparr>hp_status = 200, hp_headers = [], hp_body = Content (Completion p)\<rparr>), q1)"
proof -
  have "\<not> rq_stream bypass_ping" by (simp add: bypass_ping_def ping_request_def)
  moreover obtain p w1 where "handle_chat_completion exact (stub_gateway openai_up) (call_of st) bypass_ping w = Some (Inr p, w1)"
    using stub_answer by blast
  ultimately show ?thesis by (auto simp: create_chat_completion_def)
qed

theorem completion_for_key_owner_witness:
  "\<exists>resp s' p q s0 s1. app_call exact mem_app bypass_endpoint chat_request_with_key seeded_keys = (resp, s')
    \<and> hp_body resp = Content (Completion p) \<and> map_of (hp_headers resp) ''X-Trace-Id'' = Some ''trace''
    \<and> authenticate mem_auth sample_key s0 = (Inr (Some q), s1) \<and> p_tenant_status q = ''active''"
proof -
  have E: "create_chat_completion exact (\<lambda>x. ''0'') po_dumps (stub_gateway openai_up) bypass_ping q = Some (bypass_endpoint q)" for q
    using bypass_endpoint_answers [of "fst q" "snd q"] by (auto simp: bypass_endpoint_def)
  obtain s2 where c: "app_call exact mem_app bypass_endpoint chat_request_with_key seeded_keys =
     (case bypass_endpoint (attach_principal sample_principal (fresh_state\<lparr>qs_trace_id := Some ''trace''\<rparr>), s2) of
        (Inl e, (st3, s3)) \<Rightarrow> (refusal ''trace'' st3 (exception_handlers st3 e), s3)
      | (Inr r, (st3, s3)) \<Rightarrow> (set_header trace_id_header ''trace'' r, s3))"
    using chat_reaches_endpoint by blast
  obtain p q1 where e: "bypass_endpoint (attach_principal sample_principal (fresh_state\<lparr>qs_trace_id := Some ''trace''\<rparr>), s2)
     = (Inr (completion_headers (\<lambda>x. ''0'') p \<lparr>hp_status = 200, hp_headers = [], hp_body = Content (Completion p)\<rparr>), q1)"
    using bypass_endpoint_answers E by (metis option.inject)
  obtain resp s' where call: "app_call exact mem_app bypass_endpoint chat_request_with_key seeded_keys = (resp, s')"
    "hp_body resp = Content (Completion p)"
    using c e by (cases q1) auto
  have "fst (choose_trace_id mem_app chat_request_with_key seeded_keys) = ''trace''" by (simp add: choose_trace_id_def)
  with completion_for_key_owner [OF E chat_request_sel(2,1) _ call] call show ?thesis
    by (fastforce simp: keys_required)
qed

end
